(* ===== verification/Go_Prelude.thy ===== *)
theory Go_Prelude
  imports Main "HOL-Library.Word" "HOL-Library.Signed_Division" "HOL-Library.AList" "HOL-Library.Sublist"
begin

text \<open>
  What every component of the model shares: Go errors and panics as values, the
  state-passing actions in which calls to the cloud, to Kubernetes and to the kernel are
  made, and the functions of Go's standard library (strings, strconv) and of the lo package
  that the sources use, with the lemmas about them the components need.
  The collection \<open>res_simps\<close> holds the rewrite rules that run actions and results.
\<close>

named_theorems res_simps

section \<open>Errors, panics and actions\<close>

text \<open>
  An \<open>error\<close> value keeps what the code can observe of it: the format and its string
  arguments for errors the repository makes (with the wrapped cause), the class of the
  errors of the Kubernetes client, and the text of any other error of a service.
\<close>

datatype goerror =
    Errorf string "string list"
  | Wrapf string "string list" goerror
  | ApiErr string
  | NotFound string
  | AlreadyExists string

text \<open>
  The outcome of a call: a value, a non-nil error, or a run-time panic (a nil pointer
  dereference, an index out of range). A panic is not an error: no \<open>err != nil\<close> sees it.
\<close>

datatype 'a res = Ok 'a | Err goerror | Panic string

text \<open>An action reads and changes the outside world of type \<open>'w\<close> and has an outcome.\<close>

type_synonym ('w, 'a) act = "'w \<Rightarrow> 'a res \<times> 'w"

fun bindR :: "'a res \<Rightarrow> ('a \<Rightarrow> 'b res) \<Rightarrow> 'b res" where
  "bindR (Ok x) f = f x"
| "bindR (Err e) f = Err e"
| "bindR (Panic p) f = Panic p"

definition retA :: "'a \<Rightarrow> ('w, 'a) act" where
  "retA x = (\<lambda>w. (Ok x, w))"

definition failA :: "goerror \<Rightarrow> ('w, 'a) act" where
  "failA e = (\<lambda>w. (Err e, w))"

definition liftR :: "'a res \<Rightarrow> ('w, 'a) act" where
  "liftR r = (\<lambda>w. (r, w))"

definition bindA :: "('w, 'a) act \<Rightarrow> ('a \<Rightarrow> ('w, 'b) act) \<Rightarrow> ('w, 'b) act" where
  "bindA m f = (\<lambda>w. case m w of
     (Ok x, w') \<Rightarrow> f x w' | (Err e, w') \<Rightarrow> (Err e, w') | (Panic p, w') \<Rightarrow> (Panic p, w'))"

text \<open>
  \<open>tryA m f h\<close> is \<open>x, err := m(); if err != nil { h(err) } else { f(x) }\<close>.
\<close>

definition tryA :: "('w, 'a) act \<Rightarrow> ('a \<Rightarrow> ('w, 'b) act) \<Rightarrow> (goerror \<Rightarrow> ('w, 'b) act) \<Rightarrow> ('w, 'b) act" where
  "tryA m f h = (\<lambda>w. case m w of
     (Ok x, w') \<Rightarrow> f x w' | (Err e, w') \<Rightarrow> h e w' | (Panic p, w') \<Rightarrow> (Panic p, w'))"

text \<open>A pointer is an \<open>option\<close>; reading through nil panics. Indexing past the end panics.\<close>

fun deref :: "'a option \<Rightarrow> 'a res" where
  "deref (Some x) = Ok x"
| "deref None = Panic ''nil pointer dereference''"

definition index :: "'a list \<Rightarrow> nat \<Rightarrow> 'a res" where
  "index xs i = (if i < length xs then Ok (xs ! i) else Panic ''index out of range'')"

fun mapR :: "('a \<Rightarrow> 'b res) \<Rightarrow> 'a list \<Rightarrow> 'b list res" where
  "mapR f [] = Ok []"
| "mapR f (x # xs) = bindR (f x) (\<lambda>y. bindR (mapR f xs) (\<lambda>ys. Ok (y # ys)))"

lemma bindR_Ok_iff: "bindR r f = Ok y \<longleftrightarrow> (\<exists>x. r = Ok x \<and> f x = Ok y)"
  by (cases r) auto

lemma bindR_Err_iff: "bindR r f = Err e \<longleftrightarrow> r = Err e \<or> (\<exists>x. r = Ok x \<and> f x = Err e)"
  by (cases r) auto

lemma deref_Ok_iff [simp]: "deref p = Ok x \<longleftrightarrow> p = Some x"
  by (cases p) auto

lemma deref_not_Err [simp]: "deref p \<noteq> Err e"
  by (cases p) auto

lemma index_Ok_iff: "index xs i = Ok x \<longleftrightarrow> i < length xs \<and> xs ! i = x"
  by (auto simp: index_def)

lemma index_0_Ok [simp]: "index (x # xs) 0 = Ok x"
  by (simp add: index_def)

text \<open>
  The simplifier's normal form of an action that makes no call is \<open>Pair r\<close>.
\<close>

lemma retA_Pair [simp, res_simps]: "retA x = Pair (Ok x)"
  by (simp add: retA_def fun_eq_iff)

lemma failA_Pair [simp, res_simps]: "failA e = Pair (Err e)"
  by (simp add: failA_def fun_eq_iff)

lemma liftR_Pair [simp, res_simps]: "liftR r = Pair r"
  by (simp add: liftR_def fun_eq_iff)

lemma bindA_run [res_simps]:
  "m w = (Ok x, w') \<Longrightarrow> bindA m f w = f x w'"
  "m w = (Err e, w') \<Longrightarrow> bindA m f w = (Err e, w')"
  "m w = (Panic p, w') \<Longrightarrow> bindA m f w = (Panic p, w')"
  by (simp_all add: bindA_def)

lemma tryA_run [res_simps]:
  "m w = (Ok x, w') \<Longrightarrow> tryA m f h w = f x w'"
  "m w = (Err e, w') \<Longrightarrow> tryA m f h w = h e w'"
  "m w = (Panic p, w') \<Longrightarrow> tryA m f h w = (Panic p, w')"
  by (simp_all add: tryA_def)

lemma bindA_Pair [simp]:
  "bindA (Pair (Ok x)) f = f x"
  "bindA (Pair (Err e)) f = Pair (Err e)"
  "bindA (Pair (Panic p)) f = Pair (Panic p)"
  by (auto simp: bindA_def)

lemma tryA_Pair [simp]:
  "tryA (Pair (Ok x)) f h = f x"
  "tryA (Pair (Err e)) f h = h e"
  "tryA (Pair (Panic p)) f h = Pair (Panic p)"
  by (auto simp: tryA_def)

lemma bindA_unit [simp]: "bindA m (\<lambda>x. Pair (Ok x)) = m"
  by (auto simp: bindA_def fun_eq_iff split: prod.splits res.splits)

lemma bindA_Pair_run: "bindA (Pair r) f w =
  (case r of Ok x \<Rightarrow> f x w | Err e \<Rightarrow> (Err e, w) | Panic p \<Rightarrow> (Panic p, w))"
  by (simp add: bindA_def split: res.splits)

lemma bindA_OkE:
  assumes "bindA m f w = (Ok y, w')"
  obtains x w1 where "m w = (Ok x, w1)" and "f x w1 = (Ok y, w')"
  using assms by (auto simp: bindA_def split: prod.splits res.splits)

lemma tryA_OkE:
  assumes "tryA m f h w = (Ok y, w')"
  obtains (ok) x w1 where "m w = (Ok x, w1)" and "f x w1 = (Ok y, w')"
        | (err) e w1 where "m w = (Err e, w1)" and "h e w1 = (Ok y, w')"
  using assms by (auto simp: tryA_def split: prod.splits res.splits)

lemma mapR_Ok_iff: "mapR f xs = Ok ys \<longleftrightarrow> list_all2 (\<lambda>x y. f x = Ok y) xs ys"
  by (induction xs arbitrary: ys) (auto simp: bindR_Ok_iff list_all2_Cons1)

lemma mapR_Ok_length: "mapR f xs = Ok ys \<Longrightarrow> length ys = length xs"
  by (auto simp: mapR_Ok_iff dest: list_all2_lengthD)

lemma mapR_not_Err: "(\<And>x e. f x \<noteq> Err e) \<Longrightarrow> mapR f xs \<noteq> Err e"
  by (induction xs arbitrary: e) (auto simp: bindR_Err_iff)

lemma mapR_total: "(\<And>x. x \<in> set xs \<Longrightarrow> f x = Ok (g x)) \<Longrightarrow> mapR f xs = Ok (map g xs)"
  by (induction xs) auto

lemma mapR_append:
  "mapR f (xs @ ys) = bindR (mapR f xs) (\<lambda>as. bindR (mapR f ys) (\<lambda>bs. Ok (as @ bs)))"
proof (induction xs)
  case Nil
  show ?case by (cases "mapR f ys") auto
next
  case (Cons x xs)
  then show ?case by (cases "f x"; cases "mapR f xs"; cases "mapR f ys") auto
qed

section \<open>Lists and maps as the lo package and the language use them\<close>

text \<open>\<open>lo.IndexOf\<close>: the first position of an element, or -1.\<close>

fun IndexOf :: "'a list \<Rightarrow> 'a \<Rightarrow> int" where
  "IndexOf [] y = -1"
| "IndexOf (x # xs) y = (if x = y then 0 else (let i = IndexOf xs y in if i < 0 then -1 else i + 1))"

text \<open>\<open>xs = append(xs[:i], xs[i+1:]...)\<close>; a negative index panics.\<close>

definition remove_at :: "'a list \<Rightarrow> int \<Rightarrow> 'a list res" where
  "remove_at xs i =
     (if i < 0 \<or> int (length xs) \<le> i then Panic ''slice bounds out of range''
      else Ok (take (nat i) xs @ drop (nat i + 1) xs))"

lemma IndexOf_neg_iff: "IndexOf xs y < 0 \<longleftrightarrow> y \<notin> set xs"
  by (induction xs) (auto simp: Let_def)

lemma IndexOf_bound: "IndexOf xs y < int (length xs)"
  by (induction xs) (auto simp: Let_def)

lemma remove_at_IndexOf:
  "y \<in> set xs \<Longrightarrow> remove_at xs (IndexOf xs y) = Ok (remove1 y xs)"
proof (induction xs)
  case Nil
  then show ?case by simp
next
  case (Cons x xs)
  show ?case
  proof (cases "x = y")
    case True
    then show ?thesis by (simp add: remove_at_def)
  next
    case False
    with Cons.prems have mem: "y \<in> set xs" by simp
    then have nn: "\<not> IndexOf xs y < 0" by (simp add: IndexOf_neg_iff)
    from Cons.IH [OF mem] nn have "take (nat (IndexOf xs y)) xs @ drop (nat (IndexOf xs y) + 1) xs = remove1 y xs"
      by (auto simp: remove_at_def split: if_splits)
    with False nn IndexOf_bound [of xs y] show ?thesis
      by (auto simp: remove_at_def Let_def nat_add_distrib)
  qed
qed

lemma remove_at_absent: "y \<notin> set xs \<Longrightarrow> remove_at xs (IndexOf xs y) = Panic ''slice bounds out of range''"
  by (auto simp: remove_at_def IndexOf_neg_iff)

text \<open>\<open>lo.Find\<close> is \<open>find\<close>; what it returns is an element that satisfies the predicate.\<close>

lemma find_SomeD: "find P xs = Some x \<Longrightarrow> x \<in> set xs \<and> P x"
  by (auto simp: find_Some_iff)

lemma find_NoneD: "find P xs = None \<Longrightarrow> x \<in> set xs \<Longrightarrow> \<not> P x"
  by (auto simp: find_None_iff)

section \<open>Sums, shares and searches\<close>

lemma sum_list_map_nonneg:
  fixes f :: "'a \<Rightarrow> int"
  shows "(\<And>y. y \<in> set ys \<Longrightarrow> 0 \<le> f y) \<Longrightarrow> 0 \<le> sum_list (map f ys)"
  by (rule sum_list_nonneg) auto

lemma sum_list_subseq:
  fixes f :: "'a \<Rightarrow> int"
  assumes "subseq xs ys" and "\<And>y. y \<in> set ys \<Longrightarrow> 0 \<le> f y"
  shows "sum_list (map f xs) \<le> sum_list (map f ys)"
  using assms
proof (induction rule: list_emb.induct)
  case (list_emb_Nil ys)
  then show ?case by (simp add: sum_list_map_nonneg)
next
  case (list_emb_Cons xs ys y)
  then have "0 \<le> f y" and "sum_list (map f xs) \<le> sum_list (map f ys)" by simp_all
  then show ?case unfolding list.map sum_list.Cons by linarith
qed auto

lemma sum_list_filter_split:
  fixes f :: "'a \<Rightarrow> int"
  shows "sum_list (map f xs) = sum_list (map f (filter P xs)) + sum_list (map f (filter (\<lambda>x. \<not> P x) xs))"
  by (induction xs) auto

lemma member_le_sum_list_int:
  fixes f :: "'a \<Rightarrow> int"
  assumes "x \<in> set xs" and "\<And>y. y \<in> set xs \<Longrightarrow> 0 \<le> f y"
  shows "f x \<le> sum_list (map f xs)"
  using assms
proof (induction xs)
  case (Cons y ys)
  then have "0 \<le> sum_list (map f ys)" and "0 \<le> f y" by (simp_all add: sum_list_map_nonneg)
  moreover from Cons have "x = y \<or> f x \<le> sum_list (map f ys)" by auto
  ultimately show ?case unfolding list.map sum_list.Cons by auto
qed simp

lemma AList_update_not_Nil [simp]: "AList.update k v xs \<noteq> []"
  by (cases xs) auto

lemma mapR_deref_Ok_iff:
  "mapR (\<lambda>x. deref (f x)) xs = Ok ys \<longleftrightarrow> (\<forall>x\<in>set xs. f x \<noteq> None) \<and> ys = map (\<lambda>x. the (f x)) xs"
  by (induction xs arbitrary: ys) (auto simp: bindR_Ok_iff)

lemma share_le:
  fixes a :: int
  assumes "per = a div int (length xs)" and "xs \<noteq> []"
  shows "per * int (length xs) \<le> a"
  using assms by (simp add: minus_mod_eq_div_mult [symmetric])

lemma sdiv_nonneg: "0 \<le> (a::int) \<Longrightarrow> 0 \<le> b \<Longrightarrow> a sdiv b = a div b"
  by (simp add: signed_divide_int_def sgn_if)

lemma mapR_OkD: "mapR f xs = Ok ys \<Longrightarrow> y \<in> set ys \<Longrightarrow> \<exists>x\<in>set xs. f x = Ok y"
  by (induction xs arbitrary: ys) (auto simp: bindR_Ok_iff)

lemma filter_singletonD: "filter P xs = [p] \<Longrightarrow> p \<in> set xs \<and> P p"
  using filter_eq_ConsD by fastforce

text \<open>How a finished run is read off a value that \<open>code_simp\<close> computes.\<close>

definition okMap :: "('a \<Rightarrow> 'b) \<Rightarrow> 'a res \<times> 'w \<Rightarrow> 'b option" where
  "okMap f r = (case fst r of Ok x \<Rightarrow> Some (f x) | _ \<Rightarrow> None)"

lemma okMap_SomeE:
  assumes "okMap f r = Some y"
  obtains x w where "r = (Ok x, w)" and "f x = y"
  using assms by (cases r) (auto simp: okMap_def split: res.splits)

text \<open>The list without the later repetitions of its elements.\<close>

fun Uniq_list :: "'a list \<Rightarrow> 'a list" where
  "Uniq_list [] = []"
| "Uniq_list (x # xs) = x # filter (\<lambda>y. y \<noteq> x) (Uniq_list xs)"

lemma Uniq_list_filter: "Uniq_list (filter P xs) = filter P (Uniq_list xs)"
proof (induction xs)
  case (Cons x xs)
  then show ?case by (cases "P x") (auto simp: conj_commute intro!: filter_cong)
qed simp

lemma set_Uniq_list [simp]: "set (Uniq_list xs) = set xs"
  by (induction xs) auto

lemma distinct_Uniq_list: "distinct (Uniq_list xs)"
  by (induction xs) auto

lemma bindA_cong_run:
  assumes "\<And>x w1. m w = (Ok x, w1) \<Longrightarrow> f x w1 = g x w1"
  shows "bindA m f w = bindA m g w"
  using assms by (auto simp: bindA_def split: prod.splits res.splits)

text \<open>An action keeps a part \<open>f\<close> of the world, whatever its outcome.\<close>

definition keeps :: "('w \<Rightarrow> 'x) \<Rightarrow> ('w, 'a) act \<Rightarrow> bool" where
  "keeps f m \<longleftrightarrow> (\<forall>w r w'. m w = (r, w') \<longrightarrow> f w' = f w)"

lemma keepsD: "keeps f m \<Longrightarrow> m w = (r, w') \<Longrightarrow> f w' = f w"
  by (auto simp: keeps_def)

lemma keeps_Pair [simp]: "keeps f (Pair r)"
  by (simp add: keeps_def)

lemma keeps_bindA: "keeps f m \<Longrightarrow> (\<And>x. keeps f (g x)) \<Longrightarrow> keeps f (bindA m g)"
  by (auto simp: keeps_def bindA_def split: prod.splits res.splits)

lemma keeps_tryA: "keeps f m \<Longrightarrow> (\<And>x. keeps f (g x)) \<Longrightarrow> (\<And>x. keeps f (h x)) \<Longrightarrow> keeps f (tryA m g h)"
  by (auto simp: keeps_def tryA_def split: prod.splits res.splits)

lemmas keeps_intros = keeps_bindA keeps_tryA

text \<open>
  Every run of an action relates the worlds before and after it: by the order of a clock, say, or because what is stored stays.
\<close>

definition along :: "('w \<Rightarrow> 'w \<Rightarrow> bool) \<Rightarrow> ('w, 'a) act \<Rightarrow> bool" where
  "along R m \<longleftrightarrow> (\<forall>w r w'. m w = (r, w') \<longrightarrow> R w w')"

lemma alongD: "along R m \<Longrightarrow> m w = (r, w') \<Longrightarrow> R w w'"
  by (auto simp: along_def)

lemma along_Pair: "reflp R \<Longrightarrow> along R (Pair r)"
  by (simp add: along_def reflp_def)

lemma along_bindA: "transp R \<Longrightarrow> along R m \<Longrightarrow> (\<And>x. along R (g x)) \<Longrightarrow> along R (bindA m g)"
  by (fastforce simp: along_def bindA_def split: prod.splits res.splits dest: transpD)

lemma along_tryA:
  "transp R \<Longrightarrow> along R m \<Longrightarrow> (\<And>x. along R (g x)) \<Longrightarrow> (\<And>e. along R (h e)) \<Longrightarrow> along R (tryA m g h)"
  by (fastforce simp: along_def tryA_def split: prod.splits res.splits dest: transpD)

text \<open>The continuation may assume what the first action promises of its value, unless the relation says nothing of that run.\<close>

lemma along_bindA_post:
  assumes "transp R" and "along R m" and "\<And>w x w'. m w = (Ok x, w') \<Longrightarrow> Q x \<or> (\<forall>w''. R w w'')"
    and "\<And>x. Q x \<Longrightarrow> along R (g x)"
  shows "along R (bindA m g)"
  unfolding along_def bindA_def using assms
  by (auto split: prod.splits res.splits dest: alongD) (metis alongD transpD)

lemma along_tryA_post:
  assumes "transp R" and "along R m" and "\<And>w x w'. m w = (Ok x, w') \<Longrightarrow> Q x \<or> (\<forall>w''. R w w'')"
    and "\<And>x. Q x \<Longrightarrow> along R (g x)" and "\<And>e. along R (h e)"
  shows "along R (tryA m g h)"
  unfolding along_def tryA_def using assms
  by (auto split: prod.splits res.splits dest: alongD) (metis alongD transpD)+

lemma along_mono: "along R m \<Longrightarrow> (\<And>w w'. R w w' \<Longrightarrow> S w w') \<Longrightarrow> along S m"
  by (auto simp: along_def)

lemma along_option:
  "along R m \<Longrightarrow> (\<And>x. along R (f x)) \<Longrightarrow> along R (case z of None \<Rightarrow> m | Some x \<Rightarrow> f x)"
  by (cases z) simp_all

lemma along_if: "along R m \<Longrightarrow> along R m' \<Longrightarrow> along R (if b then m else m')"
  by simp

lemmas along_intros = along_Pair along_bindA along_tryA along_option along_if

end
