(* ===== verification/Erdma_Types.thy ===== *)
theory Erdma_Types
  imports Go_Strings
begin

unbundle bit_operations_syntax

text \<open>
  The data the components exchange: the types of internal/types (ERI, the capability word,
  the device information of the driver), of api/v1 (the ERdmaDevice custom resource), the
  constants of internal/consts and api/consts, the MTU rule of internal/drivers/mtu.go and
  the two conversions between an ERI and the device entry of the custom resource that the
  node controller and the agent make.
  A Go \<open>int\<close> is an \<open>int\<close>, an \<open>int32\<close> a \<open>32 word\<close> read with \<open>sint\<close>,
  a pointer an \<open>option\<close>, a \<open>map[string]string\<close> an association list.
\<close>

type_synonym int32 = "32 word"
type_synonym uint32 = "32 word"
type_synonym labels = "(string \<times> string) list"

text \<open>Reading a missing key of a Go map of strings gives the empty string.\<close>

definition get_label :: "labels \<Rightarrow> string \<Rightarrow> string" where
  "get_label m k = (case map_of m k of None \<Rightarrow> [] | Some v \<Rightarrow> v)"

section \<open>internal/types\<close>

record ERI =
  eri_ID :: string
  eri_IsPrimaryENI :: bool
  eri_MAC :: string
  eri_InstanceID :: string
  eri_CardIndex :: int
  eri_QueuePair :: int
  eri_JumboFrame :: bool
  eri_JumboFrameMTU :: int

record ERdmaDeviceInfo =
  info_Name :: string
  info_MAC :: string
  info_DevPaths :: "string list"
  info_NUMA :: int
  info_Capabilities :: uint32

definition ERDMA_CAP_RDMA_CM :: uint32 where "ERDMA_CAP_RDMA_CM = 1"
definition ERDMA_CAP_SMC_R :: uint32 where "ERDMA_CAP_SMC_R = 2"
definition ERDMA_CAP_VERBS :: uint32 where "ERDMA_CAP_VERBS = 4"
definition ERDMA_CAP_GDR :: uint32 where "ERDMA_CAP_GDR = 8"
definition ERDMA_CAP_OOB :: uint32 where "ERDMA_CAP_OOB = 16"

lemmas cap_defs = ERDMA_CAP_RDMA_CM_def ERDMA_CAP_SMC_R_def ERDMA_CAP_VERBS_def
  ERDMA_CAP_GDR_def ERDMA_CAP_OOB_def

definition hasCap :: "uint32 \<Rightarrow> uint32 \<Rightarrow> bool" where
  "hasCap c k \<longleftrightarrow> c AND k \<noteq> 0"

text \<open>\<open>func (cap *ERdmaCAP) String()\<close>.\<close>

definition ERdmaCAP_String :: "uint32 \<Rightarrow> string" where
  "ERdmaCAP_String c = Join '',''
     ((if hasCap c ERDMA_CAP_RDMA_CM then [''RDMA_CM''] else []) @
      (if hasCap c ERDMA_CAP_SMC_R then [''SMC_R''] else []) @
      (if hasCap c ERDMA_CAP_VERBS then [''VERBS''] else []) @
      (if hasCap c ERDMA_CAP_GDR then [''GDR''] else []) @
      (if hasCap c ERDMA_CAP_OOB then [''OOB''] else []))"

definition ResourceName :: string where "ResourceName = ''aliyun/erdma''"
definition ENIStatusInUse :: string where "ENIStatusInUse = ''InUse''"
definition ENIStatusAvailable :: string where "ENIStatusAvailable = ''Available''"

section \<open>internal/consts, api/consts, internal/drivers/mtu.go\<close>

definition SMCRPNETEnv :: string where "SMCRPNETEnv = ''SMCR_PNET''"
definition PodAnnotationSMCR :: string where
  "PodAnnotationSMCR = ''network.alibabacloud.com/erdma-smcr''"

definition defaultJumboFrameMTU :: int where "defaultJumboFrameMTU = 8500"

definition jumboMTU :: "ERI \<Rightarrow> int" where
  "jumboMTU eri = (if 0 < eri_JumboFrameMTU eri then eri_JumboFrameMTU eri else defaultJumboFrameMTU)"

lemma jumboMTU_pos: "0 < jumboMTU eri"
  by (simp add: jumboMTU_def defaultJumboFrameMTU_def)

section \<open>api/v1\<close>

record DeviceInfo =
  dev_InstanceID :: string
  dev_MAC :: string
  dev_IsPrimaryENI :: bool
  dev_ID :: string
  dev_NetworkCardIndex :: int
  dev_QueuePair :: int

record ERdmaDeviceSpec =
  spec_Devices :: "DeviceInfo list"
  spec_JumboFrame :: bool

definition DeviceStatusPending :: string where "DeviceStatusPending = ''Pending''"
definition DeviceStatusReady :: string where "DeviceStatusReady = ''Ready''"
definition DeviceStatusFailed :: string where "DeviceStatusFailed = ''Failed''"

lemmas status_defs = ENIStatusInUse_def ENIStatusAvailable_def
  DeviceStatusPending_def DeviceStatusReady_def DeviceStatusFailed_def

record DeviceStatus =
  st_ID :: string
  st_Status :: string
  st_Message :: string

record OwnerReference =
  or_APIVersion :: string
  or_Kind :: string
  or_Name :: string
  or_UID :: string

text \<open>
  The custom resource, with the fields of its metadata that the controllers read or write:
  whether a deletion timestamp is set, the finalizers, the owner references, the labels.
\<close>

record ERdmaDevice =
  cr_Name :: string
  cr_Labels :: labels
  cr_Finalizers :: "string list"
  cr_OwnerReferences :: "OwnerReference list"
  cr_Deleting :: bool
  cr_Spec :: ERdmaDeviceSpec
  cr_Status :: "DeviceStatus list"

section \<open>Conversions\<close>

text \<open>The literal in \<open>NodeReconciler.Reconcile\<close> and in \<open>Agent.Run\<close>.\<close>

definition toDeviceInfo :: "ERI \<Rightarrow> DeviceInfo" where
  "toDeviceInfo item =
     \<lparr> dev_InstanceID = eri_InstanceID item, dev_MAC = eri_MAC item,
       dev_IsPrimaryENI = eri_IsPrimaryENI item, dev_ID = eri_ID item,
       dev_NetworkCardIndex = eri_CardIndex item, dev_QueuePair = eri_QueuePair item \<rparr>"

text \<open>The literal the agent passes to \<open>ProbeDevice\<close>; \<open>QueuePair\<close> keeps its zero value.\<close>

definition fromDeviceInfo :: "bool \<Rightarrow> int \<Rightarrow> DeviceInfo \<Rightarrow> ERI" where
  "fromDeviceInfo jumbo mtu d =
     \<lparr> eri_ID = dev_ID d, eri_IsPrimaryENI = dev_IsPrimaryENI d, eri_MAC = dev_MAC d,
       eri_InstanceID = dev_InstanceID d, eri_CardIndex = dev_NetworkCardIndex d,
       eri_QueuePair = 0, eri_JumboFrame = jumbo, eri_JumboFrameMTU = mtu \<rparr>"

text \<open>
  What reaches the driver on the node of an ERI the controller selected: everything but
  the queue pair count and the jumbo settings, which the agent fills in itself.
\<close>

lemma fromDeviceInfo_toDeviceInfo:
  "fromDeviceInfo j m (toDeviceInfo e) =
     e\<lparr> eri_QueuePair := 0, eri_JumboFrame := j, eri_JumboFrameMTU := m \<rparr>"
  by (cases e) (simp add: fromDeviceInfo_def toDeviceInfo_def)

lemma toDeviceInfo_simps [simp]:
  "dev_ID (toDeviceInfo e) = eri_ID e"
  "dev_MAC (toDeviceInfo e) = eri_MAC e"
  "dev_NetworkCardIndex (toDeviceInfo e) = eri_CardIndex e"
  "dev_IsPrimaryENI (toDeviceInfo e) = eri_IsPrimaryENI e"
  "dev_InstanceID (toDeviceInfo e) = eri_InstanceID e"
  "dev_QueuePair (toDeviceInfo e) = eri_QueuePair e"
  by (simp_all add: toDeviceInfo_def)

end
