(* ===== verification/Ecs_Api.thy ===== *)
theory Ecs_Api
  imports Erdma_Types
begin

text \<open>
  The ECS OpenAPI client that internal/controller/eri.go calls. The service and its Go SDK are
  not part of the repository, so the client is a record of operations, a parameter of every
  definition that makes a call: a request, the state of the outside world, and the response
  or error with the next state. Requests and responses have the fields the sources set and
  read; a response field the sources dereference is an \<open>option\<close>. The bodies and slices of
  a response are present whenever the call returned no error, as the SDK decodes them.
\<close>

record Tag =
  TagKey :: "string option"
  TagValue :: "string option"

text \<open>
  \<open>ni_Attachment\<close>: None for no attachment, \<open>Some None\<close> for one without card index.
  \<open>ni_Tags\<close>: None for an absent tag list.
\<close>

record NetworkInterface =
  ni_NetworkInterfaceId :: "string option"
  ni_Type :: "string option"
  ni_MacAddress :: "string option"
  ni_Status :: "string option"
  ni_NetworkInterfaceTrafficMode :: "string option"
  ni_QueuePairNumber :: "int32 option"
  ni_InstanceId :: "string option"
  ni_Attachment :: "int32 option option"
  ni_Tags :: "Tag list option"

record Instance =
  inst_InstanceId :: "string option"
  inst_InstanceType :: "string option"
  inst_SecurityGroupIds :: "string list"
  inst_VSwitchId :: "string option"

record InstanceType =
  it_InstanceTypeId :: "string option"
  it_EriQuantity :: "int32 option"
  it_NetworkCardQuantity :: "int32 option"
  it_QueuePairNumber :: "int32 option"
  it_GPUAmount :: "int32 option"

record DescribeInstancesRequest =
  dir_RegionId :: string
  dir_InstanceIds :: "string option"
  dir_PrivateIpAddresses :: "string option"

record DescribeInstancesResponse =
  dir_TotalCount :: "int32 option"
  dir_Instances :: "Instance list"

record DescribeNetworkInterfacesRequest =
  dni_RegionId :: string
  dni_Tag :: "(string \<times> string option) list"
  dni_InstanceId :: "string option"
  dni_NetworkInterfaceId :: "string list"
  dni_PageSize :: int32

record DescribeNetworkInterfacesResponse =
  dni_StatusCode :: "int32 option"
  dni_NetworkInterfaceSet :: "NetworkInterface list"

record CreateNetworkInterfaceRequest =
  cni_NetworkInterfaceName :: string
  cni_TrafficMode :: string
  cni_QueuePairNumber :: int32
  cni_RegionId :: string
  cni_SecurityGroupIds :: "string list"
  cni_Tag :: "(string \<times> string option) list"
  cni_VSwitchId :: "string option"

record CreateNetworkInterfaceResponse =
  cni_NetworkInterfaceId :: "string option"
  cni_MacAddress :: "string option"

record ModifyNetworkInterfaceRequest =
  mni_RegionId :: string
  mni_NetworkInterfaceId :: string
  mni_TrafficMode :: string
  mni_QueuePairNumber :: int32

record TagResourcesRequest =
  tr_RegionId :: string
  tr_ResourceType :: string
  tr_ResourceId :: "string list"
  tr_Tag :: "(string \<times> string) list"

record AttachNetworkInterfaceRequest =
  ani_InstanceId :: string
  ani_NetworkInterfaceId :: string
  ani_RegionId :: string
  ani_NetworkCardIndex :: "int32 option"

record 'w ecs =
  DescribeInstances :: "DescribeInstancesRequest \<Rightarrow> ('w, DescribeInstancesResponse) act"
  DescribeInstanceTypes :: "string option list \<Rightarrow> ('w, InstanceType list) act"
  DescribeNetworkInterfaces ::
    "DescribeNetworkInterfacesRequest \<Rightarrow> ('w, DescribeNetworkInterfacesResponse) act"
  CreateNetworkInterface ::
    "CreateNetworkInterfaceRequest \<Rightarrow> ('w, CreateNetworkInterfaceResponse) act"
  ModifyNetworkInterfaceAttribute :: "ModifyNetworkInterfaceRequest \<Rightarrow> ('w, unit) act"
  TagResources :: "TagResourcesRequest \<Rightarrow> ('w, unit) act"
  AttachNetworkInterface :: "AttachNetworkInterfaceRequest \<Rightarrow> ('w, unit) act"
  DescribeInstanceAttribute :: "string \<Rightarrow> ('w, bool option) act"

text \<open>
  An \<open>EriClient\<close>: the region and whether ENIs it did not create are managed too
  (its client is the parameter above).
\<close>

record EriClient =
  regionID :: string
  ManagedNonOwned :: bool

end
