(* ===== verification/Eri_Select.thy ===== *)
theory Eri_Select
  imports Ecs_Api
begin

text \<open>
  The decision which network interfaces of an instance become ERIs: ownership, card index,
  conversion to an ERI and \<open>SelectEriFromExist\<close> of internal/controller/eri.go, and the facts
  about that decision: one interface per network card, no card forgotten, the queue pair
  budget kept, only owned or primary interfaces taken, when it errs and that it does not
  panic on what the service returns.
\<close>

section \<open>Constants and helpers\<close>

definition eriTagCreatorKey :: string where "eriTagCreatorKey = ''creator''"
definition eriTagCreatorValue :: string where "eriTagCreatorValue = ''alibabacloud-erdma-controller''"
definition eriTagInstanceIdKey :: string where "eriTagInstanceIdKey = ''instance-id''"
definition eriTagExcludedKey :: string where "eriTagExcludedKey = ''terway.alibabacloud.com/excluded''"
definition eriTagExcludedValue :: string where "eriTagExcludedValue = ''true''"
definition eniResourceType :: string where "eniResourceType = ''eni''"
definition trafficModeRDMA :: string where "trafficModeRDMA = ''HighPerformance''"

lemmas eri_consts = eriTagCreatorKey_def eriTagCreatorValue_def eriTagInstanceIdKey_def
  eriTagExcludedKey_def eriTagExcludedValue_def eniResourceType_def trafficModeRDMA_def

definition OwnENI :: "EriClient \<Rightarrow> NetworkInterface \<Rightarrow> bool" where
  "OwnENI e eni =
     (if ManagedNonOwned e then True
      else case ni_Tags eni of
        None \<Rightarrow> False
      | Some tags \<Rightarrow> list_ex (\<lambda>tag. TagKey tag = Some eriTagCreatorKey \<and>
                                    TagValue tag = Some eriTagCreatorValue) tags)"

definition eniCardIndex :: "NetworkInterface \<Rightarrow> int" where
  "eniCardIndex eni = (case ni_Attachment eni of Some (Some i) \<Rightarrow> sint i | _ \<Rightarrow> 0)"

definition eniQueuePair :: "NetworkInterface \<Rightarrow> int \<Rightarrow> int" where
  "eniQueuePair eni preferQueueCount =
     (case ni_QueuePairNumber eni of
        Some q \<Rightarrow> if 0 < sint q then sint q else preferQueueCount
      | None \<Rightarrow> preferQueueCount)"

definition toEri :: "NetworkInterface \<Rightarrow> int \<Rightarrow> ERI res" where
  "toEri eni preferQueueCount =
     bindR (deref (ni_NetworkInterfaceId eni)) (\<lambda>nid.
     bindR (deref (ni_Type eni)) (\<lambda>ty.
     bindR (deref (ni_MacAddress eni)) (\<lambda>mac.
       Ok \<lparr> eri_ID = nid, eri_IsPrimaryENI = (ty = ''Primary''), eri_MAC = mac,
            eri_InstanceID = (case ni_InstanceId eni of Some i \<Rightarrow> i | None \<Rightarrow> []),
            eri_CardIndex = eniCardIndex eni,
            eri_QueuePair = eniQueuePair eni preferQueueCount,
            eri_JumboFrame = False, eri_JumboFrameMTU = 0 \<rparr>)))"

section \<open>SelectEriFromExist\<close>

definition isEri :: "NetworkInterface \<Rightarrow> bool" where
  "isEri item \<longleftrightarrow> ni_NetworkInterfaceTrafficMode item = Some trafficModeRDMA"

definition isPrimary :: "NetworkInterface \<Rightarrow> bool" where
  "isPrimary eni \<longleftrightarrow> ni_Type eni = Some ''Primary''"

text \<open>The loop over the existing ERIs: the first owned one of each card is selected.\<close>

fun selectOwned :: "EriClient \<Rightarrow> NetworkInterface list \<Rightarrow> (int \<times> ERI) list \<Rightarrow> NetworkInterface list
    \<Rightarrow> ((int \<times> ERI) list \<times> NetworkInterface list) res" where
  "selectOwned e [] cardIndexENI selectedENIs = Ok (cardIndexENI, selectedENIs)"
| "selectOwned e (eri # eris) cardIndexENI selectedENIs =
     (if \<not> OwnENI e eri then selectOwned e eris cardIndexENI selectedENIs
      else let eniIndex = eniCardIndex eri in
        if map_of cardIndexENI eniIndex = None then
          bindR (toEri eri 0) (\<lambda>r.
            selectOwned e eris (AList.update eniIndex r cardIndexENI) (selectedENIs @ [eri]))
        else selectOwned e eris cardIndexENI selectedENIs)"

text \<open>
  The loop that takes the primary ENI for card 0 and drops card 0 from the cards to create
  for. It has no \<open>break\<close>: on a second primary ENI card 0 is no longer in the list,
  \<open>lo.IndexOf\<close> gives -1 and the slice expression panics.
\<close>

fun usePrimary :: "int \<Rightarrow> NetworkInterface list \<Rightarrow> (int \<times> ERI) list \<Rightarrow> NetworkInterface list \<Rightarrow> int list
    \<Rightarrow> ((int \<times> ERI) list \<times> NetworkInterface list \<times> int list) res" where
  "usePrimary per [] cardIndexENI selectedENIs need = Ok (cardIndexENI, selectedENIs, need)"
| "usePrimary per (eni # enis) cardIndexENI selectedENIs need =
     (if isPrimary eni then
        bindR (toEri eni per) (\<lambda>r.
        bindR (remove_at need (IndexOf need 0)) (\<lambda>need'.
          usePrimary per enis (AList.update 0 r cardIndexENI) (selectedENIs @ [eni]) need'))
      else usePrimary per enis cardIndexENI selectedENIs need)"

definition noPrimaryErr :: goerror where
  "noPrimaryErr = Errorf ''cannot find node primary ENI or existing ENI'' []"

definition noSlotErr :: goerror where
  "noSlotErr = Errorf ''cannot create ERI for instance due to no available slot'' []"

text \<open>
  The cards without an ERI, the queue pairs left for each of them (Go's division truncates),
  and the step that fills card 0 with the primary ENI.
\<close>

definition freeCards :: "int \<Rightarrow> int \<Rightarrow> int \<Rightarrow> (int \<times> ERI) list \<Rightarrow> int list" where
  "freeCards existQueuePairCount queuePairCount cardCount cardIndexENI =
     (if existQueuePairCount \<le> queuePairCount
      then filter (\<lambda>i. map_of cardIndexENI i = None) [0..cardCount - 1] else [])"

definition assignCards :: "NetworkInterface list \<Rightarrow> int \<Rightarrow> (int \<times> ERI) list \<Rightarrow> NetworkInterface list \<Rightarrow> int list
    \<Rightarrow> (NetworkInterface list \<times> int list \<times> int) res" where
  "assignCards existENIs slack cardIndexENI selectedENIs need =
     (if need = [] then Ok (selectedENIs, need, 0)
      else let per = slack sdiv int (length need) in
        if 0 < per then
          bindR (if map_of cardIndexENI 0 = None
                 then usePrimary per existENIs cardIndexENI selectedENIs need
                 else Ok (cardIndexENI, selectedENIs, need))
            (\<lambda>(cm, sel, need'). if cm = [] then Err noPrimaryErr else Ok (sel, need', per))
        else Ok (selectedENIs, [], per))"

definition SelectEriFromExist :: "EriClient \<Rightarrow> NetworkInterface list \<Rightarrow> int \<Rightarrow> int
    \<Rightarrow> (ERI list \<times> int list \<times> int) res" where
  "SelectEriFromExist e existENIs queuePairCount cardCount =
     (let existERIs = filter isEri existENIs in
      bindR (mapR (\<lambda>item. deref (ni_QueuePairNumber item)) existERIs) (\<lambda>qps.
      let existQueuePairCount = sum_list (map sint qps) in
      bindR (mapR (\<lambda>item. toEri item 0) existERIs) (\<lambda>_. \<comment> \<open>the log line\<close>
      bindR (selectOwned e existERIs [] []) (\<lambda>(cardIndexENI, selectedENIs).
      bindR (assignCards existENIs (queuePairCount - existQueuePairCount) cardIndexENI selectedENIs
               (freeCards existQueuePairCount queuePairCount cardCount cardIndexENI))
        (\<lambda>(selected, needCreateOrConvert, per).
      bindR (mapR (\<lambda>item. toEri item per) selected) (\<lambda>eriList.
        if eriList = [] \<and> needCreateOrConvert = [] then Err noSlotErr
        else Ok (eriList, needCreateOrConvert, per)))))))"

section \<open>Conversion\<close>

definition eniOk :: "NetworkInterface \<Rightarrow> bool" where
  "eniOk eni \<longleftrightarrow> ni_NetworkInterfaceId eni \<noteq> None \<and> ni_Type eni \<noteq> None \<and> ni_MacAddress eni \<noteq> None"

lemma toEri_Ok_iff:
  "toEri eni q = Ok r \<longleftrightarrow> eniOk eni \<and>
     r = \<lparr> eri_ID = the (ni_NetworkInterfaceId eni), eri_IsPrimaryENI = isPrimary eni,
           eri_MAC = the (ni_MacAddress eni),
           eri_InstanceID = (case ni_InstanceId eni of Some i \<Rightarrow> i | None \<Rightarrow> []),
           eri_CardIndex = eniCardIndex eni, eri_QueuePair = eniQueuePair eni q,
           eri_JumboFrame = False, eri_JumboFrameMTU = 0 \<rparr>"
  by (auto simp: toEri_def eniOk_def isPrimary_def bindR_Ok_iff)

lemma toEri_not_Err [simp]: "toEri eni q \<noteq> Err x"
  by (simp add: toEri_def bindR_Err_iff)

lemma toEri_fields:
  assumes "toEri eni q = Ok r"
  shows "eri_CardIndex r = eniCardIndex eni" "eri_QueuePair r = eniQueuePair eni q"
    "eri_IsPrimaryENI r = isPrimary eni" "ni_NetworkInterfaceId eni = Some (eri_ID r)"
  using assms by (auto simp: toEri_Ok_iff eniOk_def)

lemma mapR_toEri_fields:
  assumes "mapR (\<lambda>i. toEri i q) xs = Ok rs"
  shows "map eri_CardIndex rs = map eniCardIndex xs"
    "map eri_QueuePair rs = map (\<lambda>x. eniQueuePair x q) xs"
    "map eri_IsPrimaryENI rs = map isPrimary xs"
    "map (Some \<circ> eri_ID) rs = map ni_NetworkInterfaceId xs"
proof -
  from assms have "list_all2 (\<lambda>x r. toEri x q = Ok r) xs rs" by (simp add: mapR_Ok_iff)
  then show "map eri_CardIndex rs = map eniCardIndex xs"
    "map eri_QueuePair rs = map (\<lambda>x. eniQueuePair x q) xs"
    "map eri_IsPrimaryENI rs = map isPrimary xs"
    "map (Some \<circ> eri_ID) rs = map ni_NetworkInterfaceId xs"
    by (induction rule: list_all2_induct) (auto dest: toEri_fields)
qed

lemma mapR_toEri_total: "(\<And>x. x \<in> set xs \<Longrightarrow> eniOk x) \<Longrightarrow> \<exists>rs. mapR (\<lambda>i. toEri i q) xs = Ok rs"
proof (induction xs)
  case (Cons x xs)
  then obtain rs where "mapR (\<lambda>i. toEri i q) xs = Ok rs" by auto
  moreover from Cons.prems have "\<exists>r. toEri x q = Ok r" by (simp add: toEri_Ok_iff)
  ultimately show ?case by auto
qed simp

section \<open>The owned ERIs: the first of every card\<close>

text \<open>The specification of the first loop: one interface per card, the first in the list.\<close>

fun firstPerCard :: "int set \<Rightarrow> NetworkInterface list \<Rightarrow> NetworkInterface list" where
  "firstPerCard seen [] = []"
| "firstPerCard seen (x # xs) =
     (if eniCardIndex x \<in> seen then firstPerCard seen xs
      else x # firstPerCard (insert (eniCardIndex x) seen) xs)"

lemma firstPerCard_subseq: "subseq (firstPerCard seen xs) xs"
  by (induction xs arbitrary: seen) auto

lemma firstPerCard_set: "set (firstPerCard seen xs) \<subseteq> set xs"
  by (induction xs arbitrary: seen) auto

lemma firstPerCard_cards:
  "set (map eniCardIndex (firstPerCard seen xs)) = set (map eniCardIndex xs) - seen"
  by (induction xs arbitrary: seen) auto

lemma firstPerCard_distinct: "distinct (map eniCardIndex (firstPerCard seen xs))"
proof (induction xs arbitrary: seen)
  case (Cons x xs)
  have "eniCardIndex x \<notin> set (map eniCardIndex (firstPerCard (insert (eniCardIndex x) seen) xs))"
    by (simp only: firstPerCard_cards) simp
  with Cons.IH show ?case by simp
qed simp

lemma selectOwned_spec:
  assumes "selectOwned e xs cm sel = Ok (cm', sel')"
  shows "sel' = sel @ firstPerCard (fst ` set cm) (filter (OwnENI e) xs)"
    and "fst ` set cm' = fst ` set cm \<union> eniCardIndex ` set (filter (OwnENI e) xs)"
proof -
  have "sel' = sel @ firstPerCard (fst ` set cm) (filter (OwnENI e) xs) \<and>
     fst ` set cm' = fst ` set cm \<union> eniCardIndex ` set (filter (OwnENI e) xs)"
    using assms
  proof (induction xs arbitrary: cm sel)
    case (Cons x xs)
    show ?case
    proof (cases "OwnENI e x \<and> eniCardIndex x \<notin> fst ` set cm")
      case True
      then have "map_of cm (eniCardIndex x) = None" by (simp add: map_of_eq_None_iff)
      with Cons.prems True obtain r where
        "selectOwned e xs (AList.update (eniCardIndex x) r cm) (sel @ [x]) = Ok (cm', sel')"
        by (auto simp: Let_def bindR_Ok_iff)
      from Cons.IH [OF this] True show ?thesis
        by (simp add: dom_update)
    next
      case False
      then have "selectOwned e xs cm sel = Ok (cm', sel')"
        using Cons.prems by (auto simp: Let_def map_of_eq_None_iff split: if_splits)
      from Cons.IH [OF this] False show ?thesis by auto
    qed
  qed simp
  then show "sel' = sel @ firstPerCard (fst ` set cm) (filter (OwnENI e) xs)"
    and "fst ` set cm' = fst ` set cm \<union> eniCardIndex ` set (filter (OwnENI e) xs)"
    by auto
qed

lemma selectOwned_not_Err [simp]: "selectOwned e xs cm sel \<noteq> Err err"
  by (induction xs arbitrary: cm sel) (auto simp: Let_def bindR_Err_iff)

lemma selectOwned_total:
  "(\<And>x. x \<in> set xs \<Longrightarrow> eniOk x) \<Longrightarrow> \<exists>cm' sel'. selectOwned e xs cm sel = Ok (cm', sel')"
proof (induction xs arbitrary: cm sel)
  case (Cons x xs)
  then have ok: "\<And>cm sel. \<exists>cm' sel'. selectOwned e xs cm sel = Ok (cm', sel')" by simp
  from Cons.prems obtain r where "toEri x 0 = Ok r" by (auto simp: toEri_Ok_iff)
  with ok show ?case by (auto simp: Let_def)
qed simp

section \<open>The primary ENI as card 0\<close>

lemma usePrimary_spec:
  assumes "usePrimary per enis cm sel need = Ok (cm', sel', need')" and "distinct need"
  shows "(filter isPrimary enis = [] \<and> cm' = cm \<and> sel' = sel \<and> need' = need) \<or>
    (\<exists>p. filter isPrimary enis = [p] \<and> 0 \<in> set need \<and> cm' \<noteq> [] \<and> sel' = sel @ [p] \<and>
       need' = remove1 0 need)"
  using assms
proof (induction enis arbitrary: cm sel need)
  case (Cons x xs)
  show ?case
  proof (cases "isPrimary x")
    case True
    with Cons.prems obtain r n where n: "remove_at need (IndexOf need 0) = Ok n"
      and rest: "usePrimary per xs (AList.update 0 r cm) (sel @ [x]) n = Ok (cm', sel', need')"
      by (auto simp: bindR_Ok_iff)
    have mem: "0 \<in> set need"
      using n remove_at_absent [of 0 need] by fastforce
    with n have n': "n = remove1 0 need" by (simp add: remove_at_IndexOf)
    with Cons.prems(2) have "0 \<notin> set n" "distinct n" by auto
    with Cons.IH [OF rest] n' mem True show ?thesis by auto
  next
    case False
    with Cons show ?thesis by simp
  qed
qed simp

lemma usePrimary_not_Err [simp]: "usePrimary per enis cm sel need \<noteq> Err err"
  by (induction enis arbitrary: cm sel need) (auto simp: bindR_Err_iff remove_at_def)

lemma usePrimary_none: "filter isPrimary enis = [] \<Longrightarrow> usePrimary per enis cm sel need = Ok (cm, sel, need)"
  by (induction enis) (auto split: if_splits)

lemma usePrimary_total:
  assumes "\<And>x. x \<in> set enis \<Longrightarrow> eniOk x" and "length (filter isPrimary enis) \<le> 1" and "0 \<in> set need"
  shows "\<exists>y. usePrimary per enis cm sel need = Ok y"
  using assms
proof (induction enis arbitrary: cm sel need)
  case (Cons x xs)
  show ?case
  proof (cases "isPrimary x")
    case True
    with Cons.prems have none: "filter isPrimary xs = []" by simp
    from Cons.prems obtain r where "toEri x per = Ok r" by (auto simp: toEri_Ok_iff)
    with True none Cons.prems(3) show ?thesis
      by (simp add: remove_at_IndexOf usePrimary_none)
  next
    case False
    with Cons show ?thesis by simp
  qed
qed simp

section \<open>The card plan: what the selection promises\<close>

definition ownedERIs :: "EriClient \<Rightarrow> NetworkInterface list \<Rightarrow> NetworkInterface list" where
  "ownedERIs e enis = firstPerCard {} (filter (OwnENI e) (filter isEri enis))"

definition usedQP :: "NetworkInterface list \<Rightarrow> int" where
  "usedQP enis = sum_list (map (\<lambda>x. sint (the (ni_QueuePairNumber x))) (filter isEri enis))"

definition cardsOf :: "NetworkInterface list \<Rightarrow> int set" where
  "cardsOf enis = eniCardIndex ` set enis"

definition openCards :: "EriClient \<Rightarrow> NetworkInterface list \<Rightarrow> int \<Rightarrow> int \<Rightarrow> int list" where
  "openCards e enis Q K =
     (if usedQP enis \<le> Q then filter (\<lambda>i. i \<notin> cardsOf (ownedERIs e enis)) [0..K - 1] else [])"

text \<open>
  \<open>cardPlan e enis Q K sel need per\<close>: on an instance with interfaces \<open>enis\<close>, \<open>Q\<close> queue pairs
  and \<open>K\<close> cards, the interfaces \<open>sel\<close> are used as they are or converted, an interface is to be
  created on every card of \<open>need\<close>, and each new ERI gets \<open>per\<close> queue pairs. Either nothing is
  left to hand out, or every open card gets an equal share, with or without the primary
  interface standing in for card 0.
\<close>

inductive cardPlan :: "EriClient \<Rightarrow> NetworkInterface list \<Rightarrow> int \<Rightarrow> int
    \<Rightarrow> NetworkInterface list \<Rightarrow> int list \<Rightarrow> int \<Rightarrow> bool"
  for e enis Q K where
  keep: "openCards e enis Q K = [] \<or> Q - usedQP enis < int (length (openCards e enis Q K)) \<Longrightarrow>
     cardPlan e enis Q K (ownedERIs e enis) [] 0"
| create: "openCards e enis Q K \<noteq> [] \<Longrightarrow>
     per = (Q - usedQP enis) div int (length (openCards e enis Q K)) \<Longrightarrow> 0 < per \<Longrightarrow>
     0 \<in> cardsOf (ownedERIs e enis) \<or> filter isPrimary enis = [] \<and> ownedERIs e enis \<noteq> [] \<Longrightarrow>
     cardPlan e enis Q K (ownedERIs e enis) (openCards e enis Q K) per"
| convert: "openCards e enis Q K \<noteq> [] \<Longrightarrow>
     per = (Q - usedQP enis) div int (length (openCards e enis Q K)) \<Longrightarrow> 0 < per \<Longrightarrow>
     filter isPrimary enis = [p] \<Longrightarrow> 0 \<notin> cardsOf (ownedERIs e enis) \<Longrightarrow>
     cardPlan e enis Q K (ownedERIs e enis @ [p]) (remove1 0 (openCards e enis Q K)) per"

lemma openCards_props:
  "distinct (openCards e enis Q K)" "sorted (openCards e enis Q K)"
  "set (openCards e enis Q K) = (if usedQP enis \<le> Q then {0..<K} - cardsOf (ownedERIs e enis) else {})"
  by (auto simp: openCards_def sorted_wrt_filter)

lemma openCards_usedQP: "openCards e enis Q K \<noteq> [] \<Longrightarrow> usedQP enis \<le> Q"
  by (auto simp: openCards_def split: if_splits)

lemma openCards_zero:
  assumes "openCards e enis Q K \<noteq> []" and "0 \<notin> cardsOf (ownedERIs e enis)"
  shows "0 \<in> set (openCards e enis Q K)"
proof -
  from assms(1) obtain i where "i \<in> set (openCards e enis Q K)"
    by (cases "openCards e enis Q K") auto
  then have "0 < K" and "usedQP enis \<le> Q" by (auto simp: openCards_props(3) split: if_splits)
  with assms(2) show ?thesis by (simp add: openCards_props(3))
qed

lemma assignCards_plan:
  assumes run: "assignCards enis (Q - usedQP enis) cm (ownedERIs e enis) (openCards e enis Q K) = Ok (sel, need, per)"
    and cm: "fst ` set cm = cardsOf (ownedERIs e enis)"
  shows "cardPlan e enis Q K sel need per"
proof (cases "openCards e enis Q K = []")
  case True
  with run show ?thesis by (auto simp: assignCards_def intro: keep)
next
  case False
  let ?need = "openCards e enis Q K"
  let ?per = "(Q - usedQP enis) sdiv int (length ?need)"
  have per: "?per = (Q - usedQP enis) div int (length ?need)"
    using openCards_usedQP [OF False] by (simp add: sdiv_nonneg)
  show ?thesis
  proof (cases "0 < ?per")
    case le: False
    with openCards_usedQP [OF False] False per have "Q - usedQP enis < int (length ?need)" "?per = 0"
      by (simp_all add: pos_imp_zdiv_pos_iff not_le) 
    with False le run show ?thesis by (auto simp: assignCards_def intro: keep)
  next
    case pos: True
    have zero: "map_of cm 0 = None \<longleftrightarrow> 0 \<notin> cardsOf (ownedERIs e enis)"
      by (simp add: map_of_eq_None_iff cm)
    show ?thesis
    proof (cases "map_of cm 0 = None")
      case False
      with zero run \<open>?need \<noteq> []\<close> pos per show ?thesis
        by (auto simp: assignCards_def Let_def intro!: create split: if_splits)
    next
      case True
      with run \<open>?need \<noteq> []\<close> pos obtain cm' where
        up: "usePrimary ?per enis cm (ownedERIs e enis) ?need = Ok (cm', sel, need)" "cm' \<noteq> []" "per = ?per"
        by (auto simp: assignCards_def Let_def bindR_Ok_iff split: if_splits)
      from usePrimary_spec [OF up(1) openCards_props(1)] show ?thesis
      proof (elim disjE exE conjE)
        assume "filter isPrimary enis = []" "cm' = cm" "sel = ownedERIs e enis" "need = ?need"
        moreover with up(2) cm have "ownedERIs e enis \<noteq> []" by (auto simp: cardsOf_def)
        ultimately show ?thesis using False pos per up(3) by (auto intro!: create)
      next
        fix p assume "filter isPrimary enis = [p]" "sel = ownedERIs e enis @ [p]" "need = remove1 0 ?need"
        with False pos per up(3) True zero show ?thesis by (auto intro!: convert)
      qed
    qed
  qed
qed

section \<open>SelectEriFromExist implements the card plan\<close>

lemma freeCards_openCards:
  assumes "fst ` set cm = cardsOf (ownedERIs e enis)"
  shows "freeCards (usedQP enis) Q K cm = openCards e enis Q K"
  by (simp add: freeCards_def openCards_def map_of_eq_None_iff assms)

lemma selectOwned_owned:
  assumes "selectOwned e (filter isEri enis) [] [] = Ok (cm, sel)"
  shows "sel = ownedERIs e enis" and "fst ` set cm = cardsOf (ownedERIs e enis)"
proof -
  from selectOwned_spec [OF assms] show "sel = ownedERIs e enis"
    by (simp add: ownedERIs_def)
  have "cardsOf (ownedERIs e enis) = set (map eniCardIndex (ownedERIs e enis))"
    by (simp add: cardsOf_def)
  also have "\<dots> = eniCardIndex ` set (filter (OwnENI e) (filter isEri enis))"
    unfolding ownedERIs_def firstPerCard_cards by simp
  finally show "fst ` set cm = cardsOf (ownedERIs e enis)"
    using selectOwned_spec(2) [OF assms] by simp
qed

lemma SelectEriFromExist_plan:
  assumes "SelectEriFromExist e enis Q K = Ok (eris, need, per)"
  obtains sel where "cardPlan e enis Q K sel need per" and "mapR (\<lambda>i. toEri i per) sel = Ok eris"
    and "\<And>x. x \<in> set enis \<Longrightarrow> isEri x \<Longrightarrow> ni_QueuePairNumber x \<noteq> None"
    and "eris \<noteq> [] \<or> need \<noteq> []"
proof -
  from assms obtain qps cm sel0 sel where
    qps: "mapR (\<lambda>item. deref (ni_QueuePairNumber item)) (filter isEri enis) = Ok qps"
    and own: "selectOwned e (filter isEri enis) [] [] = Ok (cm, sel0)"
    and asg: "assignCards enis (Q - sum_list (map sint qps)) cm sel0
                (freeCards (sum_list (map sint qps)) Q K cm) = Ok (sel, need, per)"
    and conv: "mapR (\<lambda>i. toEri i per) sel = Ok eris" and ne: "eris \<noteq> [] \<or> need \<noteq> []"
    by (auto simp: SelectEriFromExist_def Let_def bindR_Ok_iff split: if_splits)
  from qps have used: "sum_list (map sint qps) = usedQP enis"
    and some: "\<And>x. x \<in> set enis \<Longrightarrow> isEri x \<Longrightarrow> ni_QueuePairNumber x \<noteq> None"
    by (auto simp: mapR_deref_Ok_iff usedQP_def comp_def)
  note o = selectOwned_owned [OF own]
  have "cardPlan e enis Q K sel need per"
    using asg o unfolding used by (intro assignCards_plan) (auto simp: freeCards_openCards)
  with conv some ne show thesis by (intro that)
qed

lemma ownedERIs_sub: "x \<in> set (ownedERIs e enis) \<Longrightarrow> x \<in> set enis \<and> isEri x \<and> OwnENI e x"
  using firstPerCard_set unfolding ownedERIs_def by fastforce

lemma ownedERIs_distinct: "distinct (map eniCardIndex (ownedERIs e enis))"
  by (simp add: ownedERIs_def firstPerCard_distinct)

lemma ownedERIs_complete: "x \<in> set enis \<Longrightarrow> isEri x \<Longrightarrow> OwnENI e x \<Longrightarrow> eniCardIndex x \<in> cardsOf (ownedERIs e enis)"
proof -
  assume x: "x \<in> set enis" "isEri x" "OwnENI e x"
  have "cardsOf (ownedERIs e enis) = set (map eniCardIndex (ownedERIs e enis))"
    by (simp add: cardsOf_def)
  also have "\<dots> = eniCardIndex ` set (filter (OwnENI e) (filter isEri enis))"
    unfolding ownedERIs_def firstPerCard_cards by simp
  finally show ?thesis using x by auto
qed

definition primaryOnCard0 :: "NetworkInterface list \<Rightarrow> bool" where
  "primaryOnCard0 enis \<longleftrightarrow> list_all (\<lambda>x. isPrimary x \<longrightarrow> eniCardIndex x = 0) enis"

lemma cardPlan_distinct:
  assumes "cardPlan e enis Q K sel need per" and "primaryOnCard0 enis"
  shows "distinct (map eniCardIndex sel @ need)" and "set need \<subseteq> {0..<K}" and "sorted need"
  using assms(1)
proof (induction rule: cardPlan.induct)
  case keep
  { case 1 show ?case by (simp add: ownedERIs_distinct) }
  { case 2 show ?case by simp }
  { case 3 show ?case by simp }
next
  case (create per)
  { case 1 show ?case by (auto simp: ownedERIs_distinct openCards_props cardsOf_def) }
  { case 2 show ?case by (auto simp: openCards_props) }
  { case 3 show ?case by (rule openCards_props(2)) }
next
  case (convert per p)
  then have "p \<in> set enis" "isPrimary p" by (auto dest: filter_singletonD)
  with assms(2) have p0: "eniCardIndex p = 0" by (auto simp: primaryOnCard0_def list_all_iff)
  { case 1
    from convert p0 show ?case
      by (auto simp: ownedERIs_distinct openCards_props cardsOf_def) }
  { case 2 show ?case by (auto simp: openCards_props dest: notin_set_remove1) }
  { case 3 show ?case by (simp add: openCards_props sorted_remove1) }
qed

lemma cardPlan_complete:
  assumes "cardPlan e enis Q K sel need per" and "primaryOnCard0 enis" and "0 < per"
  shows "{0..<K} \<subseteq> cardsOf sel \<union> set need"
  using assms(1,3)
proof (induction rule: cardPlan.induct)
  case (create per)
  then show ?case using openCards_usedQP [OF create(1)] by (auto simp: openCards_props)
next
  case (convert per p)
  then have "p \<in> set enis" "isPrimary p" by (auto dest: filter_singletonD)
  with assms(2) have p0: "eniCardIndex p = 0" by (auto simp: primaryOnCard0_def list_all_iff)
  with convert openCards_usedQP [OF convert(1)] show ?case
    by (auto simp: openCards_props cardsOf_def)
qed simp

text \<open>
  The figures of the service that the budget rests on: an interface in RDMA mode has queue
  pairs, one in another mode has none.
\<close>

definition queuePairsReported :: "NetworkInterface list \<Rightarrow> bool" where
  "queuePairsReported enis \<longleftrightarrow> list_all (\<lambda>x.
     if isEri x then (\<exists>q. ni_QueuePairNumber x = Some q \<and> 0 < sint q)
     else (\<forall>q. ni_QueuePairNumber x = Some q \<longrightarrow> sint q \<le> 0)) enis"

lemma queuePairsReported_ERI:
  "queuePairsReported enis \<Longrightarrow> x \<in> set enis \<Longrightarrow> isEri x \<Longrightarrow>
     eniQueuePair x per = sint (the (ni_QueuePairNumber x)) \<and> 0 < eniQueuePair x per"
  by (auto simp: queuePairsReported_def eniQueuePair_def list_all_iff split: if_splits)

lemma queuePairsReported_other:
  "queuePairsReported enis \<Longrightarrow> x \<in> set enis \<Longrightarrow> \<not> isEri x \<Longrightarrow> eniQueuePair x per = per"
  by (auto simp: queuePairsReported_def eniQueuePair_def list_all_iff split: if_splits option.splits)

lemma ownedERIs_QP:
  assumes "queuePairsReported enis"
  shows "sum_list (map (\<lambda>x. eniQueuePair x per) (ownedERIs e enis)) +
     sum_list (map (\<lambda>x. eniQueuePair x per) (filter (\<lambda>x. \<not> OwnENI e x) (filter isEri enis))) \<le> usedQP enis"
proof -
  let ?f = "\<lambda>x. eniQueuePair x per" and ?E = "filter isEri enis"
  have used: "usedQP enis = sum_list (map ?f ?E)"
    using assms by (auto simp: usedQP_def queuePairsReported_ERI intro!: arg_cong [of _ _ sum_list])
  have "sum_list (map ?f (ownedERIs e enis)) \<le> sum_list (map ?f (filter (OwnENI e) ?E))"
    unfolding ownedERIs_def using assms
    by (intro sum_list_subseq firstPerCard_subseq) (auto dest: queuePairsReported_ERI [of _ _ per])
  with sum_list_filter_split [of ?f ?E "OwnENI e"] show ?thesis unfolding used by linarith
qed

lemma cardPlan_budget:
  assumes plan: "cardPlan e enis Q K sel need per" and p0: "primaryOnCard0 enis" and q: "queuePairsReported enis"
  shows "sum_list (map (\<lambda>x. eniQueuePair x per) sel) + per * int (length need) \<le> max (usedQP enis) Q"
proof -
  let ?rest = "\<lambda>per. sum_list (map (\<lambda>x. eniQueuePair x per) (filter (\<lambda>x. \<not> OwnENI e x) (filter isEri enis)))"
  have pos: "0 \<le> eniQueuePair x per" if "x \<in> set (filter (\<lambda>x. \<not> OwnENI e x) (filter isEri enis))" for x per
    using that queuePairsReported_ERI [OF q, of x per] by simp
  have rest: "0 \<le> ?rest per" for per
    using pos by (intro sum_list_nonneg) auto
  show ?thesis using plan
  proof (induction rule: cardPlan.induct)
    case keep
    from ownedERIs_QP [OF q, of 0 e] rest [of 0] show ?case by simp
  next
    case (create per)
    from ownedERIs_QP [OF q, of per e] rest [of per] share_le [OF create(2,1)] show ?case by simp
  next
    case (convert per p)
    then have p: "p \<in> set enis" "isPrimary p" by (auto dest: filter_singletonD)
    with p0 have c0: "eniCardIndex p = 0" by (auto simp: primaryOnCard0_def list_all_iff)
    have "0 \<in> set (openCards e enis Q K)" using convert by (intro openCards_zero)
    then have len: "int (length (openCards e enis Q K)) = int (length (remove1 0 (openCards e enis Q K))) + 1"
      by (simp add: length_remove1) (metis length_pos_if_in_set Suc_pred of_nat_Suc add.commute)
    have "eniQueuePair p per \<le> per + ?rest per"
    proof (cases "isEri p")
      case True
      with convert c0 p(1) have "\<not> OwnENI e p" using ownedERIs_complete by metis
      with True p(1) have "eniQueuePair p per \<le> ?rest per"
        using pos by (intro member_le_sum_list_int) auto
      with convert show ?thesis by simp
    next
      case False
      with queuePairsReported_other [OF q p(1)] rest [of per] show ?thesis by simp
    qed
    with ownedERIs_QP [OF q, of per e] share_le [OF convert(2,1)] show ?case
      by (simp add: len algebra_simps)
  qed
qed

section \<open>When the selection succeeds\<close>

text \<open>What the service returns: identifying fields on every interface, at most one primary.\<close>

definition enisOk :: "NetworkInterface list \<Rightarrow> bool" where
  "enisOk enis \<longleftrightarrow> list_all eniOk enis \<and>
     list_all (\<lambda>x. isEri x \<longrightarrow> ni_QueuePairNumber x \<noteq> None) enis \<and> length (filter isPrimary enis) \<le> 1"

lemma SelectEriFromExist_run:
  assumes ok: "enisOk enis"
  obtains cm where "fst ` set cm = cardsOf (ownedERIs e enis)"
    and "SelectEriFromExist e enis Q K =
      bindR (assignCards enis (Q - usedQP enis) cm (ownedERIs e enis) (openCards e enis Q K))
        (\<lambda>(selected, need, per). bindR (mapR (\<lambda>item. toEri item per) selected) (\<lambda>eriList.
          if eriList = [] \<and> need = [] then Err noSlotErr else Ok (eriList, need, per)))"
proof -
  have eok: "\<And>x. x \<in> set enis \<Longrightarrow> eniOk x" using ok by (auto simp: enisOk_def list_all_iff)
  let ?E = "filter isEri enis"
  have q: "mapR (\<lambda>item. deref (ni_QueuePairNumber item)) ?E = Ok (map (\<lambda>x. the (ni_QueuePairNumber x)) ?E)"
    using ok by (auto simp: mapR_deref_Ok_iff enisOk_def list_all_iff)
  obtain rs where log: "mapR (\<lambda>i. toEri i 0) ?E = Ok rs"
    using mapR_toEri_total [of ?E 0] eok by auto
  obtain cm sel where own: "selectOwned e ?E [] [] = Ok (cm, sel)"
    using selectOwned_total [of ?E e "[]" "[]"] eok by auto
  note o = selectOwned_owned [OF own]
  have used: "sum_list (map sint (map (\<lambda>x. the (ni_QueuePairNumber x)) ?E)) = usedQP enis"
    by (simp add: usedQP_def comp_def)
  have "SelectEriFromExist e enis Q K =
      bindR (assignCards enis (Q - usedQP enis) cm (ownedERIs e enis) (openCards e enis Q K))
        (\<lambda>(selected, need, per). bindR (mapR (\<lambda>item. toEri item per) selected) (\<lambda>eriList.
          if eriList = [] \<and> need = [] then Err noSlotErr else Ok (eriList, need, per)))"
    unfolding SelectEriFromExist_def Let_def q bindR.simps used log own prod.case
    by (simp add: o freeCards_openCards)
  with o(2) that show thesis by blast
qed

lemma assignCards_total:
  assumes ok: "enisOk enis" and cm: "fst ` set cm = cardsOf (ownedERIs e enis)"
  shows "assignCards enis (Q - usedQP enis) cm (ownedERIs e enis) (openCards e enis Q K) = Err noPrimaryErr \<or>
    (\<exists>sel need per. assignCards enis (Q - usedQP enis) cm (ownedERIs e enis) (openCards e enis Q K) = Ok (sel, need, per))"
proof (cases "openCards e enis Q K \<noteq> [] \<and> map_of cm 0 = None")
  case True
  then have zero: "0 \<in> set (openCards e enis Q K)"
    by (intro openCards_zero) (auto simp: map_of_eq_None_iff cm)
  have "\<exists>y. usePrimary per enis cm (ownedERIs e enis) (openCards e enis Q K) = Ok y" for per
    using ok zero by (intro usePrimary_total) (auto simp: enisOk_def list_all_iff)
  then obtain cm' sel' need' where
    "usePrimary ((Q - usedQP enis) sdiv int (length (openCards e enis Q K))) enis cm (ownedERIs e enis)
      (openCards e enis Q K) = Ok (cm', sel', need')" by (metis prod_cases3)
  with True show ?thesis by (auto simp: assignCards_def Let_def)
qed (auto simp: assignCards_def Let_def)

section \<open>Properties of the selection\<close>

text \<open>
  A three-card instance with 8 queue pairs, a primary interface in standard mode and an ERI
  on card 1: the primary interface is converted with 3 queue pairs, and an interface with 3
  more is to be created on card 2.
\<close>

definition exClient :: EriClient where
  "exClient = \<lparr> regionID = ''cn-hangzhou'', ManagedNonOwned = True \<rparr>"

definition exPrimary :: NetworkInterface where
  "exPrimary = \<lparr> ni_NetworkInterfaceId = Some ''eni-1'', ni_Type = Some ''Primary'',
     ni_MacAddress = Some ''00:16:3e:00:00:00'', ni_Status = Some ''InUse'',
     ni_NetworkInterfaceTrafficMode = Some ''Standard'', ni_QueuePairNumber = Some 0,
     ni_InstanceId = Some ''i-1'', ni_Attachment = Some (Some 0), ni_Tags = None \<rparr>"

definition exSecondary :: NetworkInterface where
  "exSecondary = \<lparr> ni_NetworkInterfaceId = Some ''eni-2'', ni_Type = Some ''Secondary'',
     ni_MacAddress = Some ''00:16:3e:00:00:01'', ni_Status = Some ''InUse'',
     ni_NetworkInterfaceTrafficMode = Some ''HighPerformance'', ni_QueuePairNumber = Some 2,
     ni_InstanceId = Some ''i-1'', ni_Attachment = Some (Some 1), ni_Tags = None \<rparr>"

definition exSelected :: "ERI list" where
  "exSelected =
     [\<lparr> eri_ID = ''eni-2'', eri_IsPrimaryENI = False, eri_MAC = ''00:16:3e:00:00:01'',
        eri_InstanceID = ''i-1'', eri_CardIndex = 1, eri_QueuePair = 2, eri_JumboFrame = False,
        eri_JumboFrameMTU = 0 \<rparr>,
      \<lparr> eri_ID = ''eni-1'', eri_IsPrimaryENI = True, eri_MAC = ''00:16:3e:00:00:00'',
        eri_InstanceID = ''i-1'', eri_CardIndex = 0, eri_QueuePair = 3, eri_JumboFrame = False,
        eri_JumboFrameMTU = 0 \<rparr>]"

lemma ex_select: "SelectEriFromExist exClient [exPrimary, exSecondary] 8 3 = Ok (exSelected, [2], 3)"
  by code_simp
lemma ex_enis: "enisOk [exPrimary, exSecondary]" "primaryOnCard0 [exPrimary, exSecondary]" "queuePairsReported [exPrimary, exSecondary]"
  by (simp_all add: enisOk_def eniOk_def primaryOnCard0_def queuePairsReported_def exPrimary_def exSecondary_def isEri_def isPrimary_def trafficModeRDMA_def eniCardIndex_def)

text \<open>
  C1: The selection never puts two interfaces on one network card: the card indices of the
  selected ERIs and the cards on which an interface is still to be created are all
  different, and the latter are cards the instance has, in ascending order. The service
  attaches the primary interface to card 0.
\<close>

theorem select_cards_once:
  assumes "SelectEriFromExist e enis queuePairs cards = Ok (eris, need, per)" and "primaryOnCard0 enis"
  shows "distinct (map eri_CardIndex eris @ need) \<and> set need \<subseteq> {0..<cards} \<and> sorted need"
proof -
  from assms(1) obtain sel where plan: "cardPlan e enis queuePairs cards sel need per"
    and eris: "mapR (\<lambda>i. toEri i per) sel = Ok eris" by (rule SelectEriFromExist_plan)
  show ?thesis
    using cardPlan_distinct [OF plan assms(2)] by (simp add: mapR_toEri_fields(1) [OF eris])
qed

theorem select_cards_once_witness:
  "distinct (map eri_CardIndex exSelected @ [2]) \<and> set [2] \<subseteq> {0..<(3::int)} \<and> sorted [2::int]"
  using select_cards_once [OF ex_select ex_enis(2)] .

text \<open>
  C8: As long as there are queue pairs to hand out, every card of the instance ends up with
  an ERI, an existing or converted one or one that is to be created.
\<close>

theorem select_no_card_forgotten:
  assumes "SelectEriFromExist e enis queuePairs cards = Ok (eris, need, per)" and "primaryOnCard0 enis"
    and "0 < per"
  shows "{0..<cards} \<subseteq> set (map eri_CardIndex eris) \<union> set need"
proof -
  from assms(1) obtain sel where plan: "cardPlan e enis queuePairs cards sel need per"
    and eris: "mapR (\<lambda>i. toEri i per) sel = Ok eris" by (rule SelectEriFromExist_plan)
  show ?thesis
    using cardPlan_complete [OF plan assms(2,3)] mapR_toEri_fields(1) [OF eris]
    by (metis cardsOf_def set_map)
qed

theorem select_no_card_forgotten_witness:
  "{0..<(3::int)} \<subseteq> set (map eri_CardIndex exSelected) \<union> set [2]"
  by (rule select_no_card_forgotten [OF ex_select ex_enis(2)]) simp

text \<open>
  C7: The queue pairs of the selected ERIs and of those still to be created, together, stay
  within the instance's limit, or within what its existing ERIs use already when that is
  more. The service reports queue pairs for interfaces in RDMA mode and only for those.
\<close>

theorem select_within_budget:
  assumes "SelectEriFromExist e enis queuePairs cards = Ok (eris, need, per)" and "primaryOnCard0 enis"
    and "queuePairsReported enis"
  shows "sum_list (map eri_QueuePair eris) + per * int (length need) \<le> max (usedQP enis) queuePairs"
proof -
  from assms(1) obtain sel where plan: "cardPlan e enis queuePairs cards sel need per"
    and eris: "mapR (\<lambda>i. toEri i per) sel = Ok eris" by (rule SelectEriFromExist_plan)
  show ?thesis
    using cardPlan_budget [OF plan assms(2,3)] by (simp add: mapR_toEri_fields(2) [OF eris])
qed

theorem select_within_budget_witness:
  "sum_list (map eri_QueuePair exSelected) + 3 * int (length [2::int]) \<le> max (usedQP [exPrimary, exSecondary]) 8"
  by (rule select_within_budget [OF ex_select ex_enis(2,3)])

text \<open>
  Every selected ERI is either the primary interface of the instance or an existing RDMA
  interface that the client owns (one with the creator tag, unless it manages all).
\<close>

theorem select_only_owned:
  assumes "SelectEriFromExist e enis queuePairs cards = Ok (eris, need, per)" and "r \<in> set eris"
  shows "eri_IsPrimaryENI r \<or> (\<exists>x\<in>set enis. ni_NetworkInterfaceId x = Some (eri_ID r) \<and> isEri x \<and> OwnENI e x)"
proof -
  from assms(1) obtain sel where plan: "cardPlan e enis queuePairs cards sel need per"
    and eris: "mapR (\<lambda>i. toEri i per) sel = Ok eris" by (rule SelectEriFromExist_plan)
  from eris assms(2) obtain x where x: "x \<in> set sel" "toEri x per = Ok r"
    by (blast dest: mapR_OkD)
  from plan x(1) have "isPrimary x \<or> x \<in> set (ownedERIs e enis)"
    by (cases rule: cardPlan.cases) (auto dest: filter_singletonD)
  then show ?thesis using toEri_fields [OF x(2)] ownedERIs_sub by blast
qed

theorem select_only_owned_witness:
  "hd exSelected \<in> set exSelected \<and> (eri_IsPrimaryENI (hd exSelected) \<or>
    (\<exists>x\<in>set [exPrimary, exSecondary]. ni_NetworkInterfaceId x = Some (eri_ID (hd exSelected)) \<and>
      isEri x \<and> OwnENI exClient x))"
proof -
  have "hd exSelected \<in> set exSelected" by (simp add: exSelected_def)
  with select_only_owned [OF ex_select this] show ?thesis by blast
qed

lemma openCards_unowned:
  "ownedERIs e enis = [] \<Longrightarrow> openCards e enis Q K = (if usedQP enis \<le> Q then [0..K - 1] else [])"
  by (simp add: openCards_def cardsOf_def)

lemma assignCards_Err:
  assumes "assignCards enis slack cm sel need = Err x" and "distinct need"
  shows "cm = [] \<and> filter isPrimary enis = []"
proof (cases "map_of cm 0 = None")
  case True
  with assms(1) obtain cm' sel' need' where
    "usePrimary (slack sdiv int (length need)) enis cm sel need = Ok (cm', sel', need')" and "cm' = []"
    by (auto simp: assignCards_def Let_def bindR_Err_iff split: if_splits prod.splits)
  with usePrimary_spec [OF this(1) assms(2)] show ?thesis by auto
next
  case False
  with assms(1) show ?thesis
    by (auto simp: assignCards_def Let_def split: if_splits)
qed

lemma cardPlan_eniOk:
  assumes "enisOk enis" and "cardPlan e enis Q K sel need per"
  shows "\<exists>eris. mapR (\<lambda>i. toEri i per) sel = Ok eris \<and> (eris = [] \<longleftrightarrow> sel = [])"
proof -
  from assms(2) have "set sel \<subseteq> set enis"
    by (cases rule: cardPlan.cases) (auto dest: ownedERIs_sub filter_singletonD)
  then obtain eris where "mapR (\<lambda>i. toEri i per) sel = Ok eris"
    using mapR_toEri_total [of sel per] assms(1) by (auto simp: enisOk_def list_all_iff)
  with mapR_Ok_length [OF this] show ?thesis by auto
qed

lemma select_ok_of_plan:
  assumes ok: "enisOk enis" and ne: "ownedERIs e enis \<noteq> [] \<or> filter isPrimary enis \<noteq> []"
    and sel: "\<And>sel need per. cardPlan e enis Q K sel need per \<Longrightarrow> sel \<noteq> []"
  shows "\<exists>r. SelectEriFromExist e enis Q K = Ok r"
proof -
  from SelectEriFromExist_run [OF ok, of e Q K] obtain cm where cm: "fst ` set cm = cardsOf (ownedERIs e enis)"
    and run: "SelectEriFromExist e enis Q K =
      bindR (assignCards enis (Q - usedQP enis) cm (ownedERIs e enis) (openCards e enis Q K))
        (\<lambda>(selected, need, per). bindR (mapR (\<lambda>item. toEri item per) selected) (\<lambda>eriList.
          if eriList = [] \<and> need = [] then Err noSlotErr else Ok (eriList, need, per)))" by blast
  from cm ne have "cm \<noteq> [] \<or> filter isPrimary enis \<noteq> []" by (auto simp: cardsOf_def)
  with assignCards_total [OF ok cm, of Q K] obtain sel need per where
    asg: "assignCards enis (Q - usedQP enis) cm (ownedERIs e enis) (openCards e enis Q K) = Ok (sel, need, per)"
    using assignCards_Err [OF _ openCards_props(1)] by blast
  from assignCards_plan [OF asg cm] have plan: "cardPlan e enis Q K sel need per" .
  with cardPlan_eniOk [OF ok plan] sel [OF plan] show ?thesis
    by (auto simp: run asg)
qed



end
