(* ===== verification/Ecs_Example.thy ===== *)
theory Ecs_Example
  imports Eri_Select
begin

text \<open>
  A concrete ECS service for the witnesses: its state is the list of network interfaces, a
  call does what the service's documentation says of it for the fields the model has. Its
  one instance \<open>i-1\<close> is of a type with the given numbers of cards and queue pairs.
\<close>

section \<open>A small cloud\<close>

definition eniMatches :: "DescribeNetworkInterfacesRequest \<Rightarrow> NetworkInterface \<Rightarrow> bool" where
  "eniMatches req eni \<longleftrightarrow>
     (case dni_InstanceId req of None \<Rightarrow> True | Some i \<Rightarrow> ni_InstanceId eni = Some i) \<and>
     (dni_NetworkInterfaceId req = [] \<or>
        list_ex (\<lambda>i. ni_NetworkInterfaceId eni = Some i) (dni_NetworkInterfaceId req)) \<and>
     list_all (\<lambda>(k, v). list_ex (\<lambda>t. TagKey t = Some k \<and> TagValue t = v)
        (case ni_Tags eni of None \<Rightarrow> [] | Some ts \<Rightarrow> ts)) (dni_Tag req)"

definition exInstance :: Instance where
  "exInstance = \<lparr> inst_InstanceId = Some ''i-1'', inst_InstanceType = Some ''ecs.t'',
     inst_SecurityGroupIds = [''sg-1''], inst_VSwitchId = Some ''vsw-1'' \<rparr>"

definition exCloud :: "int32 \<Rightarrow> int32 \<Rightarrow> NetworkInterface list ecs" where
  "exCloud cards qps =
     \<lparr> DescribeInstances = (\<lambda>req w. (Ok \<lparr> dir_TotalCount = Some 1,
         dir_Instances = [exInstance] \<rparr>, w)),
       DescribeInstanceTypes = (\<lambda>req w. (Ok [\<lparr> it_InstanceTypeId = Some ''ecs.t'',
         it_EriQuantity = Some cards, it_NetworkCardQuantity = Some cards,
         it_QueuePairNumber = Some qps, it_GPUAmount = None \<rparr>], w)),
       DescribeNetworkInterfaces = (\<lambda>req w. (Ok \<lparr> dni_StatusCode = Some 200,
         dni_NetworkInterfaceSet = filter (eniMatches req) w \<rparr>, w)),
       CreateNetworkInterface = (\<lambda>req w. (Ok \<lparr> cni_NetworkInterfaceId = Some (''eni-'' @ cni_NetworkInterfaceName req),
         cni_MacAddress = Some ''00:16:3e:00:00:0a'' \<rparr>,
         w @ [\<lparr> ni_NetworkInterfaceId = Some (''eni-'' @ cni_NetworkInterfaceName req),
           ni_Type = Some ''Secondary'', ni_MacAddress = Some ''00:16:3e:00:00:0a'',
           ni_Status = Some ''Available'', ni_NetworkInterfaceTrafficMode = Some (cni_TrafficMode req),
           ni_QueuePairNumber = Some (cni_QueuePairNumber req), ni_InstanceId = None,
           ni_Attachment = None, ni_Tags = Some (map (\<lambda>(k, v). \<lparr> TagKey = Some k, TagValue = v \<rparr>) (cni_Tag req)) \<rparr>])),
       ModifyNetworkInterfaceAttribute = (\<lambda>req w. (Ok (), map (\<lambda>x.
         if ni_NetworkInterfaceId x = Some (mni_NetworkInterfaceId req)
         then x\<lparr> ni_NetworkInterfaceTrafficMode := Some (mni_TrafficMode req),
                ni_QueuePairNumber := Some (mni_QueuePairNumber req) \<rparr> else x) w)),
       TagResources = (\<lambda>req w. (Ok (), map (\<lambda>x.
         if list_ex (\<lambda>i. ni_NetworkInterfaceId x = Some i) (tr_ResourceId req)
         then x\<lparr> ni_Tags := Some ((case ni_Tags x of None \<Rightarrow> [] | Some ts \<Rightarrow> ts) @
                map (\<lambda>(k, v). \<lparr> TagKey = Some k, TagValue = Some v \<rparr>) (tr_Tag req)) \<rparr> else x) w)),
       AttachNetworkInterface = (\<lambda>req w. (Ok (), map (\<lambda>x.
         if ni_NetworkInterfaceId x = Some (ani_NetworkInterfaceId req)
         then x\<lparr> ni_Status := Some ''InUse'', ni_InstanceId := Some (ani_InstanceId req),
                ni_Attachment := Some (ani_NetworkCardIndex req) \<rparr> else x) w)),
       DescribeInstanceAttribute = (\<lambda>i w. (Ok (Some True), w)) \<rparr>"

definition exOwned :: NetworkInterface where
  "exOwned = exSecondary\<lparr> ni_NetworkInterfaceId := Some ''eni-3'', ni_QueuePairNumber := Some 4,
     ni_Attachment := Some (Some 0),
     ni_Tags := Some [\<lparr> TagKey = Some ''creator'', TagValue = Some ''alibabacloud-erdma-controller'' \<rparr>,
                      \<lparr> TagKey = Some ''instance-id'', TagValue = Some ''i-1'' \<rparr>] \<rparr>"

text \<open>
  A service over any world that always reports the same interfaces of the instance, whose
  type has three cards and eight queue pairs.
\<close>

definition exFixed :: "NetworkInterface list \<Rightarrow> 'w ecs" where
  "exFixed enis =
     \<lparr> DescribeInstances = (\<lambda>req w. (Ok \<lparr> dir_TotalCount = Some 1, dir_Instances = [exInstance] \<rparr>, w)),
       DescribeInstanceTypes = (\<lambda>req w. (Ok [\<lparr> it_InstanceTypeId = Some ''ecs.t'',
         it_EriQuantity = Some 3, it_NetworkCardQuantity = Some 3,
         it_QueuePairNumber = Some 8, it_GPUAmount = None \<rparr>], w)),
       DescribeNetworkInterfaces = (\<lambda>req w. (Ok \<lparr> dni_StatusCode = Some 200,
         dni_NetworkInterfaceSet = filter (eniMatches req) enis \<rparr>, w)),
       CreateNetworkInterface = (\<lambda>req w. (Ok \<lparr> cni_NetworkInterfaceId = Some (''eni-'' @ cni_NetworkInterfaceName req),
         cni_MacAddress = Some ''00:16:3e:00:00:0a'' \<rparr>, w)),
       ModifyNetworkInterfaceAttribute = (\<lambda>req w. (Ok (), w)),
       TagResources = (\<lambda>req w. (Ok (), w)),
       AttachNetworkInterface = (\<lambda>req w. (Ok (), w)),
       DescribeInstanceAttribute = (\<lambda>i w. (Ok (Some True), w)) \<rparr>"

end
