(* ===== verification/K8s_Api.thy ===== *)
theory K8s_Api
  imports Erdma_Types
begin

text \<open>
  The Kubernetes API as the controllers use it: the fields of a node they read, and the
  controller-runtime client as a record of operations, a parameter of the definitions that
  call it. Times are nanoseconds since Go's zero time, so the zero time is 0; durations are
  nanoseconds. A \<open>*metav1.Time\<close> is an \<open>int option\<close>.
\<close>

record NodeAddress =
  addr_Type :: string
  addr_Address :: string

record NodeCondition =
  cond_Type :: string
  cond_Status :: string

record Node =
  node_Name :: string
  node_UID :: string
  node_APIVersion :: string
  node_Kind :: string
  node_Labels :: labels
  node_DeletionTimestamp :: "int option"
  node_CreationTimestamp :: int
  node_ProviderID :: string
  node_Addresses :: "NodeAddress list"
  node_Conditions :: "NodeCondition list"

definition IsZero :: "int option \<Rightarrow> bool" where
  "IsZero t = (case t of None \<Rightarrow> True | Some x \<Rightarrow> x = 0)"

definition Second :: int where "Second = 1000000000"

text \<open>
  The client. Listing takes the label the objects must carry; \<open>CreateOrPatch\<close> is
  \<open>controllerutil.CreateOrPatch\<close> on the named object with the metadata to set;
  \<open>Now\<close> is \<open>time.Now()\<close>.
\<close>

record 'w k8s =
  GetNode :: "string \<Rightarrow> ('w, Node) act"
  ListERdmaDevices :: "string \<times> string \<Rightarrow> ('w, ERdmaDevice list) act"
  GetERdmaDevice :: "string \<Rightarrow> ('w, ERdmaDevice) act"
  CreateERdmaDevice :: "ERdmaDevice \<Rightarrow> ('w, unit) act"
  CreateOrPatch :: "ERdmaDevice \<Rightarrow> ('w, unit) act"
  DeleteERdmaDevice :: "ERdmaDevice \<Rightarrow> ('w, unit) act"
  UpdateStatus :: "ERdmaDevice \<Rightarrow> ('w, unit) act"
  Now :: "'w \<Rightarrow> int"

text \<open>\<open>errors.IsNotFound\<close> and \<open>errors.IsAlreadyExists\<close> look through errors wrapped by \<open>%w\<close>.\<close>

fun IsNotFound :: "goerror \<Rightarrow> bool" where
  "IsNotFound (NotFound m) = True"
| "IsNotFound (Wrapf f as err) = (Contains f ''%w'' \<and> IsNotFound err)"
| "IsNotFound err = False"

fun IsAlreadyExists :: "goerror \<Rightarrow> bool" where
  "IsAlreadyExists (AlreadyExists m) = True"
| "IsAlreadyExists (Wrapf f as err) = (Contains f ''%w'' \<and> IsAlreadyExists err)"
| "IsAlreadyExists err = False"

text \<open>\<open>ctrl.Result\<close>.\<close>

record Result =
  Requeue :: bool
  RequeueAfter :: int

definition noResult :: Result where
  "noResult = \<lparr> Requeue = False, RequeueAfter = 0 \<rparr>"

end
