(* ===== verification/Eri_Client.thy ===== *)
theory Eri_Client
  imports Ecs_Example K8s_Api
begin

text \<open>
  The operations of \<open>EriClient\<close> (internal/controller/eri.go) that call the ECS service:
  finding the instance of a node, selecting and creating its ERIs, tagging, converting the
  primary interface, attaching, and the jumbo frame query. Every call of the source is a
  call of the parameter \<open>api\<close>, in the source's order.
\<close>

section \<open>Operations\<close>

definition quote1 :: "string \<Rightarrow> string" where
  "quote1 s = [CHR ''['', CHR 0x22] @ s @ [CHR 0x22, CHR '']'']"

definition firstInstanceId :: "DescribeInstancesResponse \<Rightarrow> string res" where
  "firstInstanceId resp = bindR (index (dir_Instances resp) 0) (\<lambda>i. deref (inst_InstanceId i))"

definition providerInstanceID :: "Node \<Rightarrow> string" where
  "providerInstanceID node =
     (if node_ProviderID node \<noteq> [] then
        (let providerIDs = Split (CHR ''.'') (node_ProviderID node) in
         if length providerIDs = 2 then providerIDs ! 1 else [])
      else [])"

definition instanceFromInternalIP :: "'w ecs \<Rightarrow> EriClient \<Rightarrow> Node \<Rightarrow> ('w, string) act" where
  "instanceFromInternalIP api e node =
     (case find (\<lambda>a. addr_Type a = ''InternalIP'') (node_Addresses node) of
        None \<Rightarrow> failA (Errorf ''cannot found instance from node internal ip'' [])
      | Some internalIP \<Rightarrow>
          tryA (DescribeInstances api \<lparr> dir_RegionId = regionID e, dir_InstanceIds = None,
                  dir_PrivateIpAddresses = Some (quote1 (addr_Address internalIP)) \<rparr>)
            (\<lambda>resp. bindA (liftR (deref (dir_TotalCount resp))) (\<lambda>n.
               if n = 0 then failA (Errorf ''cannot found instance from node internal ip %s'' [addr_Address internalIP])
               else if 1 < sint n then
                 failA (Errorf ''found multiple instance from node internal ip %s'' [addr_Address internalIP])
               else liftR (firstInstanceId resp)))
            (\<lambda>err. failA (Wrapf ''cannot found instance %s, %s'' [addr_Address internalIP] err)))"

definition InstanceIDFromNode :: "'w ecs \<Rightarrow> EriClient \<Rightarrow> Node \<Rightarrow> ('w, string) act" where
  "InstanceIDFromNode api e node =
     (let instanceID = providerInstanceID node in
      if instanceID \<noteq> [] then
        tryA (DescribeInstances api \<lparr> dir_RegionId = regionID e,
                dir_InstanceIds = Some (quote1 instanceID), dir_PrivateIpAddresses = None \<rparr>)
          (\<lambda>resp. bindA (liftR (deref (dir_TotalCount resp))) (\<lambda>n.
             if n = 0 then instanceFromInternalIP api e node else liftR (firstInstanceId resp)))
          (\<lambda>err. failA (Wrapf ''cannot found instance %s, %s'' [instanceID] err))
      else instanceFromInternalIP api e node)"

text \<open>The ENIs that carry the creator and instance tags already are used first.\<close>

fun reuseEris :: "Instance \<Rightarrow> int \<Rightarrow> NetworkInterface list \<Rightarrow> int list \<Rightarrow> (ERI list \<times> int list) res" where
  "reuseEris instanceInfo queuePair [] cardIndex = Ok ([], cardIndex)"
| "reuseEris instanceInfo queuePair (eni # enis) [] = reuseEris instanceInfo queuePair enis []"
| "reuseEris instanceInfo queuePair (eni # enis) (idx # idxs) =
     bindR (toEri eni queuePair) (\<lambda>eri.
     bindR (deref (inst_InstanceId instanceInfo)) (\<lambda>iid.
     bindR (reuseEris instanceInfo queuePair enis idxs) (\<lambda>(eris, rest).
       Ok (eri\<lparr> eri_InstanceID := iid, eri_CardIndex := idx \<rparr> # eris, rest))))"

definition createRequest :: "EriClient \<Rightarrow> Instance \<Rightarrow> int \<Rightarrow> string \<Rightarrow> int \<Rightarrow> CreateNetworkInterfaceRequest" where
  "createRequest e instanceInfo queuePair iid idx =
     \<lparr> cni_NetworkInterfaceName = Sprintf ''eri-%s-%d'' [iid, Itoa idx],
       cni_TrafficMode = trafficModeRDMA, cni_QueuePairNumber = word_of_int queuePair,
       cni_RegionId = regionID e, cni_SecurityGroupIds = inst_SecurityGroupIds instanceInfo,
       cni_Tag = [(eriTagCreatorKey, Some eriTagCreatorValue),
                  (eriTagInstanceIdKey, inst_InstanceId instanceInfo),
                  (eriTagExcludedKey, Some eriTagExcludedValue)],
       cni_VSwitchId = inst_VSwitchId instanceInfo \<rparr>"

fun createEris :: "'w ecs \<Rightarrow> EriClient \<Rightarrow> Instance \<Rightarrow> int \<Rightarrow> int list \<Rightarrow> ('w, ERI list) act" where
  "createEris api e instanceInfo queuePair [] = retA []"
| "createEris api e instanceInfo queuePair (idx # idxs) =
     bindA (liftR (deref (inst_InstanceId instanceInfo))) (\<lambda>iid.
     bindA (CreateNetworkInterface api (createRequest e instanceInfo queuePair iid idx)) (\<lambda>eriResp.
     bindA (liftR (deref (cni_NetworkInterfaceId eriResp))) (\<lambda>nid.
     bindA (liftR (deref (cni_MacAddress eriResp))) (\<lambda>mac.
     bindA (createEris api e instanceInfo queuePair idxs) (\<lambda>eris.
       retA (\<lparr> eri_ID = nid, eri_IsPrimaryENI = False, eri_MAC = mac, eri_InstanceID = iid,
               eri_CardIndex = idx, eri_QueuePair = 0, eri_JumboFrame = False,
               eri_JumboFrameMTU = 0 \<rparr> # eris))))))"

text \<open>
  The message for a status other than 200 prints the pointer \<open>resp.StatusCode\<close> with \<open>%d\<close>, an address; the
  model prints the code.
\<close>

definition CreateEriForInstance :: "'w ecs \<Rightarrow> EriClient \<Rightarrow> Instance \<Rightarrow> int list \<Rightarrow> int \<Rightarrow> ('w, ERI list) act" where
  "CreateEriForInstance api e instanceInfo cardIndex queuePair =
     bindA (DescribeNetworkInterfaces api
              \<lparr> dni_RegionId = regionID e,
                dni_Tag = [(eriTagCreatorKey, Some eriTagCreatorValue),
                           (eriTagInstanceIdKey, inst_InstanceId instanceInfo)],
                dni_InstanceId = None, dni_NetworkInterfaceId = [], dni_PageSize = 100 \<rparr>) (\<lambda>resp.
     bindA (liftR (deref (dni_StatusCode resp))) (\<lambda>code.
     if code \<noteq> 200 then
       failA (Errorf ''describe network interface failed, status code: %d'' [Itoa (sint code)])
     else
       bindA (liftR (reuseEris instanceInfo queuePair (dni_NetworkInterfaceSet resp) cardIndex)) (\<lambda>(reused, rest).
       bindA (createEris api e instanceInfo queuePair rest) (\<lambda>created.
         retA (reused @ created)))))"

definition eriTags :: "string \<Rightarrow> (string \<times> string) list" where
  "eriTags instanceID = (eriTagExcludedKey, eriTagExcludedValue) #
     (if instanceID \<noteq> [] then [(eriTagInstanceIdKey, instanceID)] else [])"

definition EnsureEriTags :: "'w ecs \<Rightarrow> EriClient \<Rightarrow> string list \<Rightarrow> string \<Rightarrow> ('w, unit) act" where
  "EnsureEriTags api e eniIDs instanceID =
     (if eniIDs = [] then retA ()
      else tryA (TagResources api \<lparr> tr_RegionId = regionID e, tr_ResourceType = eniResourceType,
                   tr_ResourceId = eniIDs, tr_Tag = eriTags instanceID \<rparr>)
             (\<lambda>_. retA ())
             (\<lambda>err. failA (Wrapf ''tag ERI resources %v: %w'' [Join '' '' eniIDs] err)))"

definition ConvertPrimaryENI :: "'w ecs \<Rightarrow> EriClient \<Rightarrow> string \<Rightarrow> string \<Rightarrow> int \<Rightarrow> ('w, unit) act" where
  "ConvertPrimaryENI api e primaryENI instanceID queuePair =
     bindA (ModifyNetworkInterfaceAttribute api
              \<lparr> mni_RegionId = regionID e, mni_NetworkInterfaceId = primaryENI,
                mni_TrafficMode = trafficModeRDMA, mni_QueuePairNumber = word_of_int queuePair \<rparr>) (\<lambda>_.
     tryA (EnsureEriTags api e [primaryENI] instanceID) (\<lambda>_. retA ()) (\<lambda>err. retA ()))"

text \<open>
  The loop over the instance types: \<open>None\<close> for the early \<open>return nil, nil\<close>, otherwise the
  card count and the queue pair count, the last type's winning. The product for GPU
  instances is an \<open>int32\<close> product.
\<close>

definition cardCountOf :: "InstanceType \<Rightarrow> int32 \<Rightarrow> int" where
  "cardCountOf ty eriQuantity =
     (case it_NetworkCardQuantity ty of
        None \<Rightarrow> 1
      | Some n \<Rightarrow> if sint n < 2 then 1 else min (sint n) (sint eriQuantity))"

definition queuePairsOf :: "InstanceType \<Rightarrow> int32 \<Rightarrow> int \<Rightarrow> int" where
  "queuePairsOf ty qp cardCount =
     (case it_GPUAmount ty of
        None \<Rightarrow> sint qp
      | Some g \<Rightarrow> if 0 < sint g then sint (qp * word_of_int cardCount) else sint qp)"

fun scanTypes :: "string option \<Rightarrow> InstanceType list \<Rightarrow> int \<Rightarrow> int \<Rightarrow> (int \<times> int) option res" where
  "scanTypes want [] cardCount queuePairCount = Ok (Some (cardCount, queuePairCount))"
| "scanTypes want (ty # tys) cardCount queuePairCount =
     (case it_EriQuantity ty of
        None \<Rightarrow> Ok None
      | Some eriQuantity \<Rightarrow>
          bindR (deref (it_InstanceTypeId ty)) (\<lambda>tid.
          bindR (deref want) (\<lambda>w.
          if tid = w \<and> eriQuantity = 0 then Ok None
          else bindR (deref (it_QueuePairNumber ty)) (\<lambda>qp.
            let cc = cardCountOf ty eriQuantity in
            scanTypes want tys cc (queuePairsOf ty qp cc)))))"

text \<open>\<open>SelectERIs\<close>: \<open>None\<close> is the nil slice, an instance without ERI support.\<close>

definition SelectERIs :: "'w ecs \<Rightarrow> EriClient \<Rightarrow> string \<Rightarrow> ('w, ERI list option) act" where
  "SelectERIs api e instanceID =
     tryA (DescribeInstances api \<lparr> dir_RegionId = regionID e,
             dir_InstanceIds = Some (quote1 instanceID), dir_PrivateIpAddresses = None \<rparr>)
       (\<lambda>instanceResp.
     bindA (liftR (deref (dir_TotalCount instanceResp))) (\<lambda>total.
     if total = 0 then failA (Errorf ''cannot found instance %s'' [instanceID])
     else bindA (liftR (index (dir_Instances instanceResp) 0)) (\<lambda>inst.
     tryA (DescribeInstanceTypes api [inst_InstanceType inst])
       (\<lambda>types.
     bindA (liftR (scanTypes (inst_InstanceType inst) types 0 0)) (\<lambda>scan.
     case scan of None \<Rightarrow> retA None
     | Some (cardCount, queuePairCount) \<Rightarrow>
     tryA (DescribeNetworkInterfaces api
             \<lparr> dni_RegionId = regionID e, dni_Tag = [], dni_InstanceId = Some instanceID,
               dni_NetworkInterfaceId = [], dni_PageSize = 100 \<rparr>)
       (\<lambda>eniResp.
     (case SelectEriFromExist e (dni_NetworkInterfaceSet eniResp) queuePairCount cardCount of
        Panic p \<Rightarrow> liftR (Panic p)
      | Err err \<Rightarrow> failA (Wrapf ''cannot generate eri config list from exist enis: %v'' [] err)
      | Ok (selectEriList, needCreate, queuePairNumberConfig) \<Rightarrow>
     bindA (CreateEriForInstance api e inst needCreate queuePairNumberConfig) (\<lambda>eris.
     let selected = selectEriList @ eris in
     tryA (EnsureEriTags api e (map eri_ID selected) instanceID)
       (\<lambda>_. retA (Some selected)) (\<lambda>err. retA (Some selected)))))
       (\<lambda>err. failA (Wrapf ''cannot found node eni: %v'' [] err))))
       (\<lambda>err. bindA (liftR (deref (inst_InstanceType inst))) (\<lambda>ty.
          failA (Wrapf ''cannot found instance type %s, %s'' [ty] err))))))
       (\<lambda>err. failA (Wrapf ''cannot found instance %s, %s'' [instanceID] err))"

text \<open>One iteration of the loop of \<open>EnsureEriForInstance\<close>: the statuses it appends.\<close>

definition devStatusOf :: "string \<Rightarrow> string \<Rightarrow> string \<Rightarrow> DeviceStatus" where
  "devStatusOf i st msg = \<lparr> st_ID = i, st_Status = st, st_Message = msg \<rparr>"

definition attachDevice :: "'w ecs \<Rightarrow> EriClient \<Rightarrow> DeviceInfo \<Rightarrow> ('w, DeviceStatus list) act" where
  "attachDevice api e device =
     tryA (AttachNetworkInterface api
             \<lparr> ani_InstanceId = dev_InstanceID device, ani_NetworkInterfaceId = dev_ID device,
               ani_RegionId = regionID e,
               ani_NetworkCardIndex = (if dev_NetworkCardIndex device \<noteq> 0
                 then Some (word_of_int (dev_NetworkCardIndex device)) else None) \<rparr>)
       (\<lambda>_. retA [devStatusOf (dev_ID device) DeviceStatusPending []])
       (\<lambda>err. retA [devStatusOf (dev_ID device) DeviceStatusFailed (err_Error err)])"

definition convertDevice :: "'w ecs \<Rightarrow> EriClient \<Rightarrow> DeviceInfo \<Rightarrow> ('w, DeviceStatus list) act" where
  "convertDevice api e device =
     tryA (ConvertPrimaryENI api e (dev_ID device) (dev_InstanceID device) (dev_QueuePair device))
       (\<lambda>_. retA [devStatusOf (dev_ID device) DeviceStatusReady []])
       (\<lambda>err. retA [devStatusOf (dev_ID device) DeviceStatusFailed (err_Error err)])"

definition ensureDevice :: "'w ecs \<Rightarrow> EriClient \<Rightarrow> (string \<Rightarrow> NetworkInterface option) \<Rightarrow> DeviceInfo
    \<Rightarrow> ('w, DeviceStatus list) act" where
  "ensureDevice api e eniMap device =
     (case eniMap (dev_ID device) of
        None \<Rightarrow> failA (Errorf ''cannot found eni %s'' [dev_ID device])
      | Some eni \<Rightarrow>
     (case ni_Status eni of
        None \<Rightarrow> failA (Errorf ''cannot found eni %s status'' [dev_ID device])
      | Some st \<Rightarrow>
     bindA (if st = ENIStatusInUse then
              bindA (liftR (deref (ni_NetworkInterfaceTrafficMode eni))) (\<lambda>mode.
                retA (if mode = trafficModeRDMA
                      then [devStatusOf (dev_ID device) DeviceStatusReady []] else []))
            else retA []) (\<lambda>s1.
     bindA (if \<not> dev_IsPrimaryENI device \<and> st = ENIStatusAvailable
            then attachDevice api e device else retA []) (\<lambda>s2.
     bindA (if dev_IsPrimaryENI device \<and> st = ENIStatusInUse then
              bindA (liftR (deref (ni_NetworkInterfaceTrafficMode eni))) (\<lambda>mode.
                if mode \<noteq> trafficModeRDMA then convertDevice api e device else retA [])
            else retA []) (\<lambda>s3.
       retA (s1 @ s2 @ s3))))))"

fun ensureDevices :: "'w ecs \<Rightarrow> EriClient \<Rightarrow> (string \<Rightarrow> NetworkInterface option) \<Rightarrow> DeviceInfo list
    \<Rightarrow> ('w, DeviceStatus list) act" where
  "ensureDevices api e eniMap [] = retA []"
| "ensureDevices api e eniMap (device # devices) =
     bindA (ensureDevice api e eniMap device) (\<lambda>s.
     bindA (ensureDevices api e eniMap devices) (\<lambda>rest. retA (s @ rest)))"

text \<open>\<open>lo.SliceToMap\<close>: the last interface with an id wins.\<close>

definition eniMapOf :: "NetworkInterface list \<Rightarrow> (string \<Rightarrow> NetworkInterface option) res" where
  "eniMapOf enis =
     bindR (mapR (\<lambda>item. bindR (deref (ni_NetworkInterfaceId item)) (\<lambda>i. Ok (i, item))) enis)
       (\<lambda>kvs. Ok (map_of (rev kvs)))"

definition EnsureEriForInstance :: "'w ecs \<Rightarrow> EriClient \<Rightarrow> DeviceInfo list \<Rightarrow> ('w, DeviceStatus list) act" where
  "EnsureEriForInstance api e devices =
     bindA (DescribeNetworkInterfaces api
              \<lparr> dni_RegionId = regionID e, dni_Tag = [], dni_InstanceId = None,
                dni_NetworkInterfaceId = map dev_ID devices, dni_PageSize = 100 \<rparr>) (\<lambda>enis.
     bindA (liftR (eniMapOf (dni_NetworkInterfaceSet enis))) (\<lambda>eniMap.
       ensureDevices api e eniMap devices))"

definition jumboFrameFromAttr :: "bool option \<Rightarrow> bool" where
  "jumboFrameFromAttr enabled = (case enabled of None \<Rightarrow> False | Some b \<Rightarrow> b)"

definition IsJumboFrameEnabled :: "'w ecs \<Rightarrow> string \<Rightarrow> ('w, bool) act" where
  "IsJumboFrameEnabled api instanceID =
     tryA (DescribeInstanceAttribute api instanceID)
       (\<lambda>attr. retA (jumboFrameFromAttr attr))
       (\<lambda>err. failA (Wrapf ''cannot describe instance attribute %s: %s'' [instanceID] err))"

section \<open>Creation\<close>

lemma reuseEris_spec:
  assumes "reuseEris inst qp enis idxs = Ok (eris, rest)"
  shows "map eri_CardIndex eris @ rest = idxs"
    and "rest = drop (length enis) idxs"
    and "\<And>r. r \<in> set eris \<Longrightarrow> inst_InstanceId inst = Some (eri_InstanceID r)"
  using assms
proof (induction inst qp enis idxs arbitrary: eris rest rule: reuseEris.induct)
  case (3 inst qp eni enis idx idxs)
  { case 1 with 3 show ?case by (fastforce simp: bindR_Ok_iff) }
  { case 2 with 3 show ?case by (fastforce simp: bindR_Ok_iff) }
  { case 3 with "3.IH" show ?case by (fastforce simp: bindR_Ok_iff) }
qed auto

lemma createEris_spec:
  "createEris api e inst qp idxs w = (Ok eris, w') \<Longrightarrow> map eri_CardIndex eris = idxs \<and>
     (\<forall>r\<in>set eris. inst_InstanceId inst = Some (eri_InstanceID r) \<and> \<not> eri_IsPrimaryENI r)"
proof (induction idxs arbitrary: w eris)
  case (Cons idx idxs)
  from Cons.prems obtain iid r w1 xs where xs: "createEris api e inst qp idxs w1 = (Ok xs, w')"
    and r: "eris = r # xs" "eri_CardIndex r = idx" "inst_InstanceId inst = Some (eri_InstanceID r)"
      "\<not> eri_IsPrimaryENI r" by (fastforce elim!: bindA_OkE)
  from Cons.IH [OF xs] r show ?case by simp
qed simp

lemma CreateEri_spec:
  assumes "CreateEriForInstance api e inst idxs qp w = (Ok eris, w')"
  shows "map eri_CardIndex eris = idxs"
    and "\<And>r. r \<in> set eris \<Longrightarrow> inst_InstanceId inst = Some (eri_InstanceID r)"
proof -
  from assms obtain enis reused rest created w1 where
    re: "reuseEris inst qp enis idxs = Ok (reused, rest)"
    and cr: "createEris api e inst qp rest w1 = (Ok created, w')"
    and eris: "eris = reused @ created"
    by (auto simp: CreateEriForInstance_def elim!: bindA_OkE split: if_splits)
  from reuseEris_spec [OF re] createEris_spec [OF cr] eris
  show "map eri_CardIndex eris = idxs"
    and "\<And>r. r \<in> set eris \<Longrightarrow> inst_InstanceId inst = Some (eri_InstanceID r)" by auto
qed

section \<open>SelectERIs\<close>

lemma SelectERIs_OkE:
  assumes "SelectERIs api e iid w = (Ok (Some eris), w')"
  obtains inst tys cards qps enis sel need per created w1 w2 wa wb
  where "DescribeNetworkInterfaces api
          \<lparr> dni_RegionId = regionID e, dni_Tag = [], dni_InstanceId = Some iid,
            dni_NetworkInterfaceId = [], dni_PageSize = 100 \<rparr> wa = (Ok enis, wb)"
    and "scanTypes (inst_InstanceType inst) tys 0 0 = Ok (Some (cards, qps))"
    and "SelectEriFromExist e (dni_NetworkInterfaceSet enis) qps cards = Ok (sel, need, per)"
    and "CreateEriForInstance api e inst need per w1 = (Ok created, w2)"
    and "eris = sel @ created"
  using assms
  by (auto simp: SelectERIs_def Let_def elim!: bindA_OkE tryA_OkE split: if_splits option.splits res.splits)


text \<open>
  What CreateEriForInstance returns covers exactly the cards it was asked for, in the order
  asked, reused interfaces first; every returned ERI belongs to the instance.
\<close>

theorem create_covers_cards:
  assumes "CreateEriForInstance api e inst cardIndex queuePair w = (Ok eris, w')"
  shows "map eri_CardIndex eris = cardIndex \<and>
    (\<forall>r\<in>set eris. inst_InstanceId inst = Some (eri_InstanceID r))"
  using CreateEri_spec [OF assms] by blast

theorem create_covers_cards_witness:
  "\<exists>eris w'. CreateEriForInstance (exCloud 2 8) exClient exInstance [0, 1] 4 [] = (Ok eris, w') \<and>
     map eri_CardIndex eris = [0, 1]"
proof -
  have "okMap (\<lambda>_. ()) (CreateEriForInstance (exCloud 2 8) exClient exInstance [0, 1] 4 []) = Some ()"
    by code_simp
  then obtain eris w' where "CreateEriForInstance (exCloud 2 8) exClient exInstance [0, 1] 4 [] = (Ok eris, w')"
    by (rule okMap_SomeE)
  with create_covers_cards [OF this] show ?thesis by auto
qed

text \<open>The service attaches the primary interface of an instance to card 0.\<close>

definition servicePrimaryOnCard0 :: "'w ecs \<Rightarrow> bool" where
  "servicePrimaryOnCard0 api \<longleftrightarrow> (\<forall>req w resp w'.
     DescribeNetworkInterfaces api req w = (Ok resp, w') \<longrightarrow> primaryOnCard0 (dni_NetworkInterfaceSet resp))"

lemma SelectERIs_distinct_cards:
  assumes "SelectERIs api e instanceID w = (Ok (Some eris), w')" and "servicePrimaryOnCard0 api"
  shows "distinct (map eri_CardIndex eris)"
proof -
  from assms(1) obtain inst tys cards qps enis sel need per created w1 w2 wa wb where
    d: "DescribeNetworkInterfaces api
          \<lparr> dni_RegionId = regionID e, dni_Tag = [], dni_InstanceId = Some instanceID,
            dni_NetworkInterfaceId = [], dni_PageSize = 100 \<rparr> wa = (Ok enis, wb)"
    and sel: "SelectEriFromExist e (dni_NetworkInterfaceSet enis) qps cards = Ok (sel, need, per)"
    and cr: "CreateEriForInstance api e inst need per w1 = (Ok created, w2)"
    and eris: "eris = sel @ created"
    by (rule SelectERIs_OkE)
  from sel obtain chosen where plan: "cardPlan e (dni_NetworkInterfaceSet enis) qps cards chosen need per"
    and conv: "mapR (\<lambda>i. toEri i per) chosen = Ok sel" by (rule SelectEriFromExist_plan)
  from d assms(2) have "primaryOnCard0 (dni_NetworkInterfaceSet enis)"
    unfolding servicePrimaryOnCard0_def by blast
  from cardPlan_distinct(1) [OF plan this] show ?thesis
    using CreateEri_spec(1) [OF cr] mapR_toEri_fields(1) [OF conv] eris by simp
qed

lemma exFixed_primary:
  "servicePrimaryOnCard0 (exFixed [exPrimary, exSecondary])"
  using ex_enis(2)
  by (auto simp: servicePrimaryOnCard0_def exFixed_def primaryOnCard0_def list_all_iff simp del: filter.simps)

text \<open>
  C9: An instance whose ERIs SelectERIs determined has at most one of them on each network card,
  counting the kept, the converted and the newly created ones. The service attaches the
  primary interface of an instance to card 0.
\<close>

theorem one_eri_per_card:
  assumes "SelectERIs api e instanceID w = (Ok (Some eris), w')" and "servicePrimaryOnCard0 api"
  shows "distinct (map eri_CardIndex eris)"
  using assms by (rule SelectERIs_distinct_cards)

theorem one_eri_per_card_witness:
  "\<exists>eris. fst (SelectERIs (exFixed [exPrimary, exSecondary]) exClient ''i-1'' ()) = Ok (Some eris) \<and>
     distinct (map eri_CardIndex eris)"
proof -
  have "okMap (\<lambda>r. r \<noteq> None) (SelectERIs (exFixed [exPrimary, exSecondary]) exClient ''i-1'' ()) = Some True"
    by code_simp
  then obtain eris where "SelectERIs (exFixed [exPrimary, exSecondary]) exClient ''i-1'' () = (Ok (Some eris), ())"
    by (rule okMap_SomeE) auto
  from one_eri_per_card [OF this exFixed_primary] this show ?thesis by simp
qed

section \<open>Tags\<close>

definition tagRequestOk :: "TagResourcesRequest \<Rightarrow> bool" where
  "tagRequestOk r \<longleftrightarrow> tr_ResourceId r \<noteq> [] \<and> (eriTagExcludedKey, eriTagExcludedValue) \<in> set (tr_Tag r) \<and>
     eriTagCreatorKey \<notin> fst ` set (tr_Tag r)"

lemma TagResources_frame:
  "DescribeInstances (api\<lparr>TagResources := t\<rparr>) = DescribeInstances api"
  "DescribeInstanceTypes (api\<lparr>TagResources := t\<rparr>) = DescribeInstanceTypes api"
  "DescribeNetworkInterfaces (api\<lparr>TagResources := t\<rparr>) = DescribeNetworkInterfaces api"
  by simp_all

lemma EnsureEriTags_ok_requests:
  assumes "\<And>r. tagRequestOk r \<Longrightarrow> t r = TagResources api r"
  shows "EnsureEriTags (api\<lparr>TagResources := t\<rparr>) e ids i = EnsureEriTags api e ids i"
  using assms by (auto simp: EnsureEriTags_def tagRequestOk_def eriTags_def eri_consts)

lemma createEris_tags: "createEris (api\<lparr>TagResources := t\<rparr>) e inst qp idxs = createEris api e inst qp idxs"
  by (induction idxs) auto

lemma ensureDevices_ok_requests:
  assumes "\<And>r. tagRequestOk r \<Longrightarrow> t r = TagResources api r"
  shows "ensureDevices (api\<lparr>TagResources := t\<rparr>) e m ds = ensureDevices api e m ds"
proof (induction ds)
  case (Cons d ds)
  have conv: "convertDevice (api\<lparr>TagResources := t\<rparr>) e d = convertDevice api e d"
    by (simp add: convertDevice_def ConvertPrimaryENI_def EnsureEriTags_ok_requests [OF assms])
  have att: "attachDevice (api\<lparr>TagResources := t\<rparr>) e d = attachDevice api e d"
    by (simp add: attachDevice_def)
  have "ensureDevice (api\<lparr>TagResources := t\<rparr>) e m d = ensureDevice api e m d"
    unfolding ensureDevice_def conv att ..
  with Cons.IH show ?case by simp
qed simp

text \<open>
  Tagging never claims an interface the controller did not create: every TagResources request
  of SelectERIs and EnsureEriForInstance names at least one interface, carries the exclusion
  tag and never the creator tag. Stated as independence: replacing the service's answers to all other requests
  changes neither operation.
\<close>

theorem creator_tag_never_added:
  assumes "\<And>r. tagRequestOk r \<Longrightarrow> t r = TagResources api r"
  shows "SelectERIs (api\<lparr>TagResources := t\<rparr>) e instanceID = SelectERIs api e instanceID \<and>
    EnsureEriForInstance (api\<lparr>TagResources := t\<rparr>) e devices = EnsureEriForInstance api e devices"
proof -
  have tags: "EnsureEriTags (api\<lparr>TagResources := t\<rparr>) e ids i = EnsureEriTags api e ids i" for ids i
    using assms by (rule EnsureEriTags_ok_requests)
  have devs: "ensureDevices (api\<lparr>TagResources := t\<rparr>) e m devices = ensureDevices api e m devices" for m
    using assms by (rule ensureDevices_ok_requests)
  show ?thesis
    unfolding SelectERIs_def CreateEriForInstance_def EnsureEriForInstance_def createEris_tags
      TagResources_frame tags devs by simp
qed

definition exStrict :: "'w ecs \<Rightarrow> 'w ecs" where
  "exStrict api = api\<lparr> TagResources := (\<lambda>r. if tagRequestOk r then TagResources api r
     else (\<lambda>w. (Panic ''unexpected tag request'', w))) \<rparr>"

theorem creator_tag_never_added_witness:
  "SelectERIs (exStrict (exCloud 2 8)) exClient ''i-1'' = SelectERIs (exCloud 2 8) exClient ''i-1'' \<and>
   EnsureEriForInstance (exStrict (exCloud 2 8)) exClient [] = EnsureEriForInstance (exCloud 2 8) exClient []"
  unfolding exStrict_def by (rule creator_tag_never_added) simp

section \<open>EnsureEriForInstance\<close>

lemma ensureDevice_cases:
  assumes "m (dev_ID d) = Some eni" and "ni_Status eni = Some st" and "ni_NetworkInterfaceTrafficMode eni = Some mode"
  shows "ensureDevice api e m d =
    (if st = ENIStatusInUse \<and> mode = trafficModeRDMA then retA [devStatusOf (dev_ID d) DeviceStatusReady []]
     else if st = ENIStatusInUse \<and> dev_IsPrimaryENI d then convertDevice api e d
     else if st = ENIStatusAvailable \<and> \<not> dev_IsPrimaryENI d then attachDevice api e d
     else retA [])"
  using assms by (simp add: ensureDevice_def status_defs)


lemma attachDevice_status:
  "attachDevice api e d w = (Ok s, w') \<Longrightarrow> \<exists>st msg. s = [devStatusOf (dev_ID d) st msg] \<and> st \<in> {DeviceStatusPending, DeviceStatusFailed}"
  by (auto simp: attachDevice_def elim!: tryA_OkE)

lemma convertDevice_status:
  "convertDevice api e d w = (Ok s, w') \<Longrightarrow> \<exists>st msg. s = [devStatusOf (dev_ID d) st msg] \<and> st \<in> {DeviceStatusReady, DeviceStatusFailed}"
  by (auto simp: convertDevice_def elim!: tryA_OkE)

lemma ensureDevice_status:
  assumes "ensureDevice api e m d w = (Ok s, w')"
  shows "s = [] \<or> (\<exists>st msg. s = [devStatusOf (dev_ID d) st msg] \<and>
     st \<in> {DeviceStatusReady, DeviceStatusPending, DeviceStatusFailed})"
proof -
  from assms obtain eni st where eni: "m (dev_ID d) = Some eni" "ni_Status eni = Some st"
    by (auto simp: ensureDevice_def split: option.splits)
  show ?thesis
  proof (cases "ni_NetworkInterfaceTrafficMode eni")
    case None
    with assms eni have "s = [] \<or> attachDevice api e d w = (Ok s, w')"
      by (auto simp: ensureDevice_def bindA_Pair_run status_defs split: if_splits)
    then show ?thesis by (fastforce dest: attachDevice_status)
  next
    case (Some mode)
    from assms [unfolded ensureDevice_cases [where m = m and d = d, OF eni Some]] show ?thesis
      by (auto split: if_splits dest!: attachDevice_status convertDevice_status)
  qed
qed

lemma ensureDevices_statuses:
  "ensureDevices api e m ds w = (Ok sts, w') \<Longrightarrow> subseq (map st_ID sts) (map dev_ID ds) \<and>
    (\<forall>s\<in>set sts. st_Status s \<in> {DeviceStatusReady, DeviceStatusPending, DeviceStatusFailed})"
proof (induction ds arbitrary: w sts)
  case (Cons d ds)
  from Cons.prems obtain s w1 rest where s: "ensureDevice api e m d w = (Ok s, w1)"
    and rest: "ensureDevices api e m ds w1 = (Ok rest, w')" and sts: "sts = s @ rest"
    by (auto elim!: bindA_OkE)
  from ensureDevice_status [OF s] Cons.IH [OF rest] sts show ?case
    by (auto simp: devStatusOf_def)
qed simp

text \<open>An interface that serves RDMA on its instance already.\<close>

definition eniReady :: "NetworkInterface \<Rightarrow> bool" where
  "eniReady eni \<longleftrightarrow> ni_Status eni = Some ENIStatusInUse \<and> isEri eni"

lemma ensureDevices_ready:
  "(\<And>d. d \<in> set ds \<Longrightarrow> \<exists>eni. m (dev_ID d) = Some eni \<and> eniReady eni) \<Longrightarrow>
   ensureDevices api e m ds = retA (map (\<lambda>d. devStatusOf (dev_ID d) DeviceStatusReady []) ds)"
proof (induction ds)
  case (Cons d ds)
  then obtain eni where eni: "m (dev_ID d) = Some eni" "eniReady eni" by auto
  then have "ensureDevice api e m d = retA [devStatusOf (dev_ID d) DeviceStatusReady []]"
    by (subst ensureDevice_cases [where eni = eni]) (auto simp: eniReady_def isEri_def)
  with Cons show ?case by simp
qed simp

section \<open>The instance type's limits\<close>

lemma cardCountOf_bounds:
  assumes "0 < sint q"
  shows "1 \<le> cardCountOf ty q" and "cardCountOf ty q \<le> sint q"
  using assms by (auto simp: cardCountOf_def split: option.splits)

lemma sint_word_of_int_small: "- (2 ^ 31) \<le> i \<Longrightarrow> i < 2 ^ 31 \<Longrightarrow> sint (word_of_int i :: int32) = i"
  by (simp add: signed_of_int signed_take_bit_int_eq_self)

lemma sint_mult_small:
  fixes a b :: int32
  assumes "0 \<le> sint a" "0 \<le> sint b" "sint a * sint b < 2 ^ 31"
  shows "sint (a * b) = sint a * sint b"
proof -
  have "sint (a * b) = sint (word_of_int (sint a * sint b) :: int32)"
    by (simp add: of_int_mult)
  also have "0 \<le> sint a * sint b" using assms by simp
  then have "sint (word_of_int (sint a * sint b) :: int32) = sint a * sint b"
    using assms by (intro sint_word_of_int_small) linarith+
  finally show ?thesis .
qed

lemma queuePairsOf_exact:
  assumes "0 \<le> sint qp" "0 \<le> cards" "cards < 2 ^ 31" "sint qp * cards < 2 ^ 31"
  shows "queuePairsOf ty qp cards =
    (if \<exists>g. it_GPUAmount ty = Some g \<and> 0 < sint g then sint qp * cards else sint qp)"
proof -
  have c: "sint (word_of_int cards :: int32) = cards" using assms by (intro sint_word_of_int_small) auto
  have "sint (qp * word_of_int cards) = sint qp * cards"
    using sint_mult_small [of qp "word_of_int cards"] assms c by simp
  then show ?thesis by (auto simp: queuePairsOf_def split: option.splits)
qed

text \<open>
  The limits read off an instance type with ERIs: between one card and as many as the type has
  ERIs, and its queue pairs, times the number of cards for a GPU type. The product is the exact one as long as the type's
  queue pairs for all its ERIs fit in an int32.
\<close>

theorem type_limits:
  assumes "scanTypes (Some t) [ty] 0 0 = Ok (Some (cards, qps))"
    and "it_EriQuantity ty = Some q" and "0 < sint q" and "it_QueuePairNumber ty = Some qp"
    and "0 \<le> sint qp" and "sint qp * sint q < 2 ^ 31"
  shows "1 \<le> cards \<and> cards \<le> sint q \<and>
    qps = (if \<exists>g. it_GPUAmount ty = Some g \<and> 0 < sint g then sint qp * cards else sint qp)"
proof -
  from assms(1,2,4) have cards: "cards = cardCountOf ty q" and qps: "qps = queuePairsOf ty qp cards"
    by (auto simp: bindR_Ok_iff Let_def split: if_splits)
  note b = cardCountOf_bounds [OF assms(3), of ty]
  have "sint q < 2 ^ 31" using sint_lt [of q] by simp
  moreover have "sint qp * cards \<le> sint qp * sint q"
    using b assms(5) cards by (intro mult_left_mono) auto
  ultimately show ?thesis
    using b assms cards unfolding qps by (subst queuePairsOf_exact) auto
qed

theorem type_limits_witness:
  "1 \<le> (2::int) \<and> (2::int) \<le> sint (2 :: int32) \<and> (16::int) = sint (8 :: int32) * 2"
proof -
  define ty where "ty = \<lparr> it_InstanceTypeId = Some ''ecs.gpu'', it_EriQuantity = Some (2 :: int32),
    it_NetworkCardQuantity = Some 2, it_QueuePairNumber = Some 8, it_GPUAmount = Some 1 \<rparr>"
  have "scanTypes (Some ''ecs.gpu'') [ty] 0 0 = Ok (Some (2, 16))"
    by (simp add: ty_def cardCountOf_def queuePairsOf_def)
  from type_limits [OF this, of 2 8] show ?thesis by (simp add: ty_def)
qed


text \<open>
  Once all devices are in use in RDMA mode, EnsureEriForInstance makes the one describe call,
  changes nothing and reports every device Ready.
\<close>

theorem ensure_ready_idle:
  assumes "DescribeNetworkInterfaces api
             \<lparr> dni_RegionId = regionID e, dni_Tag = [], dni_InstanceId = None,
               dni_NetworkInterfaceId = map dev_ID devices, dni_PageSize = 100 \<rparr> w = (Ok resp, w1)"
    and "eniMapOf (dni_NetworkInterfaceSet resp) = Ok m"
    and "\<forall>d\<in>set devices. \<exists>eni. m (dev_ID d) = Some eni \<and> eniReady eni"
  shows "EnsureEriForInstance api e devices w =
    (Ok (map (\<lambda>d. devStatusOf (dev_ID d) DeviceStatusReady []) devices), w1)"
  using assms ensureDevices_ready [of devices m api e]
  by (simp add: EnsureEriForInstance_def bindA_run(1) [of _ _ _ w1])

theorem ensure_ready_idle_witness:
  "EnsureEriForInstance (exCloud 2 8) exClient [toDeviceInfo (hd exSelected)] [exPrimary, exSecondary] =
     (Ok [devStatusOf ''eni-2'' DeviceStatusReady []], [exPrimary, exSecondary])"
proof -
  let ?resp = "\<lparr> dni_StatusCode = Some 200, dni_NetworkInterfaceSet = [exSecondary] \<rparr>"
  have call: "DescribeNetworkInterfaces (exCloud 2 8)
      \<lparr> dni_RegionId = regionID exClient, dni_Tag = [], dni_InstanceId = None,
        dni_NetworkInterfaceId = map dev_ID [toDeviceInfo (hd exSelected)], dni_PageSize = 100 \<rparr> [exPrimary, exSecondary]
    = (Ok ?resp, [exPrimary, exSecondary])"
    by (simp add: exCloud_def eniMatches_def exPrimary_def exSecondary_def exSelected_def)
  have "eniMapOf (dni_NetworkInterfaceSet ?resp) = Ok [''eni-2'' \<mapsto> exSecondary]"
    by (simp add: eniMapOf_def exSecondary_def)
  from ensure_ready_idle [OF call this] show ?thesis
    by (simp add: exSelected_def eniReady_def isEri_def exSecondary_def status_defs trafficModeRDMA_def)
qed

end
