(* ===== verification/Metadata.thy ===== *)
theory Metadata
  imports Go_Strings
begin

text \<open>
  internal/utils/metadata.go: reading from the instance metadata server with a session
  token. The HTTP client is a parameter; the package variable \<open>tokenCache\<close> is a part of
  the world that the record's accessors read and write.
\<close>

section \<open>Operations\<close>

definition tokenURL :: string where "tokenURL = ''http://100.100.100.200/latest/api/token''"
definition tokenTimeout :: int where "tokenTimeout = 21600"

text \<open>
  \<open>Do\<close> is \<open>defaultClient.Do\<close> for a method, a URL and headers: an error, or the status
  code and the outcome of reading the body. \<open>NewRequest\<close> is the error of
  \<open>http.NewRequest\<close>, if any. \<open>TokenCache\<close> is the entry of the expiring cache with its
  expiry time in seconds, \<open>Clock\<close> the time.
\<close>

record 'w http =
  Do :: "string \<Rightarrow> string \<Rightarrow> (string \<times> string) list \<Rightarrow> ('w, int \<times> string res) act"
  NewRequest :: "string \<Rightarrow> string \<Rightarrow> goerror option"
  TokenCache :: "'w \<Rightarrow> (string \<times> int) option"
  SetTokenCache :: "(string \<times> int) option \<Rightarrow> 'w \<Rightarrow> 'w"
  Clock :: "'w \<Rightarrow> int"

text \<open>\<open>type Error\<close>: the code, the URL and the cause, as its \<open>Error()\<close> prints them.\<close>

definition metaFormat :: string where
  "metaFormat = ''get from metaserver failed code: %s, url: %s, err: %s''"

definition metaError :: "string \<Rightarrow> string \<Rightarrow> string \<Rightarrow> goerror" where
  "metaError url code cause = Errorf metaFormat [code, url, cause]"

text \<open>\<open>errors.As(err, &typedErr)\<close> and \<open>typedErr.Code\<close>.\<close>

fun metaCode :: "goerror \<Rightarrow> string option" where
  "metaCode (Errorf f (code # as)) = (if f = metaFormat then Some code else None)"
| "metaCode err = None"

text \<open>
  One call of the condition function: \<open>Ok (Some body)\<close> is done, \<open>Ok None\<close> try again,
  \<open>Err\<close> stop; with it the value of \<open>innerErr\<close>.
\<close>

definition attempt :: "'w http \<Rightarrow> string \<Rightarrow> (string \<times> string) list \<Rightarrow> goerror option
    \<Rightarrow> 'w \<Rightarrow> (string option res \<times> goerror option) \<times> 'w" where
  "attempt c url headers innerErr w =
     (let method = (if url = tokenURL then ''PUT'' else ''GET'') in
      case NewRequest c method url of
        Some err \<Rightarrow> ((Ok None, Some (metaError url [] (err_Error err))), w)
      | None \<Rightarrow>
          (case Do c method url headers w of
             (Panic p, w') \<Rightarrow> ((Panic p, innerErr), w')
           | (Err err, w') \<Rightarrow> ((Ok None, Some (metaError url [] (err_Error err))), w')
           | (Ok (code, body), w') \<Rightarrow>
               let e = metaError url (Itoa code) ''%!s(<nil>)'' in
               if code = 429 \<or> 500 \<le> code then ((Ok None, Some e), w')
               else if 400 \<le> code then ((Err e, Some e), w')
               else (case body of
                   Ok b \<Rightarrow> ((Ok (Some b), innerErr), w')
                 | Err err \<Rightarrow> ((Err err, innerErr), w')
                 | Panic p \<Rightarrow> ((Panic p, innerErr), w'))))"

text \<open>
  \<open>wait.ExponentialBackoff\<close> with \<open>steps\<close> calls left, and what \<open>withRetry\<close> makes of its error;
  running out of steps is a timeout error.
\<close>

fun retryLoop :: "'w http \<Rightarrow> string \<Rightarrow> (string \<times> string) list \<Rightarrow> nat \<Rightarrow> goerror option \<Rightarrow> ('w, string) act" where
  "retryLoop c url headers 0 innerErr w =
     (Err (case innerErr of Some e \<Rightarrow> e | None \<Rightarrow> ApiErr ''timed out waiting for the condition''), w)"
| "retryLoop c url headers (Suc steps) innerErr w =
     (case attempt c url headers innerErr w of
        ((Ok (Some body), i), w') \<Rightarrow> (Ok body, w')
      | ((Ok None, i), w') \<Rightarrow> retryLoop c url headers steps i w'
      | ((Err err, i), w') \<Rightarrow> (Err (case i of Some e \<Rightarrow> e | None \<Rightarrow> err), w')
      | ((Panic p, i), w') \<Rightarrow> (Panic p, w'))"

definition withRetry :: "'w http \<Rightarrow> string \<Rightarrow> (string \<times> string) list \<Rightarrow> ('w, string) act" where
  "withRetry c url headers = retryLoop c url headers 4 None"

definition cachedToken :: "'w http \<Rightarrow> 'w \<Rightarrow> string option" where
  "cachedToken c w = (case TokenCache c w of None \<Rightarrow> None
     | Some (token, expiry) \<Rightarrow> if Clock c w < expiry then Some token else None)"

text \<open>The token: the cached one, or a new one that is cached for half its lifetime.\<close>

definition obtainToken :: "'w http \<Rightarrow> ('w, string) act" where
  "obtainToken c w =
     (case cachedToken c w of
        Some token \<Rightarrow> (Ok token, w)
      | None \<Rightarrow>
          (case withRetry c tokenURL [(''X-aliyun-ecs-metadata-token-ttl-seconds'', Itoa tokenTimeout)] w of
             (Ok token, w') \<Rightarrow> (Ok token, SetTokenCache c (Some (token, Clock c w' + tokenTimeout div 2)) w')
           | (Err err, w') \<Rightarrow> (Err err, w')
           | (Panic p, w') \<Rightarrow> (Panic p, w')))"

text \<open>\<open>getWithToken\<close>, with the number of times \<open>goto retry\<close> may still be taken (\<open>!skipRetry\<close>: once).\<close>

fun getWithTokenR :: "'w http \<Rightarrow> string \<Rightarrow> nat \<Rightarrow> ('w, string) act" where
  "getWithTokenR c url retries =
     bindA (obtainToken c) (\<lambda>token.
     tryA (withRetry c url [(''X-aliyun-ecs-metadata-token'', token)]) retA
       (\<lambda>err. case retries of
          0 \<Rightarrow> failA err
        | Suc r \<Rightarrow>
            if metaCode err = Some (Itoa 401)
            then (\<lambda>w. getWithTokenR c url r (SetTokenCache c None w))
            else failA err))"

declare getWithTokenR.simps [simp del]

definition getWithToken :: "'w http \<Rightarrow> string \<Rightarrow> ('w, string) act" where
  "getWithToken c url = getWithTokenR c url 1"

definition GetStrFromMetadata :: "'w http \<Rightarrow> string \<Rightarrow> ('w, string) act" where
  "GetStrFromMetadata c url =
     bindA (getWithToken c url) (\<lambda>body.
     bindA (liftR (index (Split (CHR 0x0A) body) 0)) (\<lambda>line. retA (Trim (CHR ''/'') line)))"

section \<open>How many requests are made\<close>


text \<open>An action raises a counter of the world by at most \<open>n\<close>.\<close>

definition costs :: "('w \<Rightarrow> nat) \<Rightarrow> nat \<Rightarrow> ('w, 'a) act \<Rightarrow> bool" where
  "costs f n m \<longleftrightarrow> (\<forall>w. f (snd (m w)) \<le> f w + n)"

lemma costsD: "costs f n m \<Longrightarrow> m w = (r, w') \<Longrightarrow> f w' \<le> f w + n"
  unfolding costs_def by (metis snd_conv)

lemma costs_Pair [simp]: "costs f n (Pair r)"
  by (simp add: costs_def)

lemma costs_bindA:
  assumes "costs f a m" and "\<And>x. costs f b (g x)"
  shows "costs f (a + b) (bindA m g)"
  unfolding costs_def
proof
  fix w
  obtain r w1 where m: "m w = (r, w1)" by fastforce
  with assms(1) have a: "f w1 \<le> f w + a" by (rule costsD)
  have b: "f (snd (g x w1)) \<le> f w1 + b" for x using assms(2) by (simp add: costs_def)
  show "f (snd (bindA m g w)) \<le> f w + (a + b)"
  proof (cases r)
    case (Ok x)
    with a b [of x] m show ?thesis by (simp add: bindA_def)
  qed (use a m in \<open>simp_all add: bindA_def\<close>)
qed

lemma costs_tryA:
  assumes "costs f a m" and "\<And>x. costs f b (g x)" and "\<And>x. costs f b (h x)"
  shows "costs f (a + b) (tryA m g h)"
  unfolding costs_def
proof
  fix w
  obtain r w1 where m: "m w = (r, w1)" by fastforce
  with assms(1) have a: "f w1 \<le> f w + a" by (rule costsD)
  have b: "f (snd (g x w1)) \<le> f w1 + b" "f (snd (h e w1)) \<le> f w1 + b" for x e
    using assms(2,3) by (simp_all add: costs_def)
  show "f (snd (tryA m g h w)) \<le> f w + (a + b)"
  proof (cases r)
    case (Ok x)
    with a b(1) [of x] m show ?thesis by (simp add: tryA_def)
  next
    case (Err e)
    with a b(2) [of e] m show ?thesis by (simp add: tryA_def)
  qed (use a m in \<open>simp add: tryA_def\<close>)
qed

text \<open>A client whose calls each count once, and for which the cache does not count.\<close>

definition countsRequests :: "'w http \<Rightarrow> ('w \<Rightarrow> nat) \<Rightarrow> bool" where
  "countsRequests c f \<longleftrightarrow> (\<forall>method url headers. costs f 1 (Do c method url headers)) \<and>
     (\<forall>v w. f (SetTokenCache c v w) = f w)"

lemma attempt_cost:
  assumes "countsRequests c f" and "attempt c url headers i w = (r, w')"
  shows "f w' \<le> f w + 1"
proof -
  have "f (snd (Do c m u h w)) \<le> f w + 1" for m u h
    using assms(1) by (simp add: countsRequests_def costs_def)
  note d = this [of "if url = tokenURL then ''PUT'' else ''GET''" url headers]
  show ?thesis
  proof (cases "Do c (if url = tokenURL then ''PUT'' else ''GET'') url headers w")
    case (Pair q w1)
    with d have "f w1 \<le> f w + 1" by simp
    with assms(2) Pair show ?thesis
      by (auto simp: attempt_def Let_def split: option.splits res.splits prod.splits if_splits)
  qed
qed

lemma withRetry_cost:
  assumes "countsRequests c f"
  shows "costs f 4 (withRetry c url headers)"
proof -
  have "f (snd (retryLoop c url headers n i w)) \<le> f w + n" for n i w
  proof (induction n arbitrary: i w)
    case (Suc n)
    obtain r j w1 where at: "attempt c url headers i w = ((r, j), w1)" by (metis surj_pair)
    with attempt_cost [OF assms at] Suc.IH [of j w1] show ?case
      by (auto split: res.splits option.splits)
  qed simp
  then show ?thesis by (simp add: costs_def withRetry_def)
qed

lemma obtainToken_cost:
  assumes "countsRequests c f"
  shows "costs f 4 (obtainToken c)"
  unfolding costs_def
proof
  fix w
  note r = withRetry_cost [OF assms, of tokenURL "[(''X-aliyun-ecs-metadata-token-ttl-seconds'', Itoa tokenTimeout)]",
      unfolded costs_def, rule_format, of w]
  from assms have "\<And>v w. f (SetTokenCache c v w) = f w" by (simp add: countsRequests_def)
  with r show "f (snd (obtainToken c w)) \<le> f w + 4"
    by (auto simp: obtainToken_def split: option.splits prod.splits res.splits)
qed

lemma getWithTokenR_cost:
  assumes "countsRequests c f"
  shows "costs f (8 * Suc n) (getWithTokenR c url n)"
proof (induction n)
  case 0
  have "costs f (4 + (4 + 0)) (getWithTokenR c url 0)"
    unfolding getWithTokenR.simps [of c url 0]
    by (intro costs_bindA costs_tryA obtainToken_cost withRetry_cost assms) simp_all
  then show ?case by simp
next
  case (Suc n)
  have again: "costs f (8 * Suc n) (\<lambda>w. getWithTokenR c url n (SetTokenCache c None w))"
    using Suc assms unfolding costs_def countsRequests_def by metis
  have "costs f (4 + (4 + 8 * Suc n)) (getWithTokenR c url (Suc n))"
    unfolding getWithTokenR.simps [of c url "Suc n"]
    by (intro costs_bindA costs_tryA obtainToken_cost withRetry_cost assms) (use again in simp_all)
  then show ?case by simp
qed

text \<open>
  C31: Reading one value from the metadata server always ends after at most 16 HTTP requests, with
  a value or an error: four attempts for the token and four for the value, and once more
  both after the server rejected the token.
\<close>

theorem metadata_requests_bounded:
  assumes "countsRequests c f"
  shows "f (snd (GetStrFromMetadata c url w)) \<le> f w + 16"
proof -
  have "costs f (16 + 0) (GetStrFromMetadata c url)"
    unfolding GetStrFromMetadata_def getWithToken_def
    using getWithTokenR_cost [OF assms, of 1 url]
    by (intro costs_bindA) (auto simp: index_def)
  then show ?thesis by (simp add: costs_def)
qed

text \<open>A server that always answers 503 and counts its requests.\<close>

definition exBusy :: "nat http" where
  "exBusy = \<lparr> Do = (\<lambda>method url headers w. (Ok (503, Ok []), w + 1)), NewRequest = (\<lambda>m u. None),
     TokenCache = (\<lambda>w. Some (''token'', 1)), SetTokenCache = (\<lambda>v w. w), Clock = (\<lambda>w. 0) \<rparr>"

theorem metadata_requests_bounded_witness:
  "snd (GetStrFromMetadata exBusy ''http://100.100.100.200/x'' 0) \<le> 16"
proof -
  have "countsRequests exBusy (\<lambda>w. w)" by (simp add: countsRequests_def costs_def exBusy_def)
  from metadata_requests_bounded [OF this, of "''http://100.100.100.200/x''" 0] show ?thesis by simp
qed

text \<open>
  A value read from the metadata server is a single line without slashes at its ends.
\<close>

theorem metadata_value_clean:
  assumes "GetStrFromMetadata c url w = (Ok v, w')"
  shows "CHR 0x0A \<notin> set v \<and> (v \<noteq> [] \<longrightarrow> hd v \<noteq> CHR ''/'' \<and> last v \<noteq> CHR ''/'')"
proof -
  from assms obtain line body where "Split (CHR 0x0A) body ! 0 = line" and v: "v = Trim (CHR ''/'') line"
    by (auto simp: GetStrFromMetadata_def index_Ok_iff elim!: bindA_OkE)
  then have "line \<in> set (Split (CHR 0x0A) body)" by (metis Split_not_Nil length_greater_0_conv nth_mem)
  then have "CHR 0x0A \<notin> set line" by (rule Split_parts)
  moreover have "set v \<subseteq> set line" unfolding v Trim_def by (rule trim_by_subset)
  ultimately show ?thesis unfolding v Trim_def by (auto dest: trim_by_ends)
qed

theorem metadata_value_clean_witness:
  "\<exists>v. fst (GetStrFromMetadata (exBusy\<lparr> Do := (\<lambda>method url headers w. (Ok (200, Ok ''i-1/''), w)) \<rparr>) ''u'' 0) = Ok v \<and>
     CHR 0x0A \<notin> set v"
proof -
  let ?run = "GetStrFromMetadata (exBusy\<lparr> Do := (\<lambda>method url headers w. (Ok (200, Ok ''i-1/''), w)) \<rparr>) ''u'' 0"
  have "okMap (\<lambda>_. ()) ?run = Some ()" by code_simp
  then obtain v w' where "?run = (Ok v, w')" by (rule okMap_SomeE)
  with metadata_value_clean [OF this] show ?thesis by simp
qed

end
