(* ===== verification/Erdma_Config.thy ===== *)
theory Erdma_Config
  imports Erdma_Types Metadata
begin

text \<open>
  The configuration of the controller: the struct of internal/types/config.go and the
  loading of internal/config/config.go. The file system, the JSON decoder and the HTTP
  client are not part of the repository; they are parameters of the loading functions.
\<close>

record Config =
  cfg_Region :: string
  cfg_ManageNonOwnedERIs :: bool
  cfg_ControllerNamespace :: string
  cfg_ControllerName :: string
  cfg_ClusterDomain :: string
  cfg_CertDir :: string
  cfg_EnableDevicePlugin :: "bool option"
  cfg_EnableWebhook :: "bool option"
  cfg_SMCInitImage :: string
  cfg_EnableInitContainerInject :: "bool option"
  cfg_NodeSelector :: labels
  cfg_WaitNodeReadyTimeoutSeconds :: int

record Credentials =
  cred_Type :: string
  cred_AccessKeyID :: string
  cred_AccessKeySecret :: string
  cred_StsSecretNS :: string
  cred_StsSecretName :: string

text \<open>\<open>Sensitive.String\<close>: what a log line shows of a key.\<close>

definition Sensitive_String :: "string \<Rightarrow> string" where
  "Sensitive_String c = ''*******''"

definition defaultConfigPath :: string where
  "defaultConfigPath = ''/etc/erdma-controller/config.json''"

definition defaultCredentialPath :: string where
  "defaultCredentialPath = ''/etc/erdma-controller-credential/credential.json''"

definition regionIDAddr :: string where
  "regionIDAddr = ''http://100.100.100.200/latest/meta-data/region-id''"

definition emptyCredentials :: Credentials where
  "emptyCredentials = \<lparr> cred_Type = [], cred_AccessKeyID = [], cred_AccessKeySecret = [],
     cred_StsSecretNS = [], cred_StsSecretName = [] \<rparr>"

text \<open>
  The environment: \<open>os.ReadFile\<close>, \<open>json.Unmarshal\<close> into a zero \<open>Config\<close> or \<open>Credentials\<close>,
  and the HTTP client of internal/utils. \<open>os.IsNotExist\<close> is the class \<open>NotFound\<close> of an error.
\<close>

record 'w env =
  ReadFile :: "string \<Rightarrow> ('w, string) act"
  UnmarshalConfig :: "string \<Rightarrow> Config res"
  UnmarshalCredentials :: "string \<Rightarrow> Credentials res"
  Http :: "'w http"

definition getRegion :: "'w env \<Rightarrow> ('w, string) act" where
  "getRegion env = GetStrFromMetadata (Http env) regionIDAddr"

definition configDefaults :: "Config \<Rightarrow> Config" where
  "configDefaults c =
     c\<lparr> cfg_EnableWebhook := (case cfg_EnableWebhook c of None \<Rightarrow> Some True | Some b \<Rightarrow> Some b),
        cfg_EnableDevicePlugin := (case cfg_EnableDevicePlugin c of None \<Rightarrow> Some True | Some b \<Rightarrow> Some b),
        cfg_WaitNodeReadyTimeoutSeconds :=
          (if cfg_WaitNodeReadyTimeoutSeconds c = 0 then 300 else cfg_WaitNodeReadyTimeoutSeconds c) \<rparr>"

definition parseConfig :: "'w env \<Rightarrow> string \<Rightarrow> ('w, Config) act" where
  "parseConfig env configPath =
     (let path = (if configPath = [] then defaultConfigPath else configPath) in
      tryA (ReadFile env path)
        (\<lambda>conf. tryA (liftR (UnmarshalConfig env conf))
           (\<lambda>c. let c' = configDefaults c in
              if cfg_Region c' = [] then
                tryA (getRegion env) (\<lambda>r. retA (c'\<lparr> cfg_Region := r \<rparr>))
                  (\<lambda>err. failA (Wrapf ''failed to get region from metaserver: %v'' [] err))
              else retA c')
           (\<lambda>err. failA (Wrapf ''failed to unmarshal config file: %v, %v'' [path] err)))
        (\<lambda>err. failA (Wrapf ''failed to read config file: %v, %v'' [path] err)))"

definition credentialDefaults :: "Credentials \<Rightarrow> Credentials" where
  "credentialDefaults c =
     c\<lparr> cred_StsSecretNS := (if cred_StsSecretNS c = [] then ''kube-system'' else cred_StsSecretNS c),
        cred_StsSecretName :=
          (if cred_StsSecretName c = [] then ''addon.network.token'' else cred_StsSecretName c) \<rparr>"

fun isNotExist :: "goerror \<Rightarrow> bool" where
  "isNotExist (NotFound m) = True"
| "isNotExist err = False"

definition parseCredential :: "'w env \<Rightarrow> string \<Rightarrow> ('w, Credentials) act" where
  "parseCredential env credentialPath =
     (let path = (if credentialPath = [] then defaultCredentialPath else credentialPath) in
      tryA (ReadFile env path)
        (\<lambda>cred. tryA (liftR (UnmarshalCredentials env cred))
           (\<lambda>c. retA (credentialDefaults c))
           (\<lambda>err. failA (Wrapf ''failed to unmarshal credential file: %v, %v'' [path] err)))
        (\<lambda>err. if isNotExist err then retA emptyCredentials
           else failA (Wrapf ''failed to read credential file: %v, %v'' [path] err)))"

text \<open>\<open>InitConfig\<close>: the values of the package variables \<open>cfg\<close> and \<open>credential\<close> on success.\<close>

definition InitConfig :: "'w env \<Rightarrow> string \<Rightarrow> string \<Rightarrow> ('w, Config \<times> Credentials) act" where
  "InitConfig env configPath credentialPath =
     bindA (parseConfig env configPath) (\<lambda>c.
     bindA (parseCredential env credentialPath) (\<lambda>cr. retA (c, cr)))"

text \<open>A configuration the controllers can run with: the fields they dereference are set.\<close>

definition configReady :: "Config \<Rightarrow> bool" where
  "configReady c \<longleftrightarrow> cfg_EnableWebhook c \<noteq> None \<and> cfg_EnableDevicePlugin c \<noteq> None \<and>
     cfg_WaitNodeReadyTimeoutSeconds c \<noteq> 0"

lemma configDefaults_ready: "configReady (configDefaults c)"
  by (auto simp: configReady_def configDefaults_def split: option.splits)

lemma configDefaults_idem: "configDefaults (configDefaults c) = configDefaults c"
  by (cases c) (auto simp: configDefaults_def split: option.splits)

lemma parseConfig_Ok:
  assumes "parseConfig env p w = (Ok c, w')"
  obtains c0 r where "c = (configDefaults c0)\<lparr> cfg_Region := r \<rparr>"
    and "cfg_Region c0 \<noteq> [] \<Longrightarrow> r = cfg_Region c0"
proof -
  have "\<exists>c0 r. c = (configDefaults c0)\<lparr> cfg_Region := r \<rparr> \<and> (cfg_Region c0 \<noteq> [] \<longrightarrow> r = cfg_Region c0)"
  proof -
    from assms obtain c0 w1 where "(if cfg_Region (configDefaults c0) = [] then
        tryA (getRegion env) (\<lambda>r. retA ((configDefaults c0)\<lparr> cfg_Region := r \<rparr>))
          (\<lambda>err. failA (Wrapf ''failed to get region from metaserver: %v'' [] err))
        else retA (configDefaults c0)) w1 = (Ok c, w')"
      unfolding parseConfig_def Let_def by (fastforce elim!: tryA_OkE)
    then show ?thesis
      by (auto simp: configDefaults_def elim!: tryA_OkE split: if_splits intro!: exI [of _ c0])
  qed
  with that show ?thesis by blast
qed

end
