(* ===== verification/Node_Controller.thy ===== *)
theory Node_Controller
  imports Eri_Client Erdma_Config
begin

text \<open>
  internal/controller/node_controller.go: the reconciler of nodes. Its own state is
  \<open>taggedENIs\<close>, the set of interfaces whose tags were backfilled in this process; every
  call to the cloud (\<open>api\<close>) and to Kubernetes (\<open>kc\<close>) is an action on the world.
\<close>

section \<open>Operations\<close>

definition erdmaFinalizer :: string where
  "erdmaFinalizer = ''network.alibabacloud.com/erdma-controller''"

definition labelInstanceID :: string where "labelInstanceID = ''alibabacloud.com/instance-id''"
definition labelNodeName :: string where "labelNodeName = ''alibabacloud.com/nodename''"

record NodeReconciler =
  nr_EriClient :: EriClient
  nr_CtrlConfig :: Config
  nr_taggedENIs :: "string set"

definition isNodeReady :: "Node \<Rightarrow> bool" where
  "isNodeReady node = (case find (\<lambda>c. cond_Type c = ''Ready'') (node_Conditions node) of
     None \<Rightarrow> False | Some c \<Rightarrow> cond_Status c = ''True'')"

definition OwnNode :: "NodeReconciler \<Rightarrow> Node option \<Rightarrow> bool" where
  "OwnNode r node = (case node of None \<Rightarrow> False
     | Some n \<Rightarrow> list_all (\<lambda>(k, v). get_label (node_Labels n) k = v) (cfg_NodeSelector (nr_CtrlConfig r)))"

definition PredictNodeUpdate :: "NodeReconciler \<Rightarrow> Node option \<Rightarrow> Node option \<Rightarrow> bool res" where
  "PredictNodeUpdate r oldNode newNode =
     (if \<not> OwnNode r newNode then Ok False
      else if \<not> OwnNode r oldNode \<and> OwnNode r newNode then Ok True
      else bindR (deref newNode) (\<lambda>new.
        if node_DeletionTimestamp new \<noteq> None then Ok True
        else bindR (deref oldNode) (\<lambda>old.
          if \<not> isNodeReady old \<and> isNodeReady new then Ok True
          else Ok (node_ProviderID old \<noteq> node_ProviderID new))))"

text \<open>
  \<open>device.Finalizers = []string{}; controllerutil.RemoveFinalizer(...)\<close> on the copy of
  the item, then \<open>CreateOrPatch\<close> with the copy's metadata.
\<close>

definition withoutFinalizers :: "ERdmaDevice \<Rightarrow> ERdmaDevice" where
  "withoutFinalizers device =
     (let d = device\<lparr> cr_Finalizers := [] \<rparr> in d\<lparr> cr_Finalizers := removeAll erdmaFinalizer (cr_Finalizers d) \<rparr>)"

fun clearFinalizers :: "'w k8s \<Rightarrow> ERdmaDevice list \<Rightarrow> ('w, unit) act" where
  "clearFinalizers kc [] = retA ()"
| "clearFinalizers kc (device # devices) =
     bindA (CreateOrPatch kc (withoutFinalizers device)) (\<lambda>_. clearFinalizers kc devices)"

fun deleteDevices :: "'w k8s \<Rightarrow> ERdmaDevice list \<Rightarrow> ('w, unit) act" where
  "deleteDevices kc [] = retA ()"
| "deleteDevices kc (device # devices) =
     bindA (DeleteERdmaDevice kc device) (\<lambda>_. deleteDevices kc devices)"

definition RemoveERdmaDevices :: "'w k8s \<Rightarrow> string \<Rightarrow> ('w, Result) act" where
  "RemoveERdmaDevices kc nodeName =
     bindA (ListERdmaDevices kc (labelNodeName, nodeName)) (\<lambda>items.
     if items = [] then retA noResult
     else bindA (clearFinalizers kc items) (\<lambda>_.
          bindA (deleteDevices kc items) (\<lambda>_. retA noResult)))"

text \<open>The ids \<open>backfillEriTags\<close> collects, and the set with those ids stored.\<close>

fun collectPending :: "string list \<Rightarrow> string set \<Rightarrow> string list \<times> string set" where
  "collectPending [] tagged = ([], tagged)"
| "collectPending (i # ids) tagged =
     (if i = [] then collectPending ids tagged
      else if i \<in> tagged then collectPending ids tagged
      else (let (p, t) = collectPending ids (insert i tagged) in (i # p, t)))"

definition deviceIDs :: "ERdmaDevice list \<Rightarrow> string list" where
  "deviceIDs devices = concat (map (\<lambda>dev. map dev_ID (spec_Devices (cr_Spec dev))) devices)"

definition backfillEriTags :: "'w ecs \<Rightarrow> EriClient \<Rightarrow> string set \<Rightarrow> ERdmaDevice list \<Rightarrow> string
    \<Rightarrow> ('w, string set) act" where
  "backfillEriTags api e tagged devices instanceID =
     (let (pending, tagged') = collectPending (deviceIDs devices) tagged in
      if pending = [] then retA tagged'
      else tryA (EnsureEriTags api e pending instanceID)
             (\<lambda>_. retA tagged') (\<lambda>err. retA (tagged' - set pending)))"

definition newDevice :: "Node \<Rightarrow> string \<Rightarrow> bool \<Rightarrow> ERI list \<Rightarrow> ERdmaDevice" where
  "newDevice node instanceID jumboFrame eri =
     \<lparr> cr_Name = node_Name node,
       cr_Labels = [(labelInstanceID, instanceID), (labelNodeName, node_Name node)],
       cr_Finalizers = [],
       cr_OwnerReferences = [\<lparr> or_APIVersion = node_APIVersion node, or_Kind = node_Kind node,
                               or_Name = node_Name node, or_UID = node_UID node \<rparr>],
       cr_Deleting = False,
       cr_Spec = \<lparr> spec_Devices = map toDeviceInfo eri, spec_JumboFrame = jumboFrame \<rparr>,
       cr_Status = [] \<rparr>"

text \<open>
  \<open>wait.PollUntilContextTimeout\<close>, whose result is ignored: it asks until the object can be
  read, at most as often as the clock allows in two seconds (\<open>polls\<close>, a parameter).
\<close>

fun waitCreated :: "'w k8s \<Rightarrow> nat \<Rightarrow> string \<Rightarrow> ('w, unit) act" where
  "waitCreated kc 0 name = retA ()"
| "waitCreated kc (Suc polls) name =
     tryA (GetERdmaDevice kc name) (\<lambda>_. retA ()) (\<lambda>_. waitCreated kc polls name)"

text \<open>
  \<open>time.Duration(seconds) * time.Second\<close> is an int64 product; \<open>time.Since\<close> saturates at the
  int64 bounds.
\<close>

definition readyTimeout :: "Config \<Rightarrow> int" where
  "readyTimeout c = sint (word_of_int (cfg_WaitNodeReadyTimeoutSeconds c * Second) :: 64 word)"

definition Since :: "int \<Rightarrow> int \<Rightarrow> int" where
  "Since now t = max (- (2 ^ 63)) (min (2 ^ 63 - 1) (now - t))"

definition waitResult :: Result where
  "waitResult = \<lparr> Requeue = False, RequeueAfter = 30 * Second \<rparr>"

text \<open>The path that makes the custom resource of a node that has none.\<close>

definition provisionNode :: "'w ecs \<Rightarrow> 'w k8s \<Rightarrow> nat \<Rightarrow> EriClient \<Rightarrow> Node \<Rightarrow> string \<Rightarrow> ('w, Result) act" where
  "provisionNode api kc polls e node instanceID =
     bindA (SelectERIs api e instanceID) (\<lambda>eri.
     case eri of None \<Rightarrow> retA noResult
     | Some eris \<Rightarrow>
         bindA (tryA (IsJumboFrameEnabled api instanceID) retA (\<lambda>err. retA False)) (\<lambda>jumboFrame.
         bindA (CreateERdmaDevice kc (newDevice node instanceID jumboFrame eris)) (\<lambda>_.
         bindA (waitCreated kc polls (node_Name node)) (\<lambda>_. retA noResult))))"

text \<open>
  \<open>Reconcile\<close> for the request name \<open>name\<close>: the result and the set of tagged interfaces,
  which an error leaves as it was.
\<close>

definition reconcileLive :: "'w ecs \<Rightarrow> 'w k8s \<Rightarrow> nat \<Rightarrow> NodeReconciler \<Rightarrow> Node \<Rightarrow> ('w, Result \<times> string set) act" where
  "reconcileLive api kc polls r node =
     bindA (InstanceIDFromNode api (nr_EriClient r) node) (\<lambda>instanceID.
     bindA (ListERdmaDevices kc (labelInstanceID, instanceID)) (\<lambda>items.
     if items = [] then
       bindA (provisionNode api kc polls (nr_EriClient r) node instanceID) (\<lambda>res.
         retA (res, nr_taggedENIs r))
     else
       bindA (backfillEriTags api (nr_EriClient r) (nr_taggedENIs r) items instanceID) (\<lambda>tagged.
         retA (noResult, tagged))))"

definition NodeReconcile :: "'w ecs \<Rightarrow> 'w k8s \<Rightarrow> nat \<Rightarrow> NodeReconciler \<Rightarrow> string \<Rightarrow> ('w, Result \<times> string set) act" where
  "NodeReconcile api kc polls r name =
     (let remove = bindA (RemoveERdmaDevices kc name) (\<lambda>res. retA (res, nr_taggedENIs r)) in
      tryA (GetNode kc name)
        (\<lambda>node.
           if \<not> IsZero (node_DeletionTimestamp node) then remove
           else (\<lambda>w.
             if \<not> isNodeReady node \<and>
                Since (Now kc w) (node_CreationTimestamp node) < readyTimeout (nr_CtrlConfig r)
             then (Ok (waitResult, nr_taggedENIs r), w)
             else reconcileLive api kc polls r node w))
        (\<lambda>err. if IsNotFound err then remove else failA err))"

text \<open>\<open>SetupWithManager\<close>: which events of a node are queued.\<close>

datatype NodeEvent =
    CreateEvent "Node option"
  | DeleteEvent "Node option"
  | UpdateEvent "Node option" "Node option"
  | GenericEvent "Node option"

fun nodePredicate :: "NodeReconciler \<Rightarrow> NodeEvent \<Rightarrow> bool res" where
  "nodePredicate r (CreateEvent n) = Ok (OwnNode r n)"
| "nodePredicate r (DeleteEvent n) = Ok (OwnNode r n)"
| "nodePredicate r (UpdateEvent old new) = PredictNodeUpdate r old new"
| "nodePredicate r (GenericEvent n) = Ok (OwnNode r n)"

section \<open>Which events are queued\<close>

text \<open>
  An update of a node is queued exactly when the controller owns the new node and it either did not
  own the old one, or the node is being deleted, or became ready, or changed its provider id; the predicate never
  panics, also for absent nodes.
\<close>

theorem update_queued_iff:
  "PredictNodeUpdate r oldNode newNode = Ok (OwnNode r newNode \<and>
     (\<not> OwnNode r oldNode \<or> (\<exists>new. newNode = Some new \<and> node_DeletionTimestamp new \<noteq> None) \<or>
      (\<exists>old new. oldNode = Some old \<and> newNode = Some new \<and>
         (\<not> isNodeReady old \<and> isNodeReady new \<or> node_ProviderID old \<noteq> node_ProviderID new))))"
proof (cases newNode; cases oldNode)
  fix new old assume "newNode = Some new" "oldNode = Some old"
  then show ?thesis by (auto simp: PredictNodeUpdate_def)
qed (auto simp: PredictNodeUpdate_def OwnNode_def)

section \<open>Backfilling tags\<close>

definition untagged :: "string set \<Rightarrow> ERdmaDevice list \<Rightarrow> string list" where
  "untagged tagged devices = Uniq_list (filter (\<lambda>i. i \<noteq> [] \<and> i \<notin> tagged) (deviceIDs devices))"

lemma collectPending_spec:
  "collectPending ids tagged =
     (Uniq_list (filter (\<lambda>i. i \<noteq> [] \<and> i \<notin> tagged) ids), tagged \<union> (set ids - {[]}))"
proof (induction ids tagged rule: collectPending.induct)
  case (2 i ids tagged)
  show ?case
  proof (cases "i = [] \<or> i \<in> tagged")
    case False
    have "filter (\<lambda>j. j \<noteq> [] \<and> j \<notin> insert i tagged) ids =
        filter (\<lambda>j. j \<noteq> i) (filter (\<lambda>j. j \<noteq> [] \<and> j \<notin> tagged) ids)"
      by (auto intro: filter_cong)
    then have "Uniq_list (filter (\<lambda>j. j \<noteq> [] \<and> j \<notin> insert i tagged) ids) =
        filter (\<lambda>j. j \<noteq> i) (Uniq_list (filter (\<lambda>j. j \<noteq> [] \<and> j \<notin> tagged) ids))"
      by (simp only: Uniq_list_filter)
    with False 2 show ?thesis by auto
  qed (use 2 in auto)
qed simp

lemma untagged_props:
  "distinct (untagged tagged devices)"
  "set (untagged tagged devices) = set (deviceIDs devices) - {[]} - tagged"
  by (auto simp: untagged_def distinct_Uniq_list)

text \<open>
  Backfilling the tags makes one request with the interface ids of the devices that are not marked
  yet, each once and in order, and none if there are no such ids; if the request succeeds exactly
  these are marked, and if it fails the marks are exactly as before, so that the next reconcile retries.
\<close>

theorem backfill_exact:
  "backfillEriTags api e tagged devices instanceID =
     (if untagged tagged devices = [] then retA tagged
      else tryA (EnsureEriTags api e (untagged tagged devices) instanceID)
             (\<lambda>_. retA (tagged \<union> set (untagged tagged devices))) (\<lambda>_. retA tagged))"
proof -
  let ?new = "untagged tagged devices"
  have all: "tagged \<union> (set (deviceIDs devices) - {[]}) = tagged \<union> set ?new"
    and undo: "tagged \<union> set ?new - set ?new = tagged"
    using untagged_props(2) [of tagged devices] by auto
  have pend: "collectPending (deviceIDs devices) tagged = (?new, tagged \<union> set ?new)"
    using collectPending_spec [of "deviceIDs devices" tagged] by (simp add: untagged_def all [unfolded untagged_def])
  show ?thesis unfolding backfillEriTags_def pend by (simp add: undo)
qed

section \<open>The readiness gate\<close>

lemma sint64_small: "- (2 ^ 63) \<le> i \<Longrightarrow> i < 2 ^ 63 \<Longrightarrow> sint (word_of_int i :: 64 word) = i"
  by (simp add: signed_of_int signed_take_bit_int_eq_self)

lemma readyTimeout_exact:
  assumes "0 \<le> cfg_WaitNodeReadyTimeoutSeconds c" and "cfg_WaitNodeReadyTimeoutSeconds c \<le> 9223372036"
  shows "readyTimeout c = cfg_WaitNodeReadyTimeoutSeconds c * Second"
  using assms unfolding readyTimeout_def by (intro sint64_small) (auto simp: Second_def)

lemma Since_less_iff:
  assumes "t \<le> now" and "d < 2 ^ 63"
  shows "Since now t < d \<longleftrightarrow> now - t < d"
  using assms by (auto simp: Since_def)

text \<open>
  C30: A node that is not ready is left alone, without any further call, until it is older than the
  configured number of seconds, and is looked at again after 30 seconds; a ready or old enough one is processed. This holds for the true age
  and timeout, although the code computes both in saturating or wrapping 64-bit nanoseconds.
\<close>

theorem ready_gate:
  assumes "GetNode kc name w = (Ok node, w1)" and "IsZero (node_DeletionTimestamp node)"
    and "0 \<le> cfg_WaitNodeReadyTimeoutSeconds (nr_CtrlConfig r)"
    and "cfg_WaitNodeReadyTimeoutSeconds (nr_CtrlConfig r) \<le> 9223372036"
    and "node_CreationTimestamp node \<le> Now kc w1"
  shows "NodeReconcile api kc polls r name w =
    (if \<not> isNodeReady node \<and> Now kc w1 - node_CreationTimestamp node
          < cfg_WaitNodeReadyTimeoutSeconds (nr_CtrlConfig r) * Second
     then (Ok (waitResult, nr_taggedENIs r), w1)
     else reconcileLive api kc polls r node w1)"
proof -
  note t = readyTimeout_exact [OF assms(3,4)]
  have "readyTimeout (nr_CtrlConfig r) < 2 ^ 63" unfolding t using assms(4) by (simp add: Second_def)
  note s = Since_less_iff [OF assms(5) this]
  show ?thesis using assms(1,2) s by (simp add: NodeReconcile_def Let_def tryA_def t)
qed

section \<open>Removing the devices of a node\<close>

text \<open>
  What the API server documents of the calls \<open>RemoveERdmaDevices\<close> makes, for the stored
  objects \<open>devs w\<close>: a label selector lists the objects that carry the label; a patch of the
  metadata keeps spec and status, and an object under deletion vanishes with its last
  finalizer; deleting an object removes it unless finalizers hold it.
\<close>

definition hasLabel :: "string \<times> string \<Rightarrow> ERdmaDevice \<Rightarrow> bool" where
  "hasLabel l d \<longleftrightarrow> map_of (cr_Labels d) (fst l) = Some (snd l)"

definition patchStore :: "ERdmaDevice \<Rightarrow> ERdmaDevice list \<Rightarrow> ERdmaDevice list" where
  "patchStore d xs = filter (\<lambda>x. \<not> (cr_Name x = cr_Name d \<and> cr_Deleting x \<and> cr_Finalizers x = []))
     (map (\<lambda>x. if cr_Name x = cr_Name d
        then d\<lparr> cr_Spec := cr_Spec x, cr_Status := cr_Status x, cr_Deleting := cr_Deleting x \<rparr> else x) xs)"

definition deleteStore :: "ERdmaDevice \<Rightarrow> ERdmaDevice list \<Rightarrow> ERdmaDevice list" where
  "deleteStore d xs = map (\<lambda>x. if cr_Name x = cr_Name d then x\<lparr> cr_Deleting := True \<rparr> else x)
     (filter (\<lambda>x. \<not> (cr_Name x = cr_Name d \<and> cr_Finalizers x = [])) xs)"

definition deviceStore :: "'w k8s \<Rightarrow> ('w \<Rightarrow> ERdmaDevice list) \<Rightarrow> bool" where
  "deviceStore kc devs \<longleftrightarrow>
     (\<forall>l w items w'. ListERdmaDevices kc l w = (Ok items, w') \<longrightarrow>
        devs w' = devs w \<and> items = filter (hasLabel l) (devs w)) \<and>
     (\<forall>d w u w'. CreateOrPatch kc d w = (Ok u, w') \<longrightarrow> devs w' = patchStore d (devs w)) \<and>
     (\<forall>d w u w'. DeleteERdmaDevice kc d w = (Ok u, w') \<longrightarrow> devs w' = deleteStore d (devs w))"

lemma deviceStoreD:
  assumes "deviceStore kc devs"
  shows "ListERdmaDevices kc l w = (Ok items, w') \<Longrightarrow> devs w' = devs w \<and> items = filter (hasLabel l) (devs w)"
    and "CreateOrPatch kc d w = (Ok u, w') \<Longrightarrow> devs w' = patchStore d (devs w)"
    and "DeleteERdmaDevice kc d w = (Ok u, w') \<Longrightarrow> devs w' = deleteStore d (devs w)"
  using assms unfolding deviceStore_def by blast+

lemma withoutFinalizers_simps [simp]:
  "cr_Name (withoutFinalizers d) = cr_Name d" "cr_Finalizers (withoutFinalizers d) = []"
  "cr_Labels (withoutFinalizers d) = cr_Labels d"
  by (simp_all add: withoutFinalizers_def Let_def)

text \<open>
  The part of the store with none of the given names stays; an object with one of the names
  has lost its finalizers after the first loop and is gone after the second.
\<close>

definition others :: "string set \<Rightarrow> ERdmaDevice list \<Rightarrow> ERdmaDevice list" where
  "others N xs = filter (\<lambda>x. cr_Name x \<notin> N) xs"

lemma others_patch: "cr_Name d \<in> N \<Longrightarrow> others N (patchStore d xs) = others N xs"
  by (induction xs) (auto simp: others_def patchStore_def)

lemma others_delete: "cr_Name d \<in> N \<Longrightarrow> others N (deleteStore d xs) = others N xs"
  by (induction xs) (auto simp: others_def deleteStore_def)

lemma clearFinalizers_store:
  assumes "deviceStore kc devs"
  shows "clearFinalizers kc ds w = (Ok u, w') \<Longrightarrow> cr_Name ` set ds \<subseteq> N \<Longrightarrow>
     \<forall>x\<in>set (devs w). cr_Name x \<in> F \<longrightarrow> cr_Finalizers x = [] \<Longrightarrow>
     others N (devs w') = others N (devs w) \<and>
     (\<forall>x\<in>set (devs w'). cr_Name x \<in> cr_Name ` set ds \<union> F \<longrightarrow> cr_Finalizers x = [])"
proof (induction ds arbitrary: w F)
  case (Cons d ds)
  from Cons.prems(1) obtain v w1 where p: "CreateOrPatch kc (withoutFinalizers d) w = (Ok v, w1)"
    and rest: "clearFinalizers kc ds w1 = (Ok u, w')" by (auto elim!: bindA_OkE)
  note store = deviceStoreD(2) [OF assms p]
  have "\<forall>x\<in>set (devs w1). cr_Name x \<in> insert (cr_Name d) F \<longrightarrow> cr_Finalizers x = []"
    using Cons.prems(3) by (auto simp: store patchStore_def)
  from Cons.IH [OF rest _ this] Cons.prems(2) show ?case
    by (auto simp: store others_patch)
qed auto

lemma deleteDevices_store:
  assumes "deviceStore kc devs"
  shows "deleteDevices kc ds w = (Ok u, w') \<Longrightarrow> cr_Name ` set ds \<subseteq> N \<Longrightarrow>
     \<forall>x\<in>set (devs w). cr_Name x \<in> N \<longrightarrow> cr_Finalizers x = [] \<Longrightarrow>
     others N (devs w') = others N (devs w) \<and>
     cr_Name ` set (devs w') \<subseteq> cr_Name ` set (devs w) - cr_Name ` set ds"
proof (induction ds arbitrary: w)
  case (Cons d ds)
  from Cons.prems(1) obtain v w1 where p: "DeleteERdmaDevice kc d w = (Ok v, w1)"
    and rest: "deleteDevices kc ds w1 = (Ok u, w')" by (auto elim!: bindA_OkE)
  note store = deviceStoreD(3) [OF assms p]
  have "\<forall>x\<in>set (devs w1). cr_Name x \<in> N \<longrightarrow> cr_Finalizers x = []"
    and names: "cr_Name ` set (devs w1) \<subseteq> cr_Name ` set (devs w) - {cr_Name d}"
    using Cons.prems(2,3) by (auto simp: store deleteStore_def)
  from Cons.IH [OF rest _ this(1)] Cons.prems(2)
  have "others N (devs w') = others N (devs w1)"
    and "cr_Name ` set (devs w') \<subseteq> cr_Name ` set (devs w1) - cr_Name ` set ds" by auto
  with names Cons.prems(2) show ?case by (auto simp: store others_delete dest!: subsetD)
qed auto

text \<open>
  C10: When RemoveERdmaDevices succeeds, the custom resources labelled with the node's name are gone,
  whatever finalizers they had, and all others are as they were.
\<close>

theorem remove_exactly_the_nodes_devices:
  assumes "deviceStore kc devs" and "distinct (map cr_Name (devs w))"
    and "RemoveERdmaDevices kc nodeName w = (Ok res, w')"
  shows "res = noResult \<and> devs w' = filter (\<lambda>d. \<not> hasLabel (labelNodeName, nodeName) d) (devs w)"
proof -
  let ?P = "hasLabel (labelNodeName, nodeName)"
  from assms(3) obtain items w1 where l: "ListERdmaDevices kc (labelNodeName, nodeName) w = (Ok items, w1)"
    and res: "res = noResult"
    and run: "items = [] \<and> w' = w1 \<or> (\<exists>w2 u v. clearFinalizers kc items w1 = (Ok u, w2) \<and>
        deleteDevices kc items w2 = (Ok v, w'))"
    by (auto simp: RemoveERdmaDevices_def elim!: bindA_OkE split: if_splits)
  from deviceStoreD(1) [OF assms(1) l] have w1: "devs w1 = devs w" and items: "items = filter ?P (devs w)" by auto
  let ?N = "cr_Name ` set items"
  have keep: "others ?N (devs w) = filter (\<lambda>d. \<not> ?P d) (devs w)"
    unfolding others_def items using assms(2)
    by (intro filter_cong) (auto simp: distinct_map inj_on_def)
  from run show ?thesis
  proof (elim disjE exE conjE)
    assume "items = []" "w' = w1"
    with w1 items res keep show ?thesis by (simp add: others_def)
  next
    fix w2 u v assume c: "clearFinalizers kc items w1 = (Ok u, w2)" and d: "deleteDevices kc items w2 = (Ok v, w')"
    from clearFinalizers_store [OF assms(1) c subset_refl, of "{}"]
    have o2: "others ?N (devs w2) = others ?N (devs w1)"
      and f2: "\<forall>x\<in>set (devs w2). cr_Name x \<in> ?N \<longrightarrow> cr_Finalizers x = []" by auto
    from deleteDevices_store [OF assms(1) d subset_refl f2]
    have o3: "others ?N (devs w') = others ?N (devs w2)" and gone: "cr_Name ` set (devs w') \<inter> ?N = {}" by auto
    from gone have "others ?N (devs w') = devs w'" by (auto simp: others_def filter_id_conv)
    with o2 o3 keep w1 res show ?thesis by simp
  qed
qed

section \<open>Provisioning a node\<close>

text \<open>What every custom resource the controller creates satisfies.\<close>

definition createdOk :: "ERdmaDevice \<Rightarrow> bool" where
  "createdOk d \<longleftrightarrow> hasLabel (labelNodeName, cr_Name d) d \<and> labelInstanceID \<in> fst ` set (cr_Labels d) \<and>
     map or_Name (cr_OwnerReferences d) = [cr_Name d] \<and> cr_Finalizers d = [] \<and>
     distinct (map dev_NetworkCardIndex (spec_Devices (cr_Spec d)))"

lemma newDevice_ok:
  assumes "distinct (map eri_CardIndex eris)"
  shows "createdOk (newDevice node iid jumbo eris)"
proof -
  have "map dev_NetworkCardIndex (map toDeviceInfo eris) = map eri_CardIndex eris" by simp
  then have "distinct (map dev_NetworkCardIndex (map toDeviceInfo eris))" using assms by presburger
  then show ?thesis
    by (simp add: createdOk_def newDevice_def hasLabel_def labelNodeName_def labelInstanceID_def del: map_map)
qed

lemma waitCreated_create_frame:
  "waitCreated (kc\<lparr> CreateERdmaDevice := c \<rparr>) polls name = waitCreated kc polls name"
  by (induction polls) simp_all

lemma RemoveERdmaDevices_create_frame:
  "RemoveERdmaDevices (kc\<lparr> CreateERdmaDevice := c \<rparr>) name = RemoveERdmaDevices kc name"
proof -
  have fin: "clearFinalizers (kc\<lparr> CreateERdmaDevice := c \<rparr>) ds = clearFinalizers kc ds"
    and del: "deleteDevices (kc\<lparr> CreateERdmaDevice := c \<rparr>) ds = deleteDevices kc ds" for ds
    by (induction ds) simp_all
  show ?thesis unfolding RemoveERdmaDevices_def fin del by simp
qed

lemma provisionNode_creates_ok:
  assumes one: "\<And>w eris w'. SelectERIs api e iid w = (Ok (Some eris), w') \<Longrightarrow> distinct (map eri_CardIndex eris)"
    and c: "\<And>d. createdOk d \<Longrightarrow> c d = CreateERdmaDevice kc d"
  shows "provisionNode api (kc\<lparr> CreateERdmaDevice := c \<rparr>) polls e node iid = provisionNode api kc polls e node iid"
proof
  fix w
  have "c (newDevice node iid j eris) = CreateERdmaDevice kc (newDevice node iid j eris)"
    if "SelectERIs api e iid w = (Ok (Some eris), w1)" for eris j w1
    using one [OF that] by (intro c newDevice_ok)
  then show "provisionNode api (kc\<lparr> CreateERdmaDevice := c \<rparr>) polls e node iid w = provisionNode api kc polls e node iid w"
    unfolding provisionNode_def waitCreated_create_frame
    by (intro bindA_cong_run) (auto split: option.splits)
qed


lemma NodeReconcile_create_frame:
  assumes "\<And>node iid. provisionNode api (kc\<lparr> CreateERdmaDevice := c \<rparr>) polls (nr_EriClient r) node iid =
    provisionNode api kc polls (nr_EriClient r) node iid"
  shows "NodeReconcile api (kc\<lparr> CreateERdmaDevice := c \<rparr>) polls r name = NodeReconcile api kc polls r name"
proof -
  have live: "reconcileLive api (kc\<lparr> CreateERdmaDevice := c \<rparr>) polls r node = reconcileLive api kc polls r node" for node
    unfolding reconcileLive_def assms by simp
  have now: "Now (kc\<lparr> CreateERdmaDevice := c \<rparr>) = Now kc" by simp
  show ?thesis unfolding NodeReconcile_def RemoveERdmaDevices_create_frame live now by simp
qed

text \<open>
  C6: Every custom resource that reconciling a node creates carries the node-name label RemoveERdmaDevices
  looks for and the instance label, is owned by the node of its name, has no finalizer and lists at most one
  device per network card. Stated as independence: what the API server does with any other object does
  not matter.
\<close>

theorem created_devices_wellformed:
  assumes "servicePrimaryOnCard0 api" and "\<And>d. createdOk d \<Longrightarrow> c d = CreateERdmaDevice kc d"
  shows "NodeReconcile api (kc\<lparr> CreateERdmaDevice := c \<rparr>) polls r name = NodeReconcile api kc polls r name"
  using assms by (intro NodeReconcile_create_frame provisionNode_creates_ok)
    (auto intro: SelectERIs_distinct_cards)

section \<open>A small cluster\<close>

text \<open>A cluster for the witnesses: its nodes, its custom resources and the time of day.\<close>

type_synonym exWorld = "Node list \<times> ERdmaDevice list"

definition exCluster :: "int \<Rightarrow> exWorld k8s" where
  "exCluster now =
     \<lparr> GetNode = (\<lambda>n w. (case find (\<lambda>x. node_Name x = n) (fst w) of None \<Rightarrow> Err (NotFound n) | Some x \<Rightarrow> Ok x, w)),
       ListERdmaDevices = (\<lambda>l w. (Ok (filter (hasLabel l) (snd w)), w)),
       GetERdmaDevice = (\<lambda>n w. (case find (\<lambda>x. cr_Name x = n) (snd w) of None \<Rightarrow> Err (NotFound n) | Some x \<Rightarrow> Ok x, w)),
       CreateERdmaDevice = (\<lambda>d w. if list_ex (\<lambda>x. cr_Name x = cr_Name d) (snd w)
          then (Err (AlreadyExists (cr_Name d)), w) else (Ok (), (fst w, snd w @ [d]))),
       CreateOrPatch = (\<lambda>d w. (Ok (), (fst w, patchStore d (snd w)))),
       DeleteERdmaDevice = (\<lambda>d w. if list_ex (\<lambda>x. cr_Name x = cr_Name d) (snd w)
          then (Ok (), (fst w, deleteStore d (snd w))) else (Err (NotFound (cr_Name d)), w)),
       UpdateStatus = (\<lambda>d w. (Ok (), (fst w, map (\<lambda>x. if cr_Name x = cr_Name d
          then x\<lparr> cr_Status := cr_Status d \<rparr> else x) (snd w)))),
       Now = (\<lambda>w. now) \<rparr>"

definition exNode :: "string \<Rightarrow> string \<Rightarrow> Node" where
  "exNode name ready = \<lparr> node_Name = name, node_UID = ''u-1'', node_APIVersion = ''v1'', node_Kind = ''Node'',
     node_Labels = [], node_DeletionTimestamp = None, node_CreationTimestamp = 0,
     node_ProviderID = ''cn-hangzhou.i-1'', node_Addresses = [],
     node_Conditions = [\<lparr> cond_Type = ''Ready'', cond_Status = ready \<rparr>] \<rparr>"

definition exConfig :: Config where
  "exConfig = configDefaults \<lparr> cfg_Region = ''cn-hangzhou'', cfg_ManageNonOwnedERIs = True,
     cfg_ControllerNamespace = ''kube-system'', cfg_ControllerName = ''erdma'', cfg_ClusterDomain = ''local'',
     cfg_CertDir = [], cfg_EnableDevicePlugin = None, cfg_EnableWebhook = None, cfg_SMCInitImage = [],
     cfg_EnableInitContainerInject = None, cfg_NodeSelector = [], cfg_WaitNodeReadyTimeoutSeconds = 0 \<rparr>"

definition exReconciler :: NodeReconciler where
  "exReconciler = \<lparr> nr_EriClient = exClient, nr_CtrlConfig = exConfig, nr_taggedENIs = {} \<rparr>"

definition exDevice :: "string \<Rightarrow> ERdmaDevice" where
  "exDevice name = newDevice (exNode name ''True'') ''i-1'' False exSelected"

lemma exCluster_store: "deviceStore (exCluster now) snd"
  by (auto simp: deviceStore_def exCluster_def split: if_splits)

theorem remove_exactly_the_nodes_devices_witness:
  "snd (snd (RemoveERdmaDevices (exCluster 0) ''node-a'' ([], [exDevice ''node-a'', exDevice ''node-b'']))) =
     [exDevice ''node-b'']"
proof -
  let ?w = "([], [exDevice ''node-a'', exDevice ''node-b''])"
  have "okMap (\<lambda>_. ()) (RemoveERdmaDevices (exCluster 0) ''node-a'' ?w) = Some ()" by code_simp
  then obtain res w' where "RemoveERdmaDevices (exCluster 0) ''node-a'' ?w = (Ok res, w')" by (rule okMap_SomeE)
  from remove_exactly_the_nodes_devices [OF exCluster_store _ this] this show ?thesis
    by (simp add: exDevice_def newDevice_def exNode_def hasLabel_def labelNodeName_def labelInstanceID_def)
qed

theorem ready_gate_witness:
  "NodeReconcile (exFixed []) (exCluster 5) 4 exReconciler ''node-a'' ([exNode ''node-a'' ''False''], []) =
     (Ok (waitResult, {}), ([exNode ''node-a'' ''False''], []))"
proof -
  have "GetNode (exCluster 5) ''node-a'' ([exNode ''node-a'' ''False''], []) =
      (Ok (exNode ''node-a'' ''False''), ([exNode ''node-a'' ''False''], []))"
    by (simp add: exCluster_def exNode_def)
  from ready_gate [OF this, of exReconciler "exFixed []" 4] show ?thesis
    by (simp add: exNode_def IsZero_def exReconciler_def exConfig_def configDefaults_def exCluster_def
        isNodeReady_def Second_def)
qed

theorem created_devices_wellformed_witness:
  "NodeReconcile (exFixed [exPrimary, exSecondary])
     ((exCluster 5)\<lparr> CreateERdmaDevice := (\<lambda>d. if createdOk d then CreateERdmaDevice (exCluster 5) d
        else (\<lambda>w. (Panic ''malformed device'', w))) \<rparr>) 4 exReconciler ''node-a'' =
   NodeReconcile (exFixed [exPrimary, exSecondary]) (exCluster 5) 4 exReconciler ''node-a''"
  by (rule created_devices_wellformed [OF exFixed_primary]) simp

lemma ex_provision:
  "okMap (\<lambda>_. ()) (NodeReconcile (exFixed [exPrimary, exSecondary]) (exCluster 5) 4 exReconciler ''node-a''
     ([exNode ''node-a'' ''True''], [])) = Some () \<and>
   map cr_Name (snd (snd (NodeReconcile (exFixed [exPrimary, exSecondary]) (exCluster 5) 4 exReconciler ''node-a''
     ([exNode ''node-a'' ''True''], [])))) = [''node-a'']"
  by code_simp

theorem update_queued_iff_witness:
  "PredictNodeUpdate exReconciler (Some (exNode ''node-a'' ''False'')) (Some (exNode ''node-a'' ''True'')) = Ok True \<and>
   PredictNodeUpdate exReconciler (Some (exNode ''node-a'' ''True'')) (Some (exNode ''node-a'' ''False'')) = Ok False"
  using update_queued_iff [of exReconciler "Some (exNode ''node-a'' ''False'')" "Some (exNode ''node-a'' ''True'')"]
    update_queued_iff [of exReconciler "Some (exNode ''node-a'' ''True'')" "Some (exNode ''node-a'' ''False'')"]
  by (simp add: OwnNode_def isNodeReady_def exReconciler_def exConfig_def configDefaults_def exNode_def)

end
