(* ===== verification/Eri_Converge.thy ===== *)
theory Eri_Converge
  imports Eri_Client
begin

text \<open>
  The liveness of EnsureEriForInstance (internal/controller/eri.go): under what the ECS service documents of
  its calls, two rounds bring every device up.
\<close>

section \<open>Convergence\<close>

text \<open>
  What the ECS documentation says of the calls \<open>EnsureEriForInstance\<close> makes, for the status and
  traffic mode \<open>stat w i\<close> of interface \<open>i\<close>: describing reports them, attaching puts the
  interface in use, modifying sets the mode, and tags change neither.
\<close>

definition eniCloud :: "'w ecs \<Rightarrow> ('w \<Rightarrow> string \<Rightarrow> (string \<times> string) option) \<Rightarrow> bool" where
  "eniCloud api stat \<longleftrightarrow>
     (\<forall>req w resp w'. DescribeNetworkInterfaces api req w = (Ok resp, w') \<longrightarrow> stat w' = stat w \<and>
        (\<exists>m. eniMapOf (dni_NetworkInterfaceSet resp) = Ok m \<and>
          (\<forall>i\<in>set (dni_NetworkInterfaceId req). \<forall>s t. stat w i = Some (s, t) \<longrightarrow>
             (\<exists>eni. m i = Some eni \<and> ni_Status eni = Some s \<and> ni_NetworkInterfaceTrafficMode eni = Some t)))) \<and>
     (\<forall>req w u w'. AttachNetworkInterface api req w = (Ok u, w') \<longrightarrow>
        stat w' = (stat w)(ani_NetworkInterfaceId req :=
          map_option (\<lambda>(s, t). (ENIStatusInUse, t)) (stat w (ani_NetworkInterfaceId req)))) \<and>
     (\<forall>req w u w'. ModifyNetworkInterfaceAttribute api req w = (Ok u, w') \<longrightarrow>
        stat w' = (stat w)(mni_NetworkInterfaceId req :=
          map_option (\<lambda>(s, t). (s, mni_TrafficMode req)) (stat w (mni_NetworkInterfaceId req)))) \<and>
     (\<forall>req w r w'. TagResources api req w = (r, w') \<longrightarrow> stat w' = stat w)"

lemma eniCloudD:
  assumes "eniCloud api stat"
  shows "DescribeNetworkInterfaces api req w = (Ok resp, w') \<Longrightarrow> stat w' = stat w \<and>
        (\<exists>m. eniMapOf (dni_NetworkInterfaceSet resp) = Ok m \<and>
          (\<forall>i\<in>set (dni_NetworkInterfaceId req). \<forall>s t. stat w i = Some (s, t) \<longrightarrow>
             (\<exists>eni. m i = Some eni \<and> ni_Status eni = Some s \<and> ni_NetworkInterfaceTrafficMode eni = Some t)))"
    and "AttachNetworkInterface api areq w = (Ok u, w') \<Longrightarrow>
        stat w' = (stat w)(ani_NetworkInterfaceId areq :=
          map_option (\<lambda>(s, t). (ENIStatusInUse, t)) (stat w (ani_NetworkInterfaceId areq)))"
    and "ModifyNetworkInterfaceAttribute api mreq w = (Ok u, w') \<Longrightarrow>
        stat w' = (stat w)(mni_NetworkInterfaceId mreq :=
          map_option (\<lambda>(s, t). (s, mni_TrafficMode mreq)) (stat w (mni_NetworkInterfaceId mreq)))"
    and "TagResources api treq w = (r, w') \<Longrightarrow> stat w' = stat w"
  using assms unfolding eniCloud_def by blast+

text \<open>Devices the controller can bring up: in use for RDMA, a detached secondary ERI, or the primary interface.\<close>

definition readyStat :: "string \<times> string" where
  "readyStat = (ENIStatusInUse, trafficModeRDMA)"

definition canReady :: "DeviceInfo \<Rightarrow> string \<times> string \<Rightarrow> bool" where
  "canReady d st \<longleftrightarrow> st = readyStat \<or> \<not> dev_IsPrimaryENI d \<and> st = (ENIStatusAvailable, trafficModeRDMA) \<or>
     dev_IsPrimaryENI d \<and> fst st = ENIStatusInUse"

lemma attachDevice_stat:
  assumes "eniCloud api stat" and "attachDevice api e d w = (Ok s, w')" and "DeviceStatusFailed \<notin> st_Status ` set s"
  shows "stat w' = (stat w)(dev_ID d := map_option (\<lambda>(s, t). (ENIStatusInUse, t)) (stat w (dev_ID d)))"
  using assms(2,3) by (auto simp: attachDevice_def devStatusOf_def elim!: tryA_OkE dest!: eniCloudD(2) [OF assms(1)])

lemma EnsureEriTags_stat:
  assumes "eniCloud api stat" and "EnsureEriTags api e ids i w = (r, w')"
  shows "stat w' = stat w"
proof (cases "TagResources api \<lparr> tr_RegionId = regionID e, tr_ResourceType = eniResourceType,
                   tr_ResourceId = ids, tr_Tag = eriTags i \<rparr> w")
  case (Pair q w1)
  from eniCloudD(4) [OF assms(1) this] assms(2) Pair show ?thesis
    by (cases q) (auto simp: EnsureEriTags_def tryA_def split: if_splits)
qed

lemma ConvertPrimaryENI_stat:
  assumes "eniCloud api stat" and "ConvertPrimaryENI api e i iid qp w = (Ok u, w')"
  shows "stat w' = (stat w)(i := map_option (\<lambda>(s, t). (s, trafficModeRDMA)) (stat w i))"
  using assms(2)
  by (auto simp: ConvertPrimaryENI_def elim!: bindA_OkE tryA_OkE
      dest!: eniCloudD(3) [OF assms(1)] EnsureEriTags_stat [OF assms(1)])

lemma convertDevice_stat:
  assumes "eniCloud api stat" and "convertDevice api e d w = (Ok s, w')" and "DeviceStatusFailed \<notin> st_Status ` set s"
  shows "stat w' = (stat w)(dev_ID d := map_option (\<lambda>(s, t). (s, trafficModeRDMA)) (stat w (dev_ID d)))"
  using assms(2,3) by (auto simp: convertDevice_def devStatusOf_def elim!: tryA_OkE dest!: ConvertPrimaryENI_stat [OF assms(1)])

text \<open>One device: an interface that is ready or as it was when the call began is ready after its turn.\<close>

lemma ensureDevice_stat:
  assumes "eniCloud api stat" and "ensureDevice api e m d w = (Ok s, w')" and "DeviceStatusFailed \<notin> st_Status ` set s"
    and "m (dev_ID d) = Some eni" "ni_Status eni = Some st" "ni_NetworkInterfaceTrafficMode eni = Some t"
    and "canReady d (st, t)" and "stat w (dev_ID d) \<in> {Some (st, t), Some readyStat}"
  shows "stat w' = (stat w)(dev_ID d := Some readyStat)"
proof -
  consider (ready) "(st, t) = readyStat" | (attach) "\<not> dev_IsPrimaryENI d" "st = ENIStatusAvailable" "t = trafficModeRDMA"
    | (convert) "dev_IsPrimaryENI d" "st = ENIStatusInUse" "t \<noteq> trafficModeRDMA"
    using assms(7) by (auto simp: canReady_def readyStat_def)
  then show ?thesis
  proof cases
    case ready
    with assms(2,8) show ?thesis
      by (auto simp: ensureDevice_cases [where m = m and d = d, OF assms(4-6)] readyStat_def fun_upd_idem)
  next
    case attach
    with assms(2) have "attachDevice api e d w = (Ok s, w')"
      by (auto simp: ensureDevice_cases [where m = m and d = d, OF assms(4-6)] status_defs)
    from attachDevice_stat [OF assms(1) this assms(3)] assms(8) attach show ?thesis by (auto simp: readyStat_def)
  next
    case convert
    with assms(2) have "convertDevice api e d w = (Ok s, w')"
      by (auto simp: ensureDevice_cases [where m = m and d = d, OF assms(4-6)] status_defs)
    from convertDevice_stat [OF assms(1) this assms(3)] assms(8) convert show ?thesis by (auto simp: readyStat_def)
  qed
qed

lemma ensureDevices_stat:
  assumes "eniCloud api stat"
    and "\<And>d. d \<in> set ds \<Longrightarrow> \<exists>eni st t. m (dev_ID d) = Some eni \<and> ni_Status eni = Some st \<and>
       ni_NetworkInterfaceTrafficMode eni = Some t \<and> canReady d (st, t) \<and> stat0 (dev_ID d) = Some (st, t)"
  shows "ensureDevices api e m ds w = (Ok sts, w') \<Longrightarrow> DeviceStatusFailed \<notin> st_Status ` set sts \<Longrightarrow>
    (\<And>i. stat w i \<in> {stat0 i, Some readyStat}) \<Longrightarrow>
    (\<forall>d\<in>set ds. stat w' (dev_ID d) = Some readyStat) \<and> (\<forall>i. stat w i = Some readyStat \<longrightarrow> stat w' i = Some readyStat)"
  using assms(2)
proof (induction ds arbitrary: w sts)
  case (Cons d ds)
  from Cons.prems(1) obtain s w1 rest where s: "ensureDevice api e m d w = (Ok s, w1)"
    and rest: "ensureDevices api e m ds w1 = (Ok rest, w')" and sts: "sts = s @ rest"
    by (auto elim!: bindA_OkE)
  from Cons.prems(4) [of d] obtain eni st t where eni: "m (dev_ID d) = Some eni" "ni_Status eni = Some st"
    "ni_NetworkInterfaceTrafficMode eni = Some t" "canReady d (st, t)" "stat0 (dev_ID d) = Some (st, t)" by auto
  have w1: "stat w1 = (stat w)(dev_ID d := Some readyStat)"
    using Cons.prems(2,3) eni sts by (intro ensureDevice_stat [OF assms(1) s _ eni(1-4)]) (auto, metis)
  have "(\<forall>d\<in>set ds. stat w' (dev_ID d) = Some readyStat) \<and> (\<forall>i. stat w1 i = Some readyStat \<longrightarrow> stat w' i = Some readyStat)"
    using Cons.prems(2-4) sts w1 by (intro Cons.IH [OF rest]) auto
  with w1 show ?case by auto
qed simp

text \<open>Both halves of convergence, for a whole round.\<close>

lemma EnsureEriForInstance_OkE:
  assumes "EnsureEriForInstance api e devices w = (Ok sts, w')"
  obtains resp wa m where "DescribeNetworkInterfaces api
              \<lparr> dni_RegionId = regionID e, dni_Tag = [], dni_InstanceId = None,
                dni_NetworkInterfaceId = map dev_ID devices, dni_PageSize = 100 \<rparr> w = (Ok resp, wa)"
    and "eniMapOf (dni_NetworkInterfaceSet resp) = Ok m"
    and "ensureDevices api e m devices wa = (Ok sts, w')"
  using assms by (auto simp: EnsureEriForInstance_def elim!: bindA_OkE)

lemma ensure_makes_ready:
  assumes "eniCloud api stat"
    and "\<forall>d\<in>set devices. \<exists>st. stat w (dev_ID d) = Some st \<and> canReady d st"
    and "EnsureEriForInstance api e devices w = (Ok sts, w1)"
    and "DeviceStatusFailed \<notin> st_Status ` set sts"
  shows "\<forall>d\<in>set devices. stat w1 (dev_ID d) = Some readyStat"
proof -
  from assms(3) obtain resp wa m where d1: "DescribeNetworkInterfaces api
              \<lparr> dni_RegionId = regionID e, dni_Tag = [], dni_InstanceId = None,
                dni_NetworkInterfaceId = map dev_ID devices, dni_PageSize = 100 \<rparr> w = (Ok resp, wa)"
    and m: "eniMapOf (dni_NetworkInterfaceSet resp) = Ok m"
    and run: "ensureDevices api e m devices wa = (Ok sts, w1)"
    by (rule EnsureEriForInstance_OkE)
  from eniCloudD(1) [OF assms(1) d1] m have wa: "stat wa = stat w"
    and rep: "\<And>i s t. i \<in> dev_ID ` set devices \<Longrightarrow> stat w i = Some (s, t) \<Longrightarrow>
      \<exists>eni. m i = Some eni \<and> ni_Status eni = Some s \<and> ni_NetworkInterfaceTrafficMode eni = Some t" by auto
  show ?thesis using assms(2,4) rep wa
    by (intro ensureDevices_stat [where ?stat0.0 = "stat w", OF assms(1) _ run, THEN conjunct1]) fastforce+
qed

lemma ensure_reports_ready:
  assumes "eniCloud api stat" and "\<forall>d\<in>set devices. stat w (dev_ID d) = Some readyStat"
    and "EnsureEriForInstance api e devices w = (Ok sts, w')"
  shows "sts = map (\<lambda>d. devStatusOf (dev_ID d) DeviceStatusReady []) devices"
proof -
  from assms(3) obtain resp wb m where d: "DescribeNetworkInterfaces api
              \<lparr> dni_RegionId = regionID e, dni_Tag = [], dni_InstanceId = None,
                dni_NetworkInterfaceId = map dev_ID devices, dni_PageSize = 100 \<rparr> w = (Ok resp, wb)"
    and m: "eniMapOf (dni_NetworkInterfaceSet resp) = Ok m"
    and run: "ensureDevices api e m devices wb = (Ok sts, w')"
    by (rule EnsureEriForInstance_OkE)
  have "\<exists>eni. m (dev_ID x) = Some eni \<and> eniReady eni" if "x \<in> set devices" for x
    using eniCloudD(1) [OF assms(1) d] m that assms(2) by (fastforce simp: readyStat_def eniReady_def isEri_def)
  from ensureDevices_ready [of devices m api e, OF this] run show ?thesis by simp
qed

text \<open>
  Two rounds of EnsureEriForInstance are enough: if every device is one that can be brought up
  and the first round reports no failure, the second round, when its calls succeed, reports every
  device Ready.
\<close>

theorem ensure_converges:
  assumes "eniCloud api stat"
    and "\<forall>d\<in>set devices. \<exists>st. stat w (dev_ID d) = Some st \<and> canReady d st"
    and "EnsureEriForInstance api e devices w = (Ok sts, w1)"
    and "DeviceStatusFailed \<notin> st_Status ` set sts"
    and "EnsureEriForInstance api e devices w1 = (Ok sts', w2)"
  shows "sts' = map (\<lambda>d. devStatusOf (dev_ID d) DeviceStatusReady []) devices"
  using ensure_reports_ready [OF assms(1) ensure_makes_ready [OF assms(1-4)] assms(5)] .

text \<open>A service whose state is the status and traffic mode of each interface.\<close>

definition exEni :: "string \<Rightarrow> string \<times> string \<Rightarrow> NetworkInterface" where
  "exEni i st = exSecondary\<lparr> ni_NetworkInterfaceId := Some i, ni_Status := Some (fst st),
     ni_NetworkInterfaceTrafficMode := Some (snd st) \<rparr>"

definition exStatCloud :: "(string \<Rightarrow> (string \<times> string) option) ecs" where
  "exStatCloud = (exFixed [])\<lparr>
     DescribeNetworkInterfaces := (\<lambda>req w. (Ok \<lparr> dni_StatusCode = Some 200, dni_NetworkInterfaceSet =
       List.map_filter (\<lambda>i. map_option (exEni i) (w i)) (dni_NetworkInterfaceId req) \<rparr>, w)),
     AttachNetworkInterface := (\<lambda>req w. (Ok (), w(ani_NetworkInterfaceId req :=
       map_option (\<lambda>(s, t). (ENIStatusInUse, t)) (w (ani_NetworkInterfaceId req))))),
     ModifyNetworkInterfaceAttribute := (\<lambda>req w. (Ok (), w(mni_NetworkInterfaceId req :=
       map_option (\<lambda>(s, t). (s, mni_TrafficMode req)) (w (mni_NetworkInterfaceId req))))) \<rparr>"

lemma exStatCloud_map:
  "\<exists>m. eniMapOf (List.map_filter (\<lambda>i. map_option (exEni i) (w i)) ids) = Ok m \<and>
     (\<forall>i\<in>set ids. m i = map_option (exEni i) (w i))"
proof -
  let ?kv = "\<lambda>i. map_option (\<lambda>st. (i, exEni i st)) (w i)"
  have "mapR (\<lambda>item. bindR (deref (ni_NetworkInterfaceId item)) (\<lambda>i. Ok (i, item)))
      (List.map_filter (\<lambda>i. map_option (exEni i) (w i)) ids) = Ok (List.map_filter ?kv ids)"
    by (induction ids) (auto simp: List.map_filter_def exEni_def)
  moreover have "map_of (List.map_filter ?kv ids) i = (if i \<in> set ids then map_option (exEni i) (w i) else None)" for ids i
    by (induction ids) (auto simp: map_filter_simps split: option.splits)
  moreover have "rev (List.map_filter ?kv ids) = List.map_filter ?kv (rev ids)"
    by (simp add: List.map_filter_def rev_map rev_filter)
  ultimately show ?thesis by (simp add: eniMapOf_def)
qed

lemma exStatCloud_laws: "eniCloud exStatCloud (\<lambda>w. w)"
  using exStatCloud_map by (fastforce simp: eniCloud_def exStatCloud_def exFixed_def exEni_def)

theorem ensure_converges_witness:
  "okMap (map st_Status) (EnsureEriForInstance exStatCloud exClient (map toDeviceInfo exSelected)
     (snd (EnsureEriForInstance exStatCloud exClient (map toDeviceInfo exSelected)
       [''eni-2'' \<mapsto> (''Available'', trafficModeRDMA), ''eni-1'' \<mapsto> (''InUse'', ''Standard'')]))) =
   Some [''Ready'', ''Ready'']"
proof -
  let ?devs = "map toDeviceInfo exSelected"
  let ?w = "[''eni-2'' \<mapsto> (''Available'', trafficModeRDMA), ''eni-1'' \<mapsto> (''InUse'', ''Standard'')]"
  let ?run = "EnsureEriForInstance exStatCloud exClient ?devs"
  have "okMap (map st_Status) (?run ?w) = Some [''Pending'', ''Ready'']" by code_simp
  then obtain sts w1 where r1: "?run ?w = (Ok sts, w1)" and st: "map st_Status sts = [''Pending'', ''Ready'']"
    by (rule okMap_SomeE)
  have "okMap (\<lambda>_. ()) (?run (snd (?run ?w))) = Some ()" by code_simp
  then obtain sts' w2 where r2: "?run w1 = (Ok sts', w2)" unfolding r1 by (auto elim: okMap_SomeE)
  have "DeviceStatusFailed \<notin> set (map st_Status sts)" unfolding st by (simp add: status_defs)
  then have nf: "DeviceStatusFailed \<notin> st_Status ` set sts" by simp
  have can: "\<forall>d\<in>set ?devs. \<exists>st. ?w (dev_ID d) = Some st \<and> canReady d st"
    by (simp add: exSelected_def canReady_def status_defs)
  from ensure_converges [OF exStatCloud_laws can r1 nf r2] show ?thesis
    using r1 r2 by (simp add: okMap_def exSelected_def devStatusOf_def status_defs)
qed

end
