(* ===== verification/Device_Controller.thy ===== *)
theory Device_Controller
  imports Node_Controller Eri_Converge
begin

text \<open>
  internal/controller/erdmadevice_controller.go: the reconciler of the custom resource. It
  keeps no state; it brings the interfaces of the resource up through \<open>EriClient\<close> and
  records their statuses. The locale \<open>device_ensurer\<close> is what it relies on of
  EnsureEriForInstance.
\<close>

section \<open>Operations\<close>

definition notReady :: "DeviceStatus list \<Rightarrow> bool" where
  "notReady sts = list_ex (\<lambda>item. st_Status item \<noteq> DeviceStatusReady) sts"

definition requeueResult :: Result where
  "requeueResult = \<lparr> Requeue = True, RequeueAfter = 10 * Second \<rparr>"

text \<open>The part after the guards: \<open>ensure\<close> is the method of the \<open>EriClient\<close> field.\<close>

definition configureDevice :: "(DeviceInfo list \<Rightarrow> ('w, DeviceStatus list) act) \<Rightarrow> 'w k8s \<Rightarrow> ERdmaDevice
    \<Rightarrow> ('w, Result) act" where
  "configureDevice ensure kc device =
     bindA (ensure (spec_Devices (cr_Spec device))) (\<lambda>eriStatus.
     bindA (UpdateStatus kc (device\<lparr> cr_Status := eriStatus \<rparr>)) (\<lambda>_.
       retA (if notReady eriStatus then requeueResult else noResult)))"

definition settled :: "ERdmaDevice \<Rightarrow> bool" where
  "settled device \<longleftrightarrow> length (spec_Devices (cr_Spec device)) = length (cr_Status device) \<and>
     \<not> notReady (cr_Status device)"

definition reconcileDevice :: "(DeviceInfo list \<Rightarrow> ('w, DeviceStatus list) act) \<Rightarrow> 'w k8s \<Rightarrow> string
    \<Rightarrow> ('w, Result) act" where
  "reconcileDevice ensure kc name =
     tryA (GetERdmaDevice kc name)
       (\<lambda>device.
          if cr_Deleting device then RemoveERdmaDevices kc name
          else if settled device then retA noResult
          else configureDevice ensure kc device)
       (\<lambda>err. if IsNotFound err then retA noResult else failA err)"

definition DeviceReconcile :: "'w ecs \<Rightarrow> EriClient \<Rightarrow> 'w k8s \<Rightarrow> string \<Rightarrow> ('w, Result) act" where
  "DeviceReconcile api e = reconcileDevice (EnsureEriForInstance api e)"

text \<open>Statuses a resource may carry: of its own devices, in their order, with the three values.\<close>

definition statusesOf :: "ERdmaDevice \<Rightarrow> bool" where
  "statusesOf d \<longleftrightarrow> subseq (map st_ID (cr_Status d)) (map dev_ID (spec_Devices (cr_Spec d))) \<and>
     (\<forall>s\<in>set (cr_Status d). st_Status s \<in> {DeviceStatusReady, DeviceStatusPending, DeviceStatusFailed})"

lemma RemoveERdmaDevices_status_frame:
  "RemoveERdmaDevices (kc\<lparr> UpdateStatus := u \<rparr>) name = RemoveERdmaDevices kc name"
proof -
  have fin: "clearFinalizers (kc\<lparr> UpdateStatus := u \<rparr>) ds = clearFinalizers kc ds"
    and del: "deleteDevices (kc\<lparr> UpdateStatus := u \<rparr>) ds = deleteDevices kc ds" for ds
    by (induction ds) simp_all
  show ?thesis unfolding RemoveERdmaDevices_def fin del by simp
qed

section \<open>What the controller relies on\<close>

text \<open>
  The contract of EnsureEriForInstance: statuses of devices of the request, in its order,
  each with one of the three values.
\<close>

locale device_ensurer =
  fixes ensure :: "DeviceInfo list \<Rightarrow> ('w, DeviceStatus list) act"
  assumes ids: "ensure ds w = (Ok sts, w') \<Longrightarrow> subseq (map st_ID sts) (map dev_ID ds)"
    and vals: "ensure ds w = (Ok sts, w') \<Longrightarrow> s \<in> set sts \<Longrightarrow>
      st_Status s \<in> {DeviceStatusReady, DeviceStatusPending, DeviceStatusFailed}"
begin

lemma statuses_ok:
  "ensure (spec_Devices (cr_Spec device)) w = (Ok sts, w1) \<Longrightarrow> statusesOf (device\<lparr> cr_Status := sts \<rparr>)"
  using ids [of "spec_Devices (cr_Spec device)" w sts w1] vals [of "spec_Devices (cr_Spec device)" w sts w1]
  unfolding statusesOf_def by simp

lemma configure_writes:
  assumes "configureDevice ensure kc device w = (Ok res, w')"
  obtains sts w1 where "ensure (spec_Devices (cr_Spec device)) w = (Ok sts, w1)"
    and "UpdateStatus kc (device\<lparr> cr_Status := sts \<rparr>) w1 = (Ok (), w')"
    and "statusesOf (device\<lparr> cr_Status := sts \<rparr>)"
    and "res = (if notReady sts then requeueResult else noResult)"
proof -
  from assms obtain sts w1 where e: "ensure (spec_Devices (cr_Spec device)) w = (Ok sts, w1)"
    and u: "UpdateStatus kc (device\<lparr> cr_Status := sts \<rparr>) w1 = (Ok (), w')"
    and r: "res = (if notReady sts then requeueResult else noResult)"
    by (auto simp: configureDevice_def elim!: bindA_OkE)
  from that [OF e u statuses_ok [OF e] r] show ?thesis .
qed

lemma full_length:
  assumes "ensure ds w = (Ok sts, w')" and "length sts = length ds"
  shows "map st_ID sts = map dev_ID ds"
  using ids [OF assms(1)] assms(2) by (metis length_map subseq_same_length)

text \<open>
  A run that changes the status and neither asks to be called again nor fails leaves the
  resource settled, provided there is a status for every device.
\<close>

lemma configure_settles:
  assumes "configureDevice ensure kc device w = (Ok noResult, w')"
  shows "\<exists>sts w1. ensure (spec_Devices (cr_Spec device)) w = (Ok sts, w1) \<and>
    (length sts = length (spec_Devices (cr_Spec device)) \<longrightarrow> settled (device\<lparr> cr_Status := sts \<rparr>))"
  using assms by (rule configure_writes)
    (auto simp: settled_def noResult_def requeueResult_def split: if_splits)

lemma reconcile_status_frame:
  assumes "\<And>d. statusesOf d \<Longrightarrow> u d = UpdateStatus kc d"
  shows "reconcileDevice ensure (kc\<lparr> UpdateStatus := u \<rparr>) name = reconcileDevice ensure kc name"
proof -
  have "u (device\<lparr> cr_Status := sts \<rparr>) = UpdateStatus kc (device\<lparr> cr_Status := sts \<rparr>)"
    if "ensure (spec_Devices (cr_Spec device)) w = (Ok sts, w1)" for device sts w w1
    using that by (intro assms statuses_ok)
  then have conf: "configureDevice ensure (kc\<lparr> UpdateStatus := u \<rparr>) device = configureDevice ensure kc device" for device
    unfolding configureDevice_def by (intro ext bindA_cong_run) simp
  show ?thesis unfolding reconcileDevice_def conf RemoveERdmaDevices_status_frame by simp
qed

end

interpretation eri: device_ensurer "EnsureEriForInstance api e" for api :: "'w ecs" and e
proof
  fix ds w sts w' assume run: "EnsureEriForInstance api e ds w = (Ok sts, w')"
  then obtain m w1 where "ensureDevices api e m ds w1 = (Ok sts, w')"
    by (auto simp: EnsureEriForInstance_def elim!: bindA_OkE)
  note spec = ensureDevices_statuses [OF this]
  from spec show "subseq (map st_ID sts) (map dev_ID ds)" by simp
  from spec show "st_Status s \<in> {DeviceStatusReady, DeviceStatusPending, DeviceStatusFailed}" if "s \<in> set sts" for s
    using that by blast
qed

section \<open>Properties\<close>

text \<open>
  The reconciler of the custom resource writes statuses of the resource's own devices only, at
  most one per device and in the order of the specification, each Ready, Pending or Failed. Stated
  as independence: what a status update with anything else would do does not matter.
\<close>

theorem written_statuses_wellformed:
  assumes "\<And>d. statusesOf d \<Longrightarrow> u d = UpdateStatus kc d"
  shows "DeviceReconcile api e (kc\<lparr> UpdateStatus := u \<rparr>) name = DeviceReconcile api e kc name"
  unfolding DeviceReconcile_def using assms by (rule eri.reconcile_status_frame)

theorem written_statuses_wellformed_witness:
  "DeviceReconcile (exFixed [exPrimary]) exClient
     ((exCluster 0)\<lparr> UpdateStatus := (\<lambda>d. if statusesOf d then UpdateStatus (exCluster 0) d
        else (\<lambda>w. (Panic ''malformed status'', w))) \<rparr>) ''node-a'' =
   DeviceReconcile (exFixed [exPrimary]) exClient (exCluster 0) ''node-a''"
  by (rule written_statuses_wellformed) simp

section \<open>Convergence of the resource\<close>

definition ecsKeeps :: "'w ecs \<Rightarrow> ('w \<Rightarrow> 'x) \<Rightarrow> bool" where
  "ecsKeeps api f \<longleftrightarrow> (\<forall>q. keeps f (DescribeNetworkInterfaces api q)) \<and> (\<forall>q. keeps f (AttachNetworkInterface api q)) \<and>
     (\<forall>q. keeps f (ModifyNetworkInterfaceAttribute api q)) \<and> (\<forall>q. keeps f (TagResources api q))"

lemma EnsureEriForInstance_keeps:
  assumes "ecsKeeps api f"
  shows "keeps f (EnsureEriForInstance api e devices)"
proof -
  have tags: "keeps f (EnsureEriTags api e ids i)" for ids i
    using assms by (auto simp: EnsureEriTags_def ecsKeeps_def intro!: keeps_intros)
  have conv: "keeps f (convertDevice api e d)" for d
    using assms tags by (auto simp: convertDevice_def ConvertPrimaryENI_def ecsKeeps_def intro!: keeps_intros)
  have att: "keeps f (attachDevice api e d)" for d
    using assms by (auto simp: attachDevice_def ecsKeeps_def intro!: keeps_intros)
  have one: "keeps f (ensureDevice api e m d)" for m d
    using att conv by (auto simp: ensureDevice_def intro!: keeps_intros split: option.splits)
  have "keeps f (ensureDevices api e m ds)" for m ds
    by (induction ds) (auto intro!: keeps_intros one)
  then show ?thesis
    using assms by (auto simp: EnsureEriForInstance_def ecsKeeps_def intro!: keeps_intros)
qed


text \<open>
  What the API server documents of the two calls: \<open>get w n\<close> is the stored resource of
  name \<open>n\<close>; a status update replaces the status only; neither changes an interface.
\<close>

definition resourceStore :: "'w k8s \<Rightarrow> ('w \<Rightarrow> string \<Rightarrow> ERdmaDevice option)
    \<Rightarrow> ('w \<Rightarrow> string \<Rightarrow> (string \<times> string) option) \<Rightarrow> bool" where
  "resourceStore kc get stat \<longleftrightarrow>
     (\<forall>n w d w'. GetERdmaDevice kc n w = (Ok d, w') \<longrightarrow>
        get w n = Some d \<and> cr_Name d = n \<and> get w' = get w \<and> stat w' = stat w) \<and>
     (\<forall>n w err w'. GetERdmaDevice kc n w = (Err err, w') \<and> IsNotFound err \<longrightarrow> get w n = None) \<and>
     (\<forall>d w u w'. UpdateStatus kc d w = (Ok u, w') \<longrightarrow> stat w' = stat w \<and>
        get w' = (get w)(cr_Name d := map_option (\<lambda>x. x\<lparr> cr_Status := cr_Status d \<rparr>) (get w (cr_Name d))))"

lemma DeviceReconcile_step:
  assumes "ecsKeeps api get" and "resourceStore kc get stat"
    and "get w name = Some d" and "\<not> cr_Deleting d" and "DeviceReconcile api e kc name w = (Ok r, w')"
  obtains (idle) "settled d" and "r = noResult" and "get w' = get w" and "stat w' = stat w"
    | (run) sts wa wb where "\<not> settled d" and "stat wa = stat w"
      and "EnsureEriForInstance api e (spec_Devices (cr_Spec d)) wa = (Ok sts, wb)"
      and "get w' = (get w)(name \<mapsto> d\<lparr> cr_Status := sts \<rparr>)" and "stat w' = stat wb"
      and "r = (if notReady sts then requeueResult else noResult)"
proof -
  from assms(2) have get: "\<And>n w d w'. GetERdmaDevice kc n w = (Ok d, w') \<Longrightarrow>
        get w n = Some d \<and> cr_Name d = n \<and> get w' = get w \<and> stat w' = stat w"
    and nf: "\<And>n w err w'. GetERdmaDevice kc n w = (Err err, w') \<Longrightarrow> IsNotFound err \<Longrightarrow> get w n = None"
    and upd: "\<And>d w u w'. UpdateStatus kc d w = (Ok u, w') \<Longrightarrow> stat w' = stat w \<and>
        get w' = (get w)(cr_Name d := map_option (\<lambda>x. x\<lparr> cr_Status := cr_Status d \<rparr>) (get w (cr_Name d)))"
    unfolding resourceStore_def by blast+
  from assms(5) obtain d' wa where g: "GetERdmaDevice kc name w = (Ok d', wa)"
    and rest: "(if cr_Deleting d' then RemoveERdmaDevices kc name else if settled d' then retA noResult
          else configureDevice (EnsureEriForInstance api e) kc d') wa = (Ok r, w')"
    unfolding DeviceReconcile_def reconcileDevice_def
    using nf assms(3) by (fastforce elim!: tryA_OkE split: if_splits)
  from get [OF g] assms(3) have d': "d' = d" "cr_Name d = name" "get wa = get w" "stat wa = stat w" by auto
  show ?thesis
  proof (cases "settled d")
    case True
    with rest d' assms(4) show ?thesis by (intro idle) auto
  next
    case False
    with rest d' assms(4) have "configureDevice (EnsureEriForInstance api e) kc d wa = (Ok r, w')" by simp
    then obtain sts wb where ens: "EnsureEriForInstance api e (spec_Devices (cr_Spec d)) wa = (Ok sts, wb)"
      and u: "UpdateStatus kc (d\<lparr> cr_Status := sts \<rparr>) wb = (Ok (), w')"
      and r: "r = (if notReady sts then requeueResult else noResult)"
      by (rule eri.configure_writes)
    have "get wb = get w" using keepsD [OF EnsureEriForInstance_keeps [OF assms(1)] ens] d' by simp
    with upd [OF u] d' assms(3) show ?thesis by (intro run [OF False d'(4) ens _ _ r]) auto
  qed
qed

lemma reconcile_twice:
  assumes "eniCloud api stat" and "ecsKeeps api get" and "resourceStore kc get stat"
    and "get w name = Some d" and "\<not> cr_Deleting d"
    and "\<forall>x\<in>set (spec_Devices (cr_Spec d)). \<exists>st. stat w (dev_ID x) = Some st \<and> canReady x st"
    and "DeviceReconcile api e kc name w = (Ok r1, w1)"
    and "\<forall>d1. get w1 name = Some d1 \<longrightarrow> DeviceStatusFailed \<notin> st_Status ` set (cr_Status d1)"
    and "DeviceReconcile api e kc name w1 = (Ok r2, w2)"
  obtains sts where "r2 = noResult" and "get w2 = (get w)(name \<mapsto> d\<lparr> cr_Status := sts \<rparr>)" and "settled (d\<lparr> cr_Status := sts \<rparr>)"
    and "settled d \<or> (\<forall>x\<in>set (spec_Devices (cr_Spec d)). stat w2 (dev_ID x) = Some readyStat)"
  using assms(2-5,7)
proof (cases rule: DeviceReconcile_step)
  case idle
  have g: "get w1 name = Some d" using idle assms(4) by simp
  have same: "get w = (get w)(name \<mapsto> d)" using assms(4) by (simp add: map_upd_triv)
  from assms(2,3) g assms(5,9) show ?thesis
    by (cases rule: DeviceReconcile_step) (use idle g same in \<open>auto intro!: that [of "cr_Status d"]\<close>)
next
  case (run sts wa wb)
  have g: "get w1 name = Some (d\<lparr> cr_Status := sts \<rparr>)" using run by simp
  with assms(8) have "DeviceStatusFailed \<notin> st_Status ` set sts" by auto
  with assms(1,6) run have "\<forall>x\<in>set (spec_Devices (cr_Spec d)). stat wb (dev_ID x) = Some readyStat"
    by (intro ensure_makes_ready [of api stat _ wa]) auto
  then have ready: "\<forall>x\<in>set (spec_Devices (cr_Spec d)). stat w1 (dev_ID x) = Some readyStat" using run by simp
  have nd: "\<not> cr_Deleting (d\<lparr> cr_Status := sts \<rparr>)" using assms(5) by simp
  have first: "get w1 = (get w)(name \<mapsto> d\<lparr> cr_Status := sts \<rparr>)" by (fact run(4))
  from assms(2,3) g nd assms(9) show ?thesis
  proof (cases rule: DeviceReconcile_step)
    case idle
    with first ready show ?thesis by (intro that [of sts]) auto
  next
    case (run sts' wa' wb')
    have sts': "sts' = map (\<lambda>x. devStatusOf (dev_ID x) DeviceStatusReady []) (spec_Devices (cr_Spec d))"
      using ensure_reports_ready [OF assms(1) _ run(3)] run(2) ready by simp
    then have "DeviceStatusFailed \<notin> st_Status ` set sts'" by (auto simp: devStatusOf_def status_defs)
    with ready run(2,3) have "\<forall>x\<in>set (spec_Devices (cr_Spec d)). stat wb' (dev_ID x) = Some readyStat"
      by (intro ensure_makes_ready [OF assms(1), of _ wa']) (auto simp: canReady_def)
    moreover have "\<not> notReady sts'" "length sts' = length (spec_Devices (cr_Spec d))"
      using sts' by (auto simp: notReady_def list_ex_iff devStatusOf_def)
    ultimately show ?thesis using run first by (intro that [of sts']) (auto simp: settled_def)
  qed
qed


text \<open>A world of a cloud and a cluster, each acting on its half.\<close>

definition onFst :: "('a, 'r) act \<Rightarrow> ('a \<times> 'b, 'r) act" where
  "onFst m = (\<lambda>(a, b). case m a of (r, a') \<Rightarrow> (r, (a', b)))"

definition onSnd :: "('b, 'r) act \<Rightarrow> ('a \<times> 'b, 'r) act" where
  "onSnd m = (\<lambda>(a, b). case m b of (r, b') \<Rightarrow> (r, (a, b')))"

definition fstEcs :: "'a ecs \<Rightarrow> ('a \<times> 'b) ecs" where
  "fstEcs api = \<lparr> DescribeInstances = (\<lambda>q. onFst (DescribeInstances api q)),
     DescribeInstanceTypes = (\<lambda>q. onFst (DescribeInstanceTypes api q)),
     DescribeNetworkInterfaces = (\<lambda>q. onFst (DescribeNetworkInterfaces api q)),
     CreateNetworkInterface = (\<lambda>q. onFst (CreateNetworkInterface api q)),
     ModifyNetworkInterfaceAttribute = (\<lambda>q. onFst (ModifyNetworkInterfaceAttribute api q)),
     TagResources = (\<lambda>q. onFst (TagResources api q)),
     AttachNetworkInterface = (\<lambda>q. onFst (AttachNetworkInterface api q)),
     DescribeInstanceAttribute = (\<lambda>q. onFst (DescribeInstanceAttribute api q)) \<rparr>"

definition sndK8s :: "'b k8s \<Rightarrow> ('a \<times> 'b) k8s" where
  "sndK8s kc = \<lparr> GetNode = (\<lambda>q. onSnd (GetNode kc q)), ListERdmaDevices = (\<lambda>q. onSnd (ListERdmaDevices kc q)),
     GetERdmaDevice = (\<lambda>q. onSnd (GetERdmaDevice kc q)), CreateERdmaDevice = (\<lambda>q. onSnd (CreateERdmaDevice kc q)),
     CreateOrPatch = (\<lambda>q. onSnd (CreateOrPatch kc q)), DeleteERdmaDevice = (\<lambda>q. onSnd (DeleteERdmaDevice kc q)),
     UpdateStatus = (\<lambda>q. onSnd (UpdateStatus kc q)), Now = (\<lambda>w. Now kc (snd w)) \<rparr>"

lemma onFst_iff: "onFst m w = (r, w') \<longleftrightarrow> m (fst w) = (r, fst w') \<and> snd w' = snd w"
  by (cases w; cases w'; cases "m (fst w)") (auto simp: onFst_def)

lemma onSnd_iff: "onSnd m w = (r, w') \<longleftrightarrow> m (snd w) = (r, snd w') \<and> fst w' = fst w"
  by (cases w; cases w'; cases "m (snd w)") (auto simp: onSnd_def)

lemma fstEcs_laws:
  assumes "eniCloud api stat"
  shows "eniCloud (fstEcs api) (\<lambda>w. stat (fst w))"
  using assms unfolding eniCloud_def by (simp add: fstEcs_def onFst_iff)

definition exGet :: "'a \<times> exWorld \<Rightarrow> string \<Rightarrow> ERdmaDevice option" where
  "exGet w n = find (\<lambda>x. cr_Name x = n) (snd (snd w))"

lemma exGet_kept: "ecsKeeps (fstEcs api) exGet"
  by (simp add: ecsKeeps_def fstEcs_def keeps_def onFst_iff exGet_def fun_eq_iff)

lemma find_map_upd:
  assumes "\<And>x. k (f x) = k x"
  shows "find (\<lambda>x. k x = n) (map (\<lambda>x. if k x = a then f x else x) xs) =
    ((\<lambda>n. find (\<lambda>x. k x = n) xs)(a := map_option f (find (\<lambda>x. k x = a) xs))) n"
  by (induction xs) (auto simp: assms)

lemma exCluster_resources: "resourceStore (sndK8s (exCluster now)) exGet fst"
proof -
  have "exGet (c, ns, map (\<lambda>x. if cr_Name x = cr_Name d then x\<lparr> cr_Status := st \<rparr> else x) ds) =
    (exGet (c, ns, ds))(cr_Name d := map_option (\<lambda>x. x\<lparr> cr_Status := st \<rparr>) (exGet (c, ns, ds) (cr_Name d)))" for c ns d st ds
    unfolding exGet_def by (rule ext) (simp add: find_map_upd [where k = cr_Name and f = "\<lambda>x. x\<lparr> cr_Status := st \<rparr>", simplified])
  then show ?thesis
    by (auto simp: resourceStore_def sndK8s_def onSnd_iff exCluster_def exGet_def dest!: find_SomeD split: option.splits)
qed



end
