(* ===== verification/Cluster.thy ===== *)
theory Cluster
  imports Device_Controller
begin

text \<open>
  The two reconcilers of the controller on one cluster. They run in goroutines of their own, so that between two calls of one
  of them the other one, the garbage collector and users change the store; the process may restart, and reads come from a
  cache that lags behind. What everybody does to the store is the relation \<open>edit\<close> (the rely of the one
  reconciler and the guarantee of the other); the reachable states of the system and their invariant are below.
\<close>

section \<open>Edits of the store\<close>

definition metaOk :: "ERdmaDevice \<Rightarrow> bool" where
  "metaOk d \<longleftrightarrow> hasLabel (labelNodeName, cr_Name d) d \<and> labelInstanceID \<in> fst ` set (cr_Labels d) \<and>
     map or_Name (cr_OwnerReferences d) = [cr_Name d]"

text \<open>What every custom resource of the cluster satisfies.\<close>

definition resourceOk :: "ERdmaDevice \<Rightarrow> bool" where
  "resourceOk d \<longleftrightarrow> metaOk d \<and> distinct (map dev_NetworkCardIndex (spec_Devices (cr_Spec d))) \<and> statusesOf d"

definition storeOk :: "ERdmaDevice list \<Rightarrow> bool" where
  "storeOk xs \<longleftrightarrow> distinct (map cr_Name xs) \<and> (\<forall>d\<in>set xs. resourceOk d)"

definition statusStore :: "ERdmaDevice \<Rightarrow> ERdmaDevice list \<Rightarrow> ERdmaDevice list" where
  "statusStore d xs = map (\<lambda>x. if cr_Name x = cr_Name d then x\<lparr> cr_Status := cr_Status d \<rparr> else x) xs"

text \<open>
  An edit: a resource is created, its metadata is patched, it is deleted, its status is written (the API server
  refuses a status for a specification that was replaced meanwhile), or users change finalizers and mark resources as deleted.
\<close>

inductive edit :: "ERdmaDevice list \<Rightarrow> ERdmaDevice list \<Rightarrow> bool" where
  create: "createdOk d \<Longrightarrow> cr_Status d = [] \<Longrightarrow> cr_Name d \<notin> cr_Name ` set xs \<Longrightarrow> edit xs (xs @ [d])"
| patch: "metaOk d \<Longrightarrow> edit xs (patchStore d xs)"
| delete: "edit xs (deleteStore d xs)"
| status: "statusesOf d \<Longrightarrow> \<forall>x\<in>set xs. cr_Name x = cr_Name d \<longrightarrow> cr_Spec x = cr_Spec d \<Longrightarrow> edit xs (statusStore d xs)"
| lifecycle: "edit xs (map (\<lambda>x. x\<lparr> cr_Finalizers := f x, cr_Deleting := g x \<rparr>) xs)"

lemma createdOk_resourceOk: "createdOk d \<Longrightarrow> cr_Status d = [] \<Longrightarrow> resourceOk d"
  by (simp add: createdOk_def resourceOk_def metaOk_def statusesOf_def)

lemma resourceOk_frame:
  "resourceOk (x\<lparr> cr_Finalizers := f \<rparr>) = resourceOk x"
  "resourceOk (x\<lparr> cr_Deleting := b \<rparr>) = resourceOk x"
  by (simp_all add: resourceOk_def metaOk_def statusesOf_def hasLabel_def)

lemma resourceOk_patch:
  assumes "metaOk d" and "resourceOk x" and "cr_Name x = cr_Name d"
  shows "resourceOk (d\<lparr> cr_Spec := cr_Spec x, cr_Status := cr_Status x, cr_Deleting := b \<rparr>)"
  using assms by (simp add: resourceOk_def metaOk_def statusesOf_def hasLabel_def)

lemma resourceOk_status:
  assumes "resourceOk x" and "statusesOf d" and "cr_Spec x = cr_Spec d"
  shows "resourceOk (x\<lparr> cr_Status := cr_Status d \<rparr>)"
  using assms by (simp add: resourceOk_def metaOk_def statusesOf_def hasLabel_def)

lemma distinct_map_filter: "distinct (map f xs) \<Longrightarrow> distinct (map f (filter P xs))"
  by (induction xs) auto

lemma map_names: "(\<And>x. k (f x) = k x) \<Longrightarrow> map k (map f xs) = map k xs"
  by simp

lemma edit_storeOk:
  assumes "edit xs ys" and "storeOk xs"
  shows "storeOk ys"
  using assms
proof (induction rule: edit.induct)
  case (create d xs)
  then show ?case by (auto simp: storeOk_def createdOk_resourceOk)
next
  case (patch d xs)
  let ?f = "\<lambda>x. if cr_Name x = cr_Name d then d\<lparr> cr_Spec := cr_Spec x, cr_Status := cr_Status x, cr_Deleting := cr_Deleting x \<rparr> else x"
  have "map cr_Name (map ?f xs) = map cr_Name xs" by (rule map_names) simp
  with patch have "distinct (map cr_Name (map ?f xs))" by (simp only: storeOk_def)
  moreover from patch have "\<forall>x\<in>set (map ?f xs). resourceOk x" by (auto simp: storeOk_def intro: resourceOk_patch)
  ultimately show ?case unfolding patchStore_def storeOk_def by (auto intro: distinct_map_filter simp del: map_map)
next
  case (delete xs d)
  let ?f = "\<lambda>x. if cr_Name x = cr_Name d then x\<lparr> cr_Deleting := True \<rparr> else x"
  have names: "map cr_Name (map ?f zs) = map cr_Name zs" for zs by (rule map_names) simp
  with delete show ?case unfolding deleteStore_def storeOk_def names
    by (auto intro: distinct_map_filter simp: resourceOk_frame)
next
  case (status d xs)
  let ?f = "\<lambda>x. if cr_Name x = cr_Name d then x\<lparr> cr_Status := cr_Status d \<rparr> else x"
  have "map cr_Name (map ?f xs) = map cr_Name xs" by (rule map_names) simp
  with status show ?case unfolding statusStore_def storeOk_def
    by (auto intro: resourceOk_status simp del: map_map)
next
  case (lifecycle xs g f)
  have "map cr_Name (map (\<lambda>x. x\<lparr> cr_Finalizers := f x, cr_Deleting := g x \<rparr>) xs) = map cr_Name xs" by (rule map_names) simp
  with lifecycle show ?case unfolding storeOk_def by (auto simp: resourceOk_frame simp del: map_map)
qed

lemma edits_storeOk: "edit\<^sup>*\<^sup>* xs ys \<Longrightarrow> storeOk xs \<Longrightarrow> storeOk ys"
  by (induction rule: rtranclp_induct) (auto dest: edit_storeOk)

text \<open>The list of a node's resources is unambiguous.\<close>

lemma one_resource_per_node:
  assumes "storeOk xs"
  shows "filter (hasLabel (labelNodeName, n)) xs = filter (\<lambda>d. cr_Name d = n) xs"
    and "length (filter (hasLabel (labelNodeName, n)) xs) \<le> 1"
proof -
  have "hasLabel (labelNodeName, n) d \<longleftrightarrow> cr_Name d = n" if "d \<in> set xs" for d
    using that assms by (auto simp: storeOk_def resourceOk_def metaOk_def hasLabel_def)
  then show eq: "filter (hasLabel (labelNodeName, n)) xs = filter (\<lambda>d. cr_Name d = n) xs" by (simp cong: filter_cong)
  from assms have "distinct (map cr_Name (filter (\<lambda>d. cr_Name d = n) xs))"
    by (auto simp: storeOk_def intro: distinct_map_filter)
  from distinct_card [OF this] have "length (filter (\<lambda>d. cr_Name d = n) xs) = card (cr_Name ` set (filter (\<lambda>d. cr_Name d = n) xs))" by simp
  also have "\<dots> \<le> card {n}" by (rule card_mono) auto
  finally show "length (filter (hasLabel (labelNodeName, n)) xs) \<le> 1" using eq by simp
qed

section \<open>The contract of the services\<close>

text \<open>
  What is seen of the world: the stored resources, all resources that a cache may still return, and the interfaces that carry the tag
  which keeps other controllers away from them. Nobody removes that tag.
\<close>

record 'w view =
  vw_store :: "'w \<Rightarrow> ERdmaDevice list"
  vw_seen :: "'w \<Rightarrow> ERdmaDevice set"
  vw_excluded :: "'w \<Rightarrow> string set"

text \<open>What may happen while a reconciler waits.\<close>

definition rely :: "'w view \<Rightarrow> 'w \<Rightarrow> 'w \<Rightarrow> bool" where
  "rely V w w' \<longleftrightarrow> edit\<^sup>*\<^sup>* (vw_store V w) (vw_store V w') \<and>
     (\<forall>d\<in>vw_seen V w'. d \<in> vw_seen V w \<or> (\<exists>ys. edit\<^sup>*\<^sup>* (vw_store V w) ys \<and> d \<in> set ys)) \<and>
     vw_excluded V w \<subseteq> vw_excluded V w'"

text \<open>A call with an effect on the store, which may fail before or after it took effect.\<close>

definition callOf :: "'w view \<Rightarrow> (ERdmaDevice list \<Rightarrow> ERdmaDevice list \<Rightarrow> bool) \<Rightarrow> 'w \<Rightarrow> 'w \<Rightarrow> bool" where
  "callOf V eff w w' \<longleftrightarrow> (\<exists>w1 w2. rely V w w1 \<and> (vw_store V w2 = vw_store V w1 \<or> eff (vw_store V w1) (vw_store V w2)) \<and>
     vw_seen V w2 \<subseteq> vw_seen V w1 \<union> set (vw_store V w2) \<and> vw_excluded V w1 \<subseteq> vw_excluded V w2 \<and> rely V w2 w')"

definition createEff :: "ERdmaDevice \<Rightarrow> ERdmaDevice list \<Rightarrow> ERdmaDevice list \<Rightarrow> bool" where
  "createEff d xs ys \<longleftrightarrow> cr_Name d \<notin> cr_Name ` set xs \<and> ys = xs @ [d]"

definition statusEff :: "ERdmaDevice \<Rightarrow> ERdmaDevice list \<Rightarrow> ERdmaDevice list \<Rightarrow> bool" where
  "statusEff d xs ys \<longleftrightarrow> (\<forall>x\<in>set xs. cr_Name x = cr_Name d \<longrightarrow> cr_Spec x = cr_Spec d) \<and> ys = statusStore d xs"

definition ecsAlong :: "('w \<Rightarrow> 'w \<Rightarrow> bool) \<Rightarrow> 'w ecs \<Rightarrow> bool" where
  "ecsAlong R api \<longleftrightarrow> (\<forall>q. along R (DescribeInstances api q)) \<and> (\<forall>q. along R (DescribeInstanceTypes api q)) \<and>
     (\<forall>q. along R (DescribeNetworkInterfaces api q)) \<and> (\<forall>q. along R (CreateNetworkInterface api q)) \<and>
     (\<forall>q. along R (ModifyNetworkInterfaceAttribute api q)) \<and> (\<forall>q. along R (TagResources api q)) \<and>
     (\<forall>q. along R (AttachNetworkInterface api q)) \<and> (\<forall>q. along R (DescribeInstanceAttribute api q))"

definition readsSeen :: "'w k8s \<Rightarrow> 'w view \<Rightarrow> bool" where
  "readsSeen kc V \<longleftrightarrow> (\<forall>n. along (rely V) (GetNode kc n)) \<and> (\<forall>l. along (rely V) (ListERdmaDevices kc l)) \<and>
     (\<forall>n. along (rely V) (GetERdmaDevice kc n)) \<and>
     (\<forall>l w items w'. ListERdmaDevices kc l w = (Ok items, w') \<longrightarrow> set items \<subseteq> vw_seen V w') \<and>
     (\<forall>n w d w'. GetERdmaDevice kc n w = (Ok d, w') \<longrightarrow> d \<in> vw_seen V w')"

definition writesStore :: "'w k8s \<Rightarrow> 'w view \<Rightarrow> bool" where
  "writesStore kc V \<longleftrightarrow> (\<forall>d. along (callOf V (createEff d)) (CreateERdmaDevice kc d)) \<and>
     (\<forall>d. along (callOf V (\<lambda>xs ys. ys = patchStore d xs)) (CreateOrPatch kc d)) \<and>
     (\<forall>d. along (callOf V (\<lambda>xs ys. ys = deleteStore d xs)) (DeleteERdmaDevice kc d)) \<and>
     (\<forall>d. along (callOf V (statusEff d)) (UpdateStatus kc d))"

definition tagsSet :: "'w ecs \<Rightarrow> 'w view \<Rightarrow> bool" where
  "tagsSet api V \<longleftrightarrow> (\<forall>q w w'. TagResources api q w = (Ok (), w') \<longrightarrow> (eriTagExcludedKey, eriTagExcludedValue) \<in> set (tr_Tag q) \<longrightarrow>
     set (tr_ResourceId q) \<subseteq> vw_excluded V w')"

definition clusterApi :: "'w ecs \<Rightarrow> 'w k8s \<Rightarrow> 'w view \<Rightarrow> bool" where
  "clusterApi api kc V \<longleftrightarrow> readsSeen kc V \<and> writesStore kc V \<and> ecsAlong (rely V) api \<and> tagsSet api V \<and> servicePrimaryOnCard0 api"

lemma rely_refl: "rely V w w"
  by (simp add: rely_def)

lemma rely_excluded: "rely V w w' \<Longrightarrow> vw_excluded V w \<subseteq> vw_excluded V w'"
  by (simp add: rely_def)

lemma rely_trans:
  assumes "rely V w1 w2" and "rely V w2 w3"
  shows "rely V w1 w3"
proof -
  from assms have e: "edit\<^sup>*\<^sup>* (vw_store V w1) (vw_store V w2)" and "edit\<^sup>*\<^sup>* (vw_store V w2) (vw_store V w3)"
    by (simp_all add: rely_def)
  then have "edit\<^sup>*\<^sup>* (vw_store V w1) (vw_store V w3)" by (rule rtranclp_trans)
  moreover have "\<exists>ys. edit\<^sup>*\<^sup>* (vw_store V w1) ys \<and> d \<in> set ys" if "edit\<^sup>*\<^sup>* (vw_store V w2) ys" "d \<in> set ys" for ys d
    using rtranclp_trans [OF e that(1)] that(2) by blast
  ultimately show ?thesis using assms by (auto simp: rely_def)
qed

lemma callOf_rely:
  assumes "\<And>xs ys. eff xs ys \<Longrightarrow> edit xs ys" and "callOf V eff w w'"
  shows "rely V w w'"
proof -
  from assms(2) obtain w1 w2 where w1: "rely V w w1" and eff: "vw_store V w2 = vw_store V w1 \<or> eff (vw_store V w1) (vw_store V w2)"
    and seen: "vw_seen V w2 \<subseteq> vw_seen V w1 \<union> set (vw_store V w2)" and ex: "vw_excluded V w1 \<subseteq> vw_excluded V w2" and w2: "rely V w2 w'"
    unfolding callOf_def by blast
  from eff assms(1) have "edit\<^sup>*\<^sup>* (vw_store V w1) (vw_store V w2)" by auto
  with seen ex have "rely V w1 w2" by (auto simp: rely_def)
  from rely_trans [OF w1 rely_trans [OF this w2]] show ?thesis .
qed

section \<open>The invariant of the store\<close>

definition viewOk :: "'w view \<Rightarrow> 'w \<Rightarrow> bool" where
  "viewOk V w \<longleftrightarrow> storeOk (vw_store V w) \<and> (\<forall>d\<in>vw_seen V w. resourceOk d)"

definition safe :: "'w view \<Rightarrow> 'w \<Rightarrow> 'w \<Rightarrow> bool" where
  "safe V w w' \<longleftrightarrow> (viewOk V w \<longrightarrow> rely V w w')"

lemma rely_viewOk:
  assumes "rely V w w'" and "viewOk V w"
  shows "viewOk V w'"
proof -
  have "resourceOk d" if "edit\<^sup>*\<^sup>* (vw_store V w) ys" "d \<in> set ys" for ys d
    using edits_storeOk [OF that(1)] assms(2) that(2) by (simp add: viewOk_def storeOk_def)
  then have "\<forall>d\<in>vw_seen V w'. resourceOk d" using assms by (auto simp: rely_def viewOk_def)
  moreover have "storeOk (vw_store V w')" using assms edits_storeOk by (auto simp: rely_def viewOk_def)
  ultimately show ?thesis by (simp add: viewOk_def)
qed

lemma safe_order: "reflp (safe V)" "transp (safe V)"
proof -
  show "reflp (safe V)" by (simp add: reflp_def safe_def rely_refl)
  show "transp (safe V)"
  proof (rule transpI)
    fix w1 w2 w3 assume s: "safe V w1 w2" "safe V w2 w3"
    show "safe V w1 w3"
      unfolding safe_def
    proof
      assume "viewOk V w1"
      with s(1) have r: "rely V w1 w2" by (simp add: safe_def)
      with \<open>viewOk V w1\<close> s(2) have "rely V w2 w3" by (simp add: safe_def rely_viewOk)
      with r show "rely V w1 w3" by (rule rely_trans)
    qed
  qed
qed

lemma along_safe: "along (rely V) m \<Longrightarrow> along (safe V) m"
  by (erule along_mono) (simp add: safe_def)

lemma callOf_safe:
  assumes "along (callOf V eff) m" and "\<And>xs ys. eff xs ys \<Longrightarrow> edit xs ys"
  shows "along (safe V) m"
  using assms(1)
proof (rule along_mono)
  fix w w' assume "callOf V eff w w'"
  with assms(2) have "rely V w w'" by (rule callOf_rely)
  then show "safe V w w'" by (simp add: safe_def)
qed

text \<open>What a call that runs along \<open>safe\<close> promises when the invariant held.\<close>

lemma safe_post:
  assumes "along (safe V) m" and "m w = (r, w')"
  shows "viewOk V w' \<or> (\<forall>w''. safe V w w'')"
  using alongD [OF assms] rely_viewOk [of V w w'] by (auto simp: safe_def)

section \<open>The calls of the reconcilers\<close>

text \<open>The methods of the cloud client run along every relation its calls run along.\<close>

lemma ecsAlongD:
  assumes "ecsAlong R api"
  shows "along R (DescribeInstances api q1)" "along R (DescribeInstanceTypes api q2)" "along R (DescribeNetworkInterfaces api q3)"
    "along R (CreateNetworkInterface api q4)" "along R (ModifyNetworkInterfaceAttribute api q5)" "along R (TagResources api q6)"
    "along R (AttachNetworkInterface api q7)" "along R (DescribeInstanceAttribute api q8)"
  using assms by (simp_all add: ecsAlong_def)

lemmas pure_actions = retA_Pair failA_Pair liftR_Pair

lemma EnsureEriTags_along:
  assumes R: "reflp R" "transp R" and "ecsAlong R api"
  shows "along R (EnsureEriTags api e ids i)"
  unfolding EnsureEriTags_def pure_actions by (intro along_intros R ecsAlongD [OF assms(3)])

lemma InstanceIDFromNode_along:
  assumes R: "reflp R" "transp R" and "ecsAlong R api"
  shows "along R (InstanceIDFromNode api e node)"
  unfolding InstanceIDFromNode_def instanceFromInternalIP_def Let_def pure_actions
  by (intro along_intros R ecsAlongD [OF assms(3)])

lemma IsJumboFrameEnabled_along:
  assumes R: "reflp R" "transp R" and "ecsAlong R api"
  shows "along R (IsJumboFrameEnabled api i)"
  unfolding IsJumboFrameEnabled_def pure_actions by (intro along_intros R ecsAlongD [OF assms(3)])

lemma createEris_along:
  assumes R: "reflp R" "transp R" and "ecsAlong R api"
  shows "along R (createEris api e inst qp idxs)"
  by (induction idxs) (simp_all only: createEris.simps pure_actions, (intro along_intros R ecsAlongD [OF assms(3)] | assumption)+)

lemma along_prod: "(\<And>x y. along R (f x y)) \<Longrightarrow> along R (case p of (x, y) \<Rightarrow> f x y)"
  by (cases p) simp

lemma along_res:
  "(\<And>x. along R (f x)) \<Longrightarrow> (\<And>e. along R (g e)) \<Longrightarrow> (\<And>p. along R (h p)) \<Longrightarrow>
   along R (case r of Ok x \<Rightarrow> f x | Err e \<Rightarrow> g e | Panic p \<Rightarrow> h p)"
  by (cases r) simp_all

lemma SelectERIs_along:
  assumes R: "reflp R" "transp R" and "ecsAlong R api"
  shows "along R (SelectERIs api e i)"
  unfolding SelectERIs_def CreateEriForInstance_def Let_def pure_actions
  by (intro along_intros along_prod along_res R ecsAlongD [OF assms(3)] createEris_along EnsureEriTags_along assms(3))

lemma EnsureEriForInstance_along:
  assumes R: "reflp R" "transp R" and "ecsAlong R api"
  shows "along R (EnsureEriForInstance api e devices)"
proof -
  note calls = ecsAlongD [OF assms(3)]
  have one: "along R (ensureDevice api e m d)" for m d
    unfolding ensureDevice_def attachDevice_def convertDevice_def ConvertPrimaryENI_def pure_actions
    by (intro along_intros R calls EnsureEriTags_along assms(3))
  have "along R (ensureDevices api e m ds)" for m ds
  proof (induction ds)
    case (Cons d ds)
    then show ?case unfolding ensureDevices.simps pure_actions by (intro along_intros R one)
  qed (simp add: along_Pair R)
  then show ?thesis unfolding EnsureEriForInstance_def pure_actions by (intro along_intros R calls)
qed

text \<open>The calls to the API server, with arguments the reconcilers give them.\<close>

lemma clusterApiD:
  assumes "clusterApi api kc V"
  shows "readsSeen kc V" "writesStore kc V" "ecsAlong (rely V) api" "tagsSet api V" "servicePrimaryOnCard0 api"
  using assms by (simp_all add: clusterApi_def)

lemma reads_safe:
  assumes "readsSeen kc V"
  shows "along (safe V) (GetNode kc n)" "along (safe V) (ListERdmaDevices kc l)" "along (safe V) (GetERdmaDevice kc m)"
proof -
  from assms have "along (rely V) (GetNode kc n)" "along (rely V) (ListERdmaDevices kc l)" "along (rely V) (GetERdmaDevice kc m)"
    unfolding readsSeen_def by blast+
  from this [THEN along_safe]
  show "along (safe V) (GetNode kc n)" "along (safe V) (ListERdmaDevices kc l)" "along (safe V) (GetERdmaDevice kc m)" .
qed

lemma ecs_safe: "ecsAlong (rely V) api \<Longrightarrow> ecsAlong (safe V) api"
  by (simp add: ecsAlong_def along_safe)

lemma create_safe:
  assumes "writesStore kc V" and "createdOk d" and "cr_Status d = []"
  shows "along (safe V) (CreateERdmaDevice kc d)"
proof -
  have "edit xs ys" if "createEff d xs ys" for xs ys
    using that edit.create [OF assms(2,3)] by (auto simp: createEff_def)
  with assms(1) show ?thesis by (auto simp: writesStore_def intro: callOf_safe)
qed

lemma patch_safe: "writesStore kc V \<Longrightarrow> metaOk d \<Longrightarrow> along (safe V) (CreateOrPatch kc d)"
  unfolding writesStore_def by (blast intro: callOf_safe edit.patch)

lemma delete_safe: "writesStore kc V \<Longrightarrow> along (safe V) (DeleteERdmaDevice kc d)"
  unfolding writesStore_def by (blast intro: callOf_safe edit.delete)

lemma status_safe:
  assumes "writesStore kc V" and "statusesOf d"
  shows "along (safe V) (UpdateStatus kc d)"
proof -
  have "edit xs ys" if "statusEff d xs ys" for xs ys
    using that edit.status [OF assms(2)] by (auto simp: statusEff_def)
  with assms(1) show ?thesis by (auto simp: writesStore_def intro: callOf_safe)
qed

text \<open>What is read is well-formed, also when it is stale.\<close>

lemma list_ok:
  assumes "readsSeen kc V" and "ListERdmaDevices kc l w = (Ok items, w')"
  shows "(\<forall>d\<in>set items. resourceOk d) \<or> (\<forall>w''. safe V w w'')"
  using safe_post [OF reads_safe(2) [OF assms(1)] assms(2)] assms unfolding readsSeen_def viewOk_def by blast

lemma get_ok:
  assumes "readsSeen kc V" and "GetERdmaDevice kc n w = (Ok d, w')"
  shows "resourceOk d \<or> (\<forall>w''. safe V w w'')"
  using safe_post [OF reads_safe(3) [OF assms(1)] assms(2)] assms unfolding readsSeen_def viewOk_def by blast

lemma RemoveERdmaDevices_safe:
  assumes "readsSeen kc V" and "writesStore kc V"
  shows "along (safe V) (RemoveERdmaDevices kc name)"
proof -
  have fin: "along (safe V) (clearFinalizers kc ds)" if "\<forall>d\<in>set ds. resourceOk d" for ds
    using that
  proof (induction ds)
    case (Cons d ds)
    then have "metaOk (withoutFinalizers d)" by (simp add: resourceOk_def metaOk_def hasLabel_def withoutFinalizers_def Let_def)
    with Cons assms(2) show ?case by (auto intro!: along_bindA safe_order patch_safe)
  qed (simp add: along_Pair safe_order)
  have del: "along (safe V) (deleteDevices kc ds)" for ds
    by (induction ds) (auto intro!: along_bindA along_Pair safe_order delete_safe assms(2))
  show ?thesis unfolding RemoveERdmaDevices_def pure_actions
    by (rule along_bindA_post [where Q = "\<lambda>items. \<forall>d\<in>set items. resourceOk d"])
      (auto intro!: safe_order reads_safe assms(1) along_bindA along_Pair fin del dest: list_ok [OF assms(1)])
qed

lemma DeviceReconcile_safe:
  assumes api: "clusterApi api kc V"
  shows "along (safe V) (DeviceReconcile api e kc name)"
proof -
  note parts = clusterApiD [OF api]
  have conf: "along (safe V) (configureDevice (EnsureEriForInstance api e) kc d)" for d
    unfolding configureDevice_def pure_actions
    by (rule along_bindA_post [where Q = "\<lambda>sts. statusesOf (d\<lparr> cr_Status := sts \<rparr>)"])
      (auto intro!: safe_order EnsureEriForInstance_along ecs_safe parts along_bindA along_Pair status_safe eri.statuses_ok)
  show ?thesis unfolding DeviceReconcile_def reconcileDevice_def pure_actions
    by (intro along_tryA along_if along_Pair safe_order reads_safe parts conf RemoveERdmaDevices_safe)
qed

lemma provisionNode_safe:
  assumes api: "clusterApi api kc V"
  shows "along (safe V) (provisionNode api kc polls e node iid)"
proof -
  note parts = clusterApiD [OF api]
  have wait: "along (safe V) (waitCreated kc n name)" for n name
    by (induction n) (auto intro!: along_tryA along_Pair safe_order reads_safe parts)
  have create: "along (safe V) (CreateERdmaDevice kc (newDevice node iid j eris))" if "distinct (map eri_CardIndex eris)" for j eris
    using create_safe [OF parts(2) newDevice_ok [OF that]] by (simp add: newDevice_def)
  show ?thesis unfolding provisionNode_def pure_actions
    by (rule along_bindA_post [where Q = "\<lambda>eri. case eri of None \<Rightarrow> True | Some eris \<Rightarrow> distinct (map eri_CardIndex eris)"])
      (auto intro!: safe_order SelectERIs_along ecs_safe parts along_bindA along_tryA along_Pair IsJumboFrameEnabled_along create wait
        dest: SelectERIs_distinct_cards [OF _ parts(5)] split: option.splits)
qed

lemma NodeReconcile_safe:
  assumes api: "clusterApi api kc V"
  shows "along (safe V) (NodeReconcile api kc polls r name)"
proof -
  note parts = clusterApiD [OF api]
  have fill: "along (safe V) (backfillEriTags api e t ds i)" for e t ds i
    unfolding backfillEriTags_def Let_def pure_actions
    by (intro along_prod along_intros safe_order EnsureEriTags_along ecs_safe parts)
  have live: "along (safe V) (reconcileLive api kc polls r node)" for node
    unfolding reconcileLive_def pure_actions
    by (intro along_intros safe_order InstanceIDFromNode_along ecs_safe parts reads_safe fill provisionNode_safe api)
  have gate: "along (safe V) (\<lambda>w. if P w then (x, w) else reconcileLive api kc polls r node w)" for P x node
    using live [of node] safe_order(1) [of V] by (auto simp: along_def reflp_def)
  show ?thesis unfolding NodeReconcile_def Let_def pure_actions
    by (intro along_intros safe_order reads_safe parts RemoveERdmaDevices_safe gate)
qed

section \<open>The marks of the node reconciler\<close>

lemma backfill_marks:
  assumes "ecsAlong (safe V) api" and "tagsSet api V" and "viewOk V w" and "tagged \<subseteq> vw_excluded V w"
    and run: "backfillEriTags api e tagged devices i w = (Ok t', w')"
  shows "t' \<subseteq> vw_excluded V w'"
proof (cases "untagged tagged devices = []")
  case True
  with run assms(4) show ?thesis by (simp add: backfill_exact)
next
  case False
  let ?ids = "untagged tagged devices"
  from run False have "tryA (EnsureEriTags api e ?ids i) (\<lambda>_. retA (tagged \<union> set ?ids)) (\<lambda>_. retA tagged) w = (Ok t', w')"
    by (simp add: backfill_exact)
  then obtain res where tag: "EnsureEriTags api e ?ids i w = (res, w')"
    and t': "t' \<subseteq> tagged \<or> (res = Ok () \<and> t' = tagged \<union> set ?ids)"
    by (auto elim!: tryA_OkE)
  have "safe V w w'" using EnsureEriTags_along [OF safe_order assms(1)] tag by (rule alongD)
  with assms(3,4) have old: "tagged \<subseteq> vw_excluded V w'" by (auto simp: safe_def rely_def)
  have "set ?ids \<subseteq> vw_excluded V w'" if "res = Ok ()"
  proof -
    from tag that False obtain q where "TagResources api q w = (Ok (), w')" "tr_ResourceId q = ?ids" "tr_Tag q = eriTags i"
      by (force simp: EnsureEriTags_def elim!: tryA_OkE)
    moreover have "(eriTagExcludedKey, eriTagExcludedValue) \<in> set (eriTags i)" by (simp add: eriTags_def)
    ultimately show ?thesis using assms(2) unfolding tagsSet_def by metis
  qed
  with t' old show ?thesis by auto
qed

lemma safe_Ok: "along (safe V) m \<Longrightarrow> m w = (r, w') \<Longrightarrow> viewOk V w \<Longrightarrow> rely V w w' \<and> viewOk V w'"
  using rely_viewOk [of V w w'] by (auto simp: safe_def dest: alongD)

lemma reconcileLive_marks:
  assumes "reconcileLive api kc polls r node w = (Ok (res, t'), w')" and "t' \<noteq> nr_taggedENIs r"
  shows "\<exists>i items w2 w3. InstanceIDFromNode api (nr_EriClient r) node w = (Ok i, w2) \<and>
    ListERdmaDevices kc (labelInstanceID, i) w2 = (Ok items, w3) \<and>
    backfillEriTags api (nr_EriClient r) (nr_taggedENIs r) items i w3 = (Ok t', w')"
proof -
  from assms(1) obtain i w2 items w3 where i: "InstanceIDFromNode api (nr_EriClient r) node w = (Ok i, w2)"
    and l: "ListERdmaDevices kc (labelInstanceID, i) w2 = (Ok items, w3)"
    and "(if items = [] then bindA (provisionNode api kc polls (nr_EriClient r) node i) (\<lambda>res. retA (res, nr_taggedENIs r))
      else bindA (backfillEriTags api (nr_EriClient r) (nr_taggedENIs r) items i) (\<lambda>tagged. retA (noResult, tagged))) w3 = (Ok (res, t'), w')"
    unfolding reconcileLive_def by (elim bindA_OkE)
  with assms(2) have "backfillEriTags api (nr_EriClient r) (nr_taggedENIs r) items i w3 = (Ok t', w')"
    by (cases "items = []") (simp_all, (elim bindA_OkE, simp)+)
  with i l show ?thesis by blast
qed

lemma NodeReconcile_marks:
  assumes api: "clusterApi api kc V" and "viewOk V w" and "nr_taggedENIs r \<subseteq> vw_excluded V w"
    and run: "NodeReconcile api kc polls r name w = (Ok (res, t'), w')"
  shows "t' \<subseteq> vw_excluded V w'"
proof (cases "t' = nr_taggedENIs r")
  case True
  from safe_Ok [OF NodeReconcile_safe [OF api] run assms(2)] assms(3) True show ?thesis by (auto simp: rely_def)
next
  case False
  note parts = clusterApiD [OF api] and ecs = ecs_safe [OF clusterApiD(3) [OF api]]
  from run False obtain node w1 where g: "GetNode kc name w = (Ok node, w1)" and "reconcileLive api kc polls r node w1 = (Ok (res, t'), w')"
    by (auto simp: NodeReconcile_def Let_def elim!: tryA_OkE bindA_OkE split: if_splits)
  from reconcileLive_marks [OF this(2) False] obtain i items w2 w3 where i: "InstanceIDFromNode api (nr_EriClient r) node w1 = (Ok i, w2)"
    and l: "ListERdmaDevices kc (labelInstanceID, i) w2 = (Ok items, w3)"
    and b: "backfillEriTags api (nr_EriClient r) (nr_taggedENIs r) items i w3 = (Ok t', w')"
    by blast
  note s1 = safe_Ok [OF reads_safe(1) [OF parts(1)] g assms(2)]
  note s2 = safe_Ok [OF InstanceIDFromNode_along [OF safe_order ecs] i conjunct2 [OF s1]]
  note s3 = safe_Ok [OF reads_safe(2) [OF parts(1)] l conjunct2 [OF s2]]
  from rely_trans [OF conjunct1 [OF s1] rely_trans [OF conjunct1 [OF s2] conjunct1 [OF s3]]] assms(3)
  have "nr_taggedENIs r \<subseteq> vw_excluded V w3" by (blast dest: rely_excluded)
  with backfill_marks [OF ecs parts(4) conjunct2 [OF s3] _ b] show ?thesis by simp
qed

section \<open>The system\<close>

text \<open>
  The marks after a reconcile; they are dropped when the process restarts, and an error is returned from a stage that
  has not changed them.
\<close>

definition marksAfter :: "string set \<Rightarrow> (Result \<times> string set) res \<Rightarrow> string set" where
  "marksAfter t r = (case r of Ok (_, t') \<Rightarrow> t' | _ \<Rightarrow> t)"

inductive reach :: "'w ecs \<Rightarrow> 'w k8s \<Rightarrow> nat \<Rightarrow> NodeReconciler \<Rightarrow> 'w view \<Rightarrow> 'w \<Rightarrow> 'w \<times> string set \<Rightarrow> bool"
  for api kc polls r V w0 where
  start: "reach api kc polls r V w0 (w0, {})"
| node: "reach api kc polls r V w0 (w, t) \<Longrightarrow> NodeReconcile api kc polls (r\<lparr> nr_taggedENIs := t \<rparr>) name w = (res, w') \<Longrightarrow>
    reach api kc polls r V w0 (w', marksAfter t res)"
| device: "reach api kc polls r V w0 (w, t) \<Longrightarrow> DeviceReconcile api (nr_EriClient r) kc name w = (res, w') \<Longrightarrow>
    reach api kc polls r V w0 (w', t)"
| others: "reach api kc polls r V w0 (w, t) \<Longrightarrow> rely V w w' \<Longrightarrow> reach api kc polls r V w0 (w', t)"
| restart: "reach api kc polls r V w0 (w, t) \<Longrightarrow> reach api kc polls r V w0 (w, {})"

lemma reach_invariant:
  assumes api: "clusterApi api kc V" and "viewOk V w0" and "reach api kc polls r V w0 s"
  shows "viewOk V (fst s) \<and> snd s \<subseteq> vw_excluded V (fst s)"
  using assms(3)
proof (induction rule: reach.induct)
  case (node w t name res w')
  then have inv: "viewOk V w" "t \<subseteq> vw_excluded V w" by simp_all
  note step = safe_Ok [OF NodeReconcile_safe [OF api] node.hyps(2) inv(1)]
  have "marksAfter t res \<subseteq> vw_excluded V w'"
  proof (cases "\<exists>x t'. res = Ok (x, t')")
    case True
    then obtain x t' where "res = Ok (x, t')" by blast
    with NodeReconcile_marks [OF api inv(1) _ node.hyps(2) [unfolded this]] inv(2) show ?thesis by (simp add: marksAfter_def)
  next
    case False
    then have "marksAfter t res = t" by (auto simp: marksAfter_def split: res.splits)
    with step inv(2) show ?thesis by (auto simp: rely_def)
  qed
  with step show ?case by simp
next
  case (device w t name res w')
  then have inv: "viewOk V w" "t \<subseteq> vw_excluded V w" by simp_all
  from safe_Ok [OF DeviceReconcile_safe [OF api] device.hyps(2) inv(1)] inv(2) show ?case by (auto simp: rely_def)
next
  case (others w t w')
  with rely_viewOk show ?case by (fastforce simp: rely_def)
qed (use assms(2) in simp_all)


text \<open>A cluster with one well-behaved API server, over a world of excluded interfaces, nodes and resources.\<close>

definition exTagCloud :: "(string set \<times> exWorld) ecs" where
  "exTagCloud = (exFixed [exPrimary, exSecondary])\<lparr> TagResources := (\<lambda>q w. (Ok (),
     (if (eriTagExcludedKey, eriTagExcludedValue) \<in> set (tr_Tag q) then fst w \<union> set (tr_ResourceId q) else fst w, snd w))) \<rparr>"

definition exServer :: "('a \<times> exWorld) k8s" where
  "exServer = sndK8s ((exCluster 5)\<lparr> UpdateStatus := (\<lambda>d w.
     if list_all (\<lambda>x. cr_Name x = cr_Name d \<longrightarrow> cr_Spec x = cr_Spec d) (snd w)
     then (Ok (), (fst w, statusStore d (snd w))) else (Err (Errorf ''conflict'' []), w)) \<rparr>)"

definition exView :: "('a \<Rightarrow> string set) \<Rightarrow> ('a \<times> exWorld) view" where
  "exView f = \<lparr> vw_store = (\<lambda>w. snd (snd w)), vw_seen = (\<lambda>w. set (snd (snd w))), vw_excluded = (\<lambda>w. f (fst w)) \<rparr>"

lemma exServer_effects:
  assumes "m w = (r, w')" and "\<And>w r w'. m w = (r, w') \<Longrightarrow> fst w' = fst w \<and> (snd (snd w') = snd (snd w) \<or> eff (snd (snd w)) (snd (snd w')))"
  shows "callOf (exView f) eff w w'"
  unfolding callOf_def
proof (intro exI conjI)
  show "rely (exView f) w w" "rely (exView f) w' w'" by (rule rely_refl)+
qed (use assms(2) [OF assms(1)] in \<open>auto simp: exView_def\<close>)

lemma exServer_writes: "writesStore exServer (exView f)"
  unfolding writesStore_def along_def
  by (intro conjI allI impI; erule exServer_effects)
    (auto simp: exServer_def sndK8s_def onSnd_iff exCluster_def createEff_def statusEff_def list_all_iff list_ex_iff split: if_splits)

lemma exServer_reads: "readsSeen exServer (exView f)"
  by (auto simp: readsSeen_def along_def exServer_def sndK8s_def onSnd_iff exCluster_def exView_def rely_def
      dest!: find_SomeD split: option.splits)

lemma exTagCloud_along: "ecsAlong (rely (exView (\<lambda>x. x))) exTagCloud"
  by (auto simp: ecsAlong_def along_def exTagCloud_def exFixed_def rely_def exView_def)

lemma exTagCloud_primary: "servicePrimaryOnCard0 exTagCloud"
  using exFixed_primary by (simp add: servicePrimaryOnCard0_def exTagCloud_def exFixed_def)

lemma exTagCloud_tags: "tagsSet exTagCloud (exView (\<lambda>x. x))"
  by (auto simp: tagsSet_def exTagCloud_def exView_def)

lemma ex_clusterApi: "clusterApi exTagCloud exServer (exView (\<lambda>x. x))"
  by (simp add: clusterApi_def exServer_writes exServer_reads exTagCloud_along exTagCloud_primary exTagCloud_tags)

text \<open>A new node gets its resource; the next reconcile of the node marks its three interfaces.\<close>

definition exStart :: "string set \<times> exWorld" where
  "exStart = ({}, ([exNode ''node-a'' ''True''], []))"

definition exTwoRounds :: "(Result \<times> string set) res \<times> (string set \<times> exWorld)" where
  "exTwoRounds = NodeReconcile exTagCloud exServer 4 exReconciler ''node-a''
     (snd (NodeReconcile exTagCloud exServer 4 exReconciler ''node-a'' exStart))"

lemma exTwoRounds_reach: "reach exTagCloud exServer 4 exReconciler (exView (\<lambda>x. x)) exStart (snd exTwoRounds, marksAfter {} (fst exTwoRounds))"
proof -
  let ?run = "NodeReconcile exTagCloud exServer 4 exReconciler ''node-a''"
  have r: "exReconciler\<lparr> nr_taggedENIs := {} \<rparr> = exReconciler" by (simp add: exReconciler_def)
  have "reach exTagCloud exServer 4 exReconciler (exView (\<lambda>x. x)) exStart (snd (?run exStart), marksAfter {} (fst (?run exStart)))"
    by (rule reach.node [OF reach.start, where name = "''node-a''"]) (simp add: r)
  then have "reach exTagCloud exServer 4 exReconciler (exView (\<lambda>x. x)) exStart (snd (?run exStart), {})" by (rule reach.restart)
  then show ?thesis by (rule reach.node [where name = "''node-a''"]) (simp add: r exTwoRounds_def)
qed


end
