(* ===== verification/Erdma_Link.thy ===== *)
theory Erdma_Link
  imports Erdma_Types Metadata
begin

text \<open>
  internal/drivers/utils_linux.go and utils.go: finding the RDMA link, the device files and
  the NUMA node of a network link, which local devices are exposed, the SMC-R network ids and
  the commands the drivers run. The host (netlink, the file system, processes) is a record
  of operations, a parameter; times and processes are outside the model.
\<close>

section \<open>The host\<close>

text \<open>
  A link is \<open>link_IsDevice\<close> when it is a \<open>*netlink.Device\<close>; its hardware address is a byte
  list, nil being the empty one.
\<close>

type_synonym hwaddr = "8 word list"

record Link =
  link_Name :: string
  link_Index :: int
  link_IsDevice :: bool
  link_HardwareAddr :: hwaddr
  link_MTU :: int
  link_Up :: bool

record RdmaLink =
  rl_Name :: string
  rl_NodeGuid :: string

text \<open>
  \<open>Exec\<close> is \<open>exec.Command(argv...).CombinedOutput()\<close>: the output, and the error if any.
\<close>

record 'w host =
  LinkList :: "('w, Link list) act"
  RdmaLinkList :: "('w, RdmaLink list) act"
  ReadDir :: "string \<Rightarrow> ('w, string list) act"
  Stat :: "string \<Rightarrow> ('w, unit) act"
  ReadHostFile :: "string \<Rightarrow> ('w, string) act"
  Exec :: "string list \<Rightarrow> ('w, string \<times> goerror option) act"
  Metaserver :: "'w http"

section \<open>Hardware addresses\<close>

definition hexDigit :: "nat \<Rightarrow> char" where
  "hexDigit n = (if n < 10 then char_of (48 + n) else char_of (87 + n))"

definition hex2 :: "8 word \<Rightarrow> string" where
  "hex2 b = [hexDigit (unat b div 16), hexDigit (unat b mod 16)]"

text \<open>\<open>net.HardwareAddr.String\<close>.\<close>

definition HwAddr_String :: "hwaddr \<Rightarrow> string" where
  "HwAddr_String a = Join '':'' (map hex2 a)"

fun parseBytes :: "string \<Rightarrow> string list \<Rightarrow> 8 word list res" where
  "parseBytes guid [] = Ok []"
| "parseBytes guid (s # ss) =
     (case ParseUint16_8 s of
        Ok b \<Rightarrow> bindR (parseBytes guid ss) (\<lambda>bs. Ok (b # bs))
      | Err err \<Rightarrow> Err (Wrapf ''invalid rdma guid: %s, err: %v'' [guid] err)
      | Panic p \<Rightarrow> Panic p)"

text \<open>The bytes are stored backwards; the two in the middle are left out.\<close>

definition parseERdmaLinkHwAddr :: "string \<Rightarrow> hwaddr res" where
  "parseERdmaLinkHwAddr guid =
     (let guidSlice = Split (CHR '':'') guid in
      if length guidSlice \<noteq> 8 then Err (Errorf ''invalid rdma guid: %s'' [guid])
      else bindR (parseBytes guid guidSlice) (\<lambda>bs.
        let hwAddrSlice = rev bs in Ok (take 3 hwAddrSlice @ drop 5 hwAddrSlice)))"

text \<open>The link's address with the bit flipped by which an eRDMA guid differs from it.\<close>

definition flipAddr :: "hwaddr \<Rightarrow> hwaddr res" where
  "flipAddr a = (case a of [] \<Rightarrow> Panic ''index out of range'' | b # bs \<Rightarrow> Ok ((b XOR 2) # bs))"

fun findRdmaLink :: "hwaddr \<Rightarrow> RdmaLink list \<Rightarrow> RdmaLink option res" where
  "findRdmaLink want [] = Ok None"
| "findRdmaLink want (rl # rls) =
     bindR (parseERdmaLinkHwAddr (rl_NodeGuid rl)) (\<lambda>rdmaHwAddr.
       if HwAddr_String rdmaHwAddr = HwAddr_String want then Ok (Some rl) else findRdmaLink want rls)"

definition GetERdmaFromLink :: "'w host \<Rightarrow> Link \<Rightarrow> ('w, RdmaLink) act" where
  "GetERdmaFromLink h link =
     tryA (RdmaLinkList h)
       (\<lambda>rdmaLinks. bindA (liftR (flipAddr (link_HardwareAddr link))) (\<lambda>want.
          bindA (liftR (findRdmaLink want rdmaLinks)) (\<lambda>found.
            case found of Some rl \<Rightarrow> retA rl
            | None \<Rightarrow> failA (Errorf ''cannot found rdma link for %s'' [link_Name link]))))
       (\<lambda>err. failA (Wrapf ''error list rdma links, %v'' [] err))"

section \<open>Device files and NUMA node\<close>

definition verbsDir :: string where "verbsDir = ''/sys/class/infiniband_verbs/''"
definition rdmaCMDevice :: string where "rdmaCMDevice = ''/dev/infiniband/rdma_cm''"

text \<open>The walk over the verbs directory: the device files whose \<open>ibdev\<close> names the link.\<close>

fun verbsPaths :: "'w host \<Rightarrow> string \<Rightarrow> string list \<Rightarrow> ('w, string list) act" where
  "verbsPaths h name [] = retA []"
| "verbsPaths h name (d # ds) =
     bindA (tryA (Stat h (verbsDir @ d @ ''/ibdev''))
              (\<lambda>_. tryA (ReadHostFile h (verbsDir @ d @ ''/ibdev''))
                 (\<lambda>devName. retA (if Trim (CHR 0x0A) devName = name then [''/dev/infiniband/'' @ d] else []))
                 (\<lambda>err. retA []))
              (\<lambda>err. retA [])) (\<lambda>ps.
     bindA (verbsPaths h name ds) (\<lambda>rest. retA (ps @ rest)))"

definition GetERdmaDevPathsFromRdmaLink :: "'w host \<Rightarrow> RdmaLink \<Rightarrow> ('w, string list) act" where
  "GetERdmaDevPathsFromRdmaLink h rdmaLink =
     tryA (ReadDir h verbsDir)
       (\<lambda>ibUverbsDevs. bindA (verbsPaths h (rl_Name rdmaLink) ibUverbsDevs) (\<lambda>devPaths.
          if devPaths = [] then failA (Errorf ''can not find dev path for %s'' [rl_Name rdmaLink])
          else tryA (Stat h rdmaCMDevice) (\<lambda>_. retA (devPaths @ [rdmaCMDevice])) (\<lambda>err. retA devPaths)))
       (\<lambda>err. failA (Wrapf ''read dir /sys/class/infiniband_verbs/ failed: %v'' [] err))"

text \<open>\<open>strconv.Atoi\<close> on a 64-bit machine.\<close>

definition Atoi :: "string \<Rightarrow> int res" where
  "Atoi s =
     (let (neg, ds) = (case s of [] \<Rightarrow> (False, [])
            | c # cs \<Rightarrow> if c = CHR ''-'' then (True, cs) else if c = CHR ''+'' then (False, cs) else (False, c # cs)) in
      if ds = [] \<or> \<not> list_all is_digit ds then Err (ApiErr ''invalid syntax'')
      else (let n = (if neg then - int (read_nat 0 ds) else int (read_nat 0 ds)) in
            if - (2 ^ 63) \<le> n \<and> n < 2 ^ 63 then Ok n else Err (ApiErr ''value out of range'')))"

definition GetERDMANumaNode :: "'w host \<Rightarrow> RdmaLink \<Rightarrow> ('w, int) act" where
  "GetERDMANumaNode h info =
     tryA (ReadHostFile h (''/sys/class/infiniband/'' @ rl_Name info @ ''/device/numa_node''))
       (\<lambda>numaStr. tryA (liftR (Atoi (Trim (CHR 0x0A) numaStr)))
          (\<lambda>numa. retA (if numa < 0 then 0 else numa))
          (\<lambda>err. failA (Wrapf ''failed to parse numa node for %s: %v'' [rl_Name info] err)))
       (\<lambda>err. failA (Wrapf ''failed to get numa node for %s: %v'' [rl_Name info] err))"

section \<open>Which local devices are exposed\<close>

definition is_word :: "char \<Rightarrow> bool" where
  "is_word c \<longleftrightarrow> (let n = (of_char c :: nat) in
     48 \<le> n \<and> n \<le> 57 \<or> 65 \<le> n \<and> n \<le> 90 \<or> n = 95 \<or> 97 \<le> n \<and> n \<le> 122)"

text \<open>White space of Go's regular expressions: unlike \<open>strings.TrimSpace\<close> without the vertical tab.\<close>

definition re_space :: "char \<Rightarrow> bool" where
  "re_space c \<longleftrightarrow> c \<in> set [CHR 0x09, CHR 0x0A, CHR 0x0C, CHR 0x0D, CHR '' '']"

text \<open>
  \<open>re.MatchString\<close> for the pattern of \<open>checkExpose\<close>: an instance id or \<open>i-*\<close>, white space, and words
  separated by slashes. The three character sets are disjoint, so matching is a scan.
\<close>

definition matchDevices :: "string \<Rightarrow> bool" where
  "matchDevices s = list_all (\<lambda>w. w \<noteq> [] \<and> list_all is_word w) (Split (CHR ''/'') s)"

definition matchExpose :: "string \<Rightarrow> bool" where
  "matchExpose s =
     (HasPrefix s ''i-'' \<and>
      (let rest = drop 2 s;
           after = (if HasPrefix rest ''*'' then drop 1 rest else dropWhile is_word rest);
           devs = dropWhile re_space after in
       (HasPrefix rest ''*'' \<or> takeWhile is_word rest \<noteq> []) \<and>
       takeWhile re_space after \<noteq> [] \<and> matchDevices devs))"

definition exposeDevices :: "string \<Rightarrow> string list res" where
  "exposeDevices exposeInfo =
     bindR (index (SplitN2 (CHR '' '') exposeInfo) 1) (\<lambda>d. Ok (Split (CHR ''/'') (TrimSpace d)))"

text \<open>
  The loop: \<open>Inl\<close> for the early \<open>return true\<close>, otherwise \<open>isMatched\<close> and \<open>unMatchExposeERIs\<close>.
\<close>

fun exposeLoop :: "string \<Rightarrow> string \<Rightarrow> string list \<Rightarrow> bool \<Rightarrow> string list
    \<Rightarrow> (unit + bool \<times> string list) res" where
  "exposeLoop instanceID rdmaDevice [] isMatched unMatch = Ok (Inr (isMatched, unMatch))"
| "exposeLoop instanceID rdmaDevice (exposeInfo # infos) isMatched unMatch =
     (if \<not> matchExpose exposeInfo then Err (Errorf ''invalid format %s'' [exposeInfo])
      else bindR (index (SplitN2 (CHR '' '') exposeInfo) 0) (\<lambda>i.
        bindR (if instanceID = i then exposeDevices exposeInfo else Ok []) (\<lambda>exposeERIs.
          if instanceID = i \<and> rdmaDevice \<in> set exposeERIs then Ok (Inl ())
          else bindR (if i = ''i-*'' then exposeDevices exposeInfo else Ok unMatch) (\<lambda>unMatch'.
            exposeLoop instanceID rdmaDevice infos (isMatched \<or> instanceID = i) unMatch'))))"

definition checkExpose :: "string \<Rightarrow> string list \<Rightarrow> string \<Rightarrow> bool res" where
  "checkExpose instanceID exposedLocalERIs rdmaDevice =
     (if exposedLocalERIs = [[]] then Ok True
      else bindR (exposeLoop instanceID rdmaDevice exposedLocalERIs False []) (\<lambda>r.
        case r of Inl u \<Rightarrow> Ok True
        | Inr (isMatched, unMatch) \<Rightarrow>
            Ok (\<not> isMatched \<and> list_ex (\<lambda>dev. dev = ''erdma_*'' \<or> dev = rdmaDevice) unMatch)))"

text \<open>
  Local discovery: \<open>drivers.SelectERIs\<close>. An error of the metadata server is ignored, and so
  is one of \<open>GetERdmaFromLink\<close>.
\<close>

definition instanceIDAddr :: string where
  "instanceIDAddr = ''http://100.100.100.200/latest/meta-data/instance-id''"

definition localEri :: "string \<Rightarrow> string \<Rightarrow> Link \<Rightarrow> ERI" where
  "localEri instanceID rdmadevice link =
     \<lparr> eri_ID = rdmadevice, eri_IsPrimaryENI = (link_Name link = ''eth0''),
       eri_MAC = HwAddr_String (link_HardwareAddr link), eri_InstanceID = instanceID,
       eri_CardIndex = -1, eri_QueuePair = -1, eri_JumboFrame = False, eri_JumboFrameMTU = 0 \<rparr>"

fun selectLocal :: "'w host \<Rightarrow> string \<Rightarrow> string list \<Rightarrow> Link list \<Rightarrow> ('w, ERI list) act" where
  "selectLocal h instanceID exposed [] = retA []"
| "selectLocal h instanceID exposed (link # links) =
     bindA (if \<not> link_IsDevice link \<or> link_HardwareAddr link = [] then retA []
            else bindA (tryA (GetERdmaFromLink h link) (\<lambda>rl. retA (Some rl)) (\<lambda>err. retA None)) (\<lambda>rl.
              case rl of None \<Rightarrow> retA []
              | Some rdmaLink \<Rightarrow>
                  bindA (liftR (checkExpose instanceID exposed (rl_Name rdmaLink))) (\<lambda>isExposed.
                    retA (if isExposed then [localEri instanceID (rl_Name rdmaLink) link] else [])))) (\<lambda>eris.
     bindA (selectLocal h instanceID exposed links) (\<lambda>rest. retA (eris @ rest)))"

definition LocalSelectERIs :: "'w host \<Rightarrow> string list \<Rightarrow> ('w, ERI list) act" where
  "LocalSelectERIs h exposed =
     bindA (tryA (GetStrFromMetadata (Metaserver h) instanceIDAddr) retA (\<lambda>err. retA [])) (\<lambda>instanceID.
     tryA (LinkList h) (selectLocal h instanceID exposed)
       (\<lambda>err. failA (Wrapf ''list link failed: %v'' [] err)))"

section \<open>SMC-R network ids\<close>

definition PNetIDFromDevice :: "ERdmaDeviceInfo option \<Rightarrow> string res" where
  "PNetIDFromDevice info = bindR (deref info) (\<lambda>i. Ok (DeleteAll (CHR '':'') (ToUpper (info_MAC i))))"

definition smcPnet :: string where "smcPnet = ''smc_pnet''"

text \<open>
  The three functions run \<open>smc_pnet -s\<close>, do nothing if the output has the text they look for, and
  otherwise add an entry; \<open>pre\<close> is the command prefix and \<open>msgs\<close> the two messages.
\<close>

definition configPnet :: "'w host \<Rightarrow> string list \<Rightarrow> string \<times> string \<Rightarrow> string \<Rightarrow> string list \<Rightarrow> ('w, unit) act" where
  "configPnet h pre msgs needle args =
     bindA (Exec h (pre @ [smcPnet, ''-s''])) (\<lambda>(output, err).
     case err of Some e \<Rightarrow> failA (Errorf (fst msgs) [err_Error e, output])
     | None \<Rightarrow>
         if Contains output needle then retA ()
         else bindA (Exec h (pre @ [smcPnet] @ args)) (\<lambda>(output', err').
           case err' of Some e \<Rightarrow> failA (Errorf (snd msgs) [err_Error e, output']) | None \<Rightarrow> retA ()))"

definition ConfigSMCPnetForDevice :: "'w host \<Rightarrow> ERdmaDeviceInfo \<Rightarrow> ('w, unit) act" where
  "ConfigSMCPnetForDevice h info =
     bindA (liftR (PNetIDFromDevice (Some info))) (\<lambda>pnet.
       configPnet h [] (''failed to get smc-pnet stat: %v, output: %v'',
                        ''failed to config smc-pnet rdma device: %v, output: %v'')
         pnet [''-a'', pnet, ''-D'', info_Name info])"

definition ConfigForNetDevice :: "'w host \<Rightarrow> string \<Rightarrow> string \<Rightarrow> ('w, unit) act" where
  "ConfigForNetDevice h pnet netDevice =
     configPnet h [] (''failed to get smc-pnet stat for net device: %v, output: %v'',
                      ''failed to config smc-pnet net device: %v, output: %v'')
       netDevice [''-a'', pnet, ''-I'', netDevice]"

definition ConfigForNetnsNetDevice :: "'w host \<Rightarrow> string \<Rightarrow> string \<Rightarrow> string \<Rightarrow> ('w, unit) act" where
  "ConfigForNetnsNetDevice h pnet netDevice netns =
     configPnet h [''nsenter'', ''-n/proc/1/root/'' @ netns, ''--'']
       (''failed to get smc-pnet stat for net device: %v, output: %v'',
        ''failed to config smc-pnet net device: %v, output: %v'')
       netDevice [''-a'', pnet, ''-I'', netDevice]"

section \<open>Hexadecimal round trips\<close>

lemma nat_less_16_cases: "(n::nat) < 16 \<Longrightarrow> n \<in> {0,1,2,3,4,5,6,7,8,9,10,11,12,13,14,15}"
  by (simp add: numeral_eq_Suc less_Suc_eq)

lemma hex_val_hexDigit: "n < 16 \<Longrightarrow> hex_val (hexDigit n) = Some n"
  by (drule nat_less_16_cases) (auto simp: hex_val_def hexDigit_def)

lemma hex_val_upper_hexDigit: "n < 16 \<Longrightarrow> hex_val (upper (hexDigit n)) = Some n"
  by (drule nat_less_16_cases) (auto simp: hex_val_def hexDigit_def upper_def)

lemma upper_hexDigit_inj:
  "m < 16 \<Longrightarrow> n < 16 \<Longrightarrow> upper (hexDigit m) = upper (hexDigit n) \<Longrightarrow> m = n"
  by (metis hex_val_upper_hexDigit option.inject)

lemma hexDigit_not_colon:
  assumes "n < 16"
  shows "hexDigit n \<noteq> CHR '':''" and "upper (hexDigit n) \<noteq> CHR '':''"
proof -
  have "hex_val (CHR '':'') = None" by (simp add: hex_val_def)
  then show "hexDigit n \<noteq> CHR '':''" and "upper (hexDigit n) \<noteq> CHR '':''"
    using hex_val_hexDigit [OF assms] hex_val_upper_hexDigit [OF assms] by (metis option.distinct(1))+
qed

lemma byte_digits: "unat (b :: 8 word) div 16 < 16" "unat b mod 16 < 16"
proof -
  have "unat b < 2 ^ LENGTH(8)" by (rule unsigned_less)
  then have "unat b < 256" by simp
  then show "unat b div 16 < 16" "unat b mod 16 < 16" by simp_all
qed

lemma ParseUint_hex2: "ParseUint16_8 (hex2 b) = Ok b"
proof -
  have "unat b < 2 ^ LENGTH(8)" by (rule unsigned_less)
  then have "unat b < 256" by simp
  moreover have "16 * (unat b div 16) + unat b mod 16 = unat b" by simp
  ultimately show ?thesis
    using byte_digits [of b] by (simp add: ParseUint16_8_def hex2_def hex_val_hexDigit del: mult_div_mod_eq)
qed

lemma hex2_inj: "hex2 a = hex2 b \<longleftrightarrow> a = b"
  using ParseUint_hex2 by (metis res.inject(1))

lemma hex2_no_colon: "CHR '':'' \<notin> set (hex2 b)"
  using hexDigit_not_colon(1) [OF byte_digits(1) [of b]] hexDigit_not_colon(1) [OF byte_digits(2) [of b]]
  by (auto simp: hex2_def)

lemma Split_Join:
  "ss \<noteq> [] \<Longrightarrow> (\<And>s. s \<in> set ss \<Longrightarrow> c \<notin> set s) \<Longrightarrow> Split c (Join [c] ss) = ss"
proof (induction ss rule: induct_list012)
  case (3 x y zs)
  then show ?case by (simp add: Split_append)
qed (auto simp: Split_no_sep)

lemma Split_HwAddr: "a \<noteq> [] \<Longrightarrow> Split (CHR '':'') (HwAddr_String a) = map hex2 a"
  unfolding HwAddr_String_def using hex2_no_colon by (intro Split_Join) auto

lemma HwAddr_String_Nil: "HwAddr_String a = [] \<longleftrightarrow> a = []"
proof (cases a)
  case (Cons b bs)
  then show ?thesis by (cases bs) (auto simp: HwAddr_String_def hex2_def)
qed (simp add: HwAddr_String_def)

lemma HwAddr_String_inj [simp]: "HwAddr_String a = HwAddr_String b \<longleftrightarrow> a = b"
proof
  assume eq: "HwAddr_String a = HwAddr_String b"
  show "a = b"
  proof (cases "a = []")
    case False
    with eq have "b \<noteq> []" by (metis HwAddr_String_Nil)
    with False eq have "map hex2 a = map hex2 b" by (metis Split_HwAddr)
    then show ?thesis using hex2_inj by (metis inj_map_eq_map inj_on_def)
  qed (use eq in \<open>metis HwAddr_String_Nil\<close>)
qed simp

lemma parseBytes_hex2: "parseBytes g (map hex2 bs) = Ok bs"
  by (induction bs) (simp_all add: ParseUint_hex2)

text \<open>The guid the eRDMA device reports for a hardware address: the bytes backwards around two fixed ones.\<close>

definition guidOf :: "8 word \<Rightarrow> 8 word \<Rightarrow> hwaddr \<Rightarrow> string" where
  "guidOf x y a = HwAddr_String (rev (drop 3 a) @ [x, y] @ rev (take 3 a))"

lemma guidOf_parse:
  assumes "length a = 6"
  shows "parseERdmaLinkHwAddr (guidOf x y a) = Ok a"
proof -
  let ?bs = "rev (drop 3 a) @ [x, y] @ rev (take 3 a)"
  have "Split (CHR '':'') (guidOf x y a) = map hex2 ?bs" unfolding guidOf_def by (rule Split_HwAddr) simp
  moreover have "length ?bs = 8" and "take 3 (rev ?bs) @ drop 5 (rev ?bs) = a" using assms by auto
  ultimately show ?thesis
    by (simp add: parseERdmaLinkHwAddr_def Let_def parseBytes_hex2 del: map_append rev_append)
qed

text \<open>
  C25: Parsing the guid of an eRDMA link recovers the hardware address it was formed from.
\<close>

theorem guid_roundtrip:
  assumes "length a = 6"
  shows "parseERdmaLinkHwAddr (guidOf x y a) = Ok a"
  using assms by (rule guidOf_parse)

theorem guid_roundtrip_witness:
  "parseERdmaLinkHwAddr (guidOf 0xfe 0xff [0x00, 0x16, 0x3e, 0x01, 0x02, 0x03]) = Ok [0x00, 0x16, 0x3e, 0x01, 0x02, 0x03]"
  by (rule guid_roundtrip) simp

lemma findRdmaLink_spec:
  assumes "\<And>rl. rl \<in> set rls \<Longrightarrow> \<exists>a. parseERdmaLinkHwAddr (rl_NodeGuid rl) = Ok a"
  shows "findRdmaLink want rls = Ok (find (\<lambda>rl. parseERdmaLinkHwAddr (rl_NodeGuid rl) = Ok want) rls)"
  using assms
proof (induction rls)
  case (Cons rl rls)
  from Cons.prems [of rl] obtain a where "parseERdmaLinkHwAddr (rl_NodeGuid rl) = Ok a" by auto
  with Cons show ?case by simp
qed simp

text \<open>
  The RDMA link GetERdmaFromLink returns for a network link is the first one whose guid was formed from the
  link's hardware address with bit 1 of the first byte flipped; there is an error if there is
  none. All guids are well formed.
\<close>

theorem rdma_link_of_netlink:
  assumes "RdmaLinkList h w = (Ok rls, w')"
    and "\<forall>rl\<in>set rls. \<exists>a. parseERdmaLinkHwAddr (rl_NodeGuid rl) = Ok a"
    and "link_HardwareAddr link = b # bs"
  shows "GetERdmaFromLink h link w =
    (case find (\<lambda>rl. parseERdmaLinkHwAddr (rl_NodeGuid rl) = Ok ((b XOR 2) # bs)) rls of
       Some rl \<Rightarrow> (Ok rl, w')
     | None \<Rightarrow> (Err (Errorf ''cannot found rdma link for %s'' [link_Name link]), w'))"
  using assms(1,3) findRdmaLink_spec [of rls "(b XOR 2) # bs"] assms(2)
  by (simp add: GetERdmaFromLink_def tryA_def flipAddr_def split: option.splits)

section \<open>Network ids\<close>

lemma DeleteAll_Join:
  "(\<And>s. s \<in> set ss \<Longrightarrow> c \<notin> set (map f s)) \<Longrightarrow> f c = c \<Longrightarrow> DeleteAll c (map f (Join [c] ss)) = concat (map (map f) ss)"
proof (induction ss rule: induct_list012)
  case (3 x y zs)
  then have "filter (\<lambda>z. z \<noteq> c) (map f x) = map f x" by (intro filter_True) auto
  with 3 show ?case by (simp add: DeleteAll_def)
qed (auto simp: DeleteAll_def intro!: filter_True)

lemma concat_pairs_inj:
  "concat (map g xs) = concat (map g ys) \<Longrightarrow> (\<And>x. length (g x) = 2) \<Longrightarrow> inj g \<Longrightarrow> xs = ys"
proof (induction xs arbitrary: ys)
  case Nil
  then show ?case by (cases ys) (auto, metis length_0_conv zero_neq_numeral)
next
  case (Cons x xs)
  then obtain y ys' where ys: "ys = y # ys'" by (cases ys) (auto, metis length_0_conv zero_neq_numeral)
  with Cons.prems have "g x = g y" and "concat (map g xs) = concat (map g ys')" by simp_all
  with Cons ys show ?case by (auto dest: injD)
qed

lemma upper_hex2: "map upper (hex2 b) = [upper (hexDigit (unat b div 16)), upper (hexDigit (unat b mod 16))]"
  by (simp add: hex2_def)

lemma upper_hex2_inj: "inj (\<lambda>b. map upper (hex2 b))"
proof (rule injI)
  fix a b :: "8 word"
  assume "map upper (hex2 a) = map upper (hex2 b)"
  then have "unat a div 16 = unat b div 16" "unat a mod 16 = unat b mod 16"
    by (auto simp: hex2_def dest: upper_hexDigit_inj [OF byte_digits(1) byte_digits(1)]
        upper_hexDigit_inj [OF byte_digits(2) byte_digits(2)])
  then have "unat a = unat b" by (metis mult_div_mod_eq)
  then show "a = b" by (simp add: word_unat_eq_iff)
qed

lemma PNetID_HwAddr:
  "PNetIDFromDevice (Some (info\<lparr> info_MAC := HwAddr_String a \<rparr>)) = Ok (concat (map (\<lambda>b. map upper (hex2 b)) a))"
proof -
  have "CHR '':'' \<notin> set (map upper s)" if "s \<in> set (map hex2 a)" for s
    using that hexDigit_not_colon(2) [OF byte_digits(1)] hexDigit_not_colon(2) [OF byte_digits(2)]
    by (auto simp: hex2_def) (metis+)
  from DeleteAll_Join [of "map hex2 a" "CHR '':''" upper, OF this] show ?thesis
    by (simp add: PNetIDFromDevice_def ToUpper_def HwAddr_String_def upper_def o_def)
qed

text \<open>
  Devices with different hardware addresses have different SMC-R network ids.
\<close>

theorem pnet_id_injective:
  "PNetIDFromDevice (Some (i\<lparr> info_MAC := HwAddr_String a \<rparr>)) = PNetIDFromDevice (Some (j\<lparr> info_MAC := HwAddr_String b \<rparr>))
    \<longleftrightarrow> a = b"
  unfolding PNetID_HwAddr using concat_pairs_inj [of "\<lambda>b. map upper (hex2 b)" a b] upper_hex2_inj
  by (auto simp: hex2_def)

text \<open>A host with two RDMA links, for the witnesses.\<close>

definition exLinks :: "RdmaLink list" where
  "exLinks = [\<lparr> rl_Name = ''erdma_0'', rl_NodeGuid = guidOf 0xff 0xfe [0x02, 0x16, 0x3e, 1, 2, 3] \<rparr>,
     \<lparr> rl_Name = ''erdma_1'', rl_NodeGuid = guidOf 0xff 0xfe [0x02, 0x16, 0x3e, 1, 2, 4] \<rparr>]"

definition exHost :: "nat host" where
  "exHost = \<lparr> LinkList = Pair (Ok []), RdmaLinkList = Pair (Ok exLinks), ReadDir = (\<lambda>d. Pair (Ok [''uverbs0''])),
     Stat = (\<lambda>f. Pair (Ok ())), ReadHostFile = (\<lambda>f. Pair (Ok ''erdma_0'')),
     Exec = (\<lambda>argv. Pair (Ok ([], None))), Metaserver = exBusy \<rparr>"

definition exLink :: Link where
  "exLink = \<lparr> link_Name = ''eth1'', link_Index = 3, link_IsDevice = True,
     link_HardwareAddr = [0x00, 0x16, 0x3e, 1, 2, 4], link_MTU = 1500, link_Up = False \<rparr>"

theorem rdma_link_of_netlink_witness:
  "\<exists>rl. GetERdmaFromLink exHost exLink 0 = (Ok rl, 0) \<and> rl_Name rl = ''erdma_1''"
proof -
  have l: "RdmaLinkList exHost 0 = (Ok exLinks, 0)" by (simp add: exHost_def)
  have p: "parseERdmaLinkHwAddr (guidOf x y [a1, a2, a3, a4, a5, a6]) = Ok [a1, a2, a3, a4, a5, a6]" for x y a1 a2 a3 a4 a5 a6
    by (simp add: guidOf_parse)
  have "link_HardwareAddr exLink = 0x00 # [0x16, 0x3e, 1, 2, 4]" by (simp add: exLink_def)
  from rdma_link_of_netlink [OF l _ this] show ?thesis by (simp add: exLinks_def p)
qed

section \<open>Exposure lists\<close>

text \<open>An exposure entry in its abstract form: an instance id, or the wildcard, and device names.\<close>

definition wordNonempty :: "string \<Rightarrow> bool" where
  "wordNonempty s \<longleftrightarrow> s \<noteq> [] \<and> list_all is_word s"

definition validEntry :: "string \<times> string list \<Rightarrow> bool" where
  "validEntry e \<longleftrightarrow> (fst e = ''i-*'' \<or> (\<exists>w. fst e = ''i-'' @ w \<and> wordNonempty w)) \<and>
     snd e \<noteq> [] \<and> list_all wordNonempty (snd e)"

definition renderEntry :: "string \<times> string list \<Rightarrow> string" where
  "renderEntry e = fst e @ '' '' @ Join ''/'' (snd e)"

definition exposed :: "string \<Rightarrow> (string \<times> string list) list \<Rightarrow> string \<Rightarrow> bool" where
  "exposed instanceID es dev \<longleftrightarrow>
     (if \<exists>e\<in>set es. fst e = instanceID then \<exists>e\<in>set es. fst e = instanceID \<and> dev \<in> set (snd e)
      else case find (\<lambda>e. fst e = ''i-*'') (rev es) of None \<Rightarrow> False | Some e \<Rightarrow> dev \<in> set (snd e))"

lemma word_chars:
  assumes "is_word c"
  shows "c \<noteq> CHR '' ''" "c \<noteq> CHR ''/''" "c \<noteq> CHR ''*''" "\<not> is_space c" "\<not> re_space c"
  using assms by (auto simp: is_word_def is_space_def re_space_def Let_def)

lemma not_word [simp]: "\<not> is_word (CHR '' '')" "\<not> is_word (CHR ''*'')"
  by (simp_all add: is_word_def)

lemma find_append_case: "find P (xs @ ys) = (case find P xs of Some x \<Rightarrow> Some x | None \<Rightarrow> find P ys)"
  by (induction xs) auto

lemma set_Join: "set (Join sep ss) \<subseteq> \<Union> (set ` set ss) \<union> set sep"
  by (induction ss rule: induct_list012) auto

lemma devices_chars:
  assumes "list_all wordNonempty ds" and "c \<in> set (Join ''/'' ds)"
  shows "is_word c \<or> c = CHR ''/''"
  using assms set_Join [of "''/''" ds] by (auto simp: list_all_iff wordNonempty_def)

lemma Split_devices:
  assumes "ds \<noteq> []" and "list_all wordNonempty ds"
  shows "Split (CHR ''/'') (Join ''/'' ds) = ds"
  using assms word_chars(2) by (intro Split_Join) (auto simp: list_all_iff wordNonempty_def)

lemma exposeDevices_render:
  assumes "validEntry e"
  shows "SplitN2 (CHR '' '') (renderEntry e) = [fst e, Join ''/'' (snd e)]"
    and "exposeDevices (renderEntry e) = Ok (snd e)"
proof -
  have ws: "list_all wordNonempty (snd e)" and ne: "snd e \<noteq> []" using assms by (auto simp: validEntry_def)
  have "CHR '' '' \<notin> set (fst e)"
    using assms not_word(1) by (fastforce simp: validEntry_def wordNonempty_def list_all_iff)
  then show split: "SplitN2 (CHR '' '') (renderEntry e) = [fst e, Join ''/'' (snd e)]"
    unfolding renderEntry_def using SplitN2_append [of "CHR '' ''" "fst e"] by simp
  have "\<not> is_space c" if "c \<in> set (Join ''/'' (snd e))" for c
    using devices_chars [OF ws that] word_chars(4) by (auto simp: is_space_def)
  then have "TrimSpace (Join ''/'' (snd e)) = Join ''/'' (snd e)"
    unfolding TrimSpace_def by (rule trim_by_id)
  with split show "exposeDevices (renderEntry e) = Ok (snd e)"
    by (simp add: exposeDevices_def index_def Split_devices [OF ne ws])
qed

lemma takeWhile_stop: "list_all P a \<Longrightarrow> \<not> P b \<Longrightarrow> takeWhile P (a @ b # c) = a \<and> dropWhile P (a @ b # c) = b # c"
  by (induction a) auto

lemma matchExpose_render:
  assumes "validEntry e"
  shows "matchExpose (renderEntry e)"
proof -
  have ws: "list_all wordNonempty (snd e)" and ne: "snd e \<noteq> []" using assms by (auto simp: validEntry_def)
  have md: "matchDevices (Join ''/'' (snd e))"
    unfolding matchDevices_def Split_devices [OF ne ws] using ws by (simp add: wordNonempty_def [abs_def])
  have "\<not> re_space c" if "c \<in> set (Join ''/'' (snd e))" for c
    using devices_chars [OF ws that] word_chars(5) by (auto simp: re_space_def)
  then have dw: "dropWhile re_space (CHR '' '' # Join ''/'' (snd e)) = Join ''/'' (snd e)"
    by (simp add: re_space_def dropWhile_id)
  have sp: "re_space (CHR '' '')" and nw: "\<not> is_word (CHR '' '')" by (simp_all add: re_space_def is_word_def)
  from assms consider "fst e = ''i-*''" | w where "fst e = ''i-'' @ w" "wordNonempty w" by (auto simp: validEntry_def)
  then show ?thesis
  proof cases
    case 1
    then show ?thesis using md dw sp by (simp add: matchExpose_def renderEntry_def Let_def)
  next
    case 2
    then obtain c cs where w: "w = c # cs" "is_word c" "list_all is_word w" by (cases w) (auto simp: wordNonempty_def)
    have "takeWhile is_word (w @ CHR '' '' # Join ''/'' (snd e)) = w"
      and dww: "dropWhile is_word (w @ CHR '' '' # Join ''/'' (snd e)) = CHR '' '' # Join ''/'' (snd e)"
      using takeWhile_stop [OF w(3) nw] by simp_all
    then show ?thesis using 2 w md dw sp word_chars(3) [OF w(2)]
      by (simp add: matchExpose_def renderEntry_def Let_def)
  qed
qed

lemma lastAny_fold:
  "fold (\<lambda>e u. if fst e = ''i-*'' then snd e else u) es u =
     (case find (\<lambda>e. fst e = ''i-*'') (rev es) of None \<Rightarrow> u | Some e \<Rightarrow> snd e)"
  by (induction es arbitrary: u) (auto simp: find_append_case split: option.splits)

lemma exposeLoop_step:
  assumes "validEntry e"
  shows "exposeLoop i dev (renderEntry e # infos) m u =
    (if i = fst e \<and> dev \<in> set (snd e) then Ok (Inl ())
     else exposeLoop i dev infos (m \<or> i = fst e) (if fst e = ''i-*'' then snd e else u))"
  using exposeDevices_render [OF assms] by (simp add: matchExpose_render [OF assms] index_def)

lemma exposeLoop_spec:
  assumes "list_all validEntry es"
  shows "exposeLoop i dev (map renderEntry es) m u =
    (if \<exists>e\<in>set es. fst e = i \<and> dev \<in> set (snd e) then Ok (Inl ())
     else Ok (Inr (m \<or> (\<exists>e\<in>set es. fst e = i), fold (\<lambda>e u. if fst e = ''i-*'' then snd e else u) es u)))"
  using assms
proof (induction es arbitrary: m u)
  case (Cons e es)
  then have e: "validEntry e" and es: "list_all validEntry es" by simp_all
  from Cons.IH [OF es] show ?case unfolding list.map exposeLoop_step [OF e] by auto
qed simp

text \<open>
  C24: For a list of well-formed entries, checkExpose exposes a device exactly when an entry for the instance
  lists it or, if no entry names the instance, the last entry for any instance lists it.
\<close>

theorem check_expose_spec:
  assumes "list_all validEntry es"
  shows "checkExpose instanceID (map renderEntry es) dev = Ok (exposed instanceID es dev)"
proof -
  have ne: "map renderEntry es \<noteq> [[]]" by (cases es) (auto simp: renderEntry_def)
  have "''erdma_*'' \<notin> set (snd e)" if "e \<in> set es" for e
    using assms that not_word(2) by (fastforce simp: list_all_iff validEntry_def wordNonempty_def)
  then have ex: "list_ex (\<lambda>d. d = ''erdma_*'' \<or> d = dev) (snd e) \<longleftrightarrow> dev \<in> set (snd e)" if "e \<in> set es" for e
    using that by (fastforce simp: list_ex_iff)
  show ?thesis
  proof (cases "find (\<lambda>e. fst e = ''i-*'') (rev es)")
    case None
    with ne show ?thesis
      unfolding checkExpose_def exposeLoop_spec [OF assms] lastAny_fold by (auto simp: exposed_def)
  next
    case (Some e)
    then have "e \<in> set es" by (auto dest: find_SomeD)
    from ex [OF this] Some ne show ?thesis
      unfolding checkExpose_def exposeLoop_spec [OF assms] lastAny_fold by (auto simp: exposed_def)
  qed
qed

theorem check_expose_spec_witness:
  "checkExpose ''i-2'' (map renderEntry [(''i-1'', [''erdma_0'']), (''i-*'', [''erdma_1'', ''erdma_2''])]) ''erdma_2'' = Ok True"
proof -
  let ?es = "[(''i-1'', [''erdma_0'']), (''i-*'', [''erdma_1'', ''erdma_2''])]"
  have "list_all validEntry ?es" by (simp add: validEntry_def wordNonempty_def is_word_def)
  from check_expose_spec [OF this, of "''i-2''" "''erdma_2''"] show ?thesis by (simp add: exposed_def)
qed


end
