(* ===== verification/Netdev.thy ===== *)
theory Netdev
  imports Erdma_Link
begin

text \<open>
  internal/drivers/netdev.go: configuring the network device of a secondary ERI: its MTU,
  state, address and routes. The kernel interface (the netlink package) and the address
  parsers of Go's package net are the record \<open>netlink\<close>, a parameter. An IP address is its
  canonical text, a network an address and a prefix length.
\<close>

section \<open>The kernel interface\<close>

record IPNet =
  net_IP :: string
  net_Ones :: nat

text \<open>\<open>func (n *IPNet) String()\<close>, which prints a nil network too.\<close>

definition IPNet_String :: "IPNet option \<Rightarrow> string" where
  "IPNet_String n = (case n of None \<Rightarrow> ''<nil>'' | Some x \<Rightarrow> net_IP x @ ''/'' @ show_nat (net_Ones x))"

record Route =
  rt_Dst :: "IPNet option"
  rt_Gw :: "string option"
  rt_LinkIndex :: int
  rt_Priority :: int
  rt_ScopeLink :: bool

text \<open>
  \<open>AddrList\<close> gives the addresses of a link, for IPv4 only or for all families, each with
  whether it is link-local (unicast or multicast). \<open>RouteList\<close> is for one link or, with None,
  for all. \<open>ParseCIDR\<close> gives the network; \<open>MaskIP\<close> is \<open>IP.Mask\<close>.
\<close>

record 'w netlink =
  AddrList4 :: "Link \<Rightarrow> ('w, string list) act"
  AddrListAll :: "Link \<Rightarrow> ('w, (string \<times> bool) list) act"
  AddrAdd :: "Link \<Rightarrow> IPNet \<Rightarrow> ('w, unit) act"
  RouteList :: "Link option \<Rightarrow> ('w, Route list) act"
  RouteAdd :: "Route \<Rightarrow> ('w, unit) act"
  RouteDel :: "Route \<Rightarrow> ('w, unit) act"
  LinkSetMTU :: "Link \<Rightarrow> int \<Rightarrow> ('w, unit) act"
  LinkSetUp :: "Link \<Rightarrow> ('w, unit) act"
  LinkSetDown :: "Link \<Rightarrow> ('w, unit) act"
  ParseIP :: "string \<Rightarrow> string option"
  ParseCIDR :: "string \<Rightarrow> IPNet res"
  MaskIP :: "string \<Rightarrow> nat \<Rightarrow> string"

section \<open>Operations\<close>

definition defaultMetric :: int where "defaultMetric = 200"
definition metricAddition :: int where "metricAddition = 1"

record route =
  r_destination :: "IPNet option"
  r_gateway :: "string option"
  r_metric :: int

record netConf =
  nc_ipAddr :: IPNet
  nc_routes :: "route list"

definition ensureMTU :: "'w netlink \<Rightarrow> Link \<Rightarrow> int \<Rightarrow> ('w, unit) act" where
  "ensureMTU nl link mtu = (if link_MTU link = mtu then retA () else LinkSetMTU nl link mtu)"

definition ensureUpLink :: "'w netlink \<Rightarrow> Link \<Rightarrow> ('w, unit) act" where
  "ensureUpLink nl link = LinkSetUp nl link"

definition ensureAddress :: "'w netlink \<Rightarrow> Link \<Rightarrow> netConf \<Rightarrow> ('w, unit) act" where
  "ensureAddress nl link conf =
     bindA (AddrList4 nl link) (\<lambda>addrs.
     if net_IP (nc_ipAddr conf) \<in> set addrs then retA ()
     else bindA (AddrAdd nl link (nc_ipAddr conf)) (\<lambda>_.
       let autoCreateRouteCidr = (nc_ipAddr conf)\<lparr> net_IP := MaskIP nl (net_IP (nc_ipAddr conf)) (net_Ones (nc_ipAddr conf)) \<rparr> in
       tryA (RouteDel nl \<lparr> rt_Dst = Some autoCreateRouteCidr, rt_Gw = None, rt_LinkIndex = link_Index link,
                          rt_Priority = 0, rt_ScopeLink = False \<rparr>)
         retA (\<lambda>err. retA ())))"

text \<open>The route of a configuration as the kernel is given it.\<close>

definition toRoute :: "Link \<Rightarrow> bool \<Rightarrow> route \<Rightarrow> Route" where
  "toRoute link scopeLink r = \<lparr> rt_Dst = r_destination r, rt_Gw = r_gateway r, rt_LinkIndex = link_Index link,
     rt_Priority = r_metric r, rt_ScopeLink = scopeLink \<rparr>"

text \<open>Which kernel routes a direct route, and a route through a gateway, are compared with.\<close>

definition directMatch :: "route \<Rightarrow> Route \<Rightarrow> bool" where
  "directMatch r nr \<longleftrightarrow> rt_Dst nr \<noteq> None \<and> IPNet_String (rt_Dst nr) = IPNet_String (r_destination r)"

definition destMatch :: "IPNet option \<Rightarrow> IPNet option \<Rightarrow> bool" where
  "destMatch dest dst \<longleftrightarrow> dest = None \<and> dst = None \<or> dest = None \<and> IPNet_String dst = ''0.0.0.0/0'' \<or>
     dest \<noteq> None \<and> dst \<noteq> None \<and> IPNet_String dest = IPNet_String dst"

text \<open>
  One of the two loops over the kernel's routes: a matching route with another metric is
  replaced; the result tells whether one matched. \<open>msgs\<close> are the two error formats.
\<close>

fun replaceRoutes :: "'w netlink \<Rightarrow> Link \<Rightarrow> (Route \<Rightarrow> bool) \<Rightarrow> string \<times> string \<Rightarrow> route \<Rightarrow> Route list \<Rightarrow> bool
    \<Rightarrow> ('w, bool) act" where
  "replaceRoutes nl link match msgs r [] found = retA found"
| "replaceRoutes nl link match msgs r (nr # nrs) found =
     (if match nr then
        (if r_metric r \<noteq> rt_Priority nr then
           tryA (RouteDel nl nr)
             (\<lambda>_. tryA (RouteAdd nl (toRoute link True r))
                (\<lambda>_. replaceRoutes nl link match msgs r nrs True)
                (\<lambda>err. failA (Wrapf (snd msgs) [] err)))
             (\<lambda>err. failA (Wrapf (fst msgs) [] err))
         else replaceRoutes nl link match msgs r nrs True)
      else replaceRoutes nl link match msgs r nrs found)"

fun gatewayRoutes :: "'w netlink \<Rightarrow> Link \<Rightarrow> Route list \<Rightarrow> route list \<Rightarrow> ('w, unit) act" where
  "gatewayRoutes nl link nlRoutes [] = retA ()"
| "gatewayRoutes nl link nlRoutes (r # rs) =
     (if r_gateway r = None then gatewayRoutes nl link nlRoutes rs
      else bindA (replaceRoutes nl link (\<lambda>nr. destMatch (r_destination r) (rt_Dst nr))
                    (''delete route failed: %v'', ''update route failed: %v'') r nlRoutes False) (\<lambda>found.
           bindA (if found then retA ()
                  else tryA (RouteAdd nl (toRoute link False r)) retA
                         (\<lambda>err. failA (Wrapf ''create route failed: %+v, %v, %v'' [IPNet_String (r_destination r),
                            (case r_gateway r of None \<Rightarrow> ''<nil>'' | Some g \<Rightarrow> g)] err))) (\<lambda>_.
           gatewayRoutes nl link nlRoutes rs)))"

definition ensureRoutes :: "'w netlink \<Rightarrow> Link \<Rightarrow> route list \<Rightarrow> ('w, unit) act" where
  "ensureRoutes nl link routes =
     tryA (RouteList nl (Some link))
       (\<lambda>nlRoutes.
          case find (\<lambda>r. r_gateway r = None) routes of
            None \<Rightarrow> failA (Errorf ''no direct route found'' [])
          | Some directRoute \<Rightarrow>
              bindA (replaceRoutes nl link (directMatch directRoute)
                       (''delete direct route failed: %v'', ''update direct route failed: %v'') directRoute nlRoutes False) (\<lambda>found.
              bindA (if found then retA ()
                     else tryA (RouteAdd nl (toRoute link True directRoute)) retA
                            (\<lambda>err. failA (Wrapf ''create direct route failed: %v'' [] err))) (\<lambda>_.
              gatewayRoutes nl link nlRoutes routes)))
       (\<lambda>err. failA (Wrapf ''list route failed: %v'' [] err))"

text \<open>\<open>selectMetric\<close>: above every existing metric for the destination, and at least 200.\<close>

definition selectMetric :: "Route list \<Rightarrow> IPNet option \<Rightarrow> int" where
  "selectMetric existRoutes destination =
     (let existMetric = fold (\<lambda>rt existMetric.
            if destMatch destination (rt_Dst rt) \<and> rt_Priority rt > existMetric then rt_Priority rt else existMetric)
            existRoutes 0;
          metric = existMetric + metricAddition in
      if metric < defaultMetric then defaultMetric else metric)"

definition genRoutesForAddr :: "'w netlink \<Rightarrow> string \<Rightarrow> IPNet \<Rightarrow> ('w, route list) act" where
  "genRoutesForAddr nl gateway cidr =
     bindA (RouteList nl None) (\<lambda>existRoutes.
       retA [\<lparr> r_destination = Some cidr, r_gateway = None, r_metric = selectMetric existRoutes (Some cidr) \<rparr>,
             \<lparr> r_destination = None, r_gateway = Some gateway, r_metric = selectMetric existRoutes None \<rparr>])"

definition hasNonLinkLocalAddr :: "'w netlink \<Rightarrow> Link \<Rightarrow> ('w, bool) act" where
  "hasNonLinkLocalAddr nl link =
     tryA (AddrListAll nl link) (\<lambda>addrs. retA (list_ex (\<lambda>(ip, linkLocal). \<not> linkLocal) addrs)) (\<lambda>err. retA False)"

definition ipUrl :: string where
  "ipUrl = ''http://100.100.100.200/latest/meta-data/network/interfaces/macs/%s/primary-ip-address''"
definition cidrURL :: string where
  "cidrURL = ''http://100.100.100.200/latest/meta-data/network/interfaces/macs/%s/vswitch-cidr-block''"
definition gatewayURL :: string where
  "gatewayURL = ''http://100.100.100.200/latest/meta-data/network/interfaces/macs/%s/gateway''"

definition getNetConfFromMetadata :: "'w netlink \<Rightarrow> 'w http \<Rightarrow> string \<Rightarrow> ('w, netConf) act" where
  "getNetConfFromMetadata nl md mac =
     bindA (GetStrFromMetadata md (Sprintf ipUrl [mac])) (\<lambda>addr.
     case ParseIP nl addr of None \<Rightarrow> failA (Errorf ''invalid ip address: %s'' [addr])
     | Some ip \<Rightarrow>
         bindA (GetStrFromMetadata md (Sprintf cidrURL [mac])) (\<lambda>cidr.
         tryA (liftR (ParseCIDR nl cidr))
           (\<lambda>ipNet.
              bindA (GetStrFromMetadata md (Sprintf gatewayURL [mac])) (\<lambda>gw.
              case ParseIP nl gw of None \<Rightarrow> failA (Errorf ''invalid gateway address: %s'' [gw])
              | Some gateway \<Rightarrow>
                  bindA (genRoutesForAddr nl gateway ipNet) (\<lambda>routes.
                    retA \<lparr> nc_ipAddr = \<lparr> net_IP = ip, net_Ones = net_Ones ipNet \<rparr>, nc_routes = routes \<rparr>)))
           (\<lambda>err. failA (Errorf ''invalid cidr: %s'' [cidr]))))"

text \<open>
  The deferred function: when address or routes fail, the link is set down again so that the
  next start configures it anew; a panic runs it too, with a nil error.
\<close>

definition downOnError :: "'w netlink \<Rightarrow> Link \<Rightarrow> ('w, unit) act \<Rightarrow> ('w, unit) act" where
  "downOnError nl link m =
     tryA m retA (\<lambda>err. tryA (LinkSetDown nl link) (\<lambda>_. failA err) (\<lambda>_. failA err))"

definition configureLink :: "'w netlink \<Rightarrow> Link \<Rightarrow> ERI \<Rightarrow> netConf \<Rightarrow> ('w, unit) act" where
  "configureLink nl link eri conf =
     bindA (if eri_JumboFrame eri then ensureMTU nl link (jumboMTU eri) else retA ()) (\<lambda>_.
     bindA (ensureUpLink nl link) (\<lambda>_.
       downOnError nl link (bindA (ensureAddress nl link conf) (\<lambda>_. ensureRoutes nl link (nc_routes conf)))))"

text \<open>A link that is up with an address is left alone but for the MTU; a wrong address is only logged.\<close>

definition checkLink :: "'w netlink \<Rightarrow> Link \<Rightarrow> ERI \<Rightarrow> ('w, unit) act" where
  "checkLink nl link eri =
     bindA (if eri_JumboFrame eri then ensureMTU nl link (jumboMTU eri) else retA ()) (\<lambda>_.
     bindA (AddrList4 nl link) (\<lambda>_. retA ()))"

definition EnsureNetDevice :: "'w netlink \<Rightarrow> 'w http \<Rightarrow> Link \<Rightarrow> ERI \<Rightarrow> ('w, unit) act" where
  "EnsureNetDevice nl md link eri =
     (if eri_IsPrimaryENI eri then retA ()
      else bindA (getNetConfFromMetadata nl md (eri_MAC eri)) (\<lambda>conf.
        bindA (if \<not> link_Up link then retA False else hasNonLinkLocalAddr nl link) (\<lambda>configured.
          if \<not> configured then configureLink nl link eri conf else checkLink nl link eri)))"

section \<open>Metrics\<close>

lemma fold_max_metric:
  fixes m0 :: int
  shows "m0 \<le> fold (\<lambda>rt m. if P rt \<and> rt_Priority rt > m then rt_Priority rt else m) rts m0 \<and>
    (\<forall>rt\<in>set rts. P rt \<longrightarrow> rt_Priority rt \<le> fold (\<lambda>rt m. if P rt \<and> rt_Priority rt > m then rt_Priority rt else m) rts m0)"
proof (induction rts arbitrary: m0)
  case (Cons rt rts)
  let ?m = "if P rt \<and> rt_Priority rt > m0 then rt_Priority rt else m0"
  have "m0 \<le> ?m" and "P rt \<Longrightarrow> rt_Priority rt \<le> ?m" by auto
  with Cons.IH [of ?m] show ?case by (auto intro: order_trans)
qed simp

lemma selectMetric_bounds:
  shows "200 \<le> selectMetric rts dest"
    and "rt \<in> set rts \<Longrightarrow> destMatch dest (rt_Dst rt) \<Longrightarrow> rt_Priority rt < selectMetric rts dest"
  using fold_max_metric [of 0 "\<lambda>rt. destMatch dest (rt_Dst rt)" rts]
  by (force simp: selectMetric_def Let_def metricAddition_def defaultMetric_def)+

text \<open>
  The routes generated for an ERI never take precedence over an existing route: the metric of each is at
  least 200 and greater than the metric of every existing route to the same destination.
\<close>

theorem new_routes_rank_last:
  assumes "genRoutesForAddr nl gateway cidr w = (Ok routes, w')"
  shows "\<exists>exist. RouteList nl None w = (Ok exist, w') \<and> (\<forall>r\<in>set routes. 200 \<le> r_metric r \<and>
    (\<forall>x\<in>set exist. destMatch (r_destination r) (rt_Dst x) \<longrightarrow> rt_Priority x < r_metric r))"
proof -
  from assms obtain exist where l: "RouteList nl None w = (Ok exist, w')"
    and rs: "routes = [\<lparr> r_destination = Some cidr, r_gateway = None, r_metric = selectMetric exist (Some cidr) \<rparr>,
             \<lparr> r_destination = None, r_gateway = Some gateway, r_metric = selectMetric exist None \<rparr>]"
    by (auto simp: genRoutesForAddr_def elim!: bindA_OkE)
  show ?thesis using l rs selectMetric_bounds(2) [of _ exist] by (auto simp: selectMetric_bounds(1))
qed

section \<open>Routes\<close>

text \<open>
  What the kernel documents of the route calls, for the routes \<open>tab w\<close> of the link: listing
  reports them, adding a route of the link and deleting a route change that route only.
\<close>

definition routeTable :: "'w netlink \<Rightarrow> Link \<Rightarrow> ('w \<Rightarrow> Route set) \<Rightarrow> bool" where
  "routeTable nl link tab \<longleftrightarrow>
     (\<forall>w rs w'. RouteList nl (Some link) w = (Ok rs, w') \<longrightarrow> tab w' = tab w \<and> set rs = tab w) \<and>
     (\<forall>r w u w'. rt_LinkIndex r = link_Index link \<longrightarrow> RouteAdd nl r w = (Ok u, w') \<longrightarrow> tab w' = insert r (tab w)) \<and>
     (\<forall>r w u w'. RouteDel nl r w = (Ok u, w') \<longrightarrow> tab w' = tab w - {r})"

lemma routeTableD:
  assumes "routeTable nl link tab"
  shows "RouteList nl (Some link) w = (Ok rs, w') \<Longrightarrow> tab w' = tab w \<and> set rs = tab w"
    and "RouteAdd nl (toRoute link scope r') w = (Ok u, w') \<Longrightarrow> tab w' = insert (toRoute link scope r') (tab w)"
    and "RouteDel nl r w = (Ok u, w') \<Longrightarrow> tab w' = tab w - {r}"
  using assms unfolding routeTable_def by (blast, simp add: toRoute_def, blast)

text \<open>A route of the table that realises a wanted one.\<close>

definition realises :: "(Route \<Rightarrow> bool) \<Rightarrow> route \<Rightarrow> Route \<Rightarrow> bool" where
  "realises P r x \<longleftrightarrow> P x \<and> rt_Priority x = r_metric r"

lemma replaceRoutes_table:
  assumes tab: "routeTable nl link tab" and self: "P (toRoute link True r)"
  shows "replaceRoutes nl link P msgs r nrs found w = (Ok found', w') \<Longrightarrow>
    (\<forall>x\<in>set nrs. realises P r x \<longrightarrow> x \<in> tab w) \<Longrightarrow> (found \<longrightarrow> (\<exists>x\<in>tab w. realises P r x)) \<Longrightarrow>
    (found' \<longrightarrow> (\<exists>x\<in>tab w'. realises P r x)) \<and> (\<forall>x\<in>tab w. \<not> P x \<or> realises P r x \<longrightarrow> x \<in> tab w')"
proof (induction nrs arbitrary: found w)
  case (Cons nr nrs)
  consider (skip) "\<not> P nr" | (keep) "realises P r nr" | (replace) "P nr" "r_metric r \<noteq> rt_Priority nr"
    by (metis realises_def)
  then show ?case
  proof cases
    case skip
    with Cons.prems show ?thesis by (intro Cons.IH) auto
  next
    case keep
    with Cons.prems show ?thesis by (intro Cons.IH [of True]) (auto simp: realises_def)
  next
    case replace
    with Cons.prems(1) obtain u v w1 w2 where del: "RouteDel nl nr w = (Ok u, w1)"
      and add: "RouteAdd nl (toRoute link True r) w1 = (Ok v, w2)"
      and rest: "replaceRoutes nl link P msgs r nrs True w2 = (Ok found', w')"
      by (auto elim!: tryA_OkE)
    from routeTableD(3) [OF tab del] routeTableD(2) [OF tab add]
    have w2: "tab w2 = insert (toRoute link True r) (tab w - {nr})" by simp
    have real: "realises P r (toRoute link True r)" using self by (simp add: realises_def toRoute_def)
    have nr: "\<not> realises P r nr" using replace by (simp add: realises_def)
    have "(found' \<longrightarrow> (\<exists>x\<in>tab w'. realises P r x)) \<and> (\<forall>x\<in>tab w2. \<not> P x \<or> realises P r x \<longrightarrow> x \<in> tab w')"
      using Cons.prems(2) w2 real nr by (intro Cons.IH [OF rest]) auto
    with w2 nr replace show ?thesis by auto
  qed
qed simp

lemma replaceRoutes_found:
  "replaceRoutes nl link P msgs r nrs found w = (Ok found', w') \<Longrightarrow> found' = (found \<or> (\<exists>x\<in>set nrs. P x))"
  by (induction nrs arbitrary: found w) (auto elim!: tryA_OkE split: if_splits)

lemma install_table:
  assumes tab: "routeTable nl link tab" and self: "P (toRoute link True r)" "P (toRoute link scope r)"
    and rep: "replaceRoutes nl link P msgs r nrs False w = (Ok found, w1)" and nrs: "\<forall>x\<in>set nrs. realises P r x \<longrightarrow> x \<in> tab w"
    and add: "(if found then retA () else tryA (RouteAdd nl (toRoute link scope r)) retA h) w1 = (Ok u, w2)"
    and fail: "\<And>e w. \<exists>e' w'. h e w = (Err e', w')"
  shows "(\<exists>x\<in>tab w2. realises P r x) \<and> (\<forall>x\<in>tab w. \<not> P x \<or> realises P r x \<longrightarrow> x \<in> tab w2)"
proof -
  from replaceRoutes_table [OF tab self(1) rep nrs]
  have w1: "found \<longrightarrow> (\<exists>x\<in>tab w1. realises P r x)" "\<forall>x\<in>tab w. \<not> P x \<or> realises P r x \<longrightarrow> x \<in> tab w1" by auto
  show ?thesis
  proof (cases found)
    case True
    with add w1 show ?thesis by auto
  next
    case False
    from add False obtain v where "RouteAdd nl (toRoute link scope r) w1 = (Ok v, w2)"
      using fail by (auto elim!: tryA_OkE) (metis prod.inject res.distinct(1))
    from routeTableD(2) [OF tab this] w1 self(2) show ?thesis by (auto simp: realises_def toRoute_def)
  qed
qed

lemma direct_not_default:
  assumes "r_destination d = Some c" and "IPNet_String (Some c) \<noteq> ''0.0.0.0/0''"
  shows "directMatch d x \<Longrightarrow> \<not> destMatch None (rt_Dst x)"
  using assms by (auto simp: directMatch_def destMatch_def)

lemma ensureRoutes_table:
  assumes tab: "routeTable nl link tab"
    and d: "r_gateway d = None" "r_destination d = Some c" "IPNet_String (Some c) \<noteq> ''0.0.0.0/0''"
    and g: "r_gateway g = Some gw" "r_destination g = None"
    and run: "ensureRoutes nl link [d, g] w = (Ok u, w')"
  shows "(\<exists>x\<in>tab w'. realises (directMatch d) d x) \<and> (\<exists>x\<in>tab w'. realises (\<lambda>x. destMatch None (rt_Dst x)) g x)"
proof -
  let ?D = "directMatch d" and ?G = "\<lambda>x. destMatch None (rt_Dst x)"
  from run d(1) g obtain nrs w0 f1 wa v wb f2 wc z where l: "RouteList nl (Some link) w = (Ok nrs, w0)"
    and r1: "replaceRoutes nl link ?D (''delete direct route failed: %v'', ''update direct route failed: %v'') d nrs False w0 = (Ok f1, wa)"
    and a1: "(if f1 then retA () else tryA (RouteAdd nl (toRoute link True d)) retA
        (\<lambda>err. failA (Wrapf ''create direct route failed: %v'' [] err))) wa = (Ok v, wb)"
    and r2: "replaceRoutes nl link ?G (''delete route failed: %v'', ''update route failed: %v'') g nrs False wb = (Ok f2, wc)"
    and a2: "(if f2 then retA () else tryA (RouteAdd nl (toRoute link False g)) retA
        (\<lambda>err. failA (Wrapf ''create route failed: %+v, %v, %v'' [IPNet_String (r_destination g), case r_gateway g of None \<Rightarrow> ''<nil>'' | Some g \<Rightarrow> g] err))) wc = (Ok z, w')"
    by (auto simp: ensureRoutes_def elim!: bindA_OkE tryA_OkE)
  from routeTableD(1) [OF tab l] have t0: "tab w0 = set nrs" by simp
  have "?D (toRoute link s d)" for s using d(2) by (simp add: directMatch_def toRoute_def)
  from install_table [OF tab this this r1 _ a1] t0
  have one: "\<exists>x\<in>tab wb. realises ?D d x" "\<forall>x\<in>set nrs. \<not> ?D x \<or> realises ?D d x \<longrightarrow> x \<in> tab wb" by auto
  have nrs: "\<forall>x\<in>set nrs. realises ?G g x \<longrightarrow> x \<in> tab wb"
    using one(2) direct_not_default [OF d(2,3)] by (auto simp: realises_def)
  have "?G (toRoute link s g)" for s using g(2) by (simp add: destMatch_def toRoute_def)
  from install_table [OF tab this this r2 nrs a2]
  have two: "\<exists>x\<in>tab w'. realises ?G g x" "\<forall>x\<in>tab wb. \<not> ?G x \<or> realises ?G g x \<longrightarrow> x \<in> tab w'" by auto
  from one(1) two(2) direct_not_default [OF d(2,3)] have "\<exists>x\<in>tab w'. realises ?D d x"
    by (auto simp: realises_def)
  with two(1) show ?thesis by blast
qed

text \<open>
  C27: When ensureRoutes succeeds on the routes generated for an ERI, the link has both of them: a route to
  the ERI's network and a default route, each with its generated metric, also if routes with other
  metrics had to be replaced. The network is not the default one.
\<close>

theorem generated_routes_installed:
  assumes "routeTable nl link tab" and "IPNet_String (Some cidr) \<noteq> ''0.0.0.0/0''"
    and "genRoutesForAddr nl gateway cidr w = (Ok routes, w1)" and "ensureRoutes nl link routes w1 = (Ok u, w2)"
  shows "\<forall>r\<in>set routes. \<exists>x\<in>tab w2. destMatch (r_destination r) (rt_Dst x) \<and> rt_Priority x = r_metric r"
proof -
  from assms(3) obtain m n where rs: "routes = [\<lparr> r_destination = Some cidr, r_gateway = None, r_metric = m \<rparr>,
             \<lparr> r_destination = None, r_gateway = Some gateway, r_metric = n \<rparr>]"
    by (auto simp: genRoutesForAddr_def elim!: bindA_OkE)
  from ensureRoutes_table [OF assms(1) _ _ assms(2) _ _ assms(4) [unfolded rs]] show ?thesis
    unfolding rs by (auto simp: realises_def directMatch_def destMatch_def)
qed

section \<open>Configured links are left alone\<close>

definition reportsAddress :: "'w netlink \<Rightarrow> Link \<Rightarrow> bool" where
  "reportsAddress nl link \<longleftrightarrow>
     (\<forall>w. \<exists>addrs w'. AddrListAll nl link w = (Ok addrs, w') \<and> (\<exists>ip. (ip, False) \<in> set addrs))"

lemma reportsAddress_seen:
  assumes "reportsAddress nl link" and "hasNonLinkLocalAddr nl link w = (Ok configured, w')"
  shows "configured"
proof -
  from assms(1) obtain addrs w1 ip where "AddrListAll nl link w = (Ok addrs, w1)" "(ip, False) \<in> set addrs"
    unfolding reportsAddress_def by blast
  with assms(2) show ?thesis by (auto simp: hasNonLinkLocalAddr_def tryA_def list_ex_iff)
qed

text \<open>
  The device of a primary interface, and a link that is up and has an address of its own, are never
  reconfigured: bringing the link up or down, adding addresses and changing routes play no role.
\<close>

theorem configured_link_untouched:
  assumes "eri_IsPrimaryENI eri \<or> link_Up link \<and> reportsAddress nl link"
  shows "EnsureNetDevice (nl\<lparr> AddrAdd := a, RouteAdd := b, RouteDel := c, LinkSetUp := up, LinkSetDown := down \<rparr>) md link eri
    = EnsureNetDevice nl md link eri"
proof -
  let ?nl = "nl\<lparr> AddrAdd := a, RouteAdd := b, RouteDel := c, LinkSetUp := up, LinkSetDown := down \<rparr>"
  have conf: "getNetConfFromMetadata ?nl md mac = getNetConfFromMetadata nl md mac" for mac
    by (simp add: getNetConfFromMetadata_def genRoutesForAddr_def cong: option.case_cong)
  have addr: "hasNonLinkLocalAddr ?nl link = hasNonLinkLocalAddr nl link"
    and check: "checkLink ?nl link eri = checkLink nl link eri"
    by (simp_all add: hasNonLinkLocalAddr_def checkLink_def ensureMTU_def)
  show ?thesis
  proof (cases "eri_IsPrimaryENI eri")
    case False
    with assms have up: "link_Up link" and seen: "\<And>w c w'. hasNonLinkLocalAddr nl link w = (Ok c, w') \<Longrightarrow> c"
      by (auto dest: reportsAddress_seen)
    show ?thesis unfolding EnsureNetDevice_def conf addr check
      using up by (auto intro!: ext bindA_cong_run dest: seen)
  qed (simp add: EnsureNetDevice_def)
qed

section \<open>A small kernel\<close>

text \<open>A kernel for the witnesses, whose state is its list of routes.\<close>

definition exNetlink :: "Route list netlink" where
  "exNetlink = \<lparr> AddrList4 = (\<lambda>l w. (Ok [''10.0.0.7''], w)), AddrListAll = (\<lambda>l w. (Ok [(''10.0.0.7'', False)], w)),
     AddrAdd = (\<lambda>l a w. (Ok (), w)), RouteList = (\<lambda>l w. (Ok w, w)), RouteAdd = (\<lambda>r w. (Ok (), w @ [r])),
     RouteDel = (\<lambda>r w. (Ok (), removeAll r w)), LinkSetMTU = (\<lambda>l m w. (Ok (), w)), LinkSetUp = (\<lambda>l w. (Ok (), w)),
     LinkSetDown = (\<lambda>l w. (Ok (), w)), ParseIP = Some, ParseCIDR = (\<lambda>s. Ok \<lparr> net_IP = s, net_Ones = 24 \<rparr>),
     MaskIP = (\<lambda>ip n. ip) \<rparr>"

definition exCidr :: IPNet where
  "exCidr = \<lparr> net_IP = ''10.0.0.0'', net_Ones = 24 \<rparr>"

definition exRoute :: Route where
  "exRoute = \<lparr> rt_Dst = Some exCidr, rt_Gw = None, rt_LinkIndex = 3, rt_Priority = 512, rt_ScopeLink = True \<rparr>"

lemma exNetlink_table: "routeTable exNetlink link set"
  by (auto simp: routeTable_def exNetlink_def)

lemma ex_gen: "okMap (map r_metric) (genRoutesForAddr exNetlink ''10.0.0.253'' exCidr [exRoute]) = Some [513, 200]"
  by code_simp

theorem new_routes_rank_last_witness:
  "\<exists>routes w'. genRoutesForAddr exNetlink ''10.0.0.253'' exCidr [exRoute] = (Ok routes, w') \<and>
     (\<forall>r\<in>set routes. 200 \<le> r_metric r)"
proof -
  from ex_gen obtain routes w' where run: "genRoutesForAddr exNetlink ''10.0.0.253'' exCidr [exRoute] = (Ok routes, w')"
    by (rule okMap_SomeE)
  from new_routes_rank_last [OF run] run show ?thesis by blast
qed

theorem generated_routes_installed_witness:
  "\<exists>routes w1 w2. genRoutesForAddr exNetlink ''10.0.0.253'' exCidr [exRoute] = (Ok routes, w1) \<and>
     ensureRoutes exNetlink exLink routes w1 = (Ok (), w2) \<and>
     (\<forall>r\<in>set routes. \<exists>x\<in>set w2. destMatch (r_destination r) (rt_Dst x) \<and> rt_Priority x = r_metric r)"
proof -
  have "okMap (\<lambda>_. ()) (bindA (genRoutesForAddr exNetlink ''10.0.0.253'' exCidr) (ensureRoutes exNetlink exLink) [exRoute]) = Some ()"
    by code_simp
  then obtain routes w1 w2 where g: "genRoutesForAddr exNetlink ''10.0.0.253'' exCidr [exRoute] = (Ok routes, w1)"
    and e: "ensureRoutes exNetlink exLink routes w1 = (Ok (), w2)"
    by (auto elim!: okMap_SomeE bindA_OkE)
  have "IPNet_String (Some exCidr) \<noteq> ''0.0.0.0/0''" by (simp add: IPNet_String_def exCidr_def)
  from generated_routes_installed [OF exNetlink_table this g e] g e show ?thesis by blast
qed

theorem configured_link_untouched_witness:
  "\<forall>md eri. EnsureNetDevice (exNetlink\<lparr> AddrAdd := (\<lambda>l a w. (Panic ''add'', w)), RouteAdd := (\<lambda>r w. (Panic ''route'', w)),
      RouteDel := (\<lambda>r w. (Panic ''route'', w)), LinkSetUp := (\<lambda>l w. (Panic ''up'', w)), LinkSetDown := (\<lambda>l w. (Panic ''down'', w)) \<rparr>)
     md (exLink\<lparr> link_Up := True \<rparr>) eri = EnsureNetDevice exNetlink md (exLink\<lparr> link_Up := True \<rparr>) eri"
  by (intro allI, rule configured_link_untouched) (simp add: exNetlink_def exLink_def reportsAddress_def)

end
