(* ===== verification/Drivers.thy ===== *)
theory Drivers
  imports Netdev
begin

text \<open>
  internal/drivers/driver.go, default.go, compat.go, ofed.go and the command helpers of
  utils.go and utils_linux.go: the three eRDMA drivers, how one is chosen, how they install the kernel module and how
  they probe the device of an ERI. The Go interface \<open>ERdmaDriver\<close> is the record \<open>driver\<close>;
  the locale \<open>erdma_driver\<close> is its contract.
\<close>

section \<open>Commands\<close>

text \<open>\<open>isContainerOS\<close>, \<open>hostExec\<close>, \<open>containerExec\<close>, \<open>nodeExec\<close>.\<close>

definition isContainerOS :: "'w host \<Rightarrow> ('w, bool) act" where
  "isContainerOS h = bindA (Exec h [''uname'', ''-r'']) (\<lambda>(output, err).
     retA (err = None \<and> Contains output ''lifsea''))"

definition runExec :: "'w host \<Rightarrow> string list \<Rightarrow> ('w, string) act" where
  "runExec h argv = bindA (Exec h argv) (\<lambda>(output, err).
     case err of Some e \<Rightarrow> failA (Errorf ''exec error: %v, output: %s'' [err_Error e, output]) | None \<Rightarrow> retA output)"

definition hostExec :: "'w host \<Rightarrow> string \<Rightarrow> ('w, string) act" where
  "hostExec h cmd = runExec h [''nsenter'', ''-t'', ''1'', ''-m'', ''-C'', ''--'', ''bash'', ''-c'', cmd]"

definition containerExec :: "'w host \<Rightarrow> string \<Rightarrow> ('w, string) act" where
  "containerExec h cmd = runExec h [''bash'', ''-c'', cmd]"

definition nodeExec :: "'w host \<Rightarrow> ('w, string \<Rightarrow> ('w, string) act) act" where
  "nodeExec h = bindA (isContainerOS h) (\<lambda>c. retA (if c then containerExec h else hostExec h))"

definition driverExists :: "'w host \<Rightarrow> ('w, bool) act" where
  "driverExists h = bindA (isContainerOS h) (\<lambda>c.
     if c then tryA (containerExec h ''modinfo erdma'') (\<lambda>_. retA True) (\<lambda>err. retA False)
     else tryA (hostExec h ''stat /bin/eadm && modinfo erdma'') (\<lambda>_. retA True) (\<lambda>err. retA False))"

definition containerOSDriverInstall :: "'w host \<Rightarrow> ('w, unit) act" where
  "containerOSDriverInstall h =
     bindA (runExec h [''/usr/bin/bash'', ''-c'', ''yum install -y kernel-modules-$(uname -r)'']) (\<lambda>_. retA ())"

text \<open>Loading the GPU module is best effort: its outcome is not seen.\<close>

definition loadNvidiaPeermem :: "(string \<Rightarrow> ('w, string) act) \<Rightarrow> ('w, unit) act" where
  "loadNvidiaPeermem exec =
     tryA (exec ''modinfo nvidia_peermem > /dev/null 2>&1'')
       (\<lambda>_. tryA (exec ''modprobe nvidia_peermem'') (\<lambda>_. retA ()) (\<lambda>err. retA ()))
       (\<lambda>err. retA ())"

definition EnsureSMCR :: "(string \<Rightarrow> ('w, string) act) \<Rightarrow> ('w, unit) act" where
  "EnsureSMCR exec = bindA (exec ''modprobe smc'') (\<lambda>_. retA ())"

section \<open>Installation\<close>

text \<open>The install script, with two places for arguments.\<close>

definition installScript :: string where
  "installScript =
     ''ERDMA_PPID=$(awk '/PPid:/{print $2}' /proc/self/status); if [ -d /sys/fs/cgroup/cpu/ ]; then echo $ERDMA_PPID'' @
     '' > /sys/fs/cgroup/cpu/tasks 2>/dev/null || true; echo $ERDMA_PPID > /sys/fs/cgroup/memory/tasks 2>/dev/null'' @
     '' || true; else mkdir -p /sys/fs/cgroup/erdma-installer 2>/dev/null || true; echo $ERDMA_PPID >'' @
     '' /sys/fs/cgroup/erdma-installer/cgroup.procs 2>/dev/null || true; fi; cd /tmp && rm -f'' @
     '' erdma_installer-1.4.6.tar.gz &&'' @
     [CHR 0x0A] @
     ''wget 'http://mirrors.cloud.aliyuncs.com/erdma/erdma_installer-%s.tar.gz' -O erdma_installer.tar.gz && tar'' @
     '' -xzvf erdma_installer.tar.gz && cd erdma_installer &&'' @
     [CHR 0x0A] @
     ''if command -v yum >/dev/null 2>&1; then yum install -y kernel-devel-$(uname -r) gcc-c++ dkms cmake; elif'' @
     '' command -v dnf >/dev/null 2>&1; then dnf install -y kernel-devel-$(uname -r) gcc-c++ dkms cmake; elif'' @
     '' command -v apt >/dev/null 2>&1; then apt update && apt install -y debhelper autotools-dev dkms libnl-3-dev'' @
     '' libnl-route-3-dev cmake; else echo 'no supported package manager (yum/dnf/apt) found' >&2; exit 1; fi &&'' @
     [CHR 0x0A] @
     ''ERDMA_CM_NO_BOUND_IF=1 %s ./install.sh --batch''"

definition defaultErdmaInstallerVersion :: string where "defaultErdmaInstallerVersion = ''latest''"

definition getInstallScript :: "bool \<Rightarrow> string \<Rightarrow> string" where
  "getInstallScript isCompat installerVersion =
     (let v = (if installerVersion = [] then defaultErdmaInstallerVersion else installerVersion) in
      if isCompat then Sprintf installScript [v, ''ERDMA_FORCE_MAD_ENABLE=1''] else Sprintf installScript [v, []])"

text \<open>The module command: reload the module if it is loaded in the other mode.\<close>

definition modeCommand :: "string \<Rightarrow> string \<Rightarrow> string \<Rightarrow> string" where
  "modeCommand other sep mode =
     ''if [ -f /sys/module/erdma/parameters/compat_mode ] && [ '' @ [CHR 0x22] @ other @ [CHR 0x22] @
     '' == $(cat /sys/module/erdma/parameters/compat_mode) ]; then rmmod erdma &&'' @ sep @ ''modprobe erdma compat_mode='' @ mode @
     ''; else modprobe erdma compat_mode='' @ mode @ ''; fi''"

definition installModule :: "'w host \<Rightarrow> bool \<Rightarrow> string \<Rightarrow> ('w, unit) act" where
  "installModule h isCompat version =
     bindA (driverExists h) (\<lambda>exist.
     if exist then retA ()
     else bindA (isContainerOS h) (\<lambda>c.
       if c then containerOSDriverInstall h
       else bindA (hostExec h (getInstallScript isCompat version)) (\<lambda>_. retA ())))"

definition setMode :: "(string \<Rightarrow> ('w, string) act) \<Rightarrow> string \<Rightarrow> ('w, unit) act" where
  "setMode execMethod cmd =
     tryA (execMethod cmd) (\<lambda>_. retA ()) (\<lambda>err. failA (Wrapf ''install erdma driver failed: %v'' [] err))"

definition DefaultInstall :: "'w host \<Rightarrow> string \<Rightarrow> ('w, unit) act" where
  "DefaultInstall h version =
     bindA (installModule h False version) (\<lambda>_.
     bindA (nodeExec h) (\<lambda>execMethod.
     bindA (setMode execMethod (modeCommand ''Y'' ''  '' ''N'')) (\<lambda>_. EnsureSMCR execMethod)))"

definition CompatInstall :: "'w host \<Rightarrow> string \<Rightarrow> ('w, unit) act" where
  "CompatInstall h version =
     bindA (installModule h True version) (\<lambda>_.
     bindA (nodeExec h) (\<lambda>execMethod.
     bindA (setMode execMethod (modeCommand ''N'' '' '' ''Y'')) (\<lambda>_.
     bindA (loadNvidiaPeermem execMethod) (\<lambda>_. EnsureSMCR execMethod))))"

definition gpuInstallScript :: string where
  "gpuInstallScript = [CHR 0x0A] @
     ''cd /tmp && rm -f env_setup.sh && wget http://mirrors.cloud.aliyuncs.com/erdma/env_setup.sh && bash env_setup.sh --egs'' @
     [CHR 0x0A]"

definition OFEDInstall :: "'w host \<Rightarrow> ('w, unit) act" where
  "OFEDInstall h =
     bindA (nodeExec h) (\<lambda>execMethod.
     bindA (driverExists h) (\<lambda>exist.
     bindA (if exist then retA () else bindA (execMethod gpuInstallScript) (\<lambda>_. retA ())) (\<lambda>_.
     bindA (setMode execMethod (modeCommand ''N'' '' '' ''Y'')) (\<lambda>_.
     bindA (setMode execMethod ''modprobe erdma'') (\<lambda>_. loadNvidiaPeermem execMethod)))))"

section \<open>Probing\<close>

text \<open>
  The three \<open>ProbeDevice\<close> methods differ in the capabilities \<open>caps\<close> they report only. The
  first device link with the address of the ERI decides.
\<close>

definition probeLink :: "'w host \<Rightarrow> 'w netlink \<Rightarrow> uint32 \<Rightarrow> ERI \<Rightarrow> Link \<Rightarrow> ('w, ERdmaDeviceInfo) act" where
  "probeLink h nl caps eri link =
     tryA (EnsureNetDevice nl (Metaserver h) link eri)
       (\<lambda>_. tryA (GetERdmaFromLink h link)
          (\<lambda>rdmaLink. tryA (GetERdmaDevPathsFromRdmaLink h rdmaLink)
             (\<lambda>devPaths. tryA (GetERDMANumaNode h rdmaLink)
                (\<lambda>numa. retA \<lparr> info_Name = rl_Name rdmaLink, info_MAC = eri_MAC eri, info_DevPaths = devPaths,
                                info_NUMA = numa, info_Capabilities = caps \<rparr>)
                (\<lambda>err. failA (Wrapf ''get erdma dev numa failed: %v'' [] err)))
             (\<lambda>err. failA (Wrapf ''get erdma dev paths failed: %v'' [] err)))
          (\<lambda>err. failA (Wrapf ''get erdma link failed: %v'' [] err)))
       (\<lambda>err. failA (Wrapf ''ensure net device failed: %v'' [] err))"

definition probeDevice :: "'w host \<Rightarrow> 'w netlink \<Rightarrow> uint32 \<Rightarrow> ERI \<Rightarrow> ('w, ERdmaDeviceInfo) act" where
  "probeDevice h nl caps eri =
     tryA (LinkList h)
       (\<lambda>links. case find (\<lambda>link. link_IsDevice link \<and> HwAddr_String (link_HardwareAddr link) = eri_MAC eri) links of
          None \<Rightarrow> failA (Errorf ''erdma device not found'' [])
        | Some link \<Rightarrow> probeLink h nl caps eri link)
       (\<lambda>err. failA (Wrapf ''list link failed: %v'' [] err))"

definition DefaultProbeDevice :: "'w host \<Rightarrow> 'w netlink \<Rightarrow> ERI \<Rightarrow> ('w, ERdmaDeviceInfo) act" where
  "DefaultProbeDevice h nl = probeDevice h nl (ERDMA_CAP_VERBS OR ERDMA_CAP_RDMA_CM OR ERDMA_CAP_SMC_R)"

definition CompatProbeDevice :: "'w host \<Rightarrow> 'w netlink \<Rightarrow> ERI \<Rightarrow> ('w, ERdmaDeviceInfo) act" where
  "CompatProbeDevice h nl = probeDevice h nl (ERDMA_CAP_VERBS OR ERDMA_CAP_OOB OR ERDMA_CAP_SMC_R)"

definition OFEDProbeDevice :: "'w host \<Rightarrow> 'w netlink \<Rightarrow> ERI \<Rightarrow> ('w, ERdmaDeviceInfo) act" where
  "OFEDProbeDevice h nl = probeDevice h nl (ERDMA_CAP_VERBS OR ERDMA_CAP_OOB)"

section \<open>The registry\<close>

text \<open>
  A value of the interface: its name, and its methods. The version set by
  \<open>SetERdmaInstallerVersion\<close> is the argument of the constructor.
\<close>

record 'w driver =
  drv_Name :: string
  drv_Install :: "('w, unit) act"
  drv_ProbeDevice :: "ERI \<Rightarrow> ('w, ERdmaDeviceInfo) act"

definition defaultDriver :: string where "defaultDriver = ''default''"
definition defaultGPUDriver :: string where "defaultGPUDriver = ''ofed''"

definition DefaultDriver :: "'w host \<Rightarrow> 'w netlink \<Rightarrow> string \<Rightarrow> 'w driver" where
  "DefaultDriver h nl version =
     \<lparr> drv_Name = defaultDriver, drv_Install = DefaultInstall h version, drv_ProbeDevice = DefaultProbeDevice h nl \<rparr>"

definition CompatDriver :: "'w host \<Rightarrow> 'w netlink \<Rightarrow> string \<Rightarrow> 'w driver" where
  "CompatDriver h nl version =
     \<lparr> drv_Name = ''compat'', drv_Install = CompatInstall h version, drv_ProbeDevice = CompatProbeDevice h nl \<rparr>"

definition OFEDDriver :: "'w host \<Rightarrow> 'w netlink \<Rightarrow> string \<Rightarrow> 'w driver" where
  "OFEDDriver h nl version =
     \<lparr> drv_Name = defaultGPUDriver, drv_Install = OFEDInstall h, drv_ProbeDevice = OFEDProbeDevice h nl \<rparr>"

definition Register_driver :: "string \<Rightarrow> 'w driver \<Rightarrow> (string \<times> 'w driver) list \<Rightarrow> (string \<times> 'w driver) list" where
  "Register_driver name driver drivers = AList.update name driver drivers"

text \<open>What the \<open>init\<close> functions of a Linux build register.\<close>

definition registered_drivers :: "'w host \<Rightarrow> 'w netlink \<Rightarrow> string \<Rightarrow> (string \<times> 'w driver) list" where
  "registered_drivers h nl version =
     [(''compat'', CompatDriver h nl version), (defaultDriver, DefaultDriver h nl version),
      (defaultGPUDriver, OFEDDriver h nl version)]"

text \<open>
  \<open>GetDriver\<close> on a registry whose drivers have the installer version set; \<open>exec\<close> is the \<open>hostExec\<close> of the build; the final range over the registry
  takes any driver, here the first of the list. The escapes of \<open>%q\<close> in the panic message are left out.
\<close>

definition GetDriver :: "(string \<Rightarrow> ('w, string) act) \<Rightarrow> (string \<times> 'w driver) list \<Rightarrow> string \<Rightarrow> ('w, 'w driver) act" where
  "GetDriver exec drivers name =
     (if name \<noteq> [] then
        (case map_of drivers name of
           None \<Rightarrow> liftR (Panic (''no erdma driver named '' @ [CHR 0x22] @ name @ [CHR 0x22] @ '' found''))
         | Some d \<Rightarrow> retA d)
      else bindA (tryA (exec ''which nvidia-smi'') (\<lambda>_. retA (map_of drivers defaultGPUDriver))
                    (\<lambda>err. retA (map_of drivers defaultDriver))) (\<lambda>d.
        case d of Some d \<Rightarrow> retA d
        | None \<Rightarrow> (case drivers of [] \<Rightarrow> liftR (Panic ''no erdma driver found'') | (n, d) # ds \<Rightarrow> retA d)))"

section \<open>The contract of a driver\<close>

text \<open>
  What the agent relies on of \<open>ProbeDevice\<close>: the device reported is the one of the ERI's
  address, it has a device file, a NUMA node that is not negative, and verbs.
\<close>

definition deviceOf :: "ERI \<Rightarrow> ERdmaDeviceInfo \<Rightarrow> bool" where
  "deviceOf eri info \<longleftrightarrow> info_MAC info = eri_MAC eri \<and> info_DevPaths info \<noteq> [] \<and> 0 \<le> info_NUMA info \<and>
     hasCap (info_Capabilities info) ERDMA_CAP_VERBS"

locale erdma_driver =
  fixes drv :: "'w driver"
  assumes probes: "drv_ProbeDevice drv eri w = (Ok info, w') \<Longrightarrow> deviceOf eri info"

lemma GetERdmaDevPaths_not_Nil: "GetERdmaDevPathsFromRdmaLink h rl w = (Ok ps, w') \<Longrightarrow> ps \<noteq> []"
  by (auto simp: GetERdmaDevPathsFromRdmaLink_def elim!: tryA_OkE bindA_OkE split: if_splits)

lemma GetERDMANumaNode_nonneg: "GetERDMANumaNode h rl w = (Ok n, w') \<Longrightarrow> 0 \<le> n"
  by (auto simp: GetERDMANumaNode_def elim!: tryA_OkE split: if_splits)

lemma probeDevice_Ok:
  assumes "probeDevice h nl caps eri w = (Ok info, w')"
  shows "info_MAC info = eri_MAC eri \<and> info_DevPaths info \<noteq> [] \<and> 0 \<le> info_NUMA info \<and> info_Capabilities info = caps"
proof -
  from assms obtain link w1 where "probeLink h nl caps eri link w1 = (Ok info, w')"
    by (auto simp: probeDevice_def elim!: tryA_OkE split: option.splits)
  then obtain rl ps n wa wb where "GetERdmaDevPathsFromRdmaLink h rl wa = (Ok ps, wb)"
    and "GetERDMANumaNode h rl wb = (Ok n, w')"
    and "info = \<lparr> info_Name = rl_Name rl, info_MAC = eri_MAC eri, info_DevPaths = ps,
        info_NUMA = n, info_Capabilities = caps \<rparr>"
    unfolding probeLink_def by (fastforce elim!: tryA_OkE)
  then show ?thesis by (auto dest: GetERdmaDevPaths_not_Nil GetERDMANumaNode_nonneg)
qed

lemma caps_verbs:
  "hasCap (ERDMA_CAP_VERBS OR ERDMA_CAP_RDMA_CM OR ERDMA_CAP_SMC_R) ERDMA_CAP_VERBS"
  "hasCap (ERDMA_CAP_VERBS OR ERDMA_CAP_OOB OR ERDMA_CAP_SMC_R) ERDMA_CAP_VERBS"
  "hasCap (ERDMA_CAP_VERBS OR ERDMA_CAP_OOB) ERDMA_CAP_VERBS"
  by (simp_all add: hasCap_def cap_defs)

interpretation default_driver: erdma_driver "DefaultDriver h nl version" for h :: "'w host" and nl version
  by unfold_locales (auto simp: DefaultDriver_def DefaultProbeDevice_def deviceOf_def caps_verbs dest!: probeDevice_Ok)

interpretation compat_driver: erdma_driver "CompatDriver h nl version" for h :: "'w host" and nl version
  by unfold_locales (auto simp: CompatDriver_def CompatProbeDevice_def deviceOf_def caps_verbs dest!: probeDevice_Ok)

interpretation ofed_driver: erdma_driver "OFEDDriver h nl version" for h :: "'w host" and nl version
  by unfold_locales (auto simp: OFEDDriver_def OFEDProbeDevice_def deviceOf_def caps_verbs dest!: probeDevice_Ok)

text \<open>Every registered driver keeps the contract.\<close>

lemma registered_contract:
  assumes "(name, drv) \<in> set (registered_drivers h nl version)"
  shows "erdma_driver drv"
  using assms default_driver.erdma_driver_axioms compat_driver.erdma_driver_axioms ofed_driver.erdma_driver_axioms
  by (auto simp: registered_drivers_def)

text \<open>
  Which driver is chosen: the named one; without a name the GPU driver on a node with
  \<open>nvidia-smi\<close> and the default driver elsewhere.
\<close>

lemma GetDriver_named:
  assumes "name \<in> {''default'', ''compat'', ''ofed''}"
  shows "\<exists>d. GetDriver (hostExec h) (registered_drivers h nl version) name w = (Ok d, w) \<and> drv_Name d = name"
  using assms by (auto simp: GetDriver_def registered_drivers_def defaultDriver_def defaultGPUDriver_def
      DefaultDriver_def CompatDriver_def OFEDDriver_def)

lemma GetDriver_unnamed:
  assumes "hostExec h ''which nvidia-smi'' w = (r, w')" and "\<And>p. r \<noteq> Panic p"
  shows "GetDriver (hostExec h) (registered_drivers h nl version) [] w =
    (Ok (if \<exists>out. r = Ok out then OFEDDriver h nl version else DefaultDriver h nl version), w')"
  using assms by (cases r) (auto simp: GetDriver_def bindA_def tryA_def registered_drivers_def defaultDriver_def defaultGPUDriver_def)

end
