(* ===== verification/Device_Plugin.thy ===== *)
theory Device_Plugin
  imports Erdma_Link "HOL-Library.Multiset"
begin

text \<open>
  internal/deviceplugin/deviceplugin.go: the Kubernetes device plugin. First the allocation of
  devices to containers (ListAndWatch, Allocate), with the order in which Go ranges over a map
  as a parameter; then the life cycle of its gRPC server (Start, Stop, the watch for a
  restarted kubelet, Serve) as a state machine.
\<close>

section \<open>The plugin\<close>

text \<open>
  \<open>dp_server\<close> tells whether \<open>server\<close> is not nil, \<open>dp_stopClosed\<close> whether the channel
  \<open>stop\<close> is closed. The map of devices is an association list.
\<close>

record ERDMADevicePlugin =
  dp_socket :: string
  dp_server :: bool
  dp_stopClosed :: bool
  dp_devices :: "(string \<times> ERdmaDeviceInfo) list"
  dp_allocAllDevices :: bool
  dp_devicepluginPreStart :: bool
  dp_allocRdmaCM :: bool

fun deviceMap :: "ERdmaDeviceInfo list \<Rightarrow> (string \<times> ERdmaDeviceInfo) list \<Rightarrow> (string \<times> ERdmaDeviceInfo) list" where
  "deviceMap [] m = m"
| "deviceMap (d # ds) m = deviceMap ds (AList.update (info_Name d) d m)"

text \<open>
  \<open>initCri\<close> is the outcome of \<open>initCriClient\<close>, \<open>now\<close> the Unix time, \<open>statCM\<close> the outcome of
  looking for the rdma_cm device of the host.
\<close>

definition NewERDMADevicePlugin :: "unit res \<Rightarrow> int \<Rightarrow> unit res \<Rightarrow> ERdmaDeviceInfo list \<Rightarrow> bool \<Rightarrow> bool \<Rightarrow> bool
    \<Rightarrow> ERDMADevicePlugin res" where
  "NewERDMADevicePlugin initCri now statCM devices allocAllDevices devicepluginPreStart allocRdmaCM =
     bindR (if devicepluginPreStart then initCri else Ok ()) (\<lambda>_.
     Ok \<lparr> dp_socket = Sprintf ''/var/lib/kubelet/device-plugins/%d-erdma.sock'' [Itoa now],
          dp_server = False, dp_stopClosed = False, dp_devices = deviceMap devices [],
          dp_allocAllDevices = allocAllDevices, dp_devicepluginPreStart = devicepluginPreStart,
          dp_allocRdmaCM = (allocRdmaCM \<and> statCM = Ok ()) \<rparr>)"

text \<open>The devices are filed under their own names, each once.\<close>

definition pluginOk :: "ERDMADevicePlugin \<Rightarrow> bool" where
  "pluginOk m \<longleftrightarrow> distinct (map fst (dp_devices m)) \<and> (\<forall>(k, d)\<in>set (dp_devices m). info_Name d = k)"

section \<open>Advertised devices\<close>

record Device =
  pd_ID :: string
  pd_NUMA :: int

definition deviceID :: "string \<Rightarrow> nat \<Rightarrow> string" where
  "deviceID name i = Sprintf ''%s/%d'' [name, Itoa (int i)]"

text \<open>
  The list \<open>ListAndWatch\<close> sends, for the order \<open>ord\<close> in which it ranges over the keys.
\<close>

definition advertised :: "(string list \<Rightarrow> string list) \<Rightarrow> ERDMADevicePlugin \<Rightarrow> Device list" where
  "advertised ord m = concat (map (\<lambda>d. map (\<lambda>i. \<lparr> pd_ID = deviceID (info_Name d) i, pd_NUMA = info_NUMA d \<rparr>) [0..<200])
     (List.map_filter (map_of (dp_devices m)) (ord (map fst (dp_devices m)))))"

section \<open>Allocation\<close>

record DeviceSpec =
  ContainerPath :: string
  HostPath :: string
  Permissions :: string

record ContainerAllocateResponse =
  resp_Devices :: "DeviceSpec list"
  resp_Envs :: "(string \<times> string) list"

definition deviceSpec :: "string \<Rightarrow> DeviceSpec" where
  "deviceSpec p = \<lparr> ContainerPath = p, HostPath = p, Permissions = ''rw'' \<rparr>"

text \<open>
  What a container gets: the last or first picked device, the map from device names to
  their paths, and the occupied names afterwards.
\<close>

type_synonym pick = "ERdmaDeviceInfo option \<times> (string \<times> string list) list \<times> string set"

fun pickRequested :: "(string \<times> ERdmaDeviceInfo) list \<Rightarrow> string list \<Rightarrow> pick \<Rightarrow> pick res" where
  "pickRequested devs [] acc = Ok acc"
| "pickRequested devs (devID # ids) (info, devices, occupied) =
     (let devPath = Split (CHR ''/'') devID in
      if length devPath \<le> 1 then pickRequested devs ids (info, devices, occupied)
      else if hd devPath \<in> occupied then pickRequested devs ids (info, devices, occupied)
      else bindR (deref (map_of devs (hd devPath))) (\<lambda>d.
        pickRequested devs ids
          (Some d, AList.update (hd devPath) (info_DevPaths d) devices, insert (hd devPath) occupied)))"

fun pickAll :: "ERdmaDeviceInfo list \<Rightarrow> pick \<Rightarrow> pick" where
  "pickAll [] acc = acc"
| "pickAll (d # ds) (info, devices, occupied) =
     (if info_Name d \<in> occupied then pickAll ds (info, devices, occupied)
      else pickAll ds (case info of None \<Rightarrow> Some d | Some i \<Rightarrow> Some i,
             AList.update (info_Name d) (info_DevPaths d) devices, insert (info_Name d) occupied))"

text \<open>
  One container: \<open>pick\<close> is the choice made from the request and the occupied names, \<open>ord\<close>
  the order of \<open>lo.Values\<close>. No response is added when there is nothing to expose.
\<close>

definition pathsOf :: "bool \<Rightarrow> (string list \<Rightarrow> string list) \<Rightarrow> (string \<times> string list) list \<Rightarrow> string list" where
  "pathsOf rdmaCM ord devices =
     concat (List.map_filter (map_of devices) (ord (map fst devices))) @ (if rdmaCM then [rdmaCMDevice] else [])"

definition respond :: "bool \<Rightarrow> (string list \<Rightarrow> string list) \<Rightarrow> pick \<Rightarrow> ContainerAllocateResponse list res" where
  "respond rdmaCM ord p =
     (let paths = pathsOf rdmaCM ord (fst (snd p)) in
      if paths = [] then Ok []
      else bindR (PNetIDFromDevice (fst p)) (\<lambda>pnet.
        Ok [\<lparr> resp_Devices = map deviceSpec paths, resp_Envs = [(SMCRPNETEnv, pnet)] \<rparr>]))"

text \<open>The loop over the containers; the \<open>n\<close>-th container ranges in the orders \<open>ord n\<close>.\<close>

fun allocateLoop :: "(nat \<Rightarrow> string list \<Rightarrow> string set \<Rightarrow> pick res) \<Rightarrow> bool \<Rightarrow> (nat \<Rightarrow> string list \<Rightarrow> string list)
    \<Rightarrow> nat \<Rightarrow> string list list \<Rightarrow> string set \<Rightarrow> ContainerAllocateResponse list res" where
  "allocateLoop pick rdmaCM ord n [] occupied = Ok []"
| "allocateLoop pick rdmaCM ord n (req # reqs) occupied =
     bindR (pick n req occupied) (\<lambda>p.
     bindR (respond rdmaCM (ord n) p) (\<lambda>r.
     bindR (allocateLoop pick rdmaCM ord (Suc n) reqs (snd (snd p))) (\<lambda>rs. Ok (r @ rs))))"

definition pickFor :: "ERDMADevicePlugin \<Rightarrow> (nat \<Rightarrow> string list \<Rightarrow> string list) \<Rightarrow> nat \<Rightarrow> string list \<Rightarrow> string set
    \<Rightarrow> pick res" where
  "pickFor m ord n req occupied =
     (if \<not> dp_allocAllDevices m then pickRequested (dp_devices m) req (None, [], occupied)
      else Ok (pickAll (List.map_filter (map_of (dp_devices m)) (ord n (map fst (dp_devices m)))) (None, [], occupied)))"

text \<open>
  \<open>Allocate\<close> on the device ids of each container; \<open>ordD\<close> and \<open>ordV\<close> are the orders of
  the two range loops.
\<close>

definition Allocate :: "(nat \<Rightarrow> string list \<Rightarrow> string list) \<Rightarrow> (nat \<Rightarrow> string list \<Rightarrow> string list)
    \<Rightarrow> ERDMADevicePlugin \<Rightarrow> string list list \<Rightarrow> ContainerAllocateResponse list res" where
  "Allocate ordD ordV m reqs = allocateLoop (pickFor m ordD) (dp_allocRdmaCM m) ordV 0 reqs {}"

definition GetDevicePluginOptions :: "ERDMADevicePlugin \<Rightarrow> bool" where
  "GetDevicePluginOptions m = dp_devicepluginPreStart m"

definition GetPreferredAllocation :: "ERDMADevicePlugin \<Rightarrow> unit res" where
  "GetPreferredAllocation m = Err (Errorf ''unsupported'' [])"

section \<open>Life cycle\<close>

text \<open>
  The outcomes of the calls a step makes: reading the plugin directory, listening, registering.
  Unlinking an old socket never fails the caller.
\<close>

record outcomes =
  o_cleanup :: "goerror option"
  o_listen :: "goerror option"
  o_register :: "goerror option"

text \<open>\<open>close(m.stop)\<close> panics on a closed channel.\<close>

definition closeStop :: "ERDMADevicePlugin \<Rightarrow> ERDMADevicePlugin res" where
  "closeStop m = (if dp_stopClosed m then Panic ''close of closed channel'' else Ok (m\<lparr> dp_stopClosed := True \<rparr>))"

text \<open>\<open>Start\<close> and \<open>Stop\<close>: the error, if any, and the plugin afterwards.\<close>

definition Start :: "outcomes \<Rightarrow> ERDMADevicePlugin \<Rightarrow> (goerror option \<times> ERDMADevicePlugin) res" where
  "Start out m =
     bindR (if dp_server m then closeStop m else Ok m) (\<lambda>m1.
       case o_cleanup out of Some err \<Rightarrow> Ok (Some err, m1)
       | None \<Rightarrow> (case o_listen out of Some err \<Rightarrow> Ok (Some err, m1)
          | None \<Rightarrow> Ok (None, m1\<lparr> dp_server := True, dp_stopClosed := False \<rparr>)))"

definition Stop :: "outcomes \<Rightarrow> ERDMADevicePlugin \<Rightarrow> (goerror option \<times> ERDMADevicePlugin) res" where
  "Stop out m =
     (if \<not> dp_server m then Ok (None, m)
      else bindR (closeStop (m\<lparr> dp_server := False \<rparr>)) (\<lambda>m1. Ok (o_cleanup out, m1)))"

text \<open>
  The process that serves: running its watch loop, ended by \<open>klog.Fatalf\<close>, or crashed by a
  panic. \<open>registered\<close> records whether the kubelet knows the current server.
\<close>

datatype process = Running ERDMADevicePlugin (registered: bool) | Fatal goerror | Crashed string

text \<open>\<open>Serve\<close> up to its watch loop.\<close>

text \<open>\<open>Serve\<close> up to the watch loop; \<open>outStop\<close> are the outcomes of stopping after a failed registration.\<close>

definition serveStart :: "outcomes \<Rightarrow> outcomes \<Rightarrow> ERDMADevicePlugin \<Rightarrow> process" where
  "serveStart out outStop m =
     (case Start out m of
        Panic p \<Rightarrow> Crashed p
      | Err err \<Rightarrow> Fatal err
      | Ok (Some err, m1) \<Rightarrow> Fatal (Wrapf ''Could not start device plugin: %v'' [] err)
      | Ok (None, m1) \<Rightarrow>
          (case o_register out of
             None \<Rightarrow> Running m1 True
           | Some err \<Rightarrow>
               (case Stop outStop m1 of
                  Panic p \<Rightarrow> Crashed p
                | Err err' \<Rightarrow> Fatal err'
                | Ok (Some err', m2) \<Rightarrow> Fatal (Wrapf ''stop current device plugin server with error: %v'' [] err')
                | Ok (None, m2) \<Rightarrow> Running m2 False)))"

datatype sockStat = SockPresent | SockMissing | SockError goerror

text \<open>One round of \<open>watchKubeletRestart\<close>.\<close>

definition watchRound :: "sockStat \<Rightarrow> outcomes \<Rightarrow> outcomes \<Rightarrow> ERDMADevicePlugin \<Rightarrow> bool \<Rightarrow> process" where
  "watchRound st outStop outStart m reg =
     (case st of
        SockPresent \<Rightarrow> Running m reg
      | SockError err \<Rightarrow> Fatal (Wrapf ''error stat socket: %+v'' [] err)
      | SockMissing \<Rightarrow>
          (case Stop outStop m of
             Panic p \<Rightarrow> Crashed p
           | Err err \<Rightarrow> Fatal err
           | Ok (e1, m1) \<Rightarrow>
               (case Start outStart m1 of
                  Panic p \<Rightarrow> Crashed p
                | Err err \<Rightarrow> Fatal err
                | Ok (Some err, m2) \<Rightarrow> Fatal (Wrapf ''error restart device plugin after kubelet restart %+v'' [] err)
                | Ok (None, m2) \<Rightarrow>
                    (case o_register outStart of
                       Some err \<Rightarrow> Fatal (Wrapf ''error register device plugin after kubelet restart %+v'' [] err)
                     | None \<Rightarrow> Running m2 True))))"

inductive serving :: "ERDMADevicePlugin \<Rightarrow> process \<Rightarrow> bool" for m0 where
  serve: "serving m0 (serveStart out outStop m0)"
| watch: "serving m0 (Running m reg) \<Longrightarrow> serving m0 (watchRound st outStop outStart m reg)"

section \<open>The server never closes its channel twice\<close>

definition processOk :: "ERDMADevicePlugin \<Rightarrow> process \<Rightarrow> bool" where
  "processOk m0 p = (case p of
     Running m reg \<Rightarrow> (dp_server m \<longrightarrow> \<not> dp_stopClosed m) \<and> (reg \<longrightarrow> dp_server m) \<and> dp_devices m = dp_devices m0
   | Fatal e \<Rightarrow> True
   | Crashed c \<Rightarrow> False)"

lemma Start_eq:
  assumes "dp_server m \<longrightarrow> \<not> dp_stopClosed m"
  shows "Start out m = (let m1 = (if dp_server m then m\<lparr> dp_stopClosed := True \<rparr> else m) in
    case (o_cleanup out, o_listen out) of
      (None, None) \<Rightarrow> Ok (None, m1\<lparr> dp_server := True, dp_stopClosed := False \<rparr>)
    | (None, Some e) \<Rightarrow> Ok (Some e, m1)
    | (Some e, _) \<Rightarrow> Ok (Some e, m1))"
  using assms by (simp add: Start_def closeStop_def split: option.splits)

lemma Start_cases:
  assumes "dp_server m \<longrightarrow> \<not> dp_stopClosed m"
  obtains (err) e m1 where "Start out m = Ok (Some e, m1)"
    | (ok) m1 where "Start out m = Ok (None, m1)" and "dp_server m1" and "\<not> dp_stopClosed m1"
        and "dp_devices m1 = dp_devices m"
proof (cases "o_cleanup out")
  case None
  show thesis
  proof (cases "o_listen out")
    case None
    with \<open>o_cleanup out = None\<close> Start_eq [OF assms, of out] show thesis
      by (intro ok [of "(if dp_server m then m\<lparr> dp_stopClosed := True \<rparr> else m)\<lparr> dp_server := True, dp_stopClosed := False \<rparr>"])
        (simp_all add: Let_def)
  next
    case (Some e)
    with \<open>o_cleanup out = None\<close> Start_eq [OF assms, of out] show thesis by (intro err) (auto simp: Let_def)
  qed
next
  case (Some e)
  with Start_eq [OF assms, of out] show thesis by (intro err) (auto simp: Let_def)
qed

lemma Stop_cases:
  assumes "dp_server m \<longrightarrow> \<not> dp_stopClosed m"
  obtains e m1 where "Stop out m = Ok (e, m1)" and "\<not> dp_server m1" and "dp_devices m1 = dp_devices m"
proof (cases "dp_server m")
  case True
  with assms show thesis
    by (intro that [of "o_cleanup out" "m\<lparr> dp_server := False, dp_stopClosed := True \<rparr>"]) (simp_all add: Stop_def closeStop_def)
qed (auto simp: Stop_def intro: that)

lemma serveStart_ok:
  assumes "\<not> dp_server m"
  shows "processOk m (serveStart out outStop m)"
proof -
  have "dp_server m \<longrightarrow> \<not> dp_stopClosed m" using assms by simp
  then show ?thesis
  proof (cases rule: Start_cases [where out = out])
    case (err e m1)
    then show ?thesis by (simp add: serveStart_def processOk_def)
  next
    case (ok m1)
    have inv: "dp_server m1 \<longrightarrow> \<not> dp_stopClosed m1" using ok by simp
    show ?thesis
    proof (cases "o_register out")
      case None
      with ok show ?thesis by (simp add: serveStart_def processOk_def)
    next
      case (Some e)
      from inv show ?thesis
        by (cases rule: Stop_cases [where out = outStop])
          (use Some ok in \<open>auto simp: serveStart_def processOk_def split: option.splits\<close>)
    qed
  qed
qed

lemma watchRound_ok:
  assumes "processOk m0 (Running m reg)"
  shows "processOk m0 (watchRound st outStop outStart m reg)"
proof (cases st)
  case SockMissing
  from assms have "dp_server m \<longrightarrow> \<not> dp_stopClosed m" and devs: "dp_devices m = dp_devices m0"
    by (auto simp: processOk_def)
  then obtain e m1 where stop: "Stop outStop m = Ok (e, m1)" and s1: "\<not> dp_server m1"
    and d1: "dp_devices m1 = dp_devices m" using Stop_cases by metis
  from s1 have "dp_server m1 \<longrightarrow> \<not> dp_stopClosed m1" by simp
  then show ?thesis
    by (cases rule: Start_cases [where out = outStart])
      (use SockMissing stop devs d1 in \<open>auto simp: watchRound_def processOk_def split: option.splits\<close>)
qed (use assms in \<open>simp_all add: watchRound_def processOk_def\<close>)

lemma serving_ok:
  assumes "serving m0 p" and "\<not> dp_server m0"
  shows "processOk m0 p"
  using assms by (induction rule: serving.induct) (auto intro: serveStart_ok watchRound_ok)

text \<open>
  C11: However often the kubelet restarts and whatever its calls return, the plugin process never
  crashes by closing its stop channel twice; while it is registered its server is up, a server
  that is up has an open stop channel, and the devices stay those it was made with.
\<close>

theorem plugin_never_crashes:
  assumes "NewERDMADevicePlugin initCri now statCM devices allocAll preStart rdmaCM = Ok m0"
    and "serving m0 p"
  shows "processOk m0 p"
proof -
  from assms(1) have "\<not> dp_server m0" by (auto simp: NewERDMADevicePlugin_def bindR_Ok_iff)
  with assms(2) show ?thesis by (rule serving_ok)
qed

definition exOutcomes :: outcomes where
  "exOutcomes = \<lparr> o_cleanup = None, o_listen = None, o_register = None \<rparr>"

definition exInfo :: "string \<Rightarrow> string \<Rightarrow> ERdmaDeviceInfo" where
  "exInfo name path = \<lparr> info_Name = name, info_MAC = ''00:16:3e:00:00:0a'', info_DevPaths = [path, rdmaCMDevice],
     info_NUMA = 0, info_Capabilities = 7 \<rparr>"

definition exPlugin :: "bool \<Rightarrow> bool \<Rightarrow> ERDMADevicePlugin" where
  "exPlugin allocAll rdmaCM = \<lparr> dp_socket = ''/var/lib/kubelet/device-plugins/5-erdma.sock'', dp_server = False,
     dp_stopClosed = False, dp_devices = [(''erdma_0'', exInfo ''erdma_0'' ''/dev/infiniband/uverbs0''),
       (''erdma_1'', exInfo ''erdma_1'' ''/dev/infiniband/uverbs1'')],
     dp_allocAllDevices = allocAll, dp_devicepluginPreStart = False, dp_allocRdmaCM = rdmaCM \<rparr>"

lemma exPlugin_new:
  "NewERDMADevicePlugin (Ok ()) 5 (Ok ())
     [exInfo ''erdma_0'' ''/dev/infiniband/uverbs0'', exInfo ''erdma_1'' ''/dev/infiniband/uverbs1''] allocAll False rdmaCM
   = Ok (exPlugin allocAll rdmaCM)"
proof -
  have "Sprintf ''/var/lib/kubelet/device-plugins/%d-erdma.sock'' [Itoa 5] = ''/var/lib/kubelet/device-plugins/5-erdma.sock''"
    by code_simp
  then show ?thesis by (simp add: NewERDMADevicePlugin_def exPlugin_def exInfo_def del: Sprintf.simps)
qed

theorem plugin_never_crashes_witness:
  "processOk (exPlugin False True) (watchRound SockMissing exOutcomes exOutcomes
     ((exPlugin False True)\<lparr> dp_server := True, dp_stopClosed := False \<rparr>) True)"
proof -
  have "serveStart exOutcomes exOutcomes (exPlugin False True) =
      Running ((exPlugin False True)\<lparr> dp_server := True, dp_stopClosed := False \<rparr>) True"
    by (simp add: serveStart_def Start_def exOutcomes_def exPlugin_def)
  then have "serving (exPlugin False True) (Running ((exPlugin False True)\<lparr> dp_server := True, dp_stopClosed := False \<rparr>) True)"
    by (metis serving.serve)
  then have "serving (exPlugin False True) (watchRound SockMissing exOutcomes exOutcomes
     ((exPlugin False True)\<lparr> dp_server := True, dp_stopClosed := False \<rparr>) True)" by (rule serving.watch)
  with exPlugin_new show ?thesis by (rule plugin_never_crashes)
qed

text \<open>
  After the kubelet removed the socket, one round of the watch brings the plugin back: if the calls
  succeed the server is up again and registered, whatever state it was in.
\<close>

theorem plugin_comes_back:
  assumes "processOk m0 (Running m reg)"
    and "o_cleanup outStart = None" and "o_listen outStart = None" and "o_register outStart = None"
  shows "\<exists>m'. watchRound SockMissing outStop outStart m reg = Running m' True \<and> dp_server m' \<and> \<not> dp_stopClosed m'"
proof -
  from assms(1) have "dp_server m \<longrightarrow> \<not> dp_stopClosed m" by (auto simp: processOk_def)
  then obtain e m1 where stop: "Stop outStop m = Ok (e, m1)" and s1: "\<not> dp_server m1" using Stop_cases by metis
  with assms show ?thesis by (auto simp: watchRound_def Start_def)
qed

theorem plugin_comes_back_witness:
  "\<exists>m'. watchRound SockMissing (exOutcomes\<lparr> o_cleanup := Some (ApiErr ''no directory'') \<rparr>) exOutcomes (exPlugin False True) False
     = Running m' True \<and> dp_server m' \<and> \<not> dp_stopClosed m'"
  by (rule plugin_comes_back [of "exPlugin False True"]) (simp_all add: processOk_def exPlugin_def exOutcomes_def)

section \<open>Allocation\<close>

text \<open>
  The contract of the two ways to choose devices for a container, \<open>owns k d\<close> meaning that
  \<open>d\<close> is filed as \<open>k\<close>: only unoccupied names are picked, each once, exactly these become
  occupied, the paths are those of the device, and a device is reported if any was picked.
\<close>

definition pickInv :: "(string \<Rightarrow> ERdmaDeviceInfo \<Rightarrow> bool) \<Rightarrow> string set \<Rightarrow> pick \<Rightarrow> bool" where
  "pickInv owns occ p = (case p of (info, devices, occupied) \<Rightarrow>
     distinct (map fst devices) \<and> occupied = occ \<union> fst ` set devices \<and> occ \<inter> fst ` set devices = {} \<and>
     (\<forall>(k, ps)\<in>set devices. \<exists>d. owns k d \<and> ps = info_DevPaths d) \<and> (info = None \<longleftrightarrow> devices = []))"

lemma pickInv_start: "pickInv owns occ (None, [], occ)"
  by (simp add: pickInv_def)

lemma update_absent: "k \<notin> fst ` set xs \<Longrightarrow> AList.update k v xs = xs @ [(k, v)]"
  by (induction xs) auto

lemma pickInv_add:
  assumes "pickInv owns occ (info, devices, occupied)" and "k \<notin> occupied" and "owns k d"
  shows "pickInv owns occ (Some i, AList.update k (info_DevPaths d) devices, insert k occupied)"
proof -
  from assms have "k \<notin> fst ` set devices" by (auto simp: pickInv_def)
  then show ?thesis using assms by (auto simp: pickInv_def update_absent)
qed

lemma pickInv_memberD:
  assumes "pickInv owns occ (info, devices, occupied)" and "(k, ps) \<in> set devices"
  obtains d where "k \<notin> occ" and "k \<in> occupied" and "owns k d" and "ps = info_DevPaths d"
proof -
  from assms(2) have "k \<in> fst ` set devices" by force
  with assms have "k \<notin> occ" "k \<in> occupied" by (auto simp: pickInv_def)
  moreover from assms obtain d where "owns k d" "ps = info_DevPaths d" by (auto simp: pickInv_def)
  ultimately show thesis by (rule that)
qed

lemma pickInv_occupied: "pickInv owns occ p \<Longrightarrow> occ \<subseteq> snd (snd p)"
  by (cases p) (auto simp: pickInv_def)

locale container_allocator =
  fixes pick :: "nat \<Rightarrow> string list \<Rightarrow> string set \<Rightarrow> pick res"
    and owns :: "string \<Rightarrow> ERdmaDeviceInfo \<Rightarrow> bool"
  assumes picks: "pick n req occ = Ok p \<Longrightarrow> pickInv owns occ p"
begin

text \<open>A container is answered unless nothing was picked for it and rdma_cm is to be exposed.\<close>

lemma respond_total:
  assumes "pick n req occ = Ok p" and "\<not> rdmaCM \<or> fst (snd p) \<noteq> []"
  shows "\<exists>r. respond rdmaCM ord p = Ok r"
proof -
  obtain info devices occupied where p: "p = (info, devices, occupied)" by (cases p)
  from picks [OF assms(1)] p have i: "info = None \<longleftrightarrow> devices = []" by (simp add: pickInv_def)
  show ?thesis
  proof (cases info)
    case None
    with i assms(2) p show ?thesis by (auto simp: respond_def pathsOf_def List.map_filter_def filter_empty_conv)
  next
    case (Some d)
    with p show ?thesis by (auto simp: respond_def PNetIDFromDevice_def Let_def)
  qed
qed

lemma respond_owner:
  assumes "pick n req occ = Ok p" and "respond rdmaCM ord p = Ok r" and "x \<in> set r"
    and "path \<in> HostPath ` set (resp_Devices x)" and "path \<noteq> rdmaCMDevice"
  shows "length r = 1 \<and> (\<exists>k d. k \<notin> occ \<and> k \<in> snd (snd p) \<and> owns k d \<and> path \<in> set (info_DevPaths d))"
proof -
  obtain info devices occupied where p: "p = (info, devices, occupied)" by (cases p)
  from assms(2-5) p have "length r = 1" and "path \<in> set (pathsOf rdmaCM ord devices)"
    by (auto simp: respond_def Let_def bindR_Ok_iff deviceSpec_def split: if_splits)
  with assms(5) obtain k ps where kp: "map_of devices k = Some ps" "path \<in> set ps"
    by (auto simp: pathsOf_def List.map_filter_def)
  from kp(1) have "(k, ps) \<in> set devices" by (rule map_of_SomeD)
  with picks [OF assms(1)] obtain d where "k \<notin> occ" "k \<in> occupied" "owns k d" "ps = info_DevPaths d"
    unfolding p by (rule pickInv_memberD)
  with p kp(2) \<open>length r = 1\<close> show ?thesis by auto
qed

lemma pick_occupied: "pick n req occ = Ok p \<Longrightarrow> occ \<subseteq> snd (snd p)"
  by (rule pickInv_occupied [OF picks])

text \<open>A path that only the device filed as \<open>k\<close> has is exposed to at most one container.\<close>

lemma path_once:
  assumes "path \<noteq> rdmaCMDevice" and "\<And>k' d. owns k' d \<Longrightarrow> path \<in> set (info_DevPaths d) \<Longrightarrow> k' = k"
  shows "allocateLoop pick rdmaCM ord n reqs occ = Ok rs \<Longrightarrow>
    length (filter (\<lambda>r. path \<in> HostPath ` set (resp_Devices r)) rs) \<le> (if k \<in> occ then 0 else 1)"
proof (induction reqs arbitrary: n occ rs)
  case (Cons req reqs)
  let ?has = "\<lambda>r. path \<in> HostPath ` set (resp_Devices r)"
  from Cons.prems obtain p r rs' where p: "pick n req occ = Ok p" and r: "respond rdmaCM (ord n) p = Ok r"
    and rest: "allocateLoop pick rdmaCM ord (Suc n) reqs (snd (snd p)) = Ok rs'" and rs: "rs = r @ rs'"
    by (auto simp: bindR_Ok_iff)
  note ih = Cons.IH [OF rest]
  show ?case
  proof (cases "\<exists>x\<in>set r. ?has x")
    case True
    then obtain x where x: "x \<in> set r" "?has x" by blast
    from respond_owner [OF p r x assms(1)] assms(2) have "length r = 1" "k \<notin> occ" "k \<in> snd (snd p)" by auto
    moreover from this(1) have "length (filter ?has r) \<le> 1" by (metis length_filter_le)
    ultimately show ?thesis using ih rs by auto
  next
    case False
    then have "filter ?has r = []" by (auto simp: filter_empty_conv)
    with ih pick_occupied [OF p] rs show ?thesis by (auto split: if_splits)
  qed
qed simp

lemma loop_total:
  assumes "\<And>n req occ. req \<in> R \<Longrightarrow> \<exists>p. pick n req occ = Ok p"
  shows "set reqs \<subseteq> R \<Longrightarrow> \<exists>rs. allocateLoop pick False ord n reqs occ = Ok rs"
proof (induction reqs arbitrary: n occ)
  case (Cons req reqs)
  then obtain p where p: "pick n req occ = Ok p" using assms by fastforce
  then obtain r where "respond False (ord n) p = Ok r" using respond_total by blast
  moreover obtain rs where "allocateLoop pick False ord (Suc n) reqs (snd (snd p)) = Ok rs"
    using Cons by fastforce
  ultimately show ?case using p by simp
qed simp

end

lemma pickRequested_inv:
  "pickRequested devs ids acc = Ok p \<Longrightarrow> pickInv (\<lambda>k d. map_of devs k = Some d) occ acc \<Longrightarrow>
   pickInv (\<lambda>k d. map_of devs k = Some d) occ p"
proof (induction devs ids acc rule: pickRequested.induct)
  case (2 devs devID ids info devices occupied)
  then show ?case
    by (auto simp: Let_def bindR_Ok_iff intro: pickInv_add split: if_splits)
qed simp

lemma pickAll_inv:
  "pickInv (\<lambda>k d. d \<in> D \<and> info_Name d = k) occ acc \<Longrightarrow> set ds \<subseteq> D \<Longrightarrow>
   pickInv (\<lambda>k d. d \<in> D \<and> info_Name d = k) occ (pickAll ds acc)"
proof (induction ds acc rule: pickAll.induct)
  case (2 d ds info devices occupied)
  show ?case
  proof (cases "info_Name d \<in> occupied")
    case False
    have "pickInv (\<lambda>k d. d \<in> D \<and> info_Name d = k) occ
       (Some (case info of None \<Rightarrow> d | Some i \<Rightarrow> i), AList.update (info_Name d) (info_DevPaths d) devices, insert (info_Name d) occupied)"
      using 2 False by (intro pickInv_add) auto
    with 2 False show ?thesis by (cases info) auto
  qed (use 2 in simp)
qed simp

interpretation requested: container_allocator "\<lambda>n req occ. pickRequested devs req (None, [], occ)"
    "\<lambda>k d. map_of devs k = Some d" for devs
  by unfold_locales (rule pickRequested_inv [OF _ pickInv_start])

interpretation all: container_allocator "\<lambda>n req occ. Ok (pickAll (ds n) (None, [], occ))"
    "\<lambda>k d. d \<in> (\<Union>n. set (ds n)) \<and> info_Name d = k" for ds
proof
  fix n :: nat and req :: "string list" and occ p
  assume "Ok (pickAll (ds n) (None, [], occ)) = Ok p"
  moreover have "pickInv (\<lambda>k d. d \<in> (\<Union>n. set (ds n)) \<and> info_Name d = k) occ (pickAll (ds n) (None, [], occ))"
    by (rule pickAll_inv [OF pickInv_start]) auto
  ultimately show "pickInv (\<lambda>k d. d \<in> (\<Union>n. set (ds n)) \<and> info_Name d = k) occ p" by simp
qed

lemma Allocate_requested:
  assumes "\<not> dp_allocAllDevices m"
  shows "Allocate ordD ordV m reqs =
    allocateLoop (\<lambda>n req occ. pickRequested (dp_devices m) req (None, [], occ)) (dp_allocRdmaCM m) ordV 0 reqs {}"
proof -
  have "pickFor m ordD = (\<lambda>n req occ. pickRequested (dp_devices m) req (None, [], occ))"
    using assms by (simp add: pickFor_def fun_eq_iff)
  then show ?thesis by (simp add: Allocate_def)
qed

definition rangeDevices :: "ERDMADevicePlugin \<Rightarrow> (nat \<Rightarrow> string list \<Rightarrow> string list) \<Rightarrow> nat \<Rightarrow> ERdmaDeviceInfo list" where
  "rangeDevices m ord n = List.map_filter (map_of (dp_devices m)) (ord n (map fst (dp_devices m)))"

lemma Allocate_all:
  assumes "dp_allocAllDevices m"
  shows "Allocate ordD ordV m reqs =
    allocateLoop (\<lambda>n req occ. Ok (pickAll (rangeDevices m ordD n) (None, [], occ))) (dp_allocRdmaCM m) ordV 0 reqs {}"
proof -
  have "pickFor m ordD = (\<lambda>n req occ. Ok (pickAll (rangeDevices m ordD n) (None, [], occ)))"
    using assms by (simp add: pickFor_def rangeDevices_def fun_eq_iff)
  then show ?thesis by (simp add: Allocate_def)
qed

lemma rangeDevices_member: "d \<in> set (rangeDevices m ord n) \<Longrightarrow> \<exists>k. map_of (dp_devices m) k = Some d"
  by (auto simp: rangeDevices_def List.map_filter_def)

lemma pluginOk_name: "pluginOk m \<Longrightarrow> map_of (dp_devices m) k = Some d \<Longrightarrow> info_Name d = k"
  by (auto simp: pluginOk_def dest: map_of_SomeD)

lemma update_subset: "set (AList.update k v xs) \<subseteq> insert (k, v) (set xs)"
  by (induction xs) auto

lemma deviceMap_sources: "snd ` set (deviceMap ds xs) \<subseteq> set ds \<union> snd ` set xs"
proof (induction ds arbitrary: xs)
  case (Cons d ds)
  have "snd ` set (AList.update (info_Name d) d xs) \<subseteq> insert d (snd ` set xs)"
    using update_subset [of "info_Name d" d xs] by force
  with Cons.IH [of "AList.update (info_Name d) d xs"] show ?case by auto
qed simp

lemma deviceMap_ok:
  "distinct (map fst m) \<Longrightarrow> (\<forall>(k, d)\<in>set m. info_Name d = k) \<Longrightarrow>
   distinct (map fst (deviceMap ds m)) \<and> (\<forall>(k, d)\<in>set (deviceMap ds m). info_Name d = k)"
proof (induction ds arbitrary: m)
  case (Cons d ds)
  have "\<forall>(k, e)\<in>set (AList.update (info_Name d) d m). info_Name e = k"
    using Cons.prems update_subset [of "info_Name d" d m] by fastforce
  with Cons.prems Cons.IH [of "AList.update (info_Name d) d m"] show ?case by (simp add: distinct_update)
qed simp

lemma NewERDMADevicePlugin_ok:
  "NewERDMADevicePlugin initCri now statCM devices allocAll preStart rdmaCM = Ok m \<Longrightarrow> pluginOk m"
  using deviceMap_ok [of "[]" devices] by (auto simp: NewERDMADevicePlugin_def bindR_Ok_iff pluginOk_def)

text \<open>
  C4: Within one allocation a device is given to at most one container, in either mode and
  whatever order the maps are ranged in: a device file that belongs to one device only is
  exposed in at most one of the responses.
\<close>

theorem device_given_once:
  assumes "NewERDMADevicePlugin initCri now statCM devices allocAll preStart rdmaCM = Ok m"
    and "Allocate ordD ordV m reqs = Ok rs"
    and "path \<noteq> rdmaCMDevice"
    and "\<forall>d\<in>set devices. path \<in> set (info_DevPaths d) \<longrightarrow> info_Name d = name"
  shows "length (filter (\<lambda>r. path \<in> HostPath ` set (resp_Devices r)) rs) \<le> 1"
proof -
  note ok = NewERDMADevicePlugin_ok [OF assms(1)]
  from assms(1) have "dp_devices m = deviceMap devices []" by (auto simp: NewERDMADevicePlugin_def bindR_Ok_iff)
  with deviceMap_sources [of devices "[]"] have devs: "snd ` set (dp_devices m) \<subseteq> set devices" by simp
  have own: "k = name" if "map_of (dp_devices m) k = Some d" "path \<in> set (info_DevPaths d)" for k d
  proof -
    from map_of_SomeD [OF that(1)] devs have "d \<in> set devices" by force
    with assms(4) that(2) pluginOk_name [OF ok that(1)] show ?thesis by simp
  qed
  show ?thesis
  proof (cases "dp_allocAllDevices m")
    case True
    have "k = name" if "d \<in> (\<Union>n. set (rangeDevices m ordD n)) \<and> info_Name d = k" "path \<in> set (info_DevPaths d)" for k d
      using that rangeDevices_member [of d m ordD] own pluginOk_name [OF ok] by fastforce
    from all.path_once [OF assms(3) this assms(2) [unfolded Allocate_all [OF True]]] show ?thesis by simp
  next
    case False
    from requested.path_once [OF assms(3) own assms(2) [unfolded Allocate_requested [OF False]]] show ?thesis by simp
  qed
qed

definition exDevices :: "ERdmaDeviceInfo list" where
  "exDevices = [exInfo ''erdma_0'' ''/dev/infiniband/uverbs0'', exInfo ''erdma_1'' ''/dev/infiniband/uverbs1'']"

theorem device_given_once_witness:
  "\<exists>rs. Allocate (\<lambda>n ks. ks) (\<lambda>n ks. ks) (exPlugin False False) [[''erdma_0/1''], [''erdma_0/2'', ''erdma_1/3'']] = Ok rs \<and>
     length (filter (\<lambda>r. ''/dev/infiniband/uverbs0'' \<in> HostPath ` set (resp_Devices r)) rs) \<le> 1"
proof -
  let ?run = "Allocate (\<lambda>n ks. ks) (\<lambda>n ks. ks) (exPlugin False False) [[''erdma_0/1''], [''erdma_0/2'', ''erdma_1/3'']]"
  have "okMap (\<lambda>_. ()) (?run, ()) = Some ()" by code_simp
  then obtain rs where run: "?run = Ok rs" by (rule okMap_SomeE) auto
  have uniq: "\<forall>d\<in>set exDevices. ''/dev/infiniband/uverbs0'' \<in> set (info_DevPaths d) \<longrightarrow> info_Name d = ''erdma_0''"
    by (simp add: exDevices_def exInfo_def rdmaCMDevice_def)
  have "length (filter (\<lambda>r. ''/dev/infiniband/uverbs0'' \<in> HostPath ` set (resp_Devices r)) rs) \<le> 1"
    by (rule device_given_once [OF exPlugin_new [folded exDevices_def] run _ uniq]) (simp add: rdmaCMDevice_def)
  with run show ?thesis by blast
qed

section \<open>Advertised ids\<close>

lemma deviceID_split: "CHR ''/'' \<notin> set name \<Longrightarrow> Split (CHR ''/'') (deviceID name i) = [name, show_nat i]"
proof -
  assume n: "CHR ''/'' \<notin> set name"
  have "CHR ''/'' \<notin> set (show_nat i)" using show_nat_digits by (fastforce simp: is_digit_def)
  then show ?thesis using n by (simp add: deviceID_def Itoa_def Split_append Split_no_sep)
qed

lemma deviceID_inj:
  "CHR ''/'' \<notin> set a \<Longrightarrow> CHR ''/'' \<notin> set b \<Longrightarrow> deviceID a i = deviceID b j \<longleftrightarrow> a = b \<and> i = j"
  by (metis deviceID_split list.inject show_nat_inj)

lemma pick_known:
  "(\<And>i. i \<in> set ids \<Longrightarrow> map_of devs (hd (Split (CHR ''/'') i)) \<noteq> None) \<Longrightarrow> \<exists>p. pickRequested devs ids acc = Ok p"
proof (induction devs ids acc rule: pickRequested.induct)
  case (2 devs devID ids info devices occupied)
  then obtain d where "map_of devs (hd (Split (CHR ''/'') devID)) = Some d" by fastforce
  with 2 show ?case by (auto simp: Let_def)
next
  case (1 devs acc)
  show ?case by (rule exI [of _ acc]) simp
qed

lemma filed_names:
  assumes "pluginOk m" and "set ks \<subseteq> fst ` set (dp_devices m)"
  shows "map info_Name (List.map_filter (map_of (dp_devices m)) ks) = ks"
  using assms(2)
proof (induction ks)
  case (Cons k ks)
  then obtain d where d: "map_of (dp_devices m) k = Some d" by (auto simp: map_of_eq_None_iff dest!: not_Some_eq [THEN iffD1])
      (metis Cons.prems insert_subset list.simps(15) map_of_eq_None_iff option.exhaust)
  with Cons pluginOk_name [OF assms(1) d] show ?case by (simp add: map_filter_simps)
qed (simp add: map_filter_simps)

lemma advertised_ids:
  assumes "pluginOk m" and "mset (ord (map fst (dp_devices m))) = mset (map fst (dp_devices m))"
  shows "map pd_ID (advertised ord m) = concat (map (\<lambda>k. map (deviceID k) [0..<200]) (ord (map fst (dp_devices m))))"
proof -
  let ?ks = "ord (map fst (dp_devices m))"
  from assms(2) have "set ?ks = fst ` set (dp_devices m)" by (metis mset_eq_setD set_map)
  then have names: "map info_Name (List.map_filter (map_of (dp_devices m)) ?ks) = ?ks" by (intro filed_names assms) simp
  have "map pd_ID (advertised ord m) = concat (map (\<lambda>k. map (deviceID k) [0..<200])
      (map info_Name (List.map_filter (map_of (dp_devices m)) ?ks)))"
    by (simp add: advertised_def map_concat o_def del: upt_conv_Cons upt_rec_numeral)
  then show ?thesis unfolding names .
qed

lemma distinct_ids:
  assumes "distinct ks" and "\<forall>k\<in>set ks. CHR ''/'' \<notin> set k"
  shows "distinct (concat (map (\<lambda>k. map (deviceID k) [0..<200]) ks))"
  using assms
proof (induction ks)
  case (Cons k ks)
  have "distinct (map (deviceID k) [0..<200])"
    using Cons.prems by (simp add: distinct_map inj_on_def deviceID_inj)
  moreover have "set (map (deviceID k) [0..<200]) \<inter> set (concat (map (\<lambda>k. map (deviceID k) [0..<200]) ks)) = {}"
    using Cons.prems deviceID_inj by fastforce
  ultimately show ?case using Cons by (simp del: upt_conv_Cons upt_rec_numeral)
qed simp




section \<open>What a container gets\<close>

lemma pickRequested_names:
  assumes "pickRequested devs ids (info, devices, occ) = Ok (info', devices', occ')"
    and "\<And>i. i \<in> set ids \<Longrightarrow> 1 < length (Split (CHR ''/'') i)"
  shows "occ' = occ \<union> (\<lambda>i. hd (Split (CHR ''/'') i)) ` set ids"
  using assms
proof (induction devs ids "(info, devices, occ)" arbitrary: info devices occ rule: pickRequested.induct)
  case (2 devs devID ids info devices occupied)
  let ?k = "hd (Split (CHR ''/'') devID)"
  have l: "\<not> length (Split (CHR ''/'') devID) \<le> 1" and rest: "\<And>i. i \<in> set ids \<Longrightarrow> 1 < length (Split (CHR ''/'') i)"
    using 2(5) [of devID] 2(5) by (simp_all add: not_le)
  show ?case
  proof (cases "?k \<in> occupied")
    case True
    with 2(2) [OF refl l True _ rest] 2(4) l show ?thesis by auto
  next
    case False
    with 2(4) l obtain d where d: "map_of devs ?k = Some d"
      and run: "pickRequested devs ids (Some d, AList.update ?k (info_DevPaths d) devices, insert ?k occupied) = Ok (info', devices', occ')"
      by (auto simp: Let_def bindR_Ok_iff)
    from 2(3) [OF refl l False run rest] show ?thesis by auto
  qed
qed simp

lemma set_values:
  assumes "distinct (map fst devices)" and "set ks = fst ` set devices"
  shows "set (List.map_filter (map_of devices) ks) = snd ` set devices"
proof -
  have "set (List.map_filter (map_of devices) ks) = {v. \<exists>k\<in>set ks. map_of devices k = Some v}"
    by (induction ks) (auto simp: map_filter_simps split: option.splits)
  also have "\<dots> = snd ` set devices"
    using assms by (force simp: map_of_eq_Some_iff)
  finally show ?thesis .
qed

lemma Allocate_single:
  assumes "pluginOk m" and "\<not> dp_allocAllDevices m" and "\<forall>n xs. mset (ordV n xs) = mset xs"
    and "\<forall>i\<in>set ids. 1 < length (Split (CHR ''/'') i)"
    and "Allocate ordD ordV m [ids] = Ok [r]"
  shows "\<forall>i\<in>set ids. map_of (dp_devices m) (hd (Split (CHR ''/'') i)) \<noteq> None"
    and "HostPath ` set (resp_Devices r) =
    (\<Union>d\<in>{d. \<exists>i\<in>set ids. map_of (dp_devices m) (hd (Split (CHR ''/'') i)) = Some d}. set (info_DevPaths d)) \<union>
    (if dp_allocRdmaCM m then {rdmaCMDevice} else {})"
proof -
  from assms(5) obtain info devices occ where p: "pickRequested (dp_devices m) ids (None, [], {}) = Ok (info, devices, occ)"
    and r: "respond (dp_allocRdmaCM m) (ordV 0) (info, devices, occ) = Ok [r]"
    by (auto simp: Allocate_requested [OF assms(2)] bindR_Ok_iff)
  from pickRequested_inv [OF p pickInv_start] pickRequested_names [OF p] assms(4)
  have inv: "distinct (map fst devices)" "fst ` set devices = (\<lambda>i. hd (Split (CHR ''/'') i)) ` set ids"
    "\<forall>(k, ps)\<in>set devices. \<exists>d. map_of (dp_devices m) k = Some d \<and> ps = info_DevPaths d"
    by (auto simp: pickInv_def)
  show "\<forall>i\<in>set ids. map_of (dp_devices m) (hd (Split (CHR ''/'') i)) \<noteq> None"
  proof
    fix i assume "i \<in> set ids"
    then have "hd (Split (CHR ''/'') i) \<in> fst ` set devices" unfolding inv(2) by (rule imageI)
    with inv(3) show "map_of (dp_devices m) (hd (Split (CHR ''/'') i)) \<noteq> None" by fastforce
  qed
  have keys: "set (ordV 0 (map fst devices)) = fst ` set devices" using assms(3) by (metis mset_eq_setD set_map)
  have "set (pathsOf (dp_allocRdmaCM m) (ordV 0) devices) = (\<Union>(k, ps)\<in>set devices. set ps) \<union>
      (if dp_allocRdmaCM m then {rdmaCMDevice} else {})"
    unfolding pathsOf_def using set_values [OF inv(1) keys] by auto
  moreover have "(\<Union>(k, ps)\<in>set devices. set ps) =
      (\<Union>d\<in>{d. \<exists>i\<in>set ids. map_of (dp_devices m) (hd (Split (CHR ''/'') i)) = Some d}. set (info_DevPaths d))"
    (is "?l = ?r")
  proof
    show "?l \<subseteq> ?r"
    proof
      fix x assume "x \<in> ?l"
      then obtain k ps where kp: "(k, ps) \<in> set devices" "x \<in> set ps" by auto
      with inv(3) obtain d where d: "map_of (dp_devices m) k = Some d" "ps = info_DevPaths d" by blast
      from kp(1) have "k \<in> fst ` set devices" by force
      with inv(2) obtain i where "i \<in> set ids" "k = hd (Split (CHR ''/'') i)" by auto
      with d kp(2) show "x \<in> ?r" by blast
    qed
    show "?r \<subseteq> ?l"
    proof
      fix x assume "x \<in> ?r"
      then obtain i d where i: "i \<in> set ids" "map_of (dp_devices m) (hd (Split (CHR ''/'') i)) = Some d"
        and x: "x \<in> set (info_DevPaths d)" by blast
      from i(1) have "hd (Split (CHR ''/'') i) \<in> fst ` set devices" unfolding inv(2) by (rule imageI)
      then obtain ps where ps: "(hd (Split (CHR ''/'') i), ps) \<in> set devices" by force
      with inv(3) i(2) have "ps = info_DevPaths d" by fastforce
      with ps x show "x \<in> ?l" by blast
    qed
  qed
  moreover from r have "HostPath ` set (resp_Devices r) = set (pathsOf (dp_allocRdmaCM m) (ordV 0) devices)"
    by (auto simp: respond_def Let_def bindR_Ok_iff deviceSpec_def image_image split: if_splits)
  ultimately show "HostPath ` set (resp_Devices r) =
    (\<Union>d\<in>{d. \<exists>i\<in>set ids. map_of (dp_devices m) (hd (Split (CHR ''/'') i)) = Some d}. set (info_DevPaths d)) \<union>
    (if dp_allocRdmaCM m then {rdmaCMDevice} else {})" by simp
qed



end
