(* ===== verification/Plugin_Server.thy ===== *)
theory Plugin_Server
  imports Device_Plugin
begin

text \<open>
  internal/deviceplugin/deviceplugin.go again: \<open>cleanup\<close>, \<open>Register\<close> and the life cycle with the calls they make, to the
  directory of the plugin sockets, to the network and to the kubelet. \<open>Device_Plugin\<close> has the life cycle with
  the outcomes of these calls given; here it is shown that the server that makes the calls refines it.
\<close>

section \<open>Sockets and registration\<close>

text \<open>
  \<open>regexp.MustCompile(".*-erdma.sock").Match\<close>: the expression is not anchored and its dots match any character but a newline, so
  that a name matches if it has the text somewhere.
\<close>

definition sockAt :: "string \<Rightarrow> bool" where
  "sockAt s \<longleftrightarrow> take 6 s = ''-erdma'' \<and> 6 < length s \<and> s ! 6 \<noteq> CHR 0x0A \<and> take 4 (drop 7 s) = ''sock''"

fun matchSock :: "string \<Rightarrow> bool" where
  "matchSock [] = False"
| "matchSock (c # cs) = (sockAt (c # cs) \<or> matchSock cs)"

record RegisterRequest =
  rr_Version :: string
  rr_Endpoint :: string
  rr_ResourceName :: string
  rr_PreStartRequired :: bool

text \<open>
  The calls: \<open>os.ReadDir\<close> of the plugin directory and \<open>syscall.Unlink\<close> in it, \<open>net.Listen\<close>, \<open>os.Stat\<close> of
  the socket, dialing the kubelet and its method Register.
\<close>

record 'w pluginEnv =
  pe_ReadDir :: "('w, string list) act"
  pe_Unlink :: "string \<Rightarrow> ('w, unit) act"
  pe_Listen :: "string \<Rightarrow> ('w, unit) act"
  pe_Stat :: "string \<Rightarrow> ('w, sockStat) act"
  pe_Dial :: "('w, unit) act"
  pe_Register :: "RegisterRequest \<Rightarrow> ('w, unit) act"

text \<open>\<open>path.Base\<close> of a path that does not end with a slash.\<close>

definition pathBase :: "string \<Rightarrow> string" where
  "pathBase p = last (Split (CHR ''/'') p)"

definition registerRequest :: "ERDMADevicePlugin \<Rightarrow> RegisterRequest" where
  "registerRequest m = \<lparr> rr_Version = ''v1beta1'', rr_Endpoint = pathBase (dp_socket m), rr_ResourceName = ResourceName,
     rr_PreStartRequired = dp_devicepluginPreStart m \<rparr>"

definition Register :: "'w pluginEnv \<Rightarrow> RegisterRequest \<Rightarrow> ('w, unit) act" where
  "Register env request = bindA (pe_Dial env) (\<lambda>_. pe_Register env request)"

fun unlinkSocks :: "'w pluginEnv \<Rightarrow> string list \<Rightarrow> ('w, unit) act" where
  "unlinkSocks env [] = retA ()"
| "unlinkSocks env (preSock # preSocks) =
     bindA (if matchSock preSock then tryA (pe_Unlink env preSock) retA (\<lambda>err. retA ()) else retA ()) (\<lambda>_.
     unlinkSocks env preSocks)"

definition cleanup :: "'w pluginEnv \<Rightarrow> ('w, unit) act" where
  "cleanup env = bindA (pe_ReadDir env) (unlinkSocks env)"

section \<open>The server\<close>

text \<open>An error returned next to the plugin as it was left.\<close>

definition withErr :: "('w, unit) act \<Rightarrow> ERDMADevicePlugin \<Rightarrow> ('w, goerror option \<times> ERDMADevicePlugin) act
    \<Rightarrow> ('w, goerror option \<times> ERDMADevicePlugin) act" where
  "withErr m plugin rest = tryA m (\<lambda>_. rest) (\<lambda>err. retA (Some err, plugin))"

definition StartA :: "'w pluginEnv \<Rightarrow> ERDMADevicePlugin \<Rightarrow> ('w, goerror option \<times> ERDMADevicePlugin) act" where
  "StartA env m =
     bindA (liftR (if dp_server m then closeStop m else Ok m)) (\<lambda>m1.
     withErr (cleanup env) m1
       (withErr (pe_Listen env (dp_socket m1)) m1
         (retA (None, m1\<lparr> dp_server := True, dp_stopClosed := False \<rparr>))))"

definition StopA :: "'w pluginEnv \<Rightarrow> ERDMADevicePlugin \<Rightarrow> ('w, goerror option \<times> ERDMADevicePlugin) act" where
  "StopA env m =
     (if \<not> dp_server m then retA (None, m)
      else bindA (liftR (closeStop (m\<lparr> dp_server := False \<rparr>))) (\<lambda>m1.
        withErr (cleanup env) m1 (retA (None, m1))))"

text \<open>\<open>klog.Fatalf\<close> ends the process, which is a result here and not an error.\<close>

definition watchRoundA :: "'w pluginEnv \<Rightarrow> ERDMADevicePlugin \<Rightarrow> bool \<Rightarrow> ('w, process) act" where
  "watchRoundA env m reg =
     bindA (pe_Stat env (dp_socket m)) (\<lambda>st.
     case st of
       SockPresent \<Rightarrow> retA (Running m reg)
     | SockError err \<Rightarrow> retA (Fatal (Wrapf ''error stat socket: %+v'' [] err))
     | SockMissing \<Rightarrow>
         bindA (StopA env m) (\<lambda>(_, m1).
         bindA (StartA env m1) (\<lambda>(err, m2).
         case err of
           Some err \<Rightarrow> retA (Fatal (Wrapf ''error restart device plugin after kubelet restart %+v'' [] err))
         | None \<Rightarrow>
             tryA (Register env (registerRequest m2)) (\<lambda>_. retA (Running m2 True))
               (\<lambda>err. retA (Fatal (Wrapf ''error register device plugin after kubelet restart %+v'' [] err))))))"

definition ServeA :: "'w pluginEnv \<Rightarrow> ERDMADevicePlugin \<Rightarrow> ('w, process) act" where
  "ServeA env m =
     bindA (StartA env m) (\<lambda>(err, m1).
     case err of
       Some err \<Rightarrow> retA (Fatal (Wrapf ''Could not start device plugin: %v'' [] err))
     | None \<Rightarrow>
         tryA (Register env (registerRequest m1)) (\<lambda>_. retA (Running m1 True))
           (\<lambda>err. bindA (StopA env m1) (\<lambda>(stopErr, m2).
              case stopErr of
                Some err \<Rightarrow> retA (Fatal (Wrapf ''stop current device plugin server with error: %v'' [] err))
              | None \<Rightarrow> retA (Running m2 False))))"

text \<open>
  The process and the world it leaves; between the rounds of the watch loop anything may happen to the
  world (\<open>w1\<close> is the world a round finds).
\<close>

inductive servingA :: "'w pluginEnv \<Rightarrow> ERDMADevicePlugin \<Rightarrow> process res \<Rightarrow> bool" for env m0 where
  serve: "ServeA env m0 w = (p, w') \<Longrightarrow> servingA env m0 p"
| watch: "servingA env m0 (Ok (Running m reg)) \<Longrightarrow> watchRoundA env m reg w1 = (p, w') \<Longrightarrow> servingA env m0 p"

inductive_cases servingA_E: "servingA env m0 p"

section \<open>The calls are the outcomes\<close>

text \<open>The library calls return errors, they do not panic.\<close>

definition noPanic :: "('w, 'a) act \<Rightarrow> bool" where
  "noPanic m \<longleftrightarrow> (\<forall>w p w'. m w \<noteq> (Panic p, w'))"

definition envOk :: "'w pluginEnv \<Rightarrow> bool" where
  "envOk env \<longleftrightarrow> noPanic (pe_ReadDir env) \<and> (\<forall>f. noPanic (pe_Unlink env f)) \<and> (\<forall>s. noPanic (pe_Listen env s)) \<and>
     (\<forall>s w r w'. pe_Stat env s w = (r, w') \<longrightarrow> (\<exists>st. r = Ok st)) \<and> noPanic (pe_Dial env) \<and> (\<forall>r. noPanic (pe_Register env r))"

lemma noPanic_Pair [simp]: "noPanic (Pair (Ok x))" "noPanic (Pair (Err e))"
  by (simp_all add: noPanic_def)

lemma noPanic_bindA: "noPanic m \<Longrightarrow> (\<And>x. noPanic (f x)) \<Longrightarrow> noPanic (bindA m f)"
  by (auto simp: noPanic_def bindA_def split: prod.splits res.splits)

lemma noPanic_tryA: "noPanic m \<Longrightarrow> (\<And>x. noPanic (f x)) \<Longrightarrow> (\<And>e. noPanic (h e)) \<Longrightarrow> noPanic (tryA m f h)"
  by (auto simp: noPanic_def tryA_def split: prod.splits res.splits)

lemma noPanic_cases:
  assumes "noPanic m"
  obtains (ok) x w' where "m w = (Ok x, w')" | (err) e w' where "m w = (Err e, w')"
  using assms unfolding noPanic_def by (metis surj_pair res.exhaust)

lemma cleanup_noPanic: "envOk env \<Longrightarrow> noPanic (cleanup env)"
proof -
  assume env: "envOk env"
  have "noPanic (unlinkSocks env socks)" for socks
    using env by (induction socks) (auto simp: envOk_def intro!: noPanic_bindA noPanic_tryA)
  with env show ?thesis by (auto simp: cleanup_def envOk_def intro: noPanic_bindA)
qed

lemma Register_noPanic: "envOk env \<Longrightarrow> noPanic (Register env r)"
  by (auto simp: Register_def envOk_def intro: noPanic_bindA)

lemma withErr_cases:
  assumes "noPanic m"
  obtains (ok) w' where "withErr m plugin rest w = rest w'" | (err) e w' where "withErr m plugin rest w = (Ok (Some e, plugin), w')"
  using noPanic_cases [OF assms, of w] by (cases) (auto simp: withErr_def tryA_run)

section \<open>Refinement\<close>

lemma StartA_refines:
  assumes "envOk env"
  shows "\<exists>c l w'. \<forall>g. StartA env m w = (Start \<lparr> o_cleanup = c, o_listen = l, o_register = g \<rparr> m, w')"
proof (cases "if dp_server m then closeStop m else Ok m")
  case (Ok m1)
  let ?rest = "retA (None, m1\<lparr> dp_server := True, dp_stopClosed := False \<rparr>)"
  have start: "StartA env m w = withErr (cleanup env) m1 (withErr (pe_Listen env (dp_socket m1)) m1 ?rest) w"
    unfolding StartA_def Ok by simp
  have listen: "noPanic (pe_Listen env (dp_socket m1))" using assms by (simp add: envOk_def)
  show ?thesis
    using cleanup_noPanic [OF assms]
  proof (cases rule: withErr_cases [where plugin = m1 and rest = "withErr (pe_Listen env (dp_socket m1)) m1 ?rest" and w = w])
    case (ok w1)
    from listen show ?thesis
    proof (cases rule: withErr_cases [where plugin = m1 and rest = ?rest and w = w1])
      case (ok w2)
      with start \<open>withErr (cleanup env) m1 _ w = _\<close> show ?thesis
        by (intro exI [of _ None] exI [of _ w2]) (simp add: Start_def Ok)
    next
      case (err e w2)
      with start ok show ?thesis
        by (intro exI [of _ None] exI [of _ "Some e"] exI [of _ w2]) (simp add: Start_def Ok)
    qed
  next
    case (err e w1)
    with start show ?thesis by (intro exI [of _ "Some e"] exI [of _ None] exI [of _ w1]) (simp add: Start_def Ok)
  qed
next
  case (Err e)
  then show ?thesis by (simp add: closeStop_def split: if_splits)
next
  case (Panic p)
  then show ?thesis unfolding StartA_def Start_def by simp
qed

lemma StopA_refines:
  assumes "envOk env"
  shows "\<exists>c w'. \<forall>l g. StopA env m w = (Stop \<lparr> o_cleanup = c, o_listen = l, o_register = g \<rparr> m, w')"
proof (cases "dp_server m")
  case True
  show ?thesis
  proof (cases "closeStop (m\<lparr> dp_server := False \<rparr>)")
    case (Ok m1)
    have stop: "StopA env m w = withErr (cleanup env) m1 (retA (None, m1)) w" unfolding StopA_def Ok using True by simp
    from cleanup_noPanic [OF assms] show ?thesis
    proof (cases rule: withErr_cases [where plugin = m1 and rest = "retA (None, m1)" and w = w])
      case (ok w1)
      with stop True Ok show ?thesis by (intro exI [of _ None] exI [of _ w1]) (simp add: Stop_def)
    next
      case (err e w1)
      with stop True Ok show ?thesis by (intro exI [of _ "Some e"] exI [of _ w1]) (simp add: Stop_def)
    qed
  qed (use True in \<open>auto simp: StopA_def Stop_def closeStop_def split: if_splits\<close>)
qed (simp add: StopA_def Stop_def)

text \<open>The process of a result: a panic crashes it.\<close>

fun processOf :: "process res \<Rightarrow> process" where
  "processOf (Ok p) = p"
| "processOf (Err e) = Fatal e"
| "processOf (Panic p) = Crashed p"

lemma Start_not_Err [simp]: "Start out m \<noteq> Err e"
  by (auto simp: Start_def closeStop_def bindR_Err_iff split: option.splits)

lemma Stop_not_Err [simp]: "Stop out m \<noteq> Err e"
  by (auto simp: Stop_def closeStop_def bindR_Err_iff)

lemma ServeA_refines:
  assumes env: "envOk env" and run: "ServeA env m w = (r, w')"
  shows "\<exists>out outStop. processOf r = serveStart out outStop m"
proof -
  from StartA_refines [OF env, of m w] obtain c l w1
    where start: "\<And>g. StartA env m w = (Start \<lparr> o_cleanup = c, o_listen = l, o_register = g \<rparr> m, w1)" by blast
  show ?thesis
  proof (cases "\<exists>m1. StartA env m w = (Ok (None, m1), w1)")
    case True
    then obtain m1 where started: "StartA env m w = (Ok (None, m1), w1)" by blast
    from Register_noPanic [OF env, of "registerRequest m1"] show ?thesis
    proof (cases rule: noPanic_cases [where w = w1])
      case (ok x w2)
      with run started start [of None] show ?thesis
        by (intro exI [of _ "\<lparr> o_cleanup = c, o_listen = l, o_register = None \<rparr>"])
          (auto simp: ServeA_def serveStart_def bindA_run tryA_run)
    next
      case (err e w2)
      from StopA_refines [OF env, of m1 w2] obtain c' w3
        where "\<And>l g. StopA env m1 w2 = (Stop \<lparr> o_cleanup = c', o_listen = l, o_register = g \<rparr> m1, w3)" by blast
      then have stop: "StopA env m1 w2 = (Stop \<lparr> o_cleanup = c', o_listen = None, o_register = None \<rparr> m1, w3)" .
      with run started err start [of "Some e"] show ?thesis
        by (intro exI [of _ "\<lparr> o_cleanup = c, o_listen = l, o_register = Some e \<rparr>"]
            exI [of _ "\<lparr> o_cleanup = c', o_listen = None, o_register = None \<rparr>"])
          (auto simp: ServeA_def serveStart_def bindA_def tryA_def split: res.splits option.splits prod.splits)
    qed
  next
    case False
    with run start [of None] show ?thesis
      by (intro exI [of _ "\<lparr> o_cleanup = c, o_listen = l, o_register = None \<rparr>"])
        (auto simp: ServeA_def serveStart_def bindA_def split: res.splits option.splits prod.splits)
  qed
qed

lemma watchRoundA_refines:
  assumes env: "envOk env" and run: "watchRoundA env m reg w = (r, w')"
  shows "\<exists>st outStop outStart. processOf r = watchRound st outStop outStart m reg"
proof -
  from env obtain st w0 where st: "pe_Stat env (dp_socket m) w = (Ok st, w0)"
    unfolding envOk_def by (metis surj_pair)
  show ?thesis
  proof (cases "st = SockMissing")
    case False
    with run st show ?thesis
      by (intro exI [of _ st]) (auto simp: watchRoundA_def watchRound_def bindA_run split: sockStat.splits)
  next
    case True
    from StopA_refines [OF env, of m w0] obtain c w1
      where "\<And>l g. StopA env m w0 = (Stop \<lparr> o_cleanup = c, o_listen = l, o_register = g \<rparr> m, w1)" by blast
    then have stop: "StopA env m w0 = (Stop \<lparr> o_cleanup = c, o_listen = None, o_register = None \<rparr> m, w1)" (is "_ = (Stop ?s m, _)") .
    show ?thesis
    proof (cases "Stop ?s m")
      case (Ok em)
      then obtain e1 m1 where m1: "Stop ?s m = Ok (e1, m1)" by (cases em) auto
      from StartA_refines [OF env, of m1 w1] obtain c' l' w2
        where start: "\<And>g. StartA env m1 w1 = (Start \<lparr> o_cleanup = c', o_listen = l', o_register = g \<rparr> m1, w2)" by blast
      obtain g where g: "\<forall>m2. StartA env m1 w1 = (Ok (None, m2), w2) \<longrightarrow>
          processOf r = (case g of None \<Rightarrow> Running m2 True
            | Some err \<Rightarrow> Fatal (Wrapf ''error register device plugin after kubelet restart %+v'' [] err))"
      proof (cases "\<exists>m2. StartA env m1 w1 = (Ok (None, m2), w2)")
        case False
        then show thesis by (intro that) blast
      next
        case True
        then obtain m2 where started: "StartA env m1 w1 = (Ok (None, m2), w2)" by blast
        note steps = run st \<open>st = SockMissing\<close> stop m1 started
        from Register_noPanic [OF env, of "registerRequest m2"] show thesis
        proof (cases rule: noPanic_cases [where w = w2])
          case (ok x w3)
          with steps show thesis by (intro that [of None]) (auto simp: watchRoundA_def bindA_run tryA_run)
        next
          case (err e w3)
          with steps show thesis by (intro that [of "Some e"]) (auto simp: watchRoundA_def bindA_run tryA_run)
        qed
      qed
      from run st True stop m1 start [of g] g show ?thesis
        by (intro exI [of _ SockMissing] exI [of _ ?s] exI [of _ "\<lparr> o_cleanup = c', o_listen = l', o_register = g \<rparr>"])
          (auto simp: watchRoundA_def watchRound_def bindA_def split: res.splits option.splits prod.splits)
    next
      case (Panic p)
      with run st True stop show ?thesis
        by (intro exI [of _ SockMissing] exI [of _ ?s]) (auto simp: watchRoundA_def watchRound_def bindA_def)
    qed simp
  qed
qed

text \<open>
  C12: The server that makes its calls refines the life cycle whose outcomes are given: whatever the directory of the sockets, the
  network and the kubelet do, and whatever happens between the rounds of the watch, the process is one the
  life cycle reaches; for a new plugin it therefore never crashes.
\<close>

theorem server_refines_life_cycle:
  assumes "envOk env" and "servingA env m0 r"
  shows "serving m0 (processOf r) \<and> (\<not> dp_server m0 \<longrightarrow> (\<forall>p. r \<noteq> Panic p))"
proof -
  have "serving m0 (processOf r)"
    using assms(2)
  proof (induction rule: servingA.induct)
    case (serve w p w')
    with ServeA_refines [OF assms(1)] show ?case by (metis serving.serve)
  next
    case (watch m reg w1 p w')
    with watchRoundA_refines [OF assms(1)] show ?case by (metis processOf.simps(1) serving.watch)
  qed
  moreover from this serving_ok [of m0 "processOf r"] have "\<forall>p. r \<noteq> Panic p" if "\<not> dp_server m0"
    using that by (auto simp: processOk_def)
  ultimately show ?thesis by blast
qed

section \<open>Stale sockets\<close>

lemma matchSock_suffix: "matchSock xs \<Longrightarrow> matchSock (ys @ xs)"
  by (induction ys) auto

text \<open>The plugin's own socket is among those that \<open>cleanup\<close> removes.\<close>

lemma own_socket_matched:
  assumes "NewERDMADevicePlugin initCri now statCM devices allocAll preStart rdmaCM = Ok m"
  shows "matchSock (dp_socket m)"
proof -
  have "dp_socket m = ''/var/lib/kubelet/device-plugins/'' @ Itoa now @ ''-erdma.sock''"
    using assms by (auto simp: NewERDMADevicePlugin_def bindR_Ok_iff)
  moreover have "matchSock ''-erdma.sock''" by code_simp
  ultimately show ?thesis by (simp only: matchSock_suffix append_assoc [symmetric])
qed

text \<open>In a directory that works, \<open>cleanup\<close> removes exactly the sockets of eRDMA plugins.\<close>

lemma cleanup_exact:
  assumes "\<And>w. pe_ReadDir env w = (Ok (dir w), w)"
    and "\<And>f w. \<exists>w'. pe_Unlink env f w = (Ok (), w') \<and> dir w' = filter (\<lambda>x. x \<noteq> f) (dir w)"
  shows "\<exists>w'. cleanup env w = (Ok (), w') \<and> dir w' = filter (\<lambda>f. \<not> matchSock f) (dir w)"
proof -
  have "\<exists>w'. unlinkSocks env socks w = (Ok (), w') \<and> dir w' = filter (\<lambda>f. \<not> (f \<in> set socks \<and> matchSock f)) (dir w)" for socks w
  proof (induction socks arbitrary: w)
    case (Cons f socks)
    show ?case
    proof (cases "matchSock f")
      case True
      obtain w1 where u: "pe_Unlink env f w = (Ok (), w1)" and d: "dir w1 = filter (\<lambda>x. x \<noteq> f) (dir w)"
        using assms(2) by blast
      from Cons.IH [of w1] u d True show ?thesis by (auto simp: bindA_run tryA_run intro!: filter_cong)
    next
      case False
      with Cons.IH [of w] show ?thesis by (auto intro!: filter_cong)
    qed
  qed simp
  from this [of "dir w" w] assms(1) [of w] show ?thesis
    by (auto simp: cleanup_def bindA_run intro: filter_cong)
qed

section \<open>A small kubelet\<close>

text \<open>A directory of sockets with a kubelet that refuses a registration while the directory has another socket, for the witness.\<close>

definition exPluginEnv :: "string list pluginEnv" where
  "exPluginEnv = \<lparr> pe_ReadDir = (\<lambda>w. (Ok w, w)), pe_Unlink = (\<lambda>f w. (Ok (), filter (\<lambda>x. x \<noteq> f) w)),
     pe_Listen = (\<lambda>s w. (Ok (), w @ [pathBase s])),
     pe_Stat = (\<lambda>s w. (Ok (if pathBase s \<in> set w then SockPresent else SockMissing), w)),
     pe_Dial = Pair (Ok ()), pe_Register = (\<lambda>r w. (if w = [rr_Endpoint r] then Ok () else Err (ApiErr ''refused''), w)) \<rparr>"

lemma exPluginEnv_ok: "envOk exPluginEnv"
  by (auto simp: envOk_def noPanic_def exPluginEnv_def)

theorem server_refines_life_cycle_witness:
  "\<exists>m. serving (exPlugin False True) (Running m True) \<and> dp_server m"
proof -
  have "okMap (\<lambda>p. case p of Running m reg \<Rightarrow> (reg, dp_server m) | _ \<Rightarrow> (False, False))
      (ServeA exPluginEnv (exPlugin False True) [''3-erdma.sock'']) = Some (True, True)"
    by code_simp
  then obtain m w' where run: "ServeA exPluginEnv (exPlugin False True) [''3-erdma.sock''] = (Ok (Running m True), w')"
    and up: "dp_server m"
    by (rule okMap_SomeE) (auto split: process.splits)
  from run have "servingA exPluginEnv (exPlugin False True) (Ok (Running m True))" by (rule servingA.serve)
  from server_refines_life_cycle [OF exPluginEnv_ok this] up show ?thesis by auto
qed

end
