(* ===== verification/Runtime_Service.thy ===== *)
theory Runtime_Service
  imports Erdma_Config
begin

text \<open>
  internal/deviceplugin/pod\_config.go, the client of the container runtime: choice of the CRI version and
  the methods of \<open>remoteRuntimeService\<close> that make calls. The gRPC stubs and the dialer are parameters. The two
  versions of the API have messages of the same layout, between which the code casts pointers; here both stubs
  speak the same records. Of the messages the fields the code reads are modelled, statistics are text.
\<close>

section \<open>Messages and stubs\<close>

record VersionResponse =
  vr_Version :: string
  vr_RuntimeName :: string
  vr_RuntimeVersion :: string
  vr_RuntimeApiVersion :: string

text \<open>The conditions of the runtime; None when the status is nil.\<close>

type_synonym StatusResponse = "string list option"

record SandboxMetadata =
  sm_Name :: string
  sm_Namespace :: string
  sm_Uid :: string

record PodSandbox =
  sb_Id :: string
  sb_Metadata :: "SandboxMetadata option"
  sb_Ready :: bool

datatype NamespaceMode = NS_POD | NS_CONTAINER | NS_NODE | NS_TARGET

text \<open>
  \<open>ss_Network\<close> is the field \<open>Linux.Namespaces.Options.Network\<close>; None when a pointer on the way to it is nil.
\<close>

record SandboxStatus =
  ss_Id :: string
  ss_Metadata :: "SandboxMetadata option"
  ss_CreatedAt :: int
  ss_Network :: "NamespaceMode option"

record PodSandboxStatusResponse =
  psr_Status :: "SandboxStatus option"
  psr_Info :: "(string \<times> string) list"

record CtrStatus =
  cs_Id :: string
  cs_Metadata :: "string option"
  cs_CreatedAt :: int
  cs_Image :: "string option"
  cs_ImageRef :: string

type_synonym ContainerStatusResponse = "CtrStatus option"

record 'w RuntimeServiceClient =
  rc_Version :: "string \<Rightarrow> ('w, VersionResponse) act"
  rc_Status :: "bool \<Rightarrow> ('w, StatusResponse) act"
  rc_PodSandboxStatus :: "string \<Rightarrow> bool \<Rightarrow> ('w, PodSandboxStatusResponse) act"
  rc_PodSandboxStats :: "string \<Rightarrow> ('w, string) act"
  rc_ListPodSandboxStats :: "string option \<Rightarrow> ('w, string list) act"
  rc_ListPodSandbox :: "string option \<Rightarrow> ('w, PodSandbox list) act"
  rc_ListContainers :: "string option \<Rightarrow> ('w, string list) act"
  rc_ListContainerStats :: "string option \<Rightarrow> ('w, string list) act"
  rc_ContainerStatus :: "string \<Rightarrow> ('w, ContainerStatusResponse) act"

record 'w remoteRuntimeService =
  rs_runtimeClient :: "'w RuntimeServiceClient"
  rs_runtimeClientV1alpha2 :: "'w RuntimeServiceClient option"

section \<open>Verification of responses\<close>

definition verifySandboxStatus :: "SandboxStatus \<Rightarrow> goerror option" where
  "verifySandboxStatus status =
     (if ss_Id status = [] then Some (Errorf ''status.Id is not set'' [])
      else case ss_Metadata status of
        None \<Rightarrow> Some (Errorf ''status.Metadata is not set'' [])
      | Some metadata \<Rightarrow>
          if sm_Name metadata = [] \<or> sm_Namespace metadata = [] \<or> sm_Uid metadata = []
          then Some (Errorf ''metadata.Name, metadata.Namespace or metadata.Uid is not in metadata %q''
                       [sm_Name metadata, sm_Namespace metadata, sm_Uid metadata])
          else if ss_CreatedAt status = 0 then Some (Errorf ''status.CreatedAt is not set'' [])
          else None)"

definition verifyContainerStatus :: "CtrStatus \<Rightarrow> goerror option" where
  "verifyContainerStatus status =
     (if cs_Id status = [] then Some (Errorf ''status.Id is not set'' [])
      else case cs_Metadata status of
        None \<Rightarrow> Some (Errorf ''status.Metadata is not set'' [])
      | Some name \<Rightarrow>
          if name = [] then Some (Errorf ''metadata.Name is not in metadata %q'' [name])
          else if cs_CreatedAt status = 0 then Some (Errorf ''status.CreatedAt is not set'' [])
          else if cs_Image status = None \<or> cs_Image status = Some [] then Some (Errorf ''status.Image is not set'' [])
          else if cs_ImageRef status = [] then Some (Errorf ''status.ImageRef is not set'' [])
          else None)"

text \<open>\<open>if x != nil { if err := verify(x); err != nil { return err } }\<close> before the result is returned.\<close>

definition verified :: "('s \<Rightarrow> goerror option) \<Rightarrow> ('r \<Rightarrow> 's option) \<Rightarrow> 'r \<Rightarrow> ('w, 'r) act" where
  "verified verify status resp =
     (case status resp of
        None \<Rightarrow> retA resp
      | Some st \<Rightarrow> (case verify st of Some err \<Rightarrow> failA err | None \<Rightarrow> retA resp))"

section \<open>Methods\<close>

definition useV1API :: "'w remoteRuntimeService \<Rightarrow> bool" where
  "useV1API r \<longleftrightarrow> rs_runtimeClientV1alpha2 r = None"

text \<open>The stub of the older version; using it while it is nil would panic.\<close>

definition alpha :: "'w remoteRuntimeService \<Rightarrow> ('w RuntimeServiceClient \<Rightarrow> ('w, 'a) act) \<Rightarrow> ('w, 'a) act" where
  "alpha r call = bindA (liftR (deref (rs_runtimeClientV1alpha2 r))) call"

definition checkVersion :: "VersionResponse \<Rightarrow> ('w, VersionResponse) act" where
  "checkVersion v =
     (if vr_Version v = [] \<or> vr_RuntimeName v = [] \<or> vr_RuntimeApiVersion v = [] \<or> vr_RuntimeVersion v = []
      then failA (Errorf ''not all fields are set in VersionResponse (%q)''
             [vr_Version v, vr_RuntimeName v, vr_RuntimeVersion v, vr_RuntimeApiVersion v])
      else retA v)"

definition versionV1 :: "'w remoteRuntimeService \<Rightarrow> string \<Rightarrow> ('w, VersionResponse) act" where
  "versionV1 r apiVersion = bindA (rc_Version (rs_runtimeClient r) apiVersion) checkVersion"

definition versionV1alpha2 :: "'w remoteRuntimeService \<Rightarrow> string \<Rightarrow> ('w, VersionResponse) act" where
  "versionV1alpha2 r apiVersion = alpha r (\<lambda>c. bindA (rc_Version c apiVersion) checkVersion)"

definition Version :: "'w remoteRuntimeService \<Rightarrow> string \<Rightarrow> ('w, VersionResponse) act" where
  "Version r apiVersion = (if useV1API r then versionV1 r apiVersion else versionV1alpha2 r apiVersion)"

definition checkConditions :: "StatusResponse \<Rightarrow> ('w, StatusResponse) act" where
  "checkConditions resp =
     (if resp = None \<or> length (the resp) < 2
      then failA (Errorf ''RuntimeReady or NetworkReady condition are not set'' []) else retA resp)"

definition statusV1 :: "'w remoteRuntimeService \<Rightarrow> bool \<Rightarrow> ('w, StatusResponse) act" where
  "statusV1 r verbose = bindA (rc_Status (rs_runtimeClient r) verbose) checkConditions"

definition statusV1alpha2 :: "'w remoteRuntimeService \<Rightarrow> bool \<Rightarrow> ('w, StatusResponse) act" where
  "statusV1alpha2 r verbose = alpha r (\<lambda>c. bindA (rc_Status c verbose) checkConditions)"

definition Status :: "'w remoteRuntimeService \<Rightarrow> bool \<Rightarrow> ('w, StatusResponse) act" where
  "Status r verbose = (if useV1API r then statusV1 r verbose else statusV1alpha2 r verbose)"

definition podSandboxStatusV1 :: "'w remoteRuntimeService \<Rightarrow> string \<Rightarrow> bool \<Rightarrow> ('w, PodSandboxStatusResponse) act" where
  "podSandboxStatusV1 r podSandBoxID verbose =
     bindA (rc_PodSandboxStatus (rs_runtimeClient r) podSandBoxID verbose) (verified verifySandboxStatus psr_Status)"

definition podSandboxStatusV1alpha2 :: "'w remoteRuntimeService \<Rightarrow> string \<Rightarrow> bool \<Rightarrow> ('w, PodSandboxStatusResponse) act" where
  "podSandboxStatusV1alpha2 r podSandBoxID verbose =
     alpha r (\<lambda>c. bindA (rc_PodSandboxStatus c podSandBoxID verbose) (verified verifySandboxStatus psr_Status))"

definition PodSandboxStatus :: "'w remoteRuntimeService \<Rightarrow> string \<Rightarrow> bool \<Rightarrow> ('w, PodSandboxStatusResponse) act" where
  "PodSandboxStatus r podSandBoxID verbose =
     (if useV1API r then podSandboxStatusV1 r podSandBoxID verbose else podSandboxStatusV1alpha2 r podSandBoxID verbose)"

definition containerStatusV1 :: "'w remoteRuntimeService \<Rightarrow> string \<Rightarrow> ('w, ContainerStatusResponse) act" where
  "containerStatusV1 r containerID =
     bindA (rc_ContainerStatus (rs_runtimeClient r) containerID) (verified verifyContainerStatus (\<lambda>x. x))"

definition containerStatusV1alpha2 :: "'w remoteRuntimeService \<Rightarrow> string \<Rightarrow> ('w, ContainerStatusResponse) act" where
  "containerStatusV1alpha2 r containerID =
     alpha r (\<lambda>c. bindA (rc_ContainerStatus c containerID) (verified verifyContainerStatus (\<lambda>x. x)))"

definition ContainerStatus :: "'w remoteRuntimeService \<Rightarrow> string \<Rightarrow> ('w, ContainerStatusResponse) act" where
  "ContainerStatus r containerID =
     (if useV1API r then containerStatusV1 r containerID else containerStatusV1alpha2 r containerID)"

text \<open>The calls that return the response as it is.\<close>

definition podSandboxStatsV1 :: "'w remoteRuntimeService \<Rightarrow> string \<Rightarrow> ('w, string) act" where
  "podSandboxStatsV1 r podSandboxID = rc_PodSandboxStats (rs_runtimeClient r) podSandboxID"

definition podSandboxStatsV1alpha2 :: "'w remoteRuntimeService \<Rightarrow> string \<Rightarrow> ('w, string) act" where
  "podSandboxStatsV1alpha2 r podSandboxID = alpha r (\<lambda>c. rc_PodSandboxStats c podSandboxID)"

definition PodSandboxStats :: "'w remoteRuntimeService \<Rightarrow> string \<Rightarrow> ('w, string) act" where
  "PodSandboxStats r podSandboxID = (if useV1API r then podSandboxStatsV1 r podSandboxID else podSandboxStatsV1alpha2 r podSandboxID)"

definition listPodSandboxStatsV1 :: "'w remoteRuntimeService \<Rightarrow> string option \<Rightarrow> ('w, string list) act" where
  "listPodSandboxStatsV1 r flt = rc_ListPodSandboxStats (rs_runtimeClient r) flt"

definition listPodSandboxStatsV1alpha2 :: "'w remoteRuntimeService \<Rightarrow> string option \<Rightarrow> ('w, string list) act" where
  "listPodSandboxStatsV1alpha2 r flt = alpha r (\<lambda>c. rc_ListPodSandboxStats c flt)"

definition ListPodSandboxStats :: "'w remoteRuntimeService \<Rightarrow> string option \<Rightarrow> ('w, string list) act" where
  "ListPodSandboxStats r flt = (if useV1API r then listPodSandboxStatsV1 r flt else listPodSandboxStatsV1alpha2 r flt)"

definition listPodSandboxV1 :: "'w remoteRuntimeService \<Rightarrow> string option \<Rightarrow> ('w, PodSandbox list) act" where
  "listPodSandboxV1 r flt = rc_ListPodSandbox (rs_runtimeClient r) flt"

definition listPodSandboxV1alpha2 :: "'w remoteRuntimeService \<Rightarrow> string option \<Rightarrow> ('w, PodSandbox list) act" where
  "listPodSandboxV1alpha2 r flt = alpha r (\<lambda>c. rc_ListPodSandbox c flt)"

definition ListPodSandbox :: "'w remoteRuntimeService \<Rightarrow> string option \<Rightarrow> ('w, PodSandbox list) act" where
  "ListPodSandbox r flt = (if useV1API r then listPodSandboxV1 r flt else listPodSandboxV1alpha2 r flt)"

definition listContainersV1 :: "'w remoteRuntimeService \<Rightarrow> string option \<Rightarrow> ('w, string list) act" where
  "listContainersV1 r flt = rc_ListContainers (rs_runtimeClient r) flt"

definition listContainersV1alpha2 :: "'w remoteRuntimeService \<Rightarrow> string option \<Rightarrow> ('w, string list) act" where
  "listContainersV1alpha2 r flt = alpha r (\<lambda>c. rc_ListContainers c flt)"

definition ListContainers :: "'w remoteRuntimeService \<Rightarrow> string option \<Rightarrow> ('w, string list) act" where
  "ListContainers r flt = (if useV1API r then listContainersV1 r flt else listContainersV1alpha2 r flt)"

definition listContainerStatsV1 :: "'w remoteRuntimeService \<Rightarrow> string option \<Rightarrow> ('w, string list) act" where
  "listContainerStatsV1 r flt = rc_ListContainerStats (rs_runtimeClient r) flt"

definition listContainerStatsV1alpha2 :: "'w remoteRuntimeService \<Rightarrow> string option \<Rightarrow> ('w, string list) act" where
  "listContainerStatsV1alpha2 r flt = alpha r (\<lambda>c. rc_ListContainerStats c flt)"

definition ListContainerStats :: "'w remoteRuntimeService \<Rightarrow> string option \<Rightarrow> ('w, string list) act" where
  "ListContainerStats r flt = (if useV1API r then listContainerStatsV1 r flt else listContainerStatsV1alpha2 r flt)"

section \<open>Connecting\<close>

record URL =
  u_Scheme :: string
  u_Host :: string
  u_Path :: string

text \<open>
  What connecting uses: \<open>url.Parse\<close>, the dialer (which gives the stubs of both versions on one connection), the test
  for the gRPC code Unimplemented, \<open>os.Stat\<close>, the environment variable RUNTIME\_SOCK and the
  constructor of the docker client, of type \<open>'d\<close>.
\<close>

record ('w, 'd) runtimeEnv =
  re_ParseURL :: "string \<Rightarrow> URL res"
  re_Dial :: "string \<Rightarrow> ('w, 'w RuntimeServiceClient \<times> 'w RuntimeServiceClient) act"
  re_Unimplemented :: "goerror \<Rightarrow> bool"
  re_Stat :: "string \<Rightarrow> ('w, unit) act"
  re_RuntimeSock :: "string option"
  re_NewDocker :: "('w, 'd) act"

definition unixProtocol :: string where "unixProtocol = ''unix''"
definition dockerShimSocket :: string where "dockerShimSocket = ''/var/run/dockershim.sock''"
definition runtimeEndpoints :: "string list" where
  "runtimeEndpoints = [dockerShimSocket, ''/run/containerd/containerd.sock'', ''/run/k3s/containerd/containerd.sock'',
     ''/var/run/cri-dockerd.sock'']"

text \<open>The protocol, which the caller looks at also when there is an error, the address, and the error.\<close>

definition parseEndpoint :: "(string \<Rightarrow> URL res) \<Rightarrow> string \<Rightarrow> (string \<times> string \<times> goerror option) res" where
  "parseEndpoint parse endpoint =
     (case parse endpoint of
        Panic p \<Rightarrow> Panic p
      | Err err \<Rightarrow> Ok ([], [], Some err)
      | Ok u \<Rightarrow> Ok
          (if u_Scheme u = ''tcp'' then (''tcp'', u_Host u, None)
           else if u_Scheme u = ''unix'' then (''unix'', u_Path u, None)
           else if u_Scheme u = [] then
             ([], [], Some (Errorf ''using %q as endpoint is deprecated, please consider using full url format'' [endpoint]))
           else (u_Scheme u, [], Some (Errorf ''protocol %q not supported'' [u_Scheme u]))))"

definition parseEndpointWithFallbackProtocol :: "(string \<Rightarrow> URL res) \<Rightarrow> string \<Rightarrow> string
    \<Rightarrow> (string \<times> string \<times> goerror option) res" where
  "parseEndpointWithFallbackProtocol parse endpoint fallbackProtocol =
     bindR (parseEndpoint parse endpoint) (\<lambda>(protocol, addr, err).
       if err \<noteq> None \<and> protocol = [] then parseEndpoint parse (fallbackProtocol @ ''://'' @ endpoint)
       else Ok (protocol, addr, err))"

definition GetAddressAndDialer :: "(string \<Rightarrow> URL res) \<Rightarrow> string \<Rightarrow> string res" where
  "GetAddressAndDialer parse endpoint =
     bindR (parseEndpointWithFallbackProtocol parse endpoint unixProtocol) (\<lambda>(protocol, addr, err).
       case err of Some e \<Rightarrow> Err e
       | None \<Rightarrow> if protocol \<noteq> unixProtocol then Err (Errorf ''only support unix socket endpoint'' []) else Ok addr)"

definition getConnection :: "('w, 'd) runtimeEnv \<Rightarrow> string
    \<Rightarrow> ('w, 'w RuntimeServiceClient \<times> 'w RuntimeServiceClient) act" where
  "getConnection env endPoint =
     bindA (liftR (GetAddressAndDialer (re_ParseURL env) endPoint)) (\<lambda>addr.
     tryA (re_Dial env addr) retA
       (\<lambda>err. failA (Errorf ''connect endpoint '%s', make sure you are running as root and the endpoint has been started'' [endPoint])))"

definition determineAPIVersion :: "('w, 'd) runtimeEnv \<Rightarrow> 'w RuntimeServiceClient \<times> 'w RuntimeServiceClient
    \<Rightarrow> ('w, 'w remoteRuntimeService) act" where
  "determineAPIVersion env conn =
     tryA (rc_Version (fst conn) [])
       (\<lambda>_. retA \<lparr> rs_runtimeClient = fst conn, rs_runtimeClientV1alpha2 = None \<rparr>)
       (\<lambda>err. if re_Unimplemented env err
          then retA \<lparr> rs_runtimeClient = fst conn, rs_runtimeClientV1alpha2 = Some (snd conn) \<rparr>
          else failA (Wrapf ''unable to determine runtime API version: %w'' [] err))"

definition NewRemoteRuntimeService :: "('w, 'd) runtimeEnv \<Rightarrow> string \<Rightarrow> ('w, 'w remoteRuntimeService) act" where
  "NewRemoteRuntimeService env endpoint = bindA (getConnection env endpoint) (determineAPIVersion env)"

section \<open>The package's clients\<close>

text \<open>The package variables \<open>criClient\<close> and \<open>dockerClient\<close>; None is nil.\<close>

record ('w, 'd) clients =
  criClient :: "'w remoteRuntimeService option"
  dockerClient :: "'d option"

text \<open>
  Assignments to package variables survive an error, so that each function below returns its error, if any,
  together with the variables.
\<close>

definition initDockerClient :: "('w, 'd) runtimeEnv \<Rightarrow> ('w, 'd) clients \<Rightarrow> ('w, goerror option \<times> ('w, 'd) clients) act" where
  "initDockerClient env cl =
     tryA (re_NewDocker env) (\<lambda>d. retA (None, cl\<lparr> dockerClient := Some d \<rparr>))
       (\<lambda>err. retA (Some err, cl\<lparr> dockerClient := None \<rparr>))"

text \<open>Whether a socket is missing; other failures of \<open>os.Stat\<close> are ignored.\<close>

definition sockMissing :: "('w, 'd) runtimeEnv \<Rightarrow> string \<Rightarrow> ('w, bool) act" where
  "sockMissing env sock = tryA (re_Stat env sock) (\<lambda>_. retA False) (\<lambda>err. retA (isNotExist err))"

text \<open>One round of the loop: whether the candidate is taken.\<close>

definition tryCandidate :: "('w, 'd) runtimeEnv \<Rightarrow> string \<Rightarrow> ('w, 'd) clients \<Rightarrow> ('w, bool \<times> ('w, 'd) clients) act" where
  "tryCandidate env candidate cl =
     bindA (sockMissing env candidate) (\<lambda>missing.
     if missing then retA (False, cl)
     else tryA (NewRemoteRuntimeService env candidate)
       (\<lambda>svc. if candidate = dockerShimSocket
          then bindA (initDockerClient env (cl\<lparr> criClient := Some svc \<rparr>)) (\<lambda>(err, cl1). retA (err = None, cl1))
          else retA (True, cl\<lparr> criClient := Some svc \<rparr>))
       (\<lambda>err. retA (False, cl\<lparr> criClient := None \<rparr>)))"

fun tryEndpoints :: "('w, 'd) runtimeEnv \<Rightarrow> string list \<Rightarrow> string list \<Rightarrow> ('w, 'd) clients
    \<Rightarrow> ('w, goerror option \<times> ('w, 'd) clients) act" where
  "tryEndpoints env eps [] cl = retA (Some (Errorf ''cannot find valid cri sock in %s'' [Join '','' eps]), cl)"
| "tryEndpoints env eps (candidate # candidates) cl =
     bindA (tryCandidate env candidate cl) (\<lambda>(taken, cl1).
       if taken then retA (None, cl1) else tryEndpoints env eps candidates cl1)"

definition initCriClient :: "('w, 'd) runtimeEnv \<Rightarrow> string list \<Rightarrow> ('w, 'd) clients
    \<Rightarrow> ('w, goerror option \<times> ('w, 'd) clients) act" where
  "initCriClient env eps cl =
     (if criClient cl \<noteq> None then retA (None, cl)
      else case re_RuntimeSock env of
        None \<Rightarrow> tryEndpoints env eps eps cl
      | Some sock \<Rightarrow>
          bindA (sockMissing env sock) (\<lambda>missing.
          if missing then retA (Some (Errorf ''cannot find cri sock %s'' [sock]), cl)
          else tryA (NewRemoteRuntimeService env sock)
            (\<lambda>svc. let cl1 = cl\<lparr> criClient := Some svc \<rparr> in
               if sock = dockerShimSocket then initDockerClient env cl1 else retA (None, cl1))
            (\<lambda>err. retA (Some (Wrapf ''connect cri sock %s error: %w'' [sock] err), cl\<lparr> criClient := None \<rparr>))))"

section \<open>Both versions behave alike\<close>

text \<open>A service on the older version is a service on the newer one with that stub.\<close>

lemma versions_agree:
  fixes c0 c :: "'w RuntimeServiceClient"
  defines "old \<equiv> \<lparr> rs_runtimeClient = c0, rs_runtimeClientV1alpha2 = Some c \<rparr>"
    and "new \<equiv> \<lparr> rs_runtimeClient = c, rs_runtimeClientV1alpha2 = None \<rparr>"
  shows "Version old = Version new" and "Status old = Status new" and "PodSandboxStatus old = PodSandboxStatus new"
    and "ContainerStatus old = ContainerStatus new" and "PodSandboxStats old = PodSandboxStats new"
    and "ListPodSandboxStats old = ListPodSandboxStats new" and "ListPodSandbox old = ListPodSandbox new"
    and "ListContainers old = ListContainers new" and "ListContainerStats old = ListContainerStats new"
  unfolding old_def new_def
  by (simp_all add: fun_eq_iff useV1API_def alpha_def Version_def versionV1_def versionV1alpha2_def
      Status_def statusV1_def statusV1alpha2_def PodSandboxStatus_def podSandboxStatusV1_def podSandboxStatusV1alpha2_def
      ContainerStatus_def containerStatusV1_def containerStatusV1alpha2_def PodSandboxStats_def ListPodSandboxStats_def
      ListPodSandbox_def ListContainers_def ListContainerStats_def podSandboxStatsV1_def podSandboxStatsV1alpha2_def
      listPodSandboxStatsV1_def listPodSandboxStatsV1alpha2_def listPodSandboxV1_def listPodSandboxV1alpha2_def listContainersV1_def
      listContainersV1alpha2_def listContainerStatsV1_def listContainerStatsV1alpha2_def)

text \<open>A status that is returned has its identity set.\<close>

lemma PodSandboxStatus_verified:
  assumes "PodSandboxStatus r sid verbose w = (Ok resp, w')" and "psr_Status resp = Some st"
  shows "verifySandboxStatus st = None"
  using assms by (auto simp: PodSandboxStatus_def podSandboxStatusV1_def podSandboxStatusV1alpha2_def alpha_def verified_def
      elim!: bindA_OkE split: if_splits option.splits)

section \<open>A client that was set up can be used\<close>

text \<open>The socket of a service, and that the docker client is there exactly for the docker shim.\<close>

definition connected :: "('w, 'd) runtimeEnv \<Rightarrow> string \<Rightarrow> ('w, 'd) clients \<Rightarrow> bool" where
  "connected env sock cl \<longleftrightarrow> (\<exists>svc w w'. criClient cl = Some svc \<and> NewRemoteRuntimeService env sock w = (Ok svc, w')) \<and>
     (dockerClient cl \<noteq> None \<longleftrightarrow> sock = dockerShimSocket)"

lemma initDockerClient_run:
  assumes "initDockerClient env cl w = (Ok (err, cl'), w')"
  shows "criClient cl' = criClient cl \<and> (dockerClient cl' = None \<longleftrightarrow> err \<noteq> None)"
  using assms by (auto simp: initDockerClient_def elim!: tryA_OkE)

lemma connectedI:
  assumes "NewRemoteRuntimeService env sock w = (Ok svc, w')" and "criClient cl = Some svc"
    and "dockerClient cl \<noteq> None \<longleftrightarrow> sock = dockerShimSocket"
  shows "connected env sock cl"
  using assms unfolding connected_def by blast

lemma tryCandidate_connected:
  assumes "tryCandidate env c cl w = (Ok (taken, cl'), w')" and "dockerClient cl = None"
  shows "if taken then connected env c cl' else dockerClient cl' = None"
  using assms unfolding tryCandidate_def
  by (auto elim!: bindA_OkE tryA_OkE split: if_splits dest!: initDockerClient_run) (auto dest!: connectedI)

lemma tryEndpoints_connected:
  "tryEndpoints env eps cs cl w = (Ok (None, cl'), w') \<Longrightarrow> dockerClient cl = None \<Longrightarrow> \<exists>sock\<in>set cs. connected env sock cl'"
proof (induction cs arbitrary: cl w)
  case (Cons c cs)
  from Cons.prems(1) obtain taken cl1 w1 where c: "tryCandidate env c cl w = (Ok (taken, cl1), w1)"
    and r: "(if taken then retA (None, cl1) else tryEndpoints env eps cs cl1) w1 = (Ok (None, cl'), w')"
    by (auto elim!: bindA_OkE)
  from tryCandidate_connected [OF c Cons.prems(2)] r Cons.IH [of cl1 w1] show ?case by (cases taken) auto
qed simp

text \<open>
  C20: When the set-up of the runtime clients succeeds, there is a client of the container runtime, connected to one
  of the candidate sockets (the one of the environment variable if it is set), and the docker client
  is there exactly when that socket is the docker shim's, also when earlier candidates failed.
\<close>

theorem runtime_client_usable:
  assumes "initCriClient env eps \<lparr> criClient = None, dockerClient = None \<rparr> w = (Ok (None, cl), w')"
  shows "\<exists>sock. connected env sock cl \<and> (case re_RuntimeSock env of Some s \<Rightarrow> sock = s | None \<Rightarrow> sock \<in> set eps)"
proof (cases "re_RuntimeSock env")
  case None
  with assms tryEndpoints_connected show ?thesis by (force simp: initCriClient_def)
next
  case (Some s)
  with assms obtain svc w1 w2 where "NewRemoteRuntimeService env s w1 = (Ok svc, w2)"
    and "(if s = dockerShimSocket then initDockerClient env \<lparr> criClient = Some svc, dockerClient = None \<rparr>
      else retA (None, \<lparr> criClient = Some svc, dockerClient = None \<rparr>)) w2 = (Ok (None, cl), w')"
    by (auto simp: initCriClient_def Let_def elim!: bindA_OkE tryA_OkE split: if_splits)
  then have "connected env s cl"
    by (auto dest!: initDockerClient_run connectedI split: if_splits)
  with Some show ?thesis by auto
qed

section \<open>A small runtime\<close>

text \<open>A node with a containerd that speaks the older API, for the witnesses.\<close>

definition exSandbox :: PodSandbox where
  "exSandbox = \<lparr> sb_Id = ''sb-1'', sb_Metadata = Some \<lparr> sm_Name = ''app'', sm_Namespace = ''default'', sm_Uid = ''u-7'' \<rparr>, sb_Ready = True \<rparr>"

definition exStub :: "bool \<Rightarrow> 'w RuntimeServiceClient" where
  "exStub known = \<lparr> rc_Version = (\<lambda>v. Pair (if known then Ok \<lparr> vr_Version = ''0.1.0'', vr_RuntimeName = ''containerd'',
       vr_RuntimeVersion = ''1.5'', vr_RuntimeApiVersion = ''v1alpha2'' \<rparr> else Err (ApiErr ''unimplemented''))),
     rc_Status = (\<lambda>v. Pair (Ok (Some [''RuntimeReady'', ''NetworkReady'']))),
     rc_PodSandboxStatus = (\<lambda>i v. Pair (Ok \<lparr> psr_Status = Some \<lparr> ss_Id = i, ss_Metadata = sb_Metadata exSandbox,
       ss_CreatedAt = 1, ss_Network = Some NS_POD \<rparr>, psr_Info = [(''info'', ''{}'')] \<rparr>)),
     rc_PodSandboxStats = (\<lambda>i. Pair (Ok [])), rc_ListPodSandboxStats = (\<lambda>f. Pair (Ok [])),
     rc_ListPodSandbox = (\<lambda>f. Pair (Ok [exSandbox])), rc_ListContainers = (\<lambda>f. Pair (Ok [])),
     rc_ListContainerStats = (\<lambda>f. Pair (Ok [])), rc_ContainerStatus = (\<lambda>i. Pair (Ok None)) \<rparr>"

text \<open>\<open>url.Parse\<close> on an absolute path and on a unix URL.\<close>

definition exParseURL :: "string \<Rightarrow> URL res" where
  "exParseURL s = (if take 7 s = ''unix://'' then Ok \<lparr> u_Scheme = ''unix'', u_Host = [], u_Path = drop 7 s \<rparr>
     else Ok \<lparr> u_Scheme = [], u_Host = [], u_Path = s \<rparr>)"

definition exRuntime :: "('w, string) runtimeEnv" where
  "exRuntime = \<lparr> re_ParseURL = exParseURL, re_Dial = (\<lambda>a. Pair (Ok (exStub False, exStub True))),
     re_Unimplemented = (\<lambda>e. e = ApiErr ''unimplemented''),
     re_Stat = (\<lambda>f. Pair (if f = ''/run/containerd/containerd.sock'' then Ok () else Err (NotFound f))),
     re_RuntimeSock = None, re_NewDocker = Pair (Ok ''docker'') \<rparr>"

lemma exRuntime_init:
  "okMap fst (initCriClient exRuntime runtimeEndpoints \<lparr> criClient = None, dockerClient = None \<rparr> w) = Some None"
  by code_simp

theorem runtime_client_usable_witness:
  "\<exists>cl sock. initCriClient exRuntime runtimeEndpoints \<lparr> criClient = None, dockerClient = None \<rparr> () = (Ok (None, cl), ()) \<and>
     connected exRuntime sock cl \<and> sock \<in> set runtimeEndpoints"
proof -
  from exRuntime_init [of "()"] obtain cl
    where run: "initCriClient exRuntime runtimeEndpoints \<lparr> criClient = None, dockerClient = None \<rparr> () = (Ok (None, cl), ())"
    by (auto elim!: okMap_SomeE)
  from runtime_client_usable [OF run] run show ?thesis by (auto simp: exRuntime_def)
qed

end
