(* ===== verification/Pod_Config.thy ===== *)
theory Pod_Config
  imports Runtime_Service Device_Plugin
begin

text \<open>
  What happens before a container with an eRDMA device starts: internal/deviceplugin/pod\_resource.go (which pod
  holds a device), the function \<open>getPodConfig\<close> of pod\_config.go (network namespace and SMC-R wish of a
  pod) and the method \<open>PreStartContainer\<close> of deviceplugin.go. The docker client, the kubelet's pod
  resources and the JSON decoder are parameters.
\<close>

section \<open>Pods and their devices\<close>

record NamespacedName =
  nn_Namespace :: string
  nn_Name :: string

definition NamespacedName_String :: "NamespacedName \<Rightarrow> string" where
  "NamespacedName_String n = nn_Namespace n @ ''/'' @ nn_Name n"

record ContainerDevices =
  cd_ResourceName :: string
  cd_DeviceIds :: "string list"

text \<open>A pod of the kubelet's answer: its name, and the devices of each container.\<close>

record PodResources =
  pr_Pod :: NamespacedName
  pr_Containers :: "ContainerDevices list list"

definition erdmaIds :: "PodResources \<Rightarrow> string list" where
  "erdmaIds pr = concat (map (\<lambda>c. concat (map cd_DeviceIds (filter (\<lambda>d. cd_ResourceName d = ResourceName) c))) (pr_Containers pr))"

fun podDeviceMap :: "PodResources list \<Rightarrow> (NamespacedName \<times> string list) list \<Rightarrow> (NamespacedName \<times> string list) list" where
  "podDeviceMap [] m = m"
| "podDeviceMap (pr # prs) m = podDeviceMap prs (AList.update (pr_Pod pr) (erdmaIds pr) m)"

text \<open>\<open>dialKubelet\<close> and \<open>listPods\<close> are the connection and the call of the kubelet's pod resources service.\<close>

record 'w kubelet =
  dialKubelet :: "('w, unit) act"
  listPods :: "('w, PodResources list) act"

text \<open>The error of the call prints the client, here by name.\<close>

definition getPodDevices :: "'w kubelet \<Rightarrow> ('w, (NamespacedName \<times> string list) list) act" where
  "getPodDevices k =
     bindA (tryA (dialKubelet k) retA (\<lambda>err. failA (Wrapf ''error dialing resource socket: %v, %v''
        [''/var/lib/kubelet/pod-resources/kubelet.sock''] err))) (\<lambda>_.
     tryA (listPods k) (\<lambda>pods. retA (podDeviceMap pods []))
       (\<lambda>err. failA (Wrapf ''%v.Get(_) = _, %v'' [''client''] err)))"

text \<open>\<open>ord\<close> is the order in which Go ranges over the pods of the map.\<close>

definition getDevPod :: "(NamespacedName list \<Rightarrow> NamespacedName list) \<Rightarrow> 'w kubelet \<Rightarrow> string \<Rightarrow> ('w, NamespacedName option) act" where
  "getDevPod ord k devId =
     bindA (getPodDevices k) (\<lambda>podDevices.
       retA (find (\<lambda>pod. case map_of podDevices pod of None \<Rightarrow> False | Some devices \<Rightarrow> devId \<in> set devices)
         (ord (map fst podDevices))))"

section \<open>The configuration of a pod\<close>

record podConfig =
  pc_Netns :: string
  pc_SMCR :: bool

text \<open>
  A sandbox as docker describes it: the pid of its state, None when the state is nil, and its labels, None when
  configuration or labels are nil.
\<close>

record ContainerJSON =
  cj_Pid :: "int option"
  cj_Labels :: "(string \<times> string) list option"

record 'w docker =
  ContainerList :: "string list \<Rightarrow> ('w, string list) act"
  ContainerInspect :: "string \<Rightarrow> ('w, ContainerJSON) act"

record sandboxInfoSpec =
  si_Annotations :: "(string \<times> string) list"
  si_Namespaces :: "(string \<times> string) list"

definition stateErr :: "ContainerJSON \<Rightarrow> goerror" where
  "stateErr info = Errorf ''pod sandbox state not expect: %v''
     [case cj_Pid info of None \<Rightarrow> ''<nil>'' | Some pid \<Rightarrow> Itoa pid]"

definition dockerConfig :: "ContainerJSON \<Rightarrow> podConfig res" where
  "dockerConfig info =
     (case cj_Pid info of
        None \<Rightarrow> Err (stateErr info)
      | Some pid \<Rightarrow>
          if pid = 0 then Err (stateErr info)
          else let netns = Sprintf ''/proc/%d/ns/net'' [Itoa pid] in
            (case cj_Labels info of
              None \<Rightarrow> Ok \<lparr> pc_Netns = netns, pc_SMCR = False \<rparr>
            | Some labels \<Rightarrow>
                (case map_of labels (''annotation.'' @ PodAnnotationSMCR) of
                   None \<Rightarrow> Ok \<lparr> pc_Netns = netns, pc_SMCR = False \<rparr>
                 | Some smcConfig \<Rightarrow>
                     (case ParseBool smcConfig of
                        Ok b \<Rightarrow> Ok \<lparr> pc_Netns = netns, pc_SMCR = b \<rparr>
                      | Err err \<Rightarrow> Err (stateErr info)
                      | Panic p \<Rightarrow> Panic p))))"

definition dockerPodConfig :: "'w docker \<Rightarrow> NamespacedName \<Rightarrow> ('w, podConfig) act" where
  "dockerPodConfig d pod =
     bindA (tryA (ContainerList d [''io.kubernetes.docker.type=podsandbox'', ''io.kubernetes.pod.name='' @ nn_Name pod,
                    ''io.kubernetes.pod.namespace='' @ nn_Namespace pod]) retA
              (\<lambda>err. failA (Wrapf ''get pod sandbox list: %w'' [] err))) (\<lambda>podSandbox.
     case podSandbox of
       [] \<Rightarrow> failA (Errorf ''pod sandbox not found'' [])
     | sid # sids \<Rightarrow>
         bindA (tryA (ContainerInspect d sid) retA (\<lambda>err. failA (Wrapf ''get pod sandbox inspect: %w'' [] err))) (\<lambda>info.
         liftR (dockerConfig info)))"

text \<open>\<open>lo.Find\<close> over the sandboxes; a sandbox without metadata panics.\<close>

fun findSandbox :: "NamespacedName \<Rightarrow> PodSandbox list \<Rightarrow> PodSandbox option res" where
  "findSandbox pod [] = Ok None"
| "findSandbox pod (sb # sbs) =
     bindR (deref (sb_Metadata sb)) (\<lambda>md.
       if sm_Namespace md = nn_Namespace pod \<and> sm_Name md = nn_Name pod \<and> sb_Ready sb then Ok (Some sb)
       else findSandbox pod sbs)"

definition criConfig :: "PodSandboxStatusResponse \<Rightarrow> sandboxInfoSpec \<Rightarrow> podConfig res" where
  "criConfig sbStatus sbSpec =
     (if (case psr_Status sbStatus of None \<Rightarrow> False | Some st \<Rightarrow> ss_Network st = Some NS_NODE)
      then Ok \<lparr> pc_Netns = ''/proc/1/ns/net'', pc_SMCR = False \<rparr>
      else (case find (\<lambda>(t, path). t = ''network'') (si_Namespaces sbSpec) of
        None \<Rightarrow> Err (Errorf ''failed to find network namespace'' [])
      | Some (t, path) \<Rightarrow>
          if path = [] then Err (Errorf ''failed to find network namespace'' [])
          else (case map_of (si_Annotations sbSpec) PodAnnotationSMCR of
            None \<Rightarrow> Ok \<lparr> pc_Netns = path, pc_SMCR = False \<rparr>
          | Some smcConfig \<Rightarrow>
              if smcConfig = [] then Ok \<lparr> pc_Netns = path, pc_SMCR = False \<rparr>
              else (case ParseBool smcConfig of
                      Ok b \<Rightarrow> Ok \<lparr> pc_Netns = path, pc_SMCR = b \<rparr>
                    | Err err \<Rightarrow> Err (Wrapf ''failed to parse pod sandbox info: %s, %v'' [smcConfig] err)
                    | Panic p \<Rightarrow> Panic p))))"

definition criPodConfig :: "(string \<Rightarrow> sandboxInfoSpec res) \<Rightarrow> 'w remoteRuntimeService \<Rightarrow> NamespacedName \<Rightarrow> ('w, podConfig) act" where
  "criPodConfig unmarshal cri pod =
     bindA (ListPodSandbox cri None) (\<lambda>sandboxs.
     bindA (liftR (findSandbox pod sandboxs)) (\<lambda>sandbox.
     case sandbox of
       None \<Rightarrow> failA (Errorf ''pod sandbox not found'' [])
     | Some sb \<Rightarrow>
         bindA (PodSandboxStatus cri (sb_Id sb) True) (\<lambda>sbStatus.
         case map_of (psr_Info sbStatus) ''info'' of
           None \<Rightarrow> failA (Errorf ''pod sandbox info not found'' [])
         | Some sbConfig \<Rightarrow>
             tryA (liftR (unmarshal sbConfig)) (\<lambda>sbSpec. liftR (criConfig sbStatus sbSpec))
               (\<lambda>err. failA (Wrapf ''failed to parse sandbox info: %v'' [] err)))))"

definition getPodConfig :: "(string \<Rightarrow> sandboxInfoSpec res) \<Rightarrow> ('w, 'w docker) clients \<Rightarrow> NamespacedName \<Rightarrow> ('w, podConfig) act" where
  "getPodConfig unmarshal cl pod =
     (case dockerClient cl of
        Some d \<Rightarrow> dockerPodConfig d pod
      | None \<Rightarrow> bindA (liftR (deref (criClient cl))) (\<lambda>cri. criPodConfig unmarshal cri pod))"

section \<open>Before the start of a container\<close>

text \<open>A command whose failure is reported with its output.\<close>

definition execOr :: "'w host \<Rightarrow> string list \<Rightarrow> string \<Rightarrow> ('w, unit) act" where
  "execOr h argv fmt = bindA (Exec h argv) (\<lambda>(output, err).
     case err of Some e \<Rightarrow> failA (Errorf fmt [output, err_Error e]) | None \<Rightarrow> retA ())"

definition configSysctl :: "'w host \<Rightarrow> string \<Rightarrow> string \<Rightarrow> ('w, unit) act" where
  "configSysctl h netns sysctl =
     execOr h [''nsenter'', ''-n/proc/1/root/'' @ netns, ''sysctl'', ''-w'', sysctl] ''can not exec nsenter %s, err: %v''"

text \<open>The device of the last id that names one; a name the plugin does not know sets nil.\<close>

fun requestedInfo :: "(string \<times> ERdmaDeviceInfo) list \<Rightarrow> string list \<Rightarrow> ERdmaDeviceInfo option \<Rightarrow> ERdmaDeviceInfo option" where
  "requestedInfo devs [] erdmaInfo = erdmaInfo"
| "requestedInfo devs (devID # ids) erdmaInfo =
     (let devPath = Split (CHR ''/'') devID in
      requestedInfo devs ids (if length devPath \<le> 1 then erdmaInfo else map_of devs (hd devPath)))"

definition configSMCR :: "'w host \<Rightarrow> ERDMADevicePlugin \<Rightarrow> string \<Rightarrow> string list \<Rightarrow> ('w, unit) act" where
  "configSMCR h m netns ids =
     bindA (execOr h [''bash'', ''-c'', ''mount | grep ' /proc/sys ' | grep rw || mount -o remount,rw /proc/sys'']
              ''can not ensure sysctl fs rw permission %s, err: %v'') (\<lambda>_.
     bindA (tryA (configSysctl h netns ''net.smc.tcp2smc=1'') retA
              (\<lambda>err. failA (Wrapf (''SMC-R is not supported on this kernel '' @
                 ''(net.smc.tcp2smc unavailable, e.g. removed on Alibaba Cloud Linux 4): %w'') [] err))) (\<lambda>_.
     bindA (configSysctl h netns ''net.ipv6.conf.all.disable_ipv6=1'') (\<lambda>_.
     bindA (liftR (PNetIDFromDevice (requestedInfo (dp_devices m) ids None))) (\<lambda>pnet.
     ConfigForNetnsNetDevice h pnet ''eth0'' netns))))"

definition PreStartContainer :: "(NamespacedName list \<Rightarrow> NamespacedName list) \<Rightarrow> 'w kubelet \<Rightarrow> (string \<Rightarrow> sandboxInfoSpec res)
    \<Rightarrow> ('w, 'w docker) clients \<Rightarrow> 'w host \<Rightarrow> ERDMADevicePlugin \<Rightarrow> string list \<Rightarrow> ('w, unit) act" where
  "PreStartContainer ord k unmarshal cl h m ids =
     (case ids of
        [] \<Rightarrow> retA ()
      | devID # _ \<Rightarrow>
          bindA (getDevPod ord k devID) (\<lambda>pod.
          case pod of
            None \<Rightarrow> failA (Errorf ''can not find pod %s'' [''/''])
          | Some pod \<Rightarrow>
              bindA (tryA (getPodConfig unmarshal cl pod) retA
                 (\<lambda>err. failA (Wrapf ''can not get pod config %s, err, %v'' [NamespacedName_String pod] err))) (\<lambda>cfg.
              if pc_SMCR cfg then configSMCR h m (pc_Netns cfg) ids else retA ())))"

section \<open>The pod of a device\<close>

lemma podDeviceMap_other:
  "pod \<notin> pr_Pod ` set prs \<Longrightarrow> map_of (podDeviceMap prs m) pod = map_of m pod"
  by (induction prs arbitrary: m) (auto simp: update_conv')

lemma podDeviceMap_pod:
  "distinct (map pr_Pod prs) \<Longrightarrow> pr \<in> set prs \<Longrightarrow> map_of (podDeviceMap prs m) (pr_Pod pr) = Some (erdmaIds pr)"
proof (induction prs arbitrary: m)
  case (Cons x xs)
  show ?case
  proof (cases "pr \<in> set xs")
    case False
    with Cons.prems have "pr = x" and "pr_Pod x \<notin> pr_Pod ` set xs" by auto
    then show ?thesis by (simp add: podDeviceMap_other update_conv')
  qed (use Cons in auto)
qed simp

lemma podDeviceMap_keys: "fst ` set (podDeviceMap prs m) = pr_Pod ` set prs \<union> fst ` set m"
  by (induction prs arbitrary: m) (auto simp: dom_update image_iff)

text \<open>
  The pod of a device does not depend on the order in which Go ranges over the pods: if pods have different names and
  no two of them hold the device, getDevPod returns the pod of the kubelet's list that has the
  device among its eRDMA devices, and none when there is no such pod.
\<close>

theorem pod_of_device:
  assumes "dialKubelet k w = (Ok (), w1)" and "listPods k w1 = (Ok pods, w2)" and "distinct (map pr_Pod pods)"
    and "\<forall>xs. set (ord xs) = set xs"
    and "\<forall>p\<in>set pods. \<forall>q\<in>set pods. devId \<in> set (erdmaIds p) \<longrightarrow> devId \<in> set (erdmaIds q) \<longrightarrow> p = q"
  shows "getDevPod ord k devId w = (Ok (map_option pr_Pod (find (\<lambda>p. devId \<in> set (erdmaIds p)) pods)), w2)"
proof -
  let ?m = "podDeviceMap pods []"
  define P where "P = (\<lambda>pod. case map_of ?m pod of None \<Rightarrow> False | Some devices \<Rightarrow> devId \<in> set devices)"
  have keys: "set (ord (map fst ?m)) = pr_Pod ` set pods"
    using assms(4) podDeviceMap_keys [of pods "[]"] by simp
  have holds: "P (pr_Pod p) \<longleftrightarrow> devId \<in> set (erdmaIds p)" if "p \<in> set pods" for p
    using podDeviceMap_pod [OF assms(3) that] by (simp add: P_def)
  have "find P (ord (map fst ?m)) = map_option pr_Pod (find (\<lambda>p. devId \<in> set (erdmaIds p)) pods)"
  proof (cases "find (\<lambda>p. devId \<in> set (erdmaIds p)) pods")
    case None
    then have "\<forall>p\<in>set pods. devId \<notin> set (erdmaIds p)" by (auto simp: find_None_iff)
    with keys holds have "find P (ord (map fst ?m)) = None" unfolding find_None_iff by (metis (no_types, lifting) image_iff)
    with None show ?thesis by simp
  next
    case (Some p)
    then have p: "p \<in> set pods" "devId \<in> set (erdmaIds p)" by (auto dest: find_SomeD)
    have uniq: "pod = pr_Pod p" if "pod \<in> set (ord (map fst ?m))" and "P pod" for pod
      using that keys holds assms(5) p by (metis (no_types, lifting) image_iff)
    have "find P (ord (map fst ?m)) \<noteq> None" using p keys holds by (auto simp: find_None_iff)
    then obtain pod where "find P (ord (map fst ?m)) = Some pod" by blast
    with uniq find_SomeD [OF this] Some show ?thesis by simp
  qed
  with assms(1,2) show ?thesis
    by (simp add: getDevPod_def getPodDevices_def bindA_run tryA_run P_def)
qed

section \<open>What is configured for a pod\<close>

lemma requestedInfo_member:
  "\<forall>i\<in>set ids. 1 < length (Split (CHR ''/'') i) \<and> map_of devs (hd (Split (CHR ''/'') i)) \<noteq> None \<Longrightarrow> ids \<noteq> [] \<Longrightarrow>
   \<exists>i\<in>set ids. \<exists>d. map_of devs (hd (Split (CHR ''/'') i)) = Some d \<and> requestedInfo devs ids acc = Some d"
proof (induction ids arbitrary: acc)
  case (Cons i ids)
  show ?case
  proof (cases "ids = []")
    case True
    with Cons.prems show ?thesis by (auto simp: Let_def)
  next
    case False
    with Cons.prems Cons.IH [of "map_of devs (hd (Split (CHR ''/'') i))"] show ?thesis by (auto simp: Let_def)
  qed
qed simp


text \<open>On the host network SMC-R is never configured.\<close>

lemma host_network_no_smcr:
  "psr_Status resp = Some st \<Longrightarrow> ss_Network st = Some NS_NODE \<Longrightarrow>
   criConfig resp spec = Ok \<lparr> pc_Netns = ''/proc/1/ns/net'', pc_SMCR = False \<rparr>"
  by (simp add: criConfig_def)

section \<open>A small node\<close>

text \<open>
  For the witnesses: a kubelet with one pod that holds a device, a runtime as in
  \<open>Runtime_Service\<close> whose sandbox wants SMC-R, and a host on which every command succeeds.
\<close>

definition exKubelet :: "'w kubelet" where
  "exKubelet = \<lparr> dialKubelet = Pair (Ok ()),
     listPods = Pair (Ok [\<lparr> pr_Pod = \<lparr> nn_Namespace = ''default'', nn_Name = ''other'' \<rparr>, pr_Containers = [] \<rparr>,
       \<lparr> pr_Pod = \<lparr> nn_Namespace = ''default'', nn_Name = ''app'' \<rparr>,
         pr_Containers = [[\<lparr> cd_ResourceName = ResourceName, cd_DeviceIds = [''erdma_1/7''] \<rparr>]] \<rparr>]) \<rparr>"

definition exSpec :: "string \<Rightarrow> sandboxInfoSpec res" where
  "exSpec s = Ok \<lparr> si_Annotations = [(PodAnnotationSMCR, ''true'')], si_Namespaces = [(''network'', ''/var/run/netns/x'')] \<rparr>"

definition exClients :: "('w, 'w docker) clients" where
  "exClients = \<lparr> criClient = Some \<lparr> rs_runtimeClient = exStub True, rs_runtimeClientV1alpha2 = None \<rparr>, dockerClient = None \<rparr>"

definition exShell :: "string list list host" where
  "exShell = \<lparr> LinkList = Pair (Ok []), RdmaLinkList = Pair (Ok []), ReadDir = (\<lambda>d. Pair (Ok [])), Stat = (\<lambda>f. Pair (Ok ())),
     ReadHostFile = (\<lambda>f. Pair (Ok [])), Exec = (\<lambda>argv w. (Ok ([], None), w @ [argv])),
     Metaserver = \<lparr> Do = (\<lambda>m u hs w. (Err (ApiErr ''unreachable''), w)), NewRequest = (\<lambda>m u. None), TokenCache = (\<lambda>w. None),
       SetTokenCache = (\<lambda>v w. w), Clock = (\<lambda>w. 0) \<rparr> \<rparr>"

theorem pod_of_device_witness:
  "getDevPod rev exKubelet ''erdma_1/7'' () = (Ok (Some \<lparr> nn_Namespace = ''default'', nn_Name = ''app'' \<rparr>), ())"
proof -
  have d: "dialKubelet exKubelet () = (Ok (), ())" by (simp add: exKubelet_def)
  have l: "listPods exKubelet () = (Ok [\<lparr> pr_Pod = \<lparr> nn_Namespace = ''default'', nn_Name = ''other'' \<rparr>, pr_Containers = [] \<rparr>,
       \<lparr> pr_Pod = \<lparr> nn_Namespace = ''default'', nn_Name = ''app'' \<rparr>,
         pr_Containers = [[\<lparr> cd_ResourceName = ResourceName, cd_DeviceIds = [''erdma_1/7''] \<rparr>]] \<rparr>], ())"
    by (simp add: exKubelet_def)
  from pod_of_device [OF d l, of rev "''erdma_1/7''"] show ?thesis by (simp add: erdmaIds_def)
qed


end
