(* ===== verification/Agent.thy ===== *)
theory Agent
  imports Drivers Plugin_Server Pod_Config K8s_Api Node_Controller
begin

text \<open>
  internal/agent/agent.go and internal/k8s/k8s.go, and cmd/smcr_init/main.go: the agent on a node finds the ERIs of its
  node (from the custom resource or by local discovery), installs the driver, probes the devices and
  serves the device plugin. It relies on the contract \<open>erdma_driver\<close> of its driver.
\<close>

section \<open>Operations\<close>

record 'w Agent =
  ag_nodeName :: string
  ag_driver :: "'w driver"
  ag_allocAllDevices :: bool
  ag_devicepluginPreStart :: bool
  ag_localERIDiscovery :: bool
  ag_exposedLocalERIs :: "string list"
  ag_jumboFrameMTU :: int

text \<open>
  \<open>NewKubernetes\<close>: \<open>newClient\<close> is \<open>client.New\<close>, \<open>NODE_NAME\<close> the environment variable.
  The client of the result is the API server parameter \<open>kc\<close> of the operations below, so that
  only the node name is kept.
\<close>

definition NewKubernetes :: "('w, unit) act \<Rightarrow> string \<Rightarrow> ('w, string) act" where
  "NewKubernetes newClient NODE_NAME =
     bindA newClient (\<lambda>_.
     if NODE_NAME = [] then failA (Errorf ''failed to get NODE_NAME'' []) else retA NODE_NAME)"

definition NewAgent :: "'w host \<Rightarrow> 'w netlink \<Rightarrow> ('w, unit) act \<Rightarrow> string \<Rightarrow> string \<Rightarrow> bool \<Rightarrow> bool \<Rightarrow> bool \<Rightarrow> string \<Rightarrow> string
    \<Rightarrow> int \<Rightarrow> ('w, 'w Agent) act" where
  "NewAgent h nl newClient NODE_NAME preferDriver allocAllDevice devicepluginPreStart localERIDiscovery exposedLocalERIs
       erdmaInstallerVersion jumboFrameMTU =
     bindA (NewKubernetes newClient NODE_NAME) (\<lambda>nodeName.
     bindA (GetDriver (hostExec h) (registered_drivers h nl erdmaInstallerVersion) preferDriver) (\<lambda>driver.
     retA \<lparr> ag_nodeName = nodeName, ag_driver = driver, ag_allocAllDevices = allocAllDevice,
       ag_devicepluginPreStart = devicepluginPreStart, ag_localERIDiscovery = localERIDiscovery,
       ag_exposedLocalERIs = Split (CHR '','') exposedLocalERIs, ag_jumboFrameMTU = jumboFrameMTU \<rparr>))"

text \<open>
  \<open>WaitEriInfo\<close> polls until the resource of the node exists; \<open>None\<close> is that it still waits after
  the given number of polls.
\<close>

fun WaitEriInfo :: "'w k8s \<Rightarrow> nat \<Rightarrow> string \<Rightarrow> ('w, ERdmaDevice option) act" where
  "WaitEriInfo kc 0 nodeName = retA None"
| "WaitEriInfo kc (Suc polls) nodeName =
     tryA (ListERdmaDevices kc (labelNodeName, nodeName))
       (\<lambda>items. case items of [] \<Rightarrow> WaitEriInfo kc polls nodeName | d # ds \<Rightarrow> retA (Some d))
       (\<lambda>err. failA (Wrapf ''failed to wait erdma devices, %v'' []
          (Wrapf ''failed to list erdma devices, %v'' [] err)))"

text \<open>Probing the devices of the specification, in order; the first error ends it.\<close>

fun probeAll :: "'w driver \<Rightarrow> bool \<Rightarrow> int \<Rightarrow> DeviceInfo list \<Rightarrow> ('w, ERdmaDeviceInfo list) act" where
  "probeAll drv jumbo mtu [] = retA []"
| "probeAll drv jumbo mtu (eriInfo # eriInfos) =
     tryA (drv_ProbeDevice drv (fromDeviceInfo jumbo mtu eriInfo))
       (\<lambda>deviceInfo. bindA (probeAll drv jumbo mtu eriInfos) (\<lambda>rest. retA (deviceInfo # rest)))
       (\<lambda>err. failA (Wrapf ''probe device failed, err: %v'' [] err))"

text \<open>The SMC-R network ids are configured best effort.\<close>

fun configPnets :: "'w host \<Rightarrow> ERdmaDeviceInfo list \<Rightarrow> ('w, unit) act" where
  "configPnets h [] = retA ()"
| "configPnets h (d # ds) =
     bindA (if hasCap (info_Capabilities d) ERDMA_CAP_SMC_R
            then tryA (ConfigSMCPnetForDevice h d) retA (\<lambda>err. retA ()) else retA ()) (\<lambda>_.
     configPnets h ds)"

text \<open>The specification the agent works from and whether all devices are to be allocated.\<close>

definition eriSource :: "'w k8s \<Rightarrow> 'w host \<Rightarrow> nat \<Rightarrow> 'w Agent \<Rightarrow> ('w, (ERdmaDeviceSpec \<times> bool) option) act" where
  "eriSource kc h polls a =
     (if \<not> ag_localERIDiscovery a then
        bindA (WaitEriInfo kc polls (ag_nodeName a)) (\<lambda>d.
          retA (map_option (\<lambda>cr. (cr_Spec cr, ag_allocAllDevices a)) d))
      else
        tryA (LocalSelectERIs h (ag_exposedLocalERIs a))
          (\<lambda>eri. retA (Some (\<lparr> spec_Devices = map toDeviceInfo eri, spec_JumboFrame = False \<rparr>,
                      ag_allocAllDevices a \<or> ag_exposedLocalERIs a \<noteq> [[]])))
          (\<lambda>err. failA (Wrapf ''LocalERIDiscovery: select eri failed: %v'' [] err)))"

text \<open>
  \<open>initCriClient\<close> on the package variables at start, which are nil: the clients it sets, or its error.
\<close>

definition connectRuntime :: "('w, 'w docker) runtimeEnv \<Rightarrow> ('w, ('w, 'w docker) clients) act" where
  "connectRuntime rt =
     bindA (initCriClient rt runtimeEndpoints \<lparr> criClient = None, dockerClient = None \<rparr>) (\<lambda>(err, cl).
       case err of Some e \<Rightarrow> failA e | None \<Rightarrow> retA cl)"

text \<open>
  The last step of \<open>Run\<close>: the plugin and its server up to the watch loop, with the clients of the container runtime;
  \<open>env\<close> are the calls of the server, \<open>now\<close> is the time.
\<close>

definition startPlugin :: "'w host \<Rightarrow> ('w, 'w docker) runtimeEnv \<Rightarrow> 'w pluginEnv \<Rightarrow> ('w \<Rightarrow> int) \<Rightarrow> 'w Agent \<Rightarrow> bool
    \<Rightarrow> ERdmaDeviceInfo list \<Rightarrow> ('w, process \<times> ('w, 'w docker) clients) act" where
  "startPlugin h rt env now a allocAll devices =
     bindA (tryA (bindA (if ag_devicepluginPreStart a then connectRuntime rt
                         else retA \<lparr> criClient = None, dockerClient = None \<rparr>) (\<lambda>cl.
           bindA (if drv_Name (ag_driver a) = ''default''
                  then tryA (Stat h (''/proc/1/root'' @ rdmaCMDevice)) (\<lambda>_. retA True) (\<lambda>err. retA False)
                  else retA False) (\<lambda>rdmaCM.
           \<lambda>w. (bindR (NewERDMADevicePlugin (Ok ()) (now w) (Ok ()) devices allocAll (ag_devicepluginPreStart a) rdmaCM)
                  (\<lambda>m. Ok (m, cl)), w))))
       retA (\<lambda>err. failA (Wrapf ''new erdma device plugin failed, err: %v'' [] err))) (\<lambda>(m, cl).
     bindA (ServeA env m) (\<lambda>p. retA (p, cl)))"

text \<open>
  \<open>Run\<close>: the serving process and the clients of the runtime, or \<open>None\<close> while still waiting for the resource.
\<close>

definition Run :: "'w k8s \<Rightarrow> 'w host \<Rightarrow> ('w, 'w docker) runtimeEnv \<Rightarrow> 'w pluginEnv \<Rightarrow> ('w \<Rightarrow> int) \<Rightarrow> nat \<Rightarrow> 'w Agent
    \<Rightarrow> ('w, (process \<times> ('w, 'w docker) clients) option) act" where
  "Run kc h rt env now polls a =
     bindA (eriSource kc h polls a) (\<lambda>src.
     case src of None \<Rightarrow> retA None
     | Some (spec, allocAll) \<Rightarrow>
         bindA (tryA (drv_Install (ag_driver a)) retA
                  (\<lambda>err. failA (Wrapf ''install eri driver failed, err: %v'' [] err))) (\<lambda>_.
         bindA (probeAll (ag_driver a) (spec_JumboFrame spec) (ag_jumboFrameMTU a) (spec_Devices spec)) (\<lambda>erdmaDevices.
         bindA (configPnets h erdmaDevices) (\<lambda>_.
         bindA (startPlugin h rt env now a allocAll erdmaDevices) (\<lambda>p. retA (Some p))))))"

text \<open>
  The dump of all stacks on SIGUSR1 in \<open>stackTriger\<close>: \<open>runtime.Stack\<close> fills the buffer with as much of the trace as fits, and a full
  buffer is doubled. \<open>stacks n\<close> is the trace at the \<open>n\<close>-th call. The loop might not end, so that its result is optional.
\<close>

partial_function (option) stackDump :: "(nat \<Rightarrow> string) \<Rightarrow> nat \<Rightarrow> nat \<Rightarrow> string option" where
  "stackDump stacks n bufferLen =
     (let buf = take bufferLen (stacks n) in
      if length buf = bufferLen then stackDump stacks (Suc n) (2 * bufferLen) else Some buf)"

text \<open>cmd/agent/main.go: the flags with their defaults; an error ends the process with a panic.\<close>

record agentFlags =
  af_preferDriver :: string
  af_allocAllDevices :: bool
  af_devicepluginPreStart :: bool
  af_localERIDiscovery :: bool
  af_exposedLocalERIs :: string
  af_erdmaInstallerVersion :: string
  af_jumboFrameMTU :: int

definition defaultAgentFlags :: agentFlags where
  "defaultAgentFlags = \<lparr> af_preferDriver = [], af_allocAllDevices = False, af_devicepluginPreStart = False, af_localERIDiscovery = False,
     af_exposedLocalERIs = [], af_erdmaInstallerVersion = ''1.5.9'', af_jumboFrameMTU = 8500 \<rparr>"

definition orPanic :: "('w, 'a) act \<Rightarrow> ('w, 'a) act" where
  "orPanic m = tryA m retA (\<lambda>err. liftR (Panic (err_Error err)))"

definition agentMain :: "'w k8s \<Rightarrow> 'w host \<Rightarrow> 'w netlink \<Rightarrow> ('w, unit) act \<Rightarrow> string \<Rightarrow> ('w, 'w docker) runtimeEnv \<Rightarrow> 'w pluginEnv
    \<Rightarrow> ('w \<Rightarrow> int) \<Rightarrow> nat \<Rightarrow> agentFlags \<Rightarrow> ('w, (process \<times> ('w, 'w docker) clients) option) act" where
  "agentMain kc h nl newClient NODE_NAME rt env now polls fl =
     bindA (orPanic (NewAgent h nl newClient NODE_NAME (af_preferDriver fl) (af_allocAllDevices fl) (af_devicepluginPreStart fl)
       (af_localERIDiscovery fl) (af_exposedLocalERIs fl) (af_erdmaInstallerVersion fl) (af_jumboFrameMTU fl))) (\<lambda>a.
     orPanic (Run kc h rt env now polls a))"

text \<open>
  cmd/smcr_init/main.go, the init container: \<open>pnetid\<close> is the environment variable the plugin
  sets, \<open>write\<close> is \<open>os.WriteFile\<close>; \<open>log.Fatal\<close> is an error.
\<close>

definition smcr_init :: "'w host \<Rightarrow> (string \<Rightarrow> string \<Rightarrow> ('w, unit) act) \<Rightarrow> string \<Rightarrow> ('w, unit) act" where
  "smcr_init h write pnetid =
     (if pnetid = [] then failA (Errorf ''smcr pnetid is empty'' [])
      else bindA (tryA (Stat h ''/proc/sys/net/smc/tcp2smc'') retA
             (\<lambda>err. failA (Wrapf ''SMC-R is not supported on this kernel: /proc/sys/net/smc/tcp2smc is unavailable (e.g. removed on Alibaba Cloud Linux 4): %v'' [] err))) (\<lambda>_.
      bindA (tryA (write ''/proc/sys/net/smc/tcp2smc'' ''1'') retA (\<lambda>err. failA (Wrapf ''error setting tcp2smc%v'' [] err))) (\<lambda>_.
      bindA (tryA (write ''/proc/sys/net/ipv6/conf/all/disable_ipv6'' ''1'') retA
               (\<lambda>err. failA (Wrapf ''error setting disable_ipv6%v'' [] err))) (\<lambda>_.
      tryA (ConfigForNetDevice h pnetid ''eth0'') retA (\<lambda>err. failA (Wrapf ''error config smcr pnet%v'' [] err))))))"

section \<open>The dump of the stacks\<close>

lemma stackDump_ends:
  assumes "\<And>n. length (stacks n) \<le> B" and "0 < bufferLen"
  shows "\<exists>k. stackDump stacks n bufferLen = Some (stacks k)"
  using assms(2)
proof (induction "Suc B - bufferLen" arbitrary: n bufferLen rule: less_induct)
  case less
  show ?case
  proof (cases "length (take bufferLen (stacks n)) = bufferLen")
    case True
    with assms(1) [of n] have "bufferLen \<le> B" by simp
    with less.prems less.hyps [of "2 * bufferLen" "Suc n"] show ?thesis
      by (subst stackDump.simps) (simp add: True del: length_take)
  next
    case False
    then have "take bufferLen (stacks n) = stacks n" by simp
    with False show ?thesis by (subst stackDump.simps) (auto simp del: length_take)
  qed
qed

text \<open>
  The loop that dumps the stacks of the agent ends as long as the traces stay bounded, and what it logs is a
  complete trace: the buffer was never too short for it.
\<close>

theorem stack_dump_complete:
  assumes "\<And>n. length (stacks n) \<le> B"
  shows "\<exists>k. stackDump stacks 0 16384 = Some (stacks k)"
  by (rule stackDump_ends [OF assms]) simp

theorem stack_dump_complete_witness:
  "stackDump (\<lambda>n. replicate 20000 CHR ''s'') 0 16384 = Some (replicate 20000 CHR ''s'')"
  using stack_dump_complete [of "\<lambda>n. replicate 20000 CHR ''s''" 20000] by simp

section \<open>What the agent relies on\<close>

context erdma_driver
begin

lemma probeAll_devices:
  "probeAll drv jumbo mtu ds w = (Ok infos, w') \<Longrightarrow> list_all2 (\<lambda>d info. deviceOf (fromDeviceInfo jumbo mtu d) info) ds infos"
proof (induction ds arbitrary: w infos)
  case (Cons d ds)
  from Cons.prems obtain i w1 rest where "drv_ProbeDevice drv (fromDeviceInfo jumbo mtu d) w = (Ok i, w1)"
    and "probeAll drv jumbo mtu ds w1 = (Ok rest, w')" and "infos = i # rest"
    by (auto elim!: tryA_OkE bindA_OkE)
  with Cons.IH probes show ?case by auto
qed simp

text \<open>A probed device has the address of a device of the specification.\<close>

lemma probed_device:
  assumes "probeAll drv jumbo mtu ds w = (Ok infos, w')" and "info \<in> set infos"
  shows "\<exists>d\<in>set ds. info_MAC info = dev_MAC d \<and> info_DevPaths info \<noteq> [] \<and> 0 \<le> info_NUMA info \<and>
    hasCap (info_Capabilities info) ERDMA_CAP_VERBS"
  using probeAll_devices [OF assms(1)] assms(2)
  by (auto simp: list_all2_conv_all_nth in_set_conv_nth deviceOf_def fromDeviceInfo_def) (metis nth_mem)

end

section \<open>What the plugin is given\<close>

lemma Start_kept:
  "Start out m = Ok (e, m') \<Longrightarrow> dp_devices m' = dp_devices m \<and> dp_devicepluginPreStart m' = dp_devicepluginPreStart m"
  by (auto simp: Start_def closeStop_def bindR_Ok_iff split: option.splits if_splits)

lemma Stop_kept:
  "Stop out m = Ok (e, m') \<Longrightarrow> dp_devices m' = dp_devices m \<and> dp_devicepluginPreStart m' = dp_devicepluginPreStart m"
  by (auto simp: Stop_def closeStop_def bindR_Ok_iff split: if_splits)

lemma ServeA_kept:
  assumes "envOk env" and "ServeA env m w = (Ok (Running m' reg), w')"
  shows "dp_devices m' = dp_devices m \<and> dp_devicepluginPreStart m' = dp_devicepluginPreStart m"
proof -
  from ServeA_refines [OF assms] obtain out outStop where "serveStart out outStop m = Running m' reg" by auto
  then show ?thesis
    by (auto simp: serveStart_def split: res.splits option.splits prod.splits dest!: Start_kept Stop_kept)
qed

lemma connectRuntime_cri: "connectRuntime rt w = (Ok cl, w') \<Longrightarrow> criClient cl \<noteq> None"
  by (auto simp: connectRuntime_def initCriClient_def elim!: bindA_OkE tryA_OkE dest!: tryEndpoints_connected
      initDockerClient_run simp: connected_def Let_def split: option.splits if_splits)

lemma map_of_value: "map_of kvs k = Some v \<Longrightarrow> v \<in> snd ` set kvs"
  by (force dest: map_of_SomeD)

lemma GetDriver_registered:
  assumes "GetDriver exec drivers name w = (Ok d, w')"
  shows "d \<in> snd ` set drivers"
proof (cases "name = []")
  case True
  with assms obtain k w1 where "(case map_of drivers k of Some d \<Rightarrow> retA d
      | None \<Rightarrow> (case drivers of [] \<Rightarrow> liftR (Panic ''no erdma driver found'') | (n, d) # ds \<Rightarrow> retA d)) w1 = (Ok d, w')"
    by (auto simp: GetDriver_def elim!: tryA_OkE bindA_OkE)
  then show ?thesis
    by (cases "map_of drivers k") (auto split: list.splits dest: map_of_value)
next
  case False
  with assms show ?thesis by (auto simp: GetDriver_def split: option.splits dest: map_of_value)
qed

text \<open>Whatever driver is preferred, the agent has one that keeps the contract.\<close>

lemma NewAgent_contract:
  assumes "NewAgent h nl newClient NODE_NAME prefer allocAll preStart local eriList version mtu w = (Ok a, w')"
  shows "erdma_driver (ag_driver a)"
  using assms by (auto simp: NewAgent_def elim!: bindA_OkE dest!: GetDriver_registered intro: registered_contract)

lemma NewERDMADevicePlugin_fields:
  assumes "NewERDMADevicePlugin initCri now statCM devices allocAll preStart rdmaCM = Ok m"
  shows "dp_devices m = deviceMap devices [] \<and> dp_devicepluginPreStart m = preStart"
  using assms by (auto simp: NewERDMADevicePlugin_def bindR_Ok_iff)

lemma startPlugin_run:
  assumes "envOk env" and "startPlugin h rt env now a allocAll infos w = (Ok (Running m reg, cl), w')"
  shows "dp_devices m = deviceMap infos [] \<and> (dp_devicepluginPreStart m \<longrightarrow> criClient cl \<noteq> None)"
proof -
  from assms(2) obtain m0 w1 w2 w3 rdmaCM t where
      new: "NewERDMADevicePlugin (Ok ()) t (Ok ()) infos allocAll (ag_devicepluginPreStart a) rdmaCM = Ok m0"
    and cri: "(if ag_devicepluginPreStart a then connectRuntime rt else retA \<lparr> criClient = None, dockerClient = None \<rparr>) w = (Ok cl, w1)"
    and serve: "ServeA env m0 w2 = (Ok (Running m reg), w3)"
    unfolding startPlugin_def by (auto simp: bindR_Ok_iff elim!: tryA_OkE bindA_OkE)
  from NewERDMADevicePlugin_fields [OF new] ServeA_kept [OF assms(1) serve] cri show ?thesis
    by (auto dest: connectRuntime_cri)
qed

text \<open>
  C26: Every device the agent serves was probed by its driver: it is filed under its own
  name, once, has the address of a device of the node's specification, at least one device file, a NUMA node that is
  not negative and the verbs capability, whichever driver the agent was started
  with; and when containers are to be prepared before their start there is a client of the container runtime.
\<close>

theorem served_devices_probed:
  assumes "NewAgent h nl newClient NODE_NAME prefer allocAll0 preStart local eriList version mtu w0 = (Ok a, w)"
    and "envOk env" and "Run kc h rt env now polls a w = (Ok (Some (Running m reg, cl)), w')"
  shows "pluginOk m \<and> (dp_devicepluginPreStart m \<longrightarrow> criClient cl \<noteq> None) \<and> (\<exists>spec allocAll w1. eriSource kc h polls a w = (Ok (Some (spec, allocAll)), w1) \<and>
    (\<forall>(k, info)\<in>set (dp_devices m). \<exists>d\<in>set (spec_Devices spec). info_MAC info = dev_MAC d \<and>
       info_DevPaths info \<noteq> [] \<and> 0 \<le> info_NUMA info \<and> hasCap (info_Capabilities info) ERDMA_CAP_VERBS))"
proof -
  from assms(3) obtain spec allocAll w1 w2 infos w3 w4 where src: "eriSource kc h polls a w = (Ok (Some (spec, allocAll)), w1)"
    and pr: "probeAll (ag_driver a) (spec_JumboFrame spec) (ag_jumboFrameMTU a) (spec_Devices spec) w2 = (Ok infos, w3)"
    and st: "startPlugin h rt env now a allocAll infos w4 = (Ok (Running m reg, cl), w')"
    unfolding Run_def by (auto elim!: bindA_OkE split: option.splits)
  note drv = NewAgent_contract [OF assms(1)]
  from startPlugin_run [OF assms(2) st] have devs: "dp_devices m = deviceMap infos []"
    and cri: "dp_devicepluginPreStart m \<longrightarrow> criClient cl \<noteq> None" by simp_all
  have "pluginOk m" using deviceMap_ok [of "[]" infos] by (simp add: pluginOk_def devs)
  moreover have "info \<in> set infos" if "(k, info) \<in> set (dp_devices m)" for k info
    using that deviceMap_sources [of infos "[]"] unfolding devs by force
  ultimately show ?thesis
    using src cri erdma_driver.probed_device [OF drv pr] by blast
qed


section \<open>A small node\<close>

text \<open>A node for the witnesses: one network link and its RDMA link, on any world.\<close>

definition exNodeHost :: "'w host" where
  "exNodeHost = \<lparr> LinkList = Pair (Ok [exLink]),
     RdmaLinkList = Pair (Ok [\<lparr> rl_Name = ''erdma_0'', rl_NodeGuid = guidOf 0xff 0xfe [0x02, 0x16, 0x3e, 1, 2, 4] \<rparr>]),
     ReadDir = (\<lambda>d. Pair (Ok [''uverbs0''])), Stat = (\<lambda>f. Pair (Ok ())),
     ReadHostFile = (\<lambda>f. Pair (Ok (if f = ''/sys/class/infiniband/erdma_0/device/numa_node'' then ''0'' else ''erdma_0''))),
     Exec = (\<lambda>argv. Pair (Ok ([], None))),
     Metaserver = \<lparr> Do = (\<lambda>m u hs w. (Err (ApiErr ''unreachable''), w)), NewRequest = (\<lambda>m u. None), TokenCache = (\<lambda>w. None),
       SetTokenCache = (\<lambda>v w. w), Clock = (\<lambda>w. 0) \<rparr> \<rparr>"

definition exQuiet :: "'w netlink" where
  "exQuiet = \<lparr> AddrList4 = (\<lambda>l. Pair (Ok [])), AddrListAll = (\<lambda>l. Pair (Ok [])), AddrAdd = (\<lambda>l a. Pair (Ok ())),
     RouteList = (\<lambda>l. Pair (Ok [])), RouteAdd = (\<lambda>r. Pair (Ok ())), RouteDel = (\<lambda>r. Pair (Ok ())),
     LinkSetMTU = (\<lambda>l m. Pair (Ok ())), LinkSetUp = (\<lambda>l. Pair (Ok ())), LinkSetDown = (\<lambda>l. Pair (Ok ())),
     ParseIP = Some, ParseCIDR = (\<lambda>s. Ok exCidr), MaskIP = (\<lambda>ip n. ip) \<rparr>"

definition exEri :: ERI where
  "exEri = \<lparr> eri_ID = ''eni-1'', eri_IsPrimaryENI = True, eri_MAC = ''00:16:3e:01:02:04'', eri_InstanceID = ''i-1'',
     eri_CardIndex = 0, eri_QueuePair = 8, eri_JumboFrame = False, eri_JumboFrameMTU = 0 \<rparr>"

definition exAgent :: "'w Agent" where
  "exAgent = \<lparr> ag_nodeName = ''node-a'', ag_driver = CompatDriver exNodeHost exQuiet [], ag_allocAllDevices = False,
     ag_devicepluginPreStart = True, ag_localERIDiscovery = False, ag_exposedLocalERIs = [[]], ag_jumboFrameMTU = 8500 \<rparr>"

definition exAgentWorld :: exWorld where
  "exAgentWorld = ([], [newDevice (exNode ''node-a'' ''True'') ''i-1'' False [exEri]])"

definition exAgentEnv :: "exWorld pluginEnv" where
  "exAgentEnv = \<lparr> pe_ReadDir = Pair (Ok []), pe_Unlink = (\<lambda>f. Pair (Ok ())), pe_Listen = (\<lambda>s. Pair (Ok ())),
     pe_Stat = (\<lambda>s. Pair (Ok SockPresent)), pe_Dial = Pair (Ok ()), pe_Register = (\<lambda>r. Pair (Ok ())) \<rparr>"

definition exAgentRuntime :: "(exWorld, exWorld docker) runtimeEnv" where
  "exAgentRuntime = \<lparr> re_ParseURL = exParseURL, re_Dial = (\<lambda>a. Pair (Ok (exStub False, exStub True))),
     re_Unimplemented = (\<lambda>e. e = ApiErr ''unimplemented''), re_Stat = (\<lambda>f. Pair (Ok ())),
     re_RuntimeSock = Some ''/run/containerd/containerd.sock'', re_NewDocker = Pair (Err (ApiErr ''no docker'')) \<rparr>"

theorem served_devices_probed_witness:
  "\<exists>m cl w'. Run (exCluster 0) exNodeHost exAgentRuntime exAgentEnv (\<lambda>w. 5) 1 exAgent exAgentWorld =
       (Ok (Some (Running m True, cl)), w') \<and> pluginOk m \<and> criClient cl \<noteq> None"
proof -
  let ?run = "Run (exCluster 0) exNodeHost exAgentRuntime exAgentEnv (\<lambda>w. 5) 1 exAgent exAgentWorld"
  have "okMap (\<lambda>p. case p of Some (Running m reg, cl) \<Rightarrow> reg \<and> dp_devicepluginPreStart m | _ \<Rightarrow> False) ?run = Some True" by code_simp
  then obtain m cl w' where run: "?run = (Ok (Some (Running m True, cl)), w')" and pre: "dp_devicepluginPreStart m"
    by (rule okMap_SomeE) (auto split: option.splits process.splits prod.splits)
  have new: "NewAgent exNodeHost exQuiet (Pair (Ok ())) ''node-a'' ''compat'' False True False [] [] 8500 exAgentWorld =
      (Ok exAgent, exAgentWorld)"
    by (simp add: exAgent_def NewAgent_def NewKubernetes_def GetDriver_def registered_drivers_def bindA_def retA_def)
  have env: "envOk exAgentEnv" by (simp add: envOk_def noPanic_def exAgentEnv_def)
  from served_devices_probed [OF new env run] run pre show ?thesis by blast
qed

section \<open>The resource and the agent\<close>

text \<open>
  The agent finds what the controller made: once the resource of its node is listed, waiting returns it within one poll,
  and what reaches the driver of each ERI selected for the node is that ERI, with the jumbo frame
  settings of the resource and of the agent.
\<close>

theorem agent_finds_created_device:
  assumes "deviceStore kc devs" and "ListERdmaDevices kc (labelNodeName, node_Name node) w = (Ok items, w')"
    and "devs w = before @ [newDevice node iid jumbo eris]"
    and "\<forall>d\<in>set before. \<not> hasLabel (labelNodeName, node_Name node) d"
  shows "WaitEriInfo kc (Suc polls) (node_Name node) w = (Ok (Some (newDevice node iid jumbo eris)), w') \<and>
    map (fromDeviceInfo (spec_JumboFrame (cr_Spec (newDevice node iid jumbo eris))) mtu)
        (spec_Devices (cr_Spec (newDevice node iid jumbo eris))) =
      map (\<lambda>e. e\<lparr> eri_QueuePair := 0, eri_JumboFrame := jumbo, eri_JumboFrameMTU := mtu \<rparr>) eris"
proof -
  have "hasLabel (labelNodeName, node_Name node) (newDevice node iid jumbo eris)"
    by (simp add: hasLabel_def newDevice_def labelNodeName_def labelInstanceID_def)
  with deviceStoreD(1) [OF assms(1,2)] assms(3,4) have "items = [newDevice node iid jumbo eris]"
    by (simp add: filter_empty_conv)
  with assms(2) show ?thesis by (simp add: tryA_def newDevice_def fromDeviceInfo_toDeviceInfo)
qed

theorem agent_finds_created_device_witness:
  "WaitEriInfo (exCluster 0) 1 ''node-a'' exAgentWorld =
     (Ok (Some (newDevice (exNode ''node-a'' ''True'') ''i-1'' False [exEri])), exAgentWorld)"
proof -
  let ?n = "exNode ''node-a'' ''True''"
  have name: "node_Name ?n = ''node-a''" by (simp add: exNode_def)
  have l: "ListERdmaDevices (exCluster 0) (labelNodeName, node_Name ?n) exAgentWorld =
      (Ok [newDevice ?n ''i-1'' False [exEri]], exAgentWorld)"
    by (simp add: exCluster_def exAgentWorld_def hasLabel_def newDevice_def labelNodeName_def labelInstanceID_def)
  have w: "snd exAgentWorld = [] @ [newDevice ?n ''i-1'' False [exEri]]" by (simp add: exAgentWorld_def)
  from agent_finds_created_device [OF exCluster_store l w, of 0 0] name show ?thesis by simp
qed

end
