(* ===== verification/Provision.thy ===== *)
theory Provision
  imports Cluster Agent
begin

text \<open>
  From a node to the devices its agent sees: the reconcile of a node that has no resource yet, the reconciles of the resource and the
  agent that waits for it, on one API server and one cloud. No other client is active here; \<open>Cluster\<close> is about interleavings.
\<close>

section \<open>The API server\<close>

text \<open>
  \<open>devs\<close> are the stored resources and \<open>stat\<close> the states of the interfaces: a call that fails and a read change
  nothing, a creation needs a new name, and a status update writes the status only.
\<close>

definition apiServer :: "'w k8s \<Rightarrow> ('w \<Rightarrow> ERdmaDevice list) \<Rightarrow> ('w \<Rightarrow> 's) \<Rightarrow> bool" where
  "apiServer kc devs stat \<longleftrightarrow>
     (\<forall>n. keeps (\<lambda>w. (devs w, stat w)) (GetNode kc n)) \<and> (\<forall>l. keeps (\<lambda>w. (devs w, stat w)) (ListERdmaDevices kc l)) \<and>
     (\<forall>n. keeps (\<lambda>w. (devs w, stat w)) (GetERdmaDevice kc n)) \<and>
     (\<forall>n w node w'. GetNode kc n w = (Ok node, w') \<longrightarrow> node_Name node = n) \<and>
     (\<forall>l w items w'. ListERdmaDevices kc l w = (Ok items, w') \<longrightarrow> items = filter (hasLabel l) (devs w)) \<and>
     (\<forall>n w d w'. GetERdmaDevice kc n w = (Ok d, w') \<longrightarrow> find (\<lambda>x. cr_Name x = n) (devs w) = Some d) \<and>
     (\<forall>n w err w'. GetERdmaDevice kc n w = (Err err, w') \<and> IsNotFound err \<longrightarrow> find (\<lambda>x. cr_Name x = n) (devs w) = None) \<and>
     (\<forall>d w u w'. CreateERdmaDevice kc d w = (Ok u, w') \<longrightarrow> devs w' = devs w @ [d] \<and> cr_Name d \<notin> cr_Name ` set (devs w)) \<and>
     (\<forall>d w u w'. UpdateStatus kc d w = (Ok u, w') \<longrightarrow> devs w' = statusStore d (devs w) \<and> stat w' = stat w)"

definition resourceOf :: "('w \<Rightarrow> ERdmaDevice list) \<Rightarrow> 'w \<Rightarrow> string \<Rightarrow> ERdmaDevice option" where
  "resourceOf devs w n = find (\<lambda>x. cr_Name x = n) (devs w)"

lemma apiServerD:
  assumes "apiServer kc devs stat"
  shows "GetNode kc n w = (rn, w') \<Longrightarrow> devs w' = devs w" "ListERdmaDevices kc (k, v) w = (rl, w') \<Longrightarrow> devs w' = devs w"
    "GetERdmaDevice kc n w = (rd, w') \<Longrightarrow> devs w' = devs w \<and> stat w' = stat w"
    "GetNode kc n w = (Ok node, w') \<Longrightarrow> node_Name node = n"
    "ListERdmaDevices kc (k, v) w = (Ok items, w') \<Longrightarrow> items = filter (hasLabel (k, v)) (devs w)"
    "GetERdmaDevice kc n w = (Ok d, w') \<Longrightarrow> find (\<lambda>x. cr_Name x = n) (devs w) = Some d"
    "GetERdmaDevice kc n w = (Err err, w') \<Longrightarrow> IsNotFound err \<Longrightarrow> find (\<lambda>x. cr_Name x = n) (devs w) = None"
    "CreateERdmaDevice kc d w = (Ok u, w') \<Longrightarrow> devs w' = devs w @ [d] \<and> cr_Name d \<notin> cr_Name ` set (devs w)"
    "UpdateStatus kc d w = (Ok u, w') \<Longrightarrow> devs w' = statusStore d (devs w) \<and> stat w' = stat w"
  using assms by (auto simp: apiServer_def keeps_def) metis

lemma apiServer_resources:
  assumes "apiServer kc devs stat"
  shows "resourceStore kc (resourceOf devs) stat"
proof -
  note law = apiServerD [OF assms]
  have upd: "resourceOf devs w' = (resourceOf devs w)(cr_Name d := map_option (\<lambda>x. x\<lparr> cr_Status := cr_Status d \<rparr>) (resourceOf devs w (cr_Name d)))"
    if "UpdateStatus kc d w = (Ok u, w')" for d w u w'
    using law(9) [OF that] unfolding resourceOf_def statusStore_def
    by (intro ext) (simp add: find_map_upd [where k = cr_Name and f = "\<lambda>x. x\<lparr> cr_Status := cr_Status d \<rparr>", simplified])
  have get: "resourceOf devs w n = Some d \<and> cr_Name d = n \<and> resourceOf devs w' = resourceOf devs w \<and> stat w' = stat w"
    if "GetERdmaDevice kc n w = (Ok d, w')" for n w d w'
    using law(3) [OF that] law(6) [OF that] find_SomeD [OF law(6) [OF that]] by (auto simp: resourceOf_def fun_eq_iff)
  show ?thesis unfolding resourceStore_def using get upd law(7) law(9) by (auto simp: resourceOf_def)
qed

text \<open>In a well-formed store the resource of a node is what the agent of that node lists.\<close>

lemma listed_resource:
  assumes "storeOk xs" and "find (\<lambda>x. cr_Name x = n) xs = Some d"
  shows "filter (hasLabel (labelNodeName, n)) xs = [d]"
proof -
  note one = one_resource_per_node [OF assms(1), of n]
  from find_SomeD [OF assms(2)] have "d \<in> set (filter (hasLabel (labelNodeName, n)) xs)" unfolding one(1) by simp
  with one(2) show ?thesis by (cases "filter (hasLabel (labelNodeName, n)) xs") auto
qed

lemma unlisted_resource:
  "storeOk xs \<Longrightarrow> find (\<lambda>x. cr_Name x = n) xs = None \<Longrightarrow> filter (hasLabel (labelNodeName, n)) xs = []"
  by (simp add: one_resource_per_node(1) find_None_iff filter_empty_conv)

section \<open>The node\<close>

lemma waitCreated_kept: "apiServer kc devs stat \<Longrightarrow> keeps devs (waitCreated kc n name)"
proof (induction n)
  case (Suc n)
  from apiServerD(3) [OF Suc.prems] have "keeps devs (GetERdmaDevice kc name)" by (auto simp: keeps_def)
  with Suc show ?case by (auto intro!: keeps_tryA)
qed simp

text \<open>
  A reconcile of a node without a resource, after which there is one: the store has grown by the resource for what
  \<open>SelectERIs\<close> returned for the instance of the node, and by nothing else.
\<close>

lemma provisionNode_store:
  assumes srv: "apiServer kc devs stat" and ecs: "ecsAlong (\<lambda>w w'. devs w' = devs w) api"
    and run: "provisionNode api kc polls e node iid w = (Ok res, w')"
  shows "devs w' = devs w \<or> (\<exists>eris j wa. SelectERIs api e iid w = (Ok (Some eris), wa) \<and> devs w' = devs w @ [newDevice node iid j eris] \<and>
    node_Name node \<notin> cr_Name ` set (devs w))"
proof -
  note R = reflpI [of "\<lambda>w w'. devs w' = devs w"] and T = transpI [of "\<lambda>w w'. devs w' = devs w"]
  from run obtain eri wa where sel: "SelectERIs api e iid w = (Ok eri, wa)"
    and rest: "(case eri of None \<Rightarrow> retA noResult | Some eris \<Rightarrow>
         bindA (tryA (IsJumboFrameEnabled api iid) retA (\<lambda>err. retA False)) (\<lambda>jumboFrame.
         bindA (CreateERdmaDevice kc (newDevice node iid jumboFrame eris)) (\<lambda>_.
         bindA (waitCreated kc polls (node_Name node)) (\<lambda>_. retA noResult)))) wa = (Ok res, w')"
    unfolding provisionNode_def by (elim bindA_OkE)
  from alongD [OF SelectERIs_along [OF R T ecs] sel] have wa: "devs wa = devs w" by simp
  show ?thesis
  proof (cases eri)
    case None
    with rest wa show ?thesis by simp
  next
    case (Some eris)
    with rest obtain j u v wb wc wd where j: "tryA (IsJumboFrameEnabled api iid) retA (\<lambda>err. retA False) wa = (Ok j, wb)"
      and c: "CreateERdmaDevice kc (newDevice node iid j eris) wb = (Ok u, wc)"
      and p: "waitCreated kc polls (node_Name node) wc = (Ok v, wd)" and "w' = wd"
      by (auto elim!: bindA_OkE)
    have "along (\<lambda>w w'. devs w' = devs w) (tryA (IsJumboFrameEnabled api iid) retA (\<lambda>err. retA False))"
      unfolding pure_actions by (intro along_intros R T IsJumboFrameEnabled_along ecs) auto
    from alongD [OF this j] have "devs wb = devs w" using wa by simp
    with apiServerD(8) [OF srv c] keepsD [OF waitCreated_kept [OF srv] p] \<open>w' = wd\<close> sel Some show ?thesis
      by (auto simp: newDevice_def)
  qed
qed

lemma NodeReconcile_OkE:
  assumes "NodeReconcile api kc polls r name w = (Ok (res, t), w')"
  obtains (removed) rn w1 where "GetNode kc name w = (rn, w1)" and "RemoveERdmaDevices kc name w1 = (Ok res, w')"
    | (waits) node where "GetNode kc name w = (Ok node, w')"
    | (live) node w1 where "GetNode kc name w = (Ok node, w1)" and "reconcileLive api kc polls r node w1 = (Ok (res, t), w')"
  using assms unfolding NodeReconcile_def Let_def
  by (auto elim!: tryA_OkE bindA_OkE split: if_splits)

lemma NodeReconcile_store:
  assumes srv: "apiServer kc devs stat" and ecs: "ecsAlong (\<lambda>w w'. devs w' = devs w) api"
    and "filter (hasLabel (labelNodeName, name)) (devs w) = []" and run: "NodeReconcile api kc polls r name w = (Ok (res, t), w')"
  shows "devs w' = devs w \<or> (\<exists>node iid eris j wa wb. node_Name node = name \<and> SelectERIs api (nr_EriClient r) iid wa = (Ok (Some eris), wb) \<and>
    devs w' = devs w @ [newDevice node iid j eris] \<and> name \<notin> cr_Name ` set (devs w))"
proof -
  let ?R = "\<lambda>w w'. devs w' = devs w"
  have R: "reflp ?R" "transp ?R" by (auto intro: reflpI transpI)
  note law = apiServerD [OF srv]
  have gone: "devs w2 = devs w1" if "RemoveERdmaDevices kc name w1 = (Ok x, w2)" "devs w1 = devs w" for w1 w2 x
  proof -
    from that(1) obtain items wa where "ListERdmaDevices kc (labelNodeName, name) w1 = (Ok items, wa)"
      and "(if items = [] then retA noResult else bindA (clearFinalizers kc items) (\<lambda>_. bindA (deleteDevices kc items) (\<lambda>_. retA noResult))) wa = (Ok x, w2)"
      unfolding RemoveERdmaDevices_def by (elim bindA_OkE)
    with law(5) [OF this(1)] law(2) [OF this(1)] that(2) assms(3) show ?thesis by simp
  qed
  have fill: "along ?R (backfillEriTags api e tg ds i)" for e tg ds i
    unfolding backfillEriTags_def Let_def pure_actions by (intro along_prod along_intros R EnsureEriTags_along ecs)
  from run show ?thesis
  proof (cases rule: NodeReconcile_OkE)
    case (removed rn w1)
    from gone [OF removed(2)] law(1) [OF removed(1)] show ?thesis by simp
  next
    case (waits node)
    from law(1) [OF waits] show ?thesis by simp
  next
    case (live node w1)
    then obtain i w2 items w3 where i: "InstanceIDFromNode api (nr_EriClient r) node w1 = (Ok i, w2)"
      and l: "ListERdmaDevices kc (labelInstanceID, i) w2 = (Ok items, w3)"
      and rest: "(if items = [] then bindA (provisionNode api kc polls (nr_EriClient r) node i) (\<lambda>res. retA (res, nr_taggedENIs r))
        else bindA (backfillEriTags api (nr_EriClient r) (nr_taggedENIs r) items i) (\<lambda>tagged. retA (noResult, tagged))) w3 = (Ok (res, t), w')"
      unfolding reconcileLive_def by (elim bindA_OkE)
    have w3: "devs w3 = devs w" and name: "node_Name node = name"
      using law(1) [OF live(1)] law(4) [OF live(1)] law(2) [OF l] alongD [OF InstanceIDFromNode_along [OF R ecs] i] by simp_all
    show ?thesis
    proof (cases "items = []")
      case True
      with rest have "provisionNode api kc polls (nr_EriClient r) node i w3 = (Ok res, w')" by (auto elim!: bindA_OkE)
      from provisionNode_store [OF srv ecs this, unfolded w3 name] name show ?thesis by blast
    next
      case False
      with rest have "backfillEriTags api (nr_EriClient r) (nr_taggedENIs r) items i w3 = (Ok t, w')" by (auto elim!: bindA_OkE)
      from alongD [OF fill this] w3 show ?thesis by simp
    qed
  qed
qed

section \<open>The agent\<close>

lemma WaitEriInfo_first:
  assumes "apiServer kc devs stat" and "filter (hasLabel (labelNodeName, name)) (devs w) = [d]"
    and "WaitEriInfo kc (Suc p) name w = (Ok x, w')"
  shows "x = Some d"
  using assms(2,3) by (auto elim!: tryA_OkE dest!: apiServerD(5) [OF assms(1)])

lemma eriSource_resource:
  assumes "apiServer kc devs stat" and "storeOk (devs w)" and "resourceOf devs w name = Some d"
    and "eriSource kc h (Suc p) a w = (Ok src, w')" and "ag_nodeName a = name" and "\<not> ag_localERIDiscovery a"
  shows "src = Some (cr_Spec d, ag_allocAllDevices a)"
proof -
  from assms(4-6) obtain x where x: "WaitEriInfo kc (Suc p) name w = (Ok x, w')"
    and src: "src = map_option (\<lambda>cr. (cr_Spec cr, ag_allocAllDevices a)) x"
    by (auto simp: eriSource_def simp del: WaitEriInfo.simps elim!: bindA_OkE)
  have "filter (hasLabel (labelNodeName, name)) (devs w) = [d]"
    using listed_resource assms(2,3) by (simp add: resourceOf_def)
  from WaitEriInfo_first [OF assms(1) this x] src show ?thesis by simp
qed

lemma new_resource:
  assumes "apiServer kc devs stat" and "ecsAlong (\<lambda>w w'. devs w' = devs w) api" and "storeOk (devs w)" and "resourceOf devs w name = None"
    and "NodeReconcile api kc polls r name w = (Ok (res, t), w')" and "resourceOf devs w' name = Some d"
  obtains node iid eris j wa wb where "SelectERIs api (nr_EriClient r) iid wa = (Ok (Some eris), wb)" and "d = newDevice node iid j eris"
proof -
  have "filter (hasLabel (labelNodeName, name)) (devs w) = []" using unlisted_resource [OF assms(3)] assms(4) by (simp add: resourceOf_def)
  from NodeReconcile_store [OF assms(1,2) this assms(5)] assms(4,6) obtain node iid eris j wa wb where
    name: "node_Name node = name" and sel: "SelectERIs api (nr_EriClient r) iid wa = (Ok (Some eris), wb)"
    and grown: "devs w' = devs w @ [newDevice node iid j eris]"
    by (auto simp: resourceOf_def)
  have "find P (xs @ [y]) = Some d \<Longrightarrow> find P xs = None \<Longrightarrow> d = y" for P xs and y :: ERdmaDevice
    by (induction xs) (auto split: if_splits)
  with grown assms(4,6) have "d = newDevice node iid j eris" by (auto simp: resourceOf_def)
  with sel that show ?thesis by blast
qed

lemma resourceOf_kept: "ecsAlong (\<lambda>w w'. devs w' = devs w) api \<Longrightarrow> ecsKeeps api (resourceOf devs)"
  by (auto simp: ecsAlong_def along_def ecsKeeps_def keeps_def resourceOf_def fun_eq_iff)

text \<open>A cloud with the primary interface of the instance, whose new interfaces are available, and the cluster with one node.\<close>

definition exNodeCloud :: "(string \<Rightarrow> (string \<times> string) option) ecs" where
  "exNodeCloud = exStatCloud\<lparr> DescribeNetworkInterfaces := (\<lambda>req w.
     if dni_NetworkInterfaceId req = [] then (Ok \<lparr> dni_StatusCode = Some 200, dni_NetworkInterfaceSet = [exPrimary] \<rparr>, w)
     else DescribeNetworkInterfaces exStatCloud req w),
     CreateNetworkInterface := (\<lambda>req w.
     (Ok \<lparr> cni_NetworkInterfaceId = Some (''eni-'' @ cni_NetworkInterfaceName req), cni_MacAddress = Some ''00:16:3e:00:00:0a'' \<rparr>,
      w(''eni-'' @ cni_NetworkInterfaceName req \<mapsto> (''Available'', cni_TrafficMode req)))) \<rparr>"

type_synonym exPlant = "(string \<Rightarrow> (string \<times> string) option) \<times> exWorld"

definition exPlantView :: "exPlant view" where
  "exPlantView = exView (\<lambda>_. UNIV)"

lemma exNodeCloud_laws: "eniCloud (fstEcs exNodeCloud) fst"
proof -
  have "\<exists>m. eniMapOf [exPrimary] = Ok m" by (simp add: eniMapOf_def exPrimary_def bindR_Ok_iff)
  with exStatCloud_laws have "eniCloud exNodeCloud (\<lambda>w. w)" by (auto simp: eniCloud_def exNodeCloud_def)
  then show ?thesis by (rule fstEcs_laws)
qed

lemma fstEcs_along:
  assumes "\<And>w w'. snd w' = snd w \<Longrightarrow> R w w'"
  shows "ecsAlong R (fstEcs api)"
  unfolding ecsAlong_def along_def by (auto simp: fstEcs_def onFst_iff intro: assms)

lemma exPlant_server: "apiServer exServer (vw_store exPlantView) fst"
  by (auto simp: apiServer_def keeps_def exServer_def sndK8s_def onSnd_iff exCluster_def exPlantView_def exView_def list_ex_iff
      dest!: find_SomeD split: if_splits option.splits)

lemma exPlant_cluster: "clusterApi (fstEcs exNodeCloud) exServer exPlantView"
proof -
  have "servicePrimaryOnCard0 (fstEcs exNodeCloud)"
    by (auto simp: servicePrimaryOnCard0_def fstEcs_def onFst_iff exNodeCloud_def exStatCloud_def exFixed_def primaryOnCard0_def
        List.map_filter_def exEni_def exPrimary_def exSecondary_def list_all_iff isPrimary_def eniCardIndex_def split: if_splits)
  moreover have "ecsAlong (rely exPlantView) (fstEcs exNodeCloud)"
    by (rule fstEcs_along) (simp add: rely_def exPlantView_def exView_def)
  moreover have "tagsSet (fstEcs exNodeCloud) exPlantView" by (simp add: tagsSet_def exPlantView_def exView_def)
  ultimately show ?thesis by (simp add: clusterApi_def exPlantView_def exServer_writes exServer_reads)
qed

definition exPlantNode :: "exPlant \<Rightarrow> (Result \<times> string set) res \<times> exPlant" where
  "exPlantNode = NodeReconcile (fstEcs exNodeCloud) exServer 4 exReconciler ''node-a''"

definition exPlantDevice :: "exPlant \<Rightarrow> Result res \<times> exPlant" where
  "exPlantDevice = DeviceReconcile (fstEcs exNodeCloud) exClient exServer ''node-a''"

definition exPlantStart :: exPlant where
  "exPlantStart = ([''eni-1'' \<mapsto> (''InUse'', ''Standard'')], ([exNode ''node-a'' ''True''], []))"

definition exPlantEnd :: exPlant where
  "exPlantEnd = snd (exPlantDevice (snd (exPlantDevice (snd (exPlantNode exPlantStart)))))"

lemma exPlant_get: "resourceOf (vw_store exPlantView) w n = find (\<lambda>x. cr_Name x = n) (snd (snd w))"
  by (simp add: resourceOf_def exPlantView_def exView_def)

lemma exPlant_made:
  "map_option (\<lambda>d. list_all (\<lambda>x. case fst (snd (exPlantNode exPlantStart)) (dev_ID x) of None \<Rightarrow> False | Some st \<Rightarrow> canReady x st)
     (spec_Devices (cr_Spec d))) (find (\<lambda>x. cr_Name x = ''node-a'') (snd (snd (snd (exPlantNode exPlantStart))))) = Some True"
  by code_simp

lemma exPlant_fine:
  "map_option (\<lambda>d. list_all (\<lambda>s. st_Status s \<noteq> DeviceStatusFailed) (cr_Status d))
     (find (\<lambda>x. cr_Name x = ''node-a'') (snd (snd (snd (exPlantDevice (snd (exPlantNode exPlantStart))))))) = Some True"
  by code_simp

end
