(* ===== verification/Smcr.thy ===== *)
theory Smcr
  imports Agent
begin

text \<open>
  SMC-R connects a network device to an RDMA device when both carry the same network id. The agent gives the RDMA device
  its id, the plugin tells a container an id through its environment, and the init container gives that id to the network device of the
  pod. That the two ids are the same is a property of the agent, the plugin and the init container together.
\<close>

section \<open>The tool\<close>

text \<open>
  What smc\_pnet documents: \<open>tbl\<close> are its entries in the network namespace the command prefix \<open>pre\<close> enters (the id, \<open>-D\<close> or
  \<open>-I\<close>, and the name of the device or the interface); \<open>-s\<close> prints them and \<open>-a\<close> adds one. A text of \<open>S\<close>
  that is found in the output comes from an entry.
\<close>

type_synonym pnetEntry = "string \<times> string \<times> string"

definition mentions :: "string \<Rightarrow> pnetEntry \<Rightarrow> bool" where
  "mentions s e \<longleftrightarrow> (case e of (p, k, x) \<Rightarrow> Contains p s \<or> Contains x s)"

definition pnetTool :: "'w host \<Rightarrow> string list \<Rightarrow> ('w \<Rightarrow> pnetEntry set) \<Rightarrow> string set \<Rightarrow> bool" where
  "pnetTool h pre tbl S \<longleftrightarrow>
     (\<forall>w x w'. Exec h (pre @ [smcPnet, ''-s'']) w = (Ok x, w') \<longrightarrow> tbl w' = tbl w) \<and>
     (\<forall>w out w'. Exec h (pre @ [smcPnet, ''-s'']) w = (Ok (out, None), w') \<longrightarrow>
        (\<forall>s\<in>S. Contains out s \<longrightarrow> (\<exists>e\<in>tbl w. mentions s e))) \<and>
     (\<forall>p k x w out w'. Exec h (pre @ [smcPnet, ''-a'', p, k, x]) w = (Ok (out, None), w') \<longrightarrow>
        tbl w' = insert (p, k, x) (tbl w))"

lemma configPnet_entry:
  assumes tool: "pnetTool h pre tbl S" and "needle \<in> S"
    and run: "configPnet h pre msgs needle [''-a'', p, k, x] w = (Ok (), w')"
  shows "(p, k, x) \<in> tbl w' \<or> tbl w' = tbl w \<and> (\<exists>e\<in>tbl w. mentions needle e)"
proof -
  from tool have show_keeps: "\<And>w x w'. Exec h (pre @ [smcPnet, ''-s'']) w = (Ok x, w') \<Longrightarrow> tbl w' = tbl w"
    and found: "\<And>w out w'. Exec h (pre @ [smcPnet, ''-s'']) w = (Ok (out, None), w') \<Longrightarrow> Contains out needle \<Longrightarrow> \<exists>e\<in>tbl w. mentions needle e"
    and added: "\<And>w out w'. Exec h (pre @ [smcPnet, ''-a'', p, k, x]) w = (Ok (out, None), w') \<Longrightarrow> tbl w' = insert (p, k, x) (tbl w)"
    using assms(2) unfolding pnetTool_def by blast+
  from run obtain y w1 where y: "Exec h (pre @ [smcPnet, ''-s'']) w = (Ok y, w1)"
    and rest: "(case y of (output, err) \<Rightarrow> case err of Some e \<Rightarrow> failA (Errorf (fst msgs) [err_Error e, output])
     | None \<Rightarrow> if Contains output needle then retA ()
         else bindA (Exec h (pre @ [smcPnet] @ [''-a'', p, k, x])) (\<lambda>(output', err').
           case err' of Some e \<Rightarrow> failA (Errorf (snd msgs) [err_Error e, output']) | None \<Rightarrow> retA ())) w1 = (Ok (), w')"
    unfolding configPnet_def by (elim bindA_OkE)
  obtain out err where out: "y = (out, err)" by (cases y)
  note s = y [unfolded out] and rest = rest [unfolded out prod.case]
  show ?thesis
  proof (cases err)
    case None
    show ?thesis
    proof (cases "Contains out needle")
      case True
      with rest None show_keeps [OF s] found [OF s [unfolded None] True] show ?thesis by simp
    next
      case False
      with rest None obtain out' err' where a: "Exec h (pre @ [smcPnet, ''-a'', p, k, x]) w1 = (Ok (out', err'), w')" and "err' = None"
        by (auto elim!: bindA_OkE split: option.splits)
      with added [of w1 out' w'] show ?thesis by simp
    qed
  qed (use rest in simp)
qed

section \<open>The id in the environment\<close>

lemma pickRequested_info:
  "pickRequested devs ids (info, devices, occ) = Ok p \<Longrightarrow> fst p = info \<or>
     (\<exists>i\<in>set ids. \<exists>d. map_of devs (hd (Split (CHR ''/'') i)) = Some d \<and> fst p = Some d)"
proof (induction devs ids "(info, devices, occ)" arbitrary: info devices occ rule: pickRequested.induct)
  case (2 devs devID ids info devices occ)
  then show ?case by (fastforce simp: Let_def bindR_Ok_iff split: if_splits)
qed auto

lemma Allocate_env:
  assumes "\<not> dp_allocAllDevices m" and "Allocate ordD ordV m [ids] = Ok [r]"
  obtains i d pnet where "i \<in> set ids" and "map_of (dp_devices m) (hd (Split (CHR ''/'') i)) = Some d"
    and "PNetIDFromDevice (Some d) = Ok pnet" and "resp_Envs r = [(SMCRPNETEnv, pnet)]"
proof -
  from assms(2) obtain p where p: "pickRequested (dp_devices m) ids (None, [], {}) = Ok p"
    and r: "respond (dp_allocRdmaCM m) (ordV 0) p = Ok [r]"
    by (auto simp: Allocate_requested [OF assms(1)] bindR_Ok_iff)
  from r obtain pnet where pnet: "PNetIDFromDevice (fst p) = Ok pnet" and env: "resp_Envs r = [(SMCRPNETEnv, pnet)]"
    by (auto simp: respond_def Let_def bindR_Ok_iff split: if_splits)
  from pnet have "fst p \<noteq> None" by (auto simp: PNetIDFromDevice_def bindR_Ok_iff)
  with pickRequested_info [OF p] obtain i d where "i \<in> set ids" "map_of (dp_devices m) (hd (Split (CHR ''/'') i)) = Some d" "fst p = Some d"
    by auto
  with that pnet env show ?thesis by simp
qed

definition pnetIds :: "ERDMADevicePlugin \<Rightarrow> string set" where
  "pnetIds m = {pnet. \<exists>d\<in>snd ` set (dp_devices m). PNetIDFromDevice (Some d) = Ok pnet}"

lemma smcr_init_entry:
  assumes tool: "pnetTool h [] tbl {''eth0''}" and "keeps tbl (Stat h ''/proc/sys/net/smc/tcp2smc'')" and "\<And>f s. keeps tbl (write f s)"
    and "\<forall>e\<in>tbl w. \<not> mentions ''eth0'' e" and run: "smcr_init h write pnet w = (Ok (), w')"
  shows "(pnet, ''-I'', ''eth0'') \<in> tbl w'"
proof -
  from run obtain u1 u2 u3 w1 w2 w3 where s: "Stat h ''/proc/sys/net/smc/tcp2smc'' w = (Ok u1, w1)"
    and t: "write ''/proc/sys/net/smc/tcp2smc'' ''1'' w1 = (Ok u2, w2)"
    and d: "write ''/proc/sys/net/ipv6/conf/all/disable_ipv6'' ''1'' w2 = (Ok u3, w3)"
    and c: "ConfigForNetDevice h pnet ''eth0'' w3 = (Ok (), w')"
    by (auto simp: smcr_init_def elim!: bindA_OkE tryA_OkE split: if_splits)
  from keepsD [OF assms(2) s] keepsD [OF assms(3) t] keepsD [OF assms(3) d] have "tbl w3 = tbl w" by simp
  with configPnet_entry [OF tool _ c [unfolded ConfigForNetDevice_def]] assms(4) show ?thesis by auto
qed

section \<open>A node and a pod\<close>

text \<open>A tool that prints an entry per line; the state of the world are the entries.\<close>

definition entryText :: "pnetEntry \<Rightarrow> string" where
  "entryText e = (case e of (p, k, x) \<Rightarrow> p @ CHR '' '' # x @ [CHR 0x0A])"

definition exPnetHost :: "pnetEntry list host" where
  "exPnetHost = exNodeHost\<lparr> Exec := (\<lambda>argv w.
     if argv = [smcPnet, ''-s''] then (Ok (concat (map entryText w), None), w)
     else if length argv = 5 then (Ok ([], None), (argv ! 2, argv ! 3, argv ! 4) # w) else (Ok ([], Some (ApiErr ''usage'')), w)) \<rparr>"

lemma HasPrefix_prefix: "HasPrefix s p = prefix p s"
  by (simp add: HasPrefix_iff prefix_def)

lemma Contains_sep:
  assumes "c \<notin> set s" and "Contains (a @ c # b) s"
  shows "Contains a s \<or> Contains b s"
  using assms(2)
proof (induction a)
  case Nil
  with assms(1) show ?case by (cases s) (auto simp: HasPrefix_prefix)
next
  case (Cons x a)
  have "prefix s ((x # a) @ c # b) \<Longrightarrow> prefix s (x # a)"
    unfolding prefix_append using assms(1) by (auto simp: prefix_Cons)
  with Cons show ?case by (auto simp: HasPrefix_prefix)
qed

lemma entries_mention:
  assumes "s \<noteq> []" and "CHR '' '' \<notin> set s" and "CHR 0x0A \<notin> set s" and "Contains (concat (map entryText es)) s"
  shows "\<exists>e\<in>set es. mentions s e"
  using assms(4)
proof (induction es)
  case (Cons e es)
  obtain p k x where e: "e = (p, k, x)" by (cases e)
  from Cons.prems have "Contains (p @ CHR '' '' # (x @ CHR 0x0A # concat (map entryText es))) s"
    using entryText_def [of e] by (simp add: e)
  from Contains_sep [OF assms(2) this] Contains_sep [OF assms(3)] Cons.IH show ?case by (auto simp: e mentions_def)
qed (use assms(1) in simp)

lemma exPnetHost_tool:
  assumes "\<And>s. s \<in> S \<Longrightarrow> s \<noteq> [] \<and> CHR '' '' \<notin> set s \<and> CHR 0x0A \<notin> set s"
  shows "pnetTool exPnetHost [] set S"
  unfolding pnetTool_def using assms entries_mention by (auto simp: exPnetHost_def)

lemma exInfo_pnet: "PNetIDFromDevice (Some (exInfo n p)) = Ok ''00163E00000A''"
proof -
  have "DeleteAll (CHR '':'') (ToUpper ''00:16:3e:00:00:0a'') = ''00163E00000A''" by code_simp
  then show ?thesis by (simp add: PNetIDFromDevice_def exInfo_def)
qed

lemma exPlugin_pnets: "pnetIds (exPlugin False False) \<subseteq> {''00163E00000A''}"
  by (auto simp: pnetIds_def exPlugin_def exInfo_pnet)

end
