(* ===== verification/Watch_Stream.thy ===== *)
theory Watch_Stream
  imports Plugin_Server
begin

text \<open>
  \<open>ListAndWatch\<close> of internal/deviceplugin/deviceplugin.go runs in a goroutine per connection of the kubelet while another goroutine
  stops and starts the server. They share the field \<open>m.stop\<close>, a channel that Stop closes and Start replaces. The
  system is a step relation: a channel is the number of the start that made it, and a stream reads the field
  anew each time it enters its \<open>select\<close>.
\<close>

section \<open>Streams and the server\<close>

text \<open>
  Where a stream is: before its first \<open>Send\<close>, before the \<open>select\<close>, in the \<open>select\<close> with the channel it read,
  in a \<open>Send\<close> after the ticker, or returned.
\<close>

datatype phase = Opening | Looping | Waiting nat | Sending | Ended

record watchState =
  ws_plugin :: ERDMADevicePlugin
  ws_gen :: nat
  ws_closed :: "nat set"
  ws_streams :: "phase list"

text \<open>
  One stream. An error of the first \<open>Send\<close> ends it; an error of a later one is logged only. In the \<open>select\<close> the ticker is ready at
  any time, and a closed channel is.
\<close>

inductive streamStep :: "watchState \<Rightarrow> phase \<Rightarrow> phase \<Rightarrow> bool" for s where
  listed: "streamStep s Opening Looping"
| refused: "streamStep s Opening Ended"
| select: "streamStep s Looping (Waiting (ws_gen s))"
| tick: "streamStep s (Waiting g) Sending"
| sent: "streamStep s Sending Looping"
| stopped: "g \<in> ws_closed s \<Longrightarrow> streamStep s (Waiting g) Ended"

inductive_simps streamStep_simps: "streamStep s (Waiting g) p" "streamStep s Ended p"

definition closing :: "watchState \<Rightarrow> nat set" where
  "closing s = (if dp_server (ws_plugin s) then insert (ws_gen s) (ws_closed s) else ws_closed s)"

text \<open>The system; a start that fails ends the process.\<close>

inductive watchStep :: "watchState \<Rightarrow> watchState \<Rightarrow> bool" where
  openStream: "dp_server (ws_plugin s) \<Longrightarrow> watchStep s (s\<lparr> ws_streams := ws_streams s @ [Opening] \<rparr>)"
| stream: "i < length (ws_streams s) \<Longrightarrow> streamStep s (ws_streams s ! i) p \<Longrightarrow> watchStep s (s\<lparr> ws_streams := (ws_streams s)[i := p] \<rparr>)"
| startServer: "Start out (ws_plugin s) = Ok (None, m') \<Longrightarrow>
    watchStep s (s\<lparr> ws_plugin := m', ws_gen := Suc (ws_gen s), ws_closed := closing s \<rparr>)"
| stopServer: "Stop out (ws_plugin s) = Ok (e, m') \<Longrightarrow> watchStep s (s\<lparr> ws_plugin := m', ws_closed := closing s \<rparr>)"

definition watchStart :: "ERDMADevicePlugin \<Rightarrow> watchState" where
  "watchStart m = \<lparr> ws_plugin = m, ws_gen = 0, ws_closed = {}, ws_streams = [] \<rparr>"

section \<open>No stream is left on a channel that nobody closes\<close>

definition watchInv :: "watchState \<Rightarrow> bool" where
  "watchInv s \<longleftrightarrow> (dp_stopClosed (ws_plugin s) \<longleftrightarrow> ws_gen s \<in> ws_closed s) \<and> (\<forall>g\<in>ws_closed s. g \<le> ws_gen s) \<and>
     (dp_server (ws_plugin s) \<longrightarrow> ws_gen s \<notin> ws_closed s) \<and> (ws_streams s = [] \<or> dp_server (ws_plugin s) \<or> ws_gen s \<in> ws_closed s) \<and>
     (\<forall>g. Waiting g \<in> set (ws_streams s) \<longrightarrow> g = ws_gen s \<or> g \<in> ws_closed s)"

lemma Start_fields:
  assumes "Start out m = Ok (None, m')"
  shows "dp_server m'" "\<not> dp_stopClosed m'" "dp_server m \<Longrightarrow> \<not> dp_stopClosed m"
  using assms by (auto simp: Start_def closeStop_def bindR_Ok_iff split: option.splits if_splits)

lemma Stop_fields:
  assumes "Stop out m = Ok (e, m')"
  shows "\<not> dp_server m'" "dp_stopClosed m' \<longleftrightarrow> dp_server m \<or> dp_stopClosed m"
  using assms by (auto simp: Stop_def closeStop_def bindR_Ok_iff split: if_splits)

lemma streamStep_waits: "streamStep s p (Waiting g) \<Longrightarrow> g = ws_gen s"
  by (auto elim: streamStep.cases)

lemma next_channel_open: "watchInv s \<Longrightarrow> Suc (ws_gen s) \<notin> ws_closed s"
  by (simp add: watchInv_def) (metis Suc_n_not_le_n)

lemma watchStep_inv: "watchStep s s' \<Longrightarrow> watchInv s \<Longrightarrow> watchInv s'"
proof (induction rule: watchStep.induct)
  case (stream i s p)
  have "g = ws_gen s \<or> g \<in> ws_closed s" if "Waiting g \<in> set ((ws_streams s)[i := p])" for g
  proof -
    from that consider "p = Waiting g" | "Waiting g \<in> set (ws_streams s)" using set_update_subset_insert [of "ws_streams s" i p] by blast
    then show ?thesis using stream.prems streamStep_waits [of s _ g] stream.hyps(2) by cases (simp_all add: watchInv_def)
  qed
  with stream.prems stream.hyps(1) show ?case by (auto simp: watchInv_def)
next
  case (startServer out s m')
  note f = Start_fields [OF startServer.hyps]
  from startServer.prems have le: "\<forall>g\<in>ws_closed s. g \<le> ws_gen s" by (simp add: watchInv_def)
  have "Suc (ws_gen s) \<notin> closing s" using next_channel_open [OF startServer.prems] by (simp add: closing_def)
  moreover have "g \<in> closing s" if "Waiting g \<in> set (ws_streams s)" for g
    using startServer.prems that by (auto simp: watchInv_def closing_def)
  moreover have "\<forall>g\<in>closing s. g \<le> Suc (ws_gen s)" using le by (auto simp: closing_def)
  ultimately show ?case using f by (auto simp: watchInv_def)
next
  case (stopServer out s e m')
  note f = Stop_fields [OF stopServer.hyps]
  show ?case using f stopServer.prems by (auto simp: watchInv_def closing_def split: if_splits)
qed (auto simp: watchInv_def)

lemma watch_reach_inv:
  assumes "watchStep\<^sup>*\<^sup>* (watchStart m) s" and "\<not> dp_server m" and "\<not> dp_stopClosed m"
  shows "watchInv s"
  using assms(1)
proof (induction rule: rtranclp_induct)
  case base
  from assms(2,3) show ?case by (simp add: watchInv_def watchStart_def)
qed (rule watchStep_inv)

lemma stream_can_end:
  assumes "watchInv s" and "\<not> dp_server (ws_plugin s)" and "p \<in> set (ws_streams s)"
  shows "(streamStep s)\<^sup>*\<^sup>* p Ended"
proof -
  from assms have c: "ws_gen s \<in> ws_closed s" by (auto simp: watchInv_def)
  then have w: "(streamStep s)\<^sup>*\<^sup>* (Waiting (ws_gen s)) Ended" by (blast intro: streamStep.stopped)
  then have l: "(streamStep s)\<^sup>*\<^sup>* Looping Ended" by (rule converse_rtranclp_into_rtranclp [rotated]) (rule streamStep.select)
  show ?thesis
  proof (cases p)
    case Opening
    then show ?thesis by (blast intro: streamStep.refused)
  next
    case (Waiting g)
    with assms(1,3) c have "g \<in> ws_closed s" by (auto simp: watchInv_def)
    with Waiting show ?thesis by (blast intro: streamStep.stopped)
  next
    case Sending
    from l show ?thesis unfolding Sending by (rule converse_rtranclp_into_rtranclp [rotated]) (rule streamStep.sent)
  qed (use l in auto)
qed

lemma new_plugin_idle:
  "NewERDMADevicePlugin r1 now r2 devs allocAll pre cm = Ok m \<Longrightarrow> \<not> dp_server m \<and> \<not> dp_stopClosed m"
  by (auto simp: NewERDMADevicePlugin_def bindR_Ok_iff Let_def split: res.splits if_splits option.splits)

text \<open>
  C17: However streams of the kubelet and stops and starts of the server interleave, the plugin knows whether its stop channel is closed, a
  stream that waits does so on the current channel or on one that is closed, so that none waits for a channel
  that nobody will close, a stream of a running server that waits on the current channel is not ended, and once the server is stopped every stream
  can return by its own steps.
\<close>

theorem watch_streams_can_end:
  assumes "NewERDMADevicePlugin r1 now r2 devs allocAll pre cm = Ok m" and "watchStep\<^sup>*\<^sup>* (watchStart m) s"
  shows "(dp_stopClosed (ws_plugin s) \<longleftrightarrow> ws_gen s \<in> ws_closed s) \<and>
    (\<forall>g. Waiting g \<in> set (ws_streams s) \<longrightarrow> g = ws_gen s \<or> g \<in> ws_closed s) \<and>
    (dp_server (ws_plugin s) \<longrightarrow> \<not> streamStep s (Waiting (ws_gen s)) Ended) \<and>
    (\<not> dp_server (ws_plugin s) \<longrightarrow> (\<forall>p\<in>set (ws_streams s). (streamStep s)\<^sup>*\<^sup>* p Ended))"
proof -
  from new_plugin_idle [OF assms(1)] watch_reach_inv [OF assms(2)] have inv: "watchInv s" by simp
  from inv have "dp_server (ws_plugin s) \<longrightarrow> \<not> streamStep s (Waiting (ws_gen s)) Ended"
    by (simp add: watchInv_def streamStep_simps)
  with inv stream_can_end [OF inv] show ?thesis by (auto simp: watchInv_def)
qed

section \<open>A stream that misses a restart\<close>

text \<open>
  C40: A stream that is in a Send while the server is restarted does not notice: it reads the field again afterwards and waits on the channel of
  the new server, although the channel of its own server is closed and its connection is gone. It stays until a later
  stop, sending to nobody.
\<close>

theorem stream_survives_restart:
  assumes "NewERDMADevicePlugin r1 now r2 devs allocAll pre cm = Ok m" and "watchStep\<^sup>*\<^sup>* (watchStart m) s"
    and "dp_server (ws_plugin s)" and "i < length (ws_streams s)" and "ws_streams s ! i = Sending"
  shows "\<exists>s'. watchStep\<^sup>*\<^sup>* s s' \<and> dp_server (ws_plugin s') \<and> ws_gen s \<in> ws_closed s' \<and>
    ws_streams s' = (ws_streams s)[i := Waiting (ws_gen s')] \<and> ws_gen s' = Suc (ws_gen s) \<and> \<not> streamStep s' (ws_streams s' ! i) Ended"
proof -
  from new_plugin_idle [OF assms(1)] watch_reach_inv [OF assms(2)] have inv: "watchInv s" by simp
  let ?out = "\<lparr> o_cleanup = None, o_listen = None, o_register = None \<rparr>"
  let ?m1 = "(ws_plugin s)\<lparr> dp_server := False, dp_stopClosed := True \<rparr>"
  let ?m2 = "?m1\<lparr> dp_server := True, dp_stopClosed := False \<rparr>"
  let ?c = "insert (ws_gen s) (ws_closed s)" and ?g = "Suc (ws_gen s)"
  let ?s1 = "s\<lparr> ws_plugin := ?m1, ws_closed := ?c \<rparr>" and ?s2 = "s\<lparr> ws_plugin := ?m2, ws_gen := ?g, ws_closed := ?c \<rparr>"
  let ?s3 = "?s2\<lparr> ws_streams := (ws_streams s)[i := Looping] \<rparr>" and ?s4 = "?s2\<lparr> ws_streams := (ws_streams s)[i := Waiting ?g] \<rparr>"
  have "\<not> dp_stopClosed (ws_plugin s)" using inv assms(3) by (simp add: watchInv_def)
  moreover have new: "?g \<notin> ?c" using next_channel_open [OF inv] by simp
  ultimately have "Stop ?out (ws_plugin s) = Ok (None, ?m1)" using assms(3) by (simp add: Stop_def closeStop_def)
  from watchStep.stopServer [OF this] assms(3) have s1: "watchStep s ?s1" by (simp add: closing_def)
  have "Start ?out (ws_plugin ?s1) = Ok (None, ?m2)" by (simp add: Start_def)
  from watchStep.startServer [OF this] have s2: "watchStep ?s1 ?s2" by (simp add: closing_def)
  have "watchStep ?s2 ?s3" using watchStep.stream [of i ?s2 Looping] assms(4,5) streamStep.sent by simp
  moreover have "watchStep ?s3 ?s4" using watchStep.stream [of i ?s3 "Waiting ?g"] assms(4) streamStep.select [of ?s3] by simp
  ultimately have "watchStep\<^sup>*\<^sup>* s ?s4" using s1 s2 by (meson converse_rtranclp_into_rtranclp rtranclp.rtrancl_refl)
  then show ?thesis using new assms(4) by (intro exI [of _ ?s4]) (auto simp: streamStep_simps)
qed

section \<open>A server with one stream\<close>

definition exServing :: "phase list \<Rightarrow> watchState" where
  "exServing ps = \<lparr> ws_plugin = (exPlugin False False)\<lparr> dp_server := True \<rparr>, ws_gen = 1, ws_closed = {}, ws_streams = ps \<rparr>"

lemma exServing_move: "streamStep (exServing [p]) p q \<Longrightarrow> watchStep (exServing [p]) (exServing [q])"
  using watchStep.stream [of 0 "exServing [p]" q] by (simp add: exServing_def)

lemma exServing_waits: "watchStep\<^sup>*\<^sup>* (watchStart (exPlugin False False)) (exServing [Waiting 1])"
proof -
  have "Start \<lparr> o_cleanup = None, o_listen = None, o_register = None \<rparr> (exPlugin False False) = Ok (None, (exPlugin False False)\<lparr> dp_server := True \<rparr>)"
    by (simp add: Start_def exPlugin_def)
  with watchStep.startServer [of _ "watchStart (exPlugin False False)"] have "watchStep (watchStart (exPlugin False False)) (exServing [])"
    by (simp add: watchStart_def exServing_def closing_def exPlugin_def)
  moreover have "watchStep (exServing []) (exServing [Opening])"
    using watchStep.openStream [of "exServing []"] by (simp add: exServing_def)
  moreover have "watchStep (exServing [Opening]) (exServing [Looping])" by (rule exServing_move) (rule streamStep.listed)
  moreover have "watchStep (exServing [Looping]) (exServing [Waiting 1])"
    using streamStep.select [of "exServing [Looping]"] by (intro exServing_move) (simp add: exServing_def)
  ultimately show ?thesis by (meson converse_rtranclp_into_rtranclp rtranclp.rtrancl_refl)
qed

theorem watch_streams_can_end_witness:
  "let s = (exServing [Waiting 1])\<lparr> ws_plugin := (exPlugin False False)\<lparr> dp_stopClosed := True \<rparr>, ws_closed := {1} \<rparr> in
   watchStep\<^sup>*\<^sup>* (watchStart (exPlugin False False)) s \<and> (streamStep s)\<^sup>*\<^sup>* (Waiting 1) Ended"
proof -
  let ?s = "(exServing [Waiting 1])\<lparr> ws_plugin := (exPlugin False False)\<lparr> dp_stopClosed := True \<rparr>, ws_closed := {1} \<rparr>"
  have "Stop \<lparr> o_cleanup = None, o_listen = None, o_register = None \<rparr> (ws_plugin (exServing [Waiting 1])) =
      Ok (None, (exPlugin False False)\<lparr> dp_stopClosed := True \<rparr>)"
    by (simp add: Stop_def closeStop_def exServing_def exPlugin_def)
  from watchStep.stopServer [OF this] have "watchStep (exServing [Waiting 1]) ?s" by (simp add: closing_def exServing_def)
  with exServing_waits have r: "watchStep\<^sup>*\<^sup>* (watchStart (exPlugin False False)) ?s" by (rule rtranclp.rtrancl_into_rtrancl)
  from watch_streams_can_end [OF exPlugin_new this] have "(streamStep ?s)\<^sup>*\<^sup>* (Waiting 1) Ended"
    by (simp add: exServing_def exPlugin_def)
  with r show ?thesis by (simp add: Let_def)
qed

theorem stream_survives_restart_witness:
  "\<exists>s'. watchStep\<^sup>*\<^sup>* (exServing [Sending]) s' \<and> dp_server (ws_plugin s') \<and> ws_streams s' = [Waiting 2] \<and> 1 \<in> ws_closed s' \<and>
     \<not> streamStep s' (Waiting 2) Ended"
proof -
  have "watchStep (exServing [Waiting 1]) (exServing [Sending])" by (rule exServing_move) (rule streamStep.tick)
  with exServing_waits have "watchStep\<^sup>*\<^sup>* (watchStart (exPlugin False False)) (exServing [Sending])" by (rule rtranclp.rtrancl_into_rtrancl)
  from stream_survives_restart [OF exPlugin_new this, of 0] obtain s' where "watchStep\<^sup>*\<^sup>* (exServing [Sending]) s'" "dp_server (ws_plugin s')"
    "1 \<in> ws_closed s'" "ws_gen s' = 2" "ws_streams s' = [Waiting (ws_gen s')]" "\<not> streamStep s' (ws_streams s' ! 0) Ended"
    by (auto simp: exServing_def numeral_2_eq_2)
  then show ?thesis by auto
qed

end
