(* ===== verification/Deep_Copy.thy ===== *)
theory Deep_Copy
  imports Erdma_Types
begin

text \<open>
  api/v1/zz_generated.deepcopy.go: the copies that the client, its cache and the node controller make of the custom resources. Copying is about
  sharing, so that objects live at addresses here: a slice field holds the address of its array (or nil), and an
  assignment of a struct copies the address and not the array. What the two methods of the library copy
  (\<open>ObjectMeta.DeepCopyInto\<close>, \<open>ListMeta.DeepCopyInto\<close>) is a parameter.
\<close>

section \<open>Objects in memory\<close>

record specV =
  sv_Devices :: "nat option"
  sv_JumboFrame :: bool

record statusV =
  tv_Devices :: "nat option"

record 'm deviceV =
  dv_TypeMeta :: "string \<times> string"
  dv_ObjectMeta :: 'm
  dv_Spec :: specV
  dv_Status :: statusV

record 'l listV =
  lv_TypeMeta :: "string \<times> string"
  lv_ListMeta :: 'l
  lv_Items :: "nat option"

text \<open>
  The memory: the arrays behind the three kinds of slices, the objects that pointers point to, the memory \<open>'x\<close> of the metadata,
  and the next address.
\<close>

record ('m, 'l, 'x) memory =
  g_infos :: "nat \<Rightarrow> DeviceInfo list option"
  g_statuses :: "nat \<Rightarrow> DeviceStatus list option"
  g_items :: "nat \<Rightarrow> 'm deviceV list option"
  g_devices :: "nat \<Rightarrow> 'm deviceV option"
  g_lists :: "nat \<Rightarrow> 'l listV option"
  g_specs :: "nat \<Rightarrow> specV option"
  g_statusObjs :: "nat \<Rightarrow> statusV option"
  g_meta :: 'x
  g_next :: nat

type_synonym ('v, 'x) metaCopy = "'v \<Rightarrow> 'x \<Rightarrow> 'v \<times> 'x"

datatype runtimeObject = DeviceObject nat | ListObject nat

section \<open>Operations\<close>

text \<open>\<open>DeepCopyInto\<close> returns what it writes to \<open>*out\<close>; \<open>*out = *in\<close> copies the fields.\<close>

definition ERdmaDevice_DeepCopyInto :: "('m, 'x) metaCopy \<Rightarrow> 'm deviceV \<Rightarrow> 'x \<Rightarrow> 'm deviceV \<times> 'x" where
  "ERdmaDevice_DeepCopyInto cm inp x =
     (let out = inp;
          out = out\<lparr> dv_TypeMeta := dv_TypeMeta inp \<rparr>;
          (meta, x) = cm (dv_ObjectMeta inp) x;
          out = out\<lparr> dv_ObjectMeta := meta \<rparr>;
          out = out\<lparr> dv_Spec := dv_Spec inp \<rparr>;
          out = out\<lparr> dv_Status := dv_Status inp \<rparr> in (out, x))"

definition ERdmaDevice_DeepCopy :: "('m, 'x) metaCopy \<Rightarrow> nat option \<Rightarrow> ('m, 'l, 'x) memory \<Rightarrow> (nat option \<times> ('m, 'l, 'x) memory) res" where
  "ERdmaDevice_DeepCopy cm inp h =
     (case inp of None \<Rightarrow> Ok (None, h)
      | Some a \<Rightarrow> bindR (deref (g_devices h a)) (\<lambda>d.
          let out = g_next h; (v, x) = ERdmaDevice_DeepCopyInto cm d (g_meta h) in
          Ok (Some out, h\<lparr> g_devices := (g_devices h)(out \<mapsto> v), g_meta := x, g_next := Suc out \<rparr>)))"

definition ERdmaDevice_DeepCopyObject :: "('m, 'x) metaCopy \<Rightarrow> nat option \<Rightarrow> ('m, 'l, 'x) memory
    \<Rightarrow> (runtimeObject option \<times> ('m, 'l, 'x) memory) res" where
  "ERdmaDevice_DeepCopyObject cm inp h =
     bindR (ERdmaDevice_DeepCopy cm inp h) (\<lambda>(c, h'). case c of Some c \<Rightarrow> Ok (Some (DeviceObject c), h') | None \<Rightarrow> Ok (None, h'))"

text \<open>The loop over the items.\<close>

fun copyItems :: "('m, 'x) metaCopy \<Rightarrow> 'm deviceV list \<Rightarrow> 'x \<Rightarrow> 'm deviceV list \<times> 'x" where
  "copyItems cm [] x = ([], x)"
| "copyItems cm (d # ds) x =
     (let (v, x) = ERdmaDevice_DeepCopyInto cm d x; (vs, x) = copyItems cm ds x in (v # vs, x))"

definition ERdmaDeviceList_DeepCopyInto :: "('m, 'x) metaCopy \<Rightarrow> ('l, 'x) metaCopy \<Rightarrow> 'l listV \<Rightarrow> ('m, 'l, 'x) memory
    \<Rightarrow> ('l listV \<times> ('m, 'l, 'x) memory) res" where
  "ERdmaDeviceList_DeepCopyInto cm cl inp h =
     (let out = inp;
          out = out\<lparr> lv_TypeMeta := lv_TypeMeta inp \<rparr>;
          (meta, x) = cl (lv_ListMeta inp) (g_meta h);
          out = out\<lparr> lv_ListMeta := meta \<rparr>;
          h = h\<lparr> g_meta := x \<rparr> in
      case lv_Items inp of None \<Rightarrow> Ok (out, h)
      | Some s \<Rightarrow> bindR (deref (g_items h s)) (\<lambda>ds.
          let arr = g_next h; (vs, x) = copyItems cm ds (g_meta h) in
          Ok (out\<lparr> lv_Items := Some arr \<rparr>, h\<lparr> g_items := (g_items h)(arr \<mapsto> vs), g_meta := x, g_next := Suc arr \<rparr>)))"

definition ERdmaDeviceList_DeepCopy :: "('m, 'x) metaCopy \<Rightarrow> ('l, 'x) metaCopy \<Rightarrow> nat option \<Rightarrow> ('m, 'l, 'x) memory
    \<Rightarrow> (nat option \<times> ('m, 'l, 'x) memory) res" where
  "ERdmaDeviceList_DeepCopy cm cl inp h =
     (case inp of None \<Rightarrow> Ok (None, h)
      | Some a \<Rightarrow> bindR (deref (g_lists h a)) (\<lambda>l.
          let out = g_next h in
          bindR (ERdmaDeviceList_DeepCopyInto cm cl l (h\<lparr> g_next := Suc out \<rparr>)) (\<lambda>(v, h').
          Ok (Some out, h'\<lparr> g_lists := (g_lists h')(out \<mapsto> v) \<rparr>))))"

definition ERdmaDeviceList_DeepCopyObject :: "('m, 'x) metaCopy \<Rightarrow> ('l, 'x) metaCopy \<Rightarrow> nat option \<Rightarrow> ('m, 'l, 'x) memory
    \<Rightarrow> (runtimeObject option \<times> ('m, 'l, 'x) memory) res" where
  "ERdmaDeviceList_DeepCopyObject cm cl inp h =
     bindR (ERdmaDeviceList_DeepCopy cm cl inp h) (\<lambda>(c, h'). case c of Some c \<Rightarrow> Ok (Some (ListObject c), h') | None \<Rightarrow> Ok (None, h'))"

definition ERdmaDeviceSpec_DeepCopyInto :: "specV \<Rightarrow> specV" where
  "ERdmaDeviceSpec_DeepCopyInto inp = inp"

definition ERdmaDeviceSpec_DeepCopy :: "nat option \<Rightarrow> ('m, 'l, 'x) memory \<Rightarrow> (nat option \<times> ('m, 'l, 'x) memory) res" where
  "ERdmaDeviceSpec_DeepCopy inp h =
     (case inp of None \<Rightarrow> Ok (None, h)
      | Some a \<Rightarrow> bindR (deref (g_specs h a)) (\<lambda>v.
          Ok (Some (g_next h), h\<lparr> g_specs := (g_specs h)(g_next h \<mapsto> ERdmaDeviceSpec_DeepCopyInto v), g_next := Suc (g_next h) \<rparr>)))"

definition ERdmaDeviceStatus_DeepCopyInto :: "statusV \<Rightarrow> statusV" where
  "ERdmaDeviceStatus_DeepCopyInto inp = inp"

definition ERdmaDeviceStatus_DeepCopy :: "nat option \<Rightarrow> ('m, 'l, 'x) memory \<Rightarrow> (nat option \<times> ('m, 'l, 'x) memory) res" where
  "ERdmaDeviceStatus_DeepCopy inp h =
     (case inp of None \<Rightarrow> Ok (None, h)
      | Some a \<Rightarrow> bindR (deref (g_statusObjs h a)) (\<lambda>v.
          Ok (Some (g_next h), h\<lparr> g_statusObjs := (g_statusObjs h)(g_next h \<mapsto> ERdmaDeviceStatus_DeepCopyInto v), g_next := Suc (g_next h) \<rparr>)))"

section \<open>Contents\<close>

text \<open>What a reader of an object sees; \<open>vm\<close> and \<open>vl\<close> read the metadata.\<close>

definition specDevices :: "('m, 'l, 'x) memory \<Rightarrow> 'm deviceV \<Rightarrow> DeviceInfo list option" where
  "specDevices h d = Option.bind (sv_Devices (dv_Spec d)) (g_infos h)"

definition statusDevices :: "('m, 'l, 'x) memory \<Rightarrow> 'm deviceV \<Rightarrow> DeviceStatus list option" where
  "statusDevices h d = Option.bind (tv_Devices (dv_Status d)) (g_statuses h)"

definition deviceContent :: "('m \<Rightarrow> 'x \<Rightarrow> 'a) \<Rightarrow> ('m, 'l, 'x) memory \<Rightarrow> 'm deviceV
    \<Rightarrow> (string \<times> string) \<times> 'a \<times> DeviceInfo list option \<times> bool \<times> DeviceStatus list option" where
  "deviceContent vm h d = (dv_TypeMeta d, vm (dv_ObjectMeta d) (g_meta h), specDevices h d, sv_JumboFrame (dv_Spec d), statusDevices h d)"

definition listContent where
  "listContent vm vl h l = (lv_TypeMeta l, vl (lv_ListMeta l) (g_meta h),
     Option.bind (lv_Items l) (\<lambda>s. map_option (map (deviceContent vm h)) (g_items h s)))"

text \<open>
  What the library documents of the copies of metadata: the copy reads as the original, and what was there reads as before.
\<close>

definition copiesMeta :: "('v, 'x) metaCopy \<Rightarrow> ('v \<Rightarrow> 'x \<Rightarrow> 'a) \<Rightarrow> ('m \<Rightarrow> 'x \<Rightarrow> 'b) \<Rightarrow> ('l \<Rightarrow> 'x \<Rightarrow> 'c) \<Rightarrow> bool" where
  "copiesMeta c v vm vl \<longleftrightarrow> (\<forall>m x. case c m x of (m', x') \<Rightarrow> v m' x' = v m x \<and> (\<forall>n. vm n x' = vm n x) \<and> (\<forall>n. vl n x' = vl n x))"

text \<open>Addresses of the memory are below the next one.\<close>

definition memoryOk :: "('m, 'l, 'x) memory \<Rightarrow> bool" where
  "memoryOk h \<longleftrightarrow> (\<forall>a. g_next h \<le> a \<longrightarrow> g_infos h a = None \<and> g_statuses h a = None \<and> g_items h a = None \<and> g_devices h a = None \<and>
     g_lists h a = None \<and> g_specs h a = None \<and> g_statusObjs h a = None)"

lemma DeepCopyInto_fields:
  assumes "ERdmaDevice_DeepCopyInto cm d x = (v, x')"
  shows "dv_Spec v = dv_Spec d" "dv_Status v = dv_Status d" "dv_TypeMeta v = dv_TypeMeta d" "cm (dv_ObjectMeta d) x = (dv_ObjectMeta v, x')"
  using assms by (auto simp: ERdmaDevice_DeepCopyInto_def Let_def split: prod.splits)

lemma DeepCopyInto_content:
  assumes "copiesMeta cm vm vm vl" and "ERdmaDevice_DeepCopyInto cm d x = (v, x')"
  shows "vm (dv_ObjectMeta v) x' = vm (dv_ObjectMeta d) x" "vm m x' = vm m x" "vl l x' = vl l x"
  using assms(1) DeepCopyInto_fields(4) [OF assms(2)] by (auto simp: copiesMeta_def split: prod.splits)

definition fieldsAt :: "('m \<Rightarrow> 'x \<Rightarrow> 'a) \<Rightarrow> 'x \<Rightarrow> 'm deviceV \<Rightarrow> (string \<times> string) \<times> 'a \<times> specV \<times> statusV" where
  "fieldsAt vm x d = (dv_TypeMeta d, vm (dv_ObjectMeta d) x, dv_Spec d, dv_Status d)"

lemma copyItems_fields:
  assumes "copiesMeta cm vm vm vl" and "copyItems cm ds x = (vs, x')"
  shows "map (fieldsAt vm x') vs = map (fieldsAt vm x) ds \<and> (\<forall>m. vm m x' = vm m x) \<and> (\<forall>l. vl l x' = vl l x)"
  using assms(2)
proof (induction ds arbitrary: x vs)
  case (Cons d ds)
  from Cons.prems obtain v x1 us where v: "ERdmaDevice_DeepCopyInto cm d x = (v, x1)" and us: "copyItems cm ds x1 = (us, x')" "vs = v # us"
    by (auto simp: Let_def split: prod.splits)
  note tail = Cons.IH [OF us(1)] and first = DeepCopyInto_content [OF assms(1) v]
  have "fieldsAt vm x' v = fieldsAt vm x d"
    using tail first DeepCopyInto_fields [OF v] by (simp add: fieldsAt_def)
  moreover have "fieldsAt vm x1 = fieldsAt vm x" using first(2) by (auto simp: fieldsAt_def)
  ultimately show ?case using tail first(2,3) by (simp add: us(2))
qed simp

lemma content_of_fields:
  assumes "g_infos h' = g_infos h" and "g_statuses h' = g_statuses h" and "map (fieldsAt vm (g_meta h')) vs = map (fieldsAt vm (g_meta h)) ds"
  shows "map (deviceContent vm h') vs = map (deviceContent vm h) ds"
proof -
  let ?g = "\<lambda>(t, m, s, r). (t, m, Option.bind (sv_Devices s) (g_infos h), sv_JumboFrame s, Option.bind (tv_Devices r) (g_statuses h))"
  have g: "deviceContent vm h = ?g \<circ> fieldsAt vm (g_meta h)" "deviceContent vm h' = ?g \<circ> fieldsAt vm (g_meta h')"
    by (rule ext; simp add: assms(1,2) deviceContent_def fieldsAt_def specDevices_def statusDevices_def)+
  have "map (deviceContent vm h') vs = map ?g (map (fieldsAt vm (g_meta h')) vs)" unfolding g(2) by (simp only: map_map)
  also have "\<dots> = map (deviceContent vm h) ds" unfolding g(1) assms(3) by (simp only: map_map)
  finally show ?thesis .
qed

lemma content_kept:
  assumes "g_infos h' = g_infos h" and "g_statuses h' = g_statuses h" and "\<And>m. vm m (g_meta h') = vm m (g_meta h)"
  shows "deviceContent vm h' = deviceContent vm h"
  by (rule ext) (simp add: assms deviceContent_def specDevices_def statusDevices_def)

text \<open>
  C29: A copy of a list of resources is a new object that reads exactly as the original, which reads as before; the array of its items is
  its own, so that whatever is stored in the items of the copy, the original still reads as before.
\<close>

theorem list_copy_content:
  assumes cm: "copiesMeta cm vm vm vl" and cl: "copiesMeta cl vl vm vl" and ok: "memoryOk h" and l: "g_lists h a = Some l"
    and items: "\<forall>s. lv_Items l = Some s \<longrightarrow> g_items h s \<noteq> None"
  shows "\<exists>b h' c. ERdmaDeviceList_DeepCopy cm cl (Some a) h = Ok (Some b, h') \<and> b \<noteq> a \<and> g_lists h' b = Some c \<and> g_lists h' a = Some l \<and>
    listContent vm vl h' c = listContent vm vl h l \<and> listContent vm vl h' l = listContent vm vl h l \<and>
    (\<forall>s vs. lv_Items c = Some s \<longrightarrow> listContent vm vl (h'\<lparr> g_items := (g_items h')(s \<mapsto> vs) \<rparr>) l = listContent vm vl h l)"
proof -
  let ?b = "g_next h"
  obtain meta x1 where meta: "cl (lv_ListMeta l) (g_meta h) = (meta, x1)" by (cases "cl (lv_ListMeta l) (g_meta h)")
  with cl have m: "vl meta x1 = vl (lv_ListMeta l) (g_meta h)" and km: "\<And>n. vm n x1 = vm n (g_meta h)" and kl: "\<And>n. vl n x1 = vl n (g_meta h)"
    by (auto simp: copiesMeta_def split: prod.splits)
  from ok l have ba: "?b \<noteq> a" unfolding memoryOk_def by (metis le_refl option.distinct(1))
  show ?thesis
  proof (cases "lv_Items l")
    case None
    with l meta ba m km kl show ?thesis
      by (auto simp: ERdmaDeviceList_DeepCopy_def ERdmaDeviceList_DeepCopyInto_def Let_def listContent_def)
  next
    case (Some s)
    with items obtain ds where ds: "g_items h s = Some ds" by auto
    obtain vs x2 where vs: "copyItems cm ds x1 = (vs, x2)" by (cases "copyItems cm ds x1")
    note copied = copyItems_fields [OF cm vs]
    let ?c = "l\<lparr> lv_ListMeta := meta, lv_Items := Some (Suc ?b) \<rparr>"
    let ?h = "h\<lparr> g_items := (g_items h)(Suc ?b \<mapsto> vs), g_lists := (g_lists h)(?b \<mapsto> ?c), g_meta := x2, g_next := Suc (Suc ?b) \<rparr>"
    have run: "ERdmaDeviceList_DeepCopy cm cl (Some a) h = Ok (Some ?b, ?h)"
      using l meta Some ds vs by (simp add: ERdmaDeviceList_DeepCopy_def ERdmaDeviceList_DeepCopyInto_def Let_def)
    from ok have "g_items h (Suc ?b) = None" by (simp add: memoryOk_def)
    with ds have ns: "s \<noteq> Suc ?b" by auto
    have k2: "vm n x2 = vm n (g_meta h)" "vl n' x2 = vl n' (g_meta h)" for n n' using copied km kl by simp_all
    have "fieldsAt vm x1 = fieldsAt vm (g_meta h)" using km by (auto simp: fieldsAt_def)
    with copied have "map (fieldsAt vm x2) vs = map (fieldsAt vm (g_meta h)) ds" by simp
    then have new: "map (deviceContent vm ?h) vs = map (deviceContent vm h) ds" by (intro content_of_fields) simp_all
    have old: "deviceContent vm (?h\<lparr> g_items := f \<rparr>) = deviceContent vm h" "deviceContent vm ?h = deviceContent vm h" for f
      by (rule content_kept; simp add: k2)+
    have "listContent vm vl ?h ?c = listContent vm vl h l" using new m kl k2 Some ds by (simp add: listContent_def)
    moreover have "listContent vm vl (?h\<lparr> g_items := (g_items ?h)(Suc ?b \<mapsto> us) \<rparr>) l = listContent vm vl h l" for us
      unfolding listContent_def old using Some ds ns k2 by simp
    moreover have "listContent vm vl ?h l = listContent vm vl h l" unfolding listContent_def old using Some ds ns k2 by simp
    ultimately show ?thesis using run ba l
      by (intro exI [of _ ?b] exI [of _ ?h] exI [of _ ?c]) auto
  qed
qed

section \<open>What is shared\<close>

text \<open>The assignments \<open>p.Spec.Devices[i] = v\<close> and \<open>p.Spec.Devices = ys\<close> of a new array.\<close>

definition setDeviceAt :: "nat \<Rightarrow> nat \<Rightarrow> DeviceInfo \<Rightarrow> ('m, 'l, 'x) memory \<Rightarrow> ('m, 'l, 'x) memory res" where
  "setDeviceAt p i v h = bindR (deref (g_devices h p)) (\<lambda>d.
     case sv_Devices (dv_Spec d) of None \<Rightarrow> Panic ''index out of range''
     | Some s \<Rightarrow> bindR (deref (g_infos h s)) (\<lambda>xs.
         if i < length xs then Ok (h\<lparr> g_infos := (g_infos h)(s \<mapsto> xs[i := v]) \<rparr>) else Panic ''index out of range''))"

definition setDevices :: "nat \<Rightarrow> DeviceInfo list \<Rightarrow> ('m, 'l, 'x) memory \<Rightarrow> ('m, 'l, 'x) memory res" where
  "setDevices p ys h = bindR (deref (g_devices h p)) (\<lambda>d.
     let s = g_next h in
     Ok (h\<lparr> g_infos := (g_infos h)(s \<mapsto> ys), g_next := Suc s,
          g_devices := (g_devices h)(p \<mapsto> d\<lparr> dv_Spec := (dv_Spec d)\<lparr> sv_Devices := Some s \<rparr> \<rparr>) \<rparr>))"

text \<open>The devices that a reader of the resource at \<open>p\<close> sees.\<close>

definition devicesAt :: "nat \<Rightarrow> ('m, 'l, 'x) memory \<Rightarrow> DeviceInfo list option" where
  "devicesAt p h = Option.bind (g_devices h p) (specDevices h)"

lemma part_copies_share:
  "ERdmaDeviceSpec_DeepCopy (Some a) h = Ok (Some b, h') \<Longrightarrow> g_specs h' b = g_specs h a \<and> g_infos h' = g_infos h"
  "ERdmaDeviceStatus_DeepCopy (Some a) h = Ok (Some c, h') \<Longrightarrow> g_statusObjs h' c = g_statusObjs h a \<and> g_statuses h' = g_statuses h"
  by (auto simp: ERdmaDeviceSpec_DeepCopy_def ERdmaDeviceSpec_DeepCopyInto_def ERdmaDeviceStatus_DeepCopy_def ERdmaDeviceStatus_DeepCopyInto_def
      bindR_Ok_iff split: option.splits)

text \<open>
  C39: A copy of a resource is a new object, but it is not deep: its list of devices is the array of the original. A device stored
  through the copy is what the original (the object in the cache of the client, say) reads afterwards. Replacing the
  whole list of the copy, as the reconcilers do with the status, leaves the original as it was.
\<close>

theorem copy_shares_devices:
  assumes "g_devices h a = Some d" and "memoryOk h" and "sv_Devices (dv_Spec d) = Some s" and "g_infos h s = Some xs" and "i < length xs"
  shows "\<exists>b h' h1 h2. ERdmaDevice_DeepCopy cm (Some a) h = Ok (Some b, h') \<and> b \<noteq> a \<and>
    devicesAt a h' = Some xs \<and> devicesAt b h' = Some xs \<and>
    setDeviceAt b i v h' = Ok h1 \<and> devicesAt a h1 = Some (xs[i := v]) \<and>
    setDevices b ys h' = Ok h2 \<and> devicesAt b h2 = Some ys \<and> devicesAt a h2 = Some xs"
proof -
  let ?b = "g_next h"
  obtain v' x where c: "ERdmaDevice_DeepCopyInto cm d (g_meta h) = (v', x)" by (cases "ERdmaDevice_DeepCopyInto cm d (g_meta h)")
  let ?h = "h\<lparr> g_devices := (g_devices h)(?b \<mapsto> v'), g_meta := x, g_next := Suc ?b \<rparr>"
  have run: "ERdmaDevice_DeepCopy cm (Some a) h = Ok (Some ?b, ?h)" using assms(1) c by (simp add: ERdmaDevice_DeepCopy_def Let_def)
  from assms(1,2) have ba: "?b \<noteq> a" unfolding memoryOk_def by (metis le_refl option.distinct(1))
  from assms(2,4) have sb: "s \<noteq> Suc ?b" unfolding memoryOk_def by (metis le_refl lessI less_imp_le_nat option.distinct(1))
  have sp: "sv_Devices (dv_Spec v') = Some s" using DeepCopyInto_fields(1) [OF c] assms(3) by simp
  have "devicesAt a ?h = Some xs \<and> devicesAt ?b ?h = Some xs" using ba assms(1,3,4) sp by (simp add: devicesAt_def specDevices_def)
  moreover have "\<exists>h1. setDeviceAt ?b i v ?h = Ok h1 \<and> devicesAt a h1 = Some (xs[i := v])"
    using ba assms(1,3-5) sp by (simp add: setDeviceAt_def devicesAt_def specDevices_def)
  moreover have "\<exists>h2. setDevices ?b ys ?h = Ok h2 \<and> devicesAt ?b h2 = Some ys \<and> devicesAt a h2 = Some xs"
    using ba sb assms(1,3,4) sp by (simp add: setDevices_def devicesAt_def specDevices_def Let_def)
  ultimately show ?thesis using run ba by blast
qed

text \<open>A memory with one resource, in a list and as an object of its own, whose metadata is a string.\<close>

definition exMemory :: "(string, string, unit) memory" where
  "exMemory = \<lparr> g_infos = [0 \<mapsto> [toDeviceInfo \<lparr> eri_ID = ''eni-1'', eri_IsPrimaryENI = True, eri_MAC = ''00:16:3e:01:02:04'', eri_InstanceID = ''i-1'',
       eri_CardIndex = 0, eri_QueuePair = 8, eri_JumboFrame = False, eri_JumboFrameMTU = 0 \<rparr>]],
     g_statuses = [1 \<mapsto> []], g_items = [2 \<mapsto> [\<lparr> dv_TypeMeta = (''v1'', ''ERdmaDevice''), dv_ObjectMeta = ''node-a'',
       dv_Spec = \<lparr> sv_Devices = Some 0, sv_JumboFrame = False \<rparr>, dv_Status = \<lparr> tv_Devices = Some 1 \<rparr> \<rparr>]],
     g_devices = [3 \<mapsto> \<lparr> dv_TypeMeta = (''v1'', ''ERdmaDevice''), dv_ObjectMeta = ''node-a'',
       dv_Spec = \<lparr> sv_Devices = Some 0, sv_JumboFrame = False \<rparr>, dv_Status = \<lparr> tv_Devices = Some 1 \<rparr> \<rparr>],
     g_lists = [4 \<mapsto> \<lparr> lv_TypeMeta = (''v1'', ''ERdmaDeviceList''), lv_ListMeta = ''7'', lv_Items = Some 2 \<rparr>],
     g_specs = Map.empty, g_statusObjs = Map.empty, g_meta = (), g_next = 5 \<rparr>"

lemma exMemory_ok: "memoryOk exMemory"
  by (auto simp: memoryOk_def exMemory_def)

theorem list_copy_content_witness:
  "\<exists>h' c. ERdmaDeviceList_DeepCopy Pair Pair (Some 4) exMemory = Ok (Some 5, h') \<and> g_lists h' 5 = Some c \<and>
     listContent (\<lambda>m x. m) (\<lambda>m x. m) h' c = listContent (\<lambda>m x. m) (\<lambda>m x. m) exMemory (the (g_lists exMemory 4))"
proof -
  have c: "copiesMeta Pair (\<lambda>m x. m) (\<lambda>m x. m) (\<lambda>m x. m)" by (simp add: copiesMeta_def)
  have l: "g_lists exMemory 4 = Some (the (g_lists exMemory 4))" by (simp add: exMemory_def)
  have i: "\<forall>s. lv_Items (the (g_lists exMemory 4)) = Some s \<longrightarrow> g_items exMemory s \<noteq> None" by (simp add: exMemory_def)
  have five: "ERdmaDeviceList_DeepCopy Pair Pair (Some 4) exMemory = Ok (Some b, h') \<Longrightarrow> b = 5" for b h'
    by (auto simp: ERdmaDeviceList_DeepCopy_def exMemory_def bindR_Ok_iff split: prod.splits)
  from list_copy_content [OF c c exMemory_ok l i] five show ?thesis by metis
qed

theorem copy_shares_devices_witness:
  "\<exists>b h' h1. ERdmaDevice_DeepCopy Pair (Some 3) exMemory = Ok (Some b, h') \<and>
     setDeviceAt b 0 (the (map_option hd (devicesAt 3 exMemory))\<lparr> dev_MAC := [] \<rparr>) h' = Ok h1 \<and>
     map_option (map dev_MAC) (devicesAt 3 exMemory) = Some [''00:16:3e:01:02:04''] \<and> map_option (map dev_MAC) (devicesAt 3 h1) = Some [[]]"
proof -
  have d: "g_devices exMemory 3 = Some (the (g_devices exMemory 3))" "sv_Devices (dv_Spec (the (g_devices exMemory 3))) = Some 0"
    "g_infos exMemory 0 = Some (the (g_infos exMemory 0))" "0 < length (the (g_infos exMemory 0))"
    by (simp_all add: exMemory_def)
  have one: "map dev_MAC ((the (g_infos exMemory 0))[0 := x]) = [dev_MAC x]" for x by (simp add: exMemory_def)
  have "map_option (map dev_MAC) (devicesAt 3 exMemory) = Some [''00:16:3e:01:02:04'']" by code_simp
  with copy_shares_devices [OF d(1) exMemory_ok d(2-4), of Pair "the (map_option hd (devicesAt 3 exMemory))\<lparr> dev_MAC := [] \<rparr>" "[]"] one
  show ?thesis by fastforce
qed

end
