(* ===== verification/Other_Builds.thy ===== *)
theory Other_Builds
  imports Agent
begin

text \<open>
  The parts of the program for other builds: internal/drivers/fake.go (build tag fake), unsupport.go, utils_unsupported.go and
  netdev_unsupported.go (systems other than Linux), and the methods of the container runtime client in deviceplugin/pod_config.go
  that its interface requires and nothing calls, and the constant of deviceplugin/cdi.go.
\<close>

section \<open>Drivers\<close>

definition FakeProbeDevice :: "ERI \<Rightarrow> ('w, ERdmaDeviceInfo) act" where
  "FakeProbeDevice eri = retA \<lparr> info_Name = ''erdma_0'', info_MAC = eri_MAC eri, info_DevPaths = [''/dev/infiniband/uverbs0''], info_NUMA = 0,
     info_Capabilities = ERDMA_CAP_GDR OR ERDMA_CAP_SMC_R OR ERDMA_CAP_VERBS OR ERDMA_CAP_RDMA_CM OR ERDMA_CAP_OOB \<rparr>"

definition FakeDriver :: "'w driver" where
  "FakeDriver = \<lparr> drv_Name = ''fake'', drv_Install = retA (), drv_ProbeDevice = FakeProbeDevice \<rparr>"

definition UnSupportProbeDevice :: "string \<Rightarrow> ERI \<Rightarrow> ('w, ERdmaDeviceInfo) act" where
  "UnSupportProbeDevice GOOS eri = failA (Errorf ''unsupport eri on %v'' [GOOS])"

definition UnSupportDriver :: "string \<Rightarrow> 'w driver" where
  "UnSupportDriver GOOS = \<lparr> drv_Name = ''unsupported'', drv_Install = retA (), drv_ProbeDevice = UnSupportProbeDevice GOOS \<rparr>"

definition unsupported_ConfigSMCPnetForDevice :: "ERdmaDeviceInfo \<Rightarrow> ('w, unit) act" where
  "unsupported_ConfigSMCPnetForDevice info = retA ()"

definition unsupported_hostExec :: "string \<Rightarrow> ('w, string) act" where
  "unsupported_hostExec cmd = retA []"

definition unsupported_EnsureNetDevice :: "Link \<Rightarrow> ERI \<Rightarrow> ('w, unit) act" where
  "unsupported_EnsureNetDevice link eri = retA ()"

text \<open>The registries after the \<open>init\<close> functions of a test build on Linux and of a build for another system.\<close>

definition fake_drivers :: "'w host \<Rightarrow> 'w netlink \<Rightarrow> string \<Rightarrow> (string \<times> 'w driver) list" where
  "fake_drivers h nl version = Register_driver ''fake'' FakeDriver (registered_drivers h nl version)"

definition unsupported_drivers :: "string \<Rightarrow> (string \<times> 'w driver) list" where
  "unsupported_drivers GOOS = Register_driver ''unsupported'' (UnSupportDriver GOOS) []"

interpretation fake_driver: erdma_driver FakeDriver
  by unfold_locales (auto simp: FakeDriver_def FakeProbeDevice_def deviceOf_def hasCap_def cap_defs)

interpretation unsupported_driver: erdma_driver "UnSupportDriver GOOS" for GOOS
  by unfold_locales (simp add: UnSupportDriver_def UnSupportProbeDevice_def)

text \<open>A test build offers the fake driver next to the others, and only when it is asked for by name.\<close>

lemma GetDriver_fake:
  "GetDriver exec (fake_drivers h nl version) ''fake'' w = (Ok FakeDriver, w)"
  "name \<noteq> ''fake'' \<Longrightarrow> name \<noteq> [] \<Longrightarrow> GetDriver exec (fake_drivers h nl version) name w = GetDriver exec (registered_drivers h nl version) name w"
  by (simp_all add: GetDriver_def fake_drivers_def Register_driver_def registered_drivers_def defaultDriver_def defaultGPUDriver_def)

text \<open>All fake devices have one name.\<close>

lemma fake_probes:
  "probeAll FakeDriver jumbo mtu ds w = (Ok infos, w') \<Longrightarrow>
     w' = w \<and> map info_MAC infos = map dev_MAC ds \<and> info_Name ` set infos \<subseteq> {''erdma_0''}"
proof (induction ds arbitrary: infos)
  case (Cons d ds)
  from Cons.prems obtain rest where "probeAll FakeDriver jumbo mtu ds w = (Ok rest, w')"
    and "infos = fst (the (okMap (\<lambda>i. (i, ())) (FakeProbeDevice (fromDeviceInfo jumbo mtu d) ()))) # rest"
    by (auto simp: FakeDriver_def FakeProbeDevice_def okMap_def elim!: bindA_OkE)
  with Cons.IH show ?case by (simp add: FakeProbeDevice_def okMap_def fromDeviceInfo_def)
qed simp

text \<open>
  On a system other than Linux there is one driver, which is found without a name although no command can be run; it installs without
  error, and probing any device fails with the error that names the system, so that the agent of a node with
  devices ends with an error and never serves them.
\<close>

theorem unsupported_system_serves_nothing:
  "GetDriver unsupported_hostExec (unsupported_drivers GOOS) [] w = (Ok (UnSupportDriver GOOS), w) \<and>
   drv_Install (UnSupportDriver GOOS) w = (Ok (), w) \<and>
   probeAll (UnSupportDriver GOOS) jumbo mtu (d # ds) w =
     (Err (Wrapf ''probe device failed, err: %v'' [] (Errorf ''unsupport eri on %v'' [GOOS])), w)"
  by (simp add: GetDriver_def unsupported_hostExec_def unsupported_drivers_def Register_driver_def UnSupportDriver_def UnSupportProbeDevice_def
      defaultGPUDriver_def)

section \<open>Methods of the runtime client that do nothing\<close>

text \<open>Requests and responses are of any type; nil is \<open>None\<close>.\<close>

definition RS_Attach :: "'req \<Rightarrow> ('w, 'resp option) act" where "RS_Attach request = retA None"

definition RS_CheckpointContainer :: "'req \<Rightarrow> ('w, unit) act" where "RS_CheckpointContainer request = retA ()"

definition RS_ContainerStats :: "string \<Rightarrow> ('w, 'resp option) act" where "RS_ContainerStats containerID = retA None"

definition RS_CreateContainer :: "string \<Rightarrow> 'cfg \<Rightarrow> 'box \<Rightarrow> ('w, string) act" where "RS_CreateContainer podID cfg sandbox = retA []"

definition RS_Exec :: "'req \<Rightarrow> ('w, 'resp option) act" where "RS_Exec request = retA None"

definition RS_ExecSync :: "string \<Rightarrow> string list \<Rightarrow> int \<Rightarrow> ('w, string option \<times> string option) act" where
  "RS_ExecSync containerID cmd timeout = retA (None, None)"

definition RS_GetContainerEvents :: "'chan \<Rightarrow> ('w, unit) act" where "RS_GetContainerEvents events = retA ()"

definition RS_PortForward :: "'req \<Rightarrow> ('w, 'resp option) act" where "RS_PortForward request = retA None"

definition RS_RemoveContainer :: "string \<Rightarrow> ('w, unit) act" where "RS_RemoveContainer containerID = retA ()"

definition RS_RemovePodSandbox :: "string \<Rightarrow> ('w, unit) act" where "RS_RemovePodSandbox podID = retA ()"

definition RS_ReopenContainerLog :: "string \<Rightarrow> ('w, unit) act" where "RS_ReopenContainerLog containerID = retA ()"

definition RS_RunPodSandbox :: "'cfg \<Rightarrow> string \<Rightarrow> ('w, string) act" where "RS_RunPodSandbox cfg handler = retA []"

definition RS_StartContainer :: "string \<Rightarrow> ('w, unit) act" where "RS_StartContainer containerID = retA ()"

definition RS_StopContainer :: "string \<Rightarrow> int \<Rightarrow> ('w, unit) act" where "RS_StopContainer containerID timeout = retA ()"

definition RS_StopPodSandbox :: "string \<Rightarrow> ('w, unit) act" where "RS_StopPodSandbox podID = retA ()"

definition RS_UpdateContainerResources :: "string \<Rightarrow> 'res \<Rightarrow> ('w, unit) act" where "RS_UpdateContainerResources containerID resources = retA ()"

definition RS_UpdateRuntimeConfig :: "'cfg \<Rightarrow> ('w, unit) act" where "RS_UpdateRuntimeConfig cfg = retA ()"

definition cdiVendor :: string where "cdiVendor = ''network.alibabacloud.com''"

lemmas RS_inert = RS_Attach_def RS_CheckpointContainer_def RS_ContainerStats_def RS_CreateContainer_def RS_Exec_def RS_ExecSync_def
  RS_GetContainerEvents_def RS_PortForward_def RS_RemoveContainer_def RS_RemovePodSandbox_def RS_ReopenContainerLog_def
  RS_RunPodSandbox_def RS_StartContainer_def RS_StopContainer_def RS_StopPodSandbox_def RS_UpdateContainerResources_def
  RS_UpdateRuntimeConfig_def

text \<open>
  A sandbox that is run and a container that is created in it with these methods have the empty name and nothing has happened, although no error is returned.
\<close>

lemma run_without_effect:
  "bindA (RS_RunPodSandbox cfg handler) (\<lambda>podID. bindA (RS_CreateContainer podID ctr cfg) (\<lambda>c. bindA (RS_StartContainer c) (\<lambda>_. retA (podID, c)))) w =
     (Ok ([], []), w)"
  by (simp add: RS_inert)

end
