(* ===== verification/Webhook.thy ===== *)
theory Webhook
  imports Erdma_Config
begin

text \<open>
  internal/webhook/mutating.go: the admission webhook that adds the SMC-R init container to the pods
  that use eRDMA. The JSON codec is the record \<open>codec\<close>, a parameter. Of a pod and of a container only the fields the
  code reads or sets are modelled; the others are their JSON text \<open>pod_Rest\<close> and \<open>ct_Rest\<close>, which
  is empty in a container literal that does not set them.
\<close>

section \<open>Pods and responses\<close>

record Container =
  ct_Name :: string
  ct_Image :: string
  ct_ImagePullPolicy :: string
  ct_Command :: "string list"
  ct_Requests :: "(string \<times> string) list option"
  ct_Limits :: "(string \<times> string) list option"
  ct_Privileged :: "bool option"
  ct_Rest :: string

record Pod =
  pod_Annotations :: "(string \<times> string) list option"
  pod_Containers :: "Container list"
  pod_InitContainers :: "Container list"
  pod_Rest :: string

record AdmissionRequest =
  req_Kind :: string
  req_Raw :: string

text \<open>What the handler answers; the last one is the JSON patch between two encodings.\<close>

datatype AdmissionResponse = Allowed string | Errored int goerror | PatchResponseFromRaw string string

record codec =
  UnmarshalPod :: "string \<Rightarrow> Pod res"
  MarshalPod :: "Pod \<Rightarrow> string res"

section \<open>Operations\<close>

text \<open>\<open>if _, ok := m[key]; ok\<close> on a map that may be nil.\<close>

definition hasKey :: "(string \<times> string) list option \<Rightarrow> string \<Rightarrow> bool" where
  "hasKey m key = (case m of None \<Rightarrow> False | Some kvs \<Rightarrow> key \<in> fst ` set kvs)"

definition usesErdma :: "Container \<Rightarrow> bool" where
  "usesErdma c \<longleftrightarrow> hasKey (ct_Limits c) ResourceName \<or> hasKey (ct_Requests c) ResourceName"

definition smcrInitContainer :: "Config \<Rightarrow> Container" where
  "smcrInitContainer cfg =
     \<lparr> ct_Name = ''smcr-init'',
       ct_Image = (if cfg_SMCInitImage cfg = [] then ''registry.cn-hangzhou.aliyuncs.com/erdma/smcr_init:latest''
                   else cfg_SMCInitImage cfg),
       ct_ImagePullPolicy = ''Always'', ct_Command = [''/usr/local/bin/smcr_init''],
       ct_Requests = Some [(ResourceName, Itoa 1)], ct_Limits = Some [(ResourceName, Itoa 1)],
       ct_Privileged = Some True, ct_Rest = [] \<rparr>"

text \<open>The pod after the handler: with the init container when the annotation is there and injection is on.\<close>

definition injectSMCR :: "Config \<Rightarrow> Pod \<Rightarrow> Pod res" where
  "injectSMCR cfg pod =
     (if hasKey (pod_Annotations pod) PodAnnotationSMCR then
        bindR (deref (cfg_EnableInitContainerInject cfg)) (\<lambda>inject.
          Ok (if inject then pod\<lparr> pod_InitContainers := pod_InitContainers pod @ [smcrInitContainer cfg] \<rparr> else pod))
      else Ok pod)"

definition patchPod :: "codec \<Rightarrow> Pod \<Rightarrow> Pod \<Rightarrow> AdmissionResponse res" where
  "patchPod cd original pod =
     (case MarshalPod cd original of
        Panic p \<Rightarrow> Panic p | Err err \<Rightarrow> Ok (Errored 1 err)
      | Ok originalPatched \<Rightarrow>
          (case MarshalPod cd pod of
             Panic p \<Rightarrow> Panic p | Err err \<Rightarrow> Ok (Errored 1 err)
           | Ok podPatched \<Rightarrow> Ok (PatchResponseFromRaw originalPatched podPatched)))"

definition podWebhook :: "codec \<Rightarrow> Config \<Rightarrow> AdmissionRequest \<Rightarrow> AdmissionResponse res" where
  "podWebhook cd cfg req =
     (case UnmarshalPod cd (req_Raw req) of
        Panic p \<Rightarrow> Panic p
      | Err err \<Rightarrow> Ok (Errored 500 (Wrapf ''failed decoding pod: %s, %w'' [req_Raw req] err))
      | Ok original \<Rightarrow>
          if pod_Annotations original = None then Ok (Allowed ''not rdma'')
          else if list_ex usesErdma (pod_Containers original @ pod_InitContainers original) then
            bindR (deref (cfg_EnableDevicePlugin cfg)) (\<lambda>enabled.
              if enabled then bindR (injectSMCR cfg original) (\<lambda>pod. patchPod cd original pod)
              else Ok (Allowed ''not rdma''))
          else Ok (Allowed ''not rdma''))"

definition MutatingHook :: "codec \<Rightarrow> Config \<Rightarrow> AdmissionRequest \<Rightarrow> AdmissionResponse res" where
  "MutatingHook cd cfg req =
     bindR (deref (cfg_EnableWebhook cfg)) (\<lambda>enabled.
     if \<not> enabled then Ok (Allowed ''webhook not enabled'')
     else if req_Kind req = ''Pod'' then podWebhook cd cfg req
     else Ok (Allowed ''not care''))"

section \<open>What the webhook does\<close>

text \<open>The pods the webhook touches under a configuration.\<close>

definition smcrPod :: "Config \<Rightarrow> Pod \<Rightarrow> bool" where
  "smcrPod cfg pod \<longleftrightarrow> cfg_EnableDevicePlugin cfg = Some True \<and> cfg_EnableInitContainerInject cfg = Some True \<and>
     hasKey (pod_Annotations pod) PodAnnotationSMCR \<and>
     (\<exists>c\<in>set (pod_Containers pod) \<union> set (pod_InitContainers pod). usesErdma c)"

definition injected :: "Config \<Rightarrow> Pod \<Rightarrow> Pod" where
  "injected cfg pod = pod\<lparr> pod_InitContainers := pod_InitContainers pod @ [smcrInitContainer cfg] \<rparr>"

text \<open>A codec that decodes what it encodes of the given pods, as \<open>encoding/json\<close> does on the Kubernetes types.\<close>

definition codecOk :: "codec \<Rightarrow> Pod set \<Rightarrow> bool" where
  "codecOk cd ps \<longleftrightarrow> (\<forall>p\<in>ps. \<exists>s. MarshalPod cd p = Ok s \<and> UnmarshalPod cd s = Ok p)"

text \<open>The pod that results from a response to a request for \<open>pod\<close>; none when it is refused.\<close>

fun admitted :: "codec \<Rightarrow> Pod \<Rightarrow> AdmissionResponse \<Rightarrow> Pod option" where
  "admitted cd pod (Allowed msg) = Some pod"
| "admitted cd pod (Errored code err) = None"
| "admitted cd pod (PatchResponseFromRaw a b) = (case UnmarshalPod cd b of Ok p \<Rightarrow> Some p | _ \<Rightarrow> None)"

lemma patchPod_admitted:
  assumes "codecOk cd {original, pod}"
  shows "\<exists>resp. patchPod cd original pod = Ok resp \<and> admitted cd original resp = Some pod"
proof -
  from assms obtain a b where "MarshalPod cd original = Ok a" and "MarshalPod cd pod = Ok b" and "UnmarshalPod cd b = Ok pod"
    unfolding codecOk_def by blast
  then show ?thesis by (simp add: patchPod_def)
qed

lemma hasKey_None [simp]: "\<not> hasKey None key"
  by (simp add: hasKey_def)

lemma podWebhook_admitted:
  assumes "codecOk cd {pod, injected cfg pod}" and "cfg_EnableDevicePlugin cfg = Some dp" and "cfg_EnableInitContainerInject cfg = Some inject"
    and "UnmarshalPod cd (req_Raw req) = Ok pod"
  shows "\<exists>resp. podWebhook cd cfg req = Ok resp \<and> admitted cd pod resp =
    Some (if smcrPod cfg pod then injected cfg pod else pod)"
proof -
  have "codecOk cd {pod, pod}" using assms(1) by (simp add: codecOk_def)
  from patchPod_admitted [OF this] patchPod_admitted [OF assms(1)] assms(2-) show ?thesis
    by (auto simp: podWebhook_def injectSMCR_def smcrPod_def list_ex_iff injected_def)
qed

text \<open>
  C28: The webhook changes exactly the pods it is for. With a configuration whose switches are set it answers every
  pod; the admitted pod is the pod itself, with the smcr-init container appended to its init
  containers if the webhook, the device plugin and injection are on, the pod has the SMC-R
  annotation and one of its containers uses the eRDMA resource, and unchanged otherwise.
\<close>

theorem webhook_injects_exactly:
  assumes "codecOk cd {pod, injected cfg pod}" and "cfg_EnableWebhook cfg = Some on" and "cfg_EnableDevicePlugin cfg = Some dp"
    and "cfg_EnableInitContainerInject cfg = Some inject"
    and "req_Kind req = ''Pod''" and "UnmarshalPod cd (req_Raw req) = Ok pod"
  shows "\<exists>resp. MutatingHook cd cfg req = Ok resp \<and> admitted cd pod resp =
    Some (if on \<and> smcrPod cfg pod then injected cfg pod else pod)"
  using podWebhook_admitted [OF assms(1,3,4,6)] assms(2,5) by (cases on) (auto simp: MutatingHook_def)

section \<open>An unset switch\<close>

text \<open>
  C36: The loading of the configuration gives defaults to two of the three switches: with a configuration that sets
  none of them, the webhook panics on every annotated pod with a container that uses eRDMA.
\<close>

theorem webhook_unset_inject_panics:
  assumes "cfg_EnableInitContainerInject c0 = None" and "cfg_EnableWebhook c0 = None" and "cfg_EnableDevicePlugin c0 = None"
    and "req_Kind req = ''Pod''" and "UnmarshalPod cd (req_Raw req) = Ok pod"
    and "hasKey (pod_Annotations pod) PodAnnotationSMCR" and "c \<in> set (pod_Containers pod)" and "usesErdma c"
  shows "MutatingHook cd (configDefaults c0) req = Panic ''nil pointer dereference''"
proof -
  have "pod_Annotations pod \<noteq> None" using assms(6) by (metis hasKey_None)
  with assms show ?thesis
    by (auto simp: MutatingHook_def podWebhook_def injectSMCR_def configDefaults_def list_ex_iff)
qed

section \<open>A small codec\<close>

text \<open>A codec for the witnesses, which knows one pod and the pod the webhook makes of it.\<close>

definition exPod :: Pod where
  "exPod = \<lparr> pod_Annotations = Some [(PodAnnotationSMCR, ''true'')],
     pod_Containers = [\<lparr> ct_Name = ''app'', ct_Image = ''app:1'', ct_ImagePullPolicy = [], ct_Command = [], ct_Requests = None,
       ct_Limits = Some [(ResourceName, ''1'')], ct_Privileged = None, ct_Rest = [] \<rparr>],
     pod_InitContainers = [], pod_Rest = [] \<rparr>"

definition exSwitches :: Config where
  "exSwitches = \<lparr> cfg_Region = ''cn-hangzhou'', cfg_ManageNonOwnedERIs = False, cfg_ControllerNamespace = [], cfg_ControllerName = [],
     cfg_ClusterDomain = [], cfg_CertDir = [], cfg_EnableDevicePlugin = Some True, cfg_EnableWebhook = Some True,
     cfg_SMCInitImage = [], cfg_EnableInitContainerInject = Some True, cfg_NodeSelector = [],
     cfg_WaitNodeReadyTimeoutSeconds = 300 \<rparr>"

definition exCodec :: codec where
  "exCodec = \<lparr> UnmarshalPod = (\<lambda>s. Ok (if s = ''pod'' then exPod else injected exSwitches exPod)),
     MarshalPod = (\<lambda>p. Ok (if p = exPod then ''pod'' else ''patched'')) \<rparr>"

theorem webhook_injects_exactly_witness:
  "\<exists>resp. MutatingHook exCodec exSwitches \<lparr> req_Kind = ''Pod'', req_Raw = ''pod'' \<rparr> = Ok resp \<and>
     admitted exCodec exPod resp = Some (injected exSwitches exPod)"
proof -
  have codec: "codecOk exCodec {exPod, injected exSwitches exPod}"
    by (simp add: codecOk_def exCodec_def injected_def exPod_def)
  have "smcrPod exSwitches exPod"
    by (simp add: smcrPod_def exSwitches_def exPod_def hasKey_def usesErdma_def)
  with webhook_injects_exactly [OF codec, of True True True "\<lparr> req_Kind = ''Pod'', req_Raw = ''pod'' \<rparr>"] show ?thesis
    by (simp add: exSwitches_def exCodec_def)
qed

theorem webhook_unset_inject_panics_witness:
  "MutatingHook exCodec (configDefaults (exSwitches\<lparr> cfg_EnableInitContainerInject := None, cfg_EnableWebhook := None,
      cfg_EnableDevicePlugin := None \<rparr>)) \<lparr> req_Kind = ''Pod'', req_Raw = ''pod'' \<rparr> = Panic ''nil pointer dereference''"
  by (rule webhook_unset_inject_panics [where pod = exPod and c = "hd (pod_Containers exPod)"])
    (simp_all add: exCodec_def exPod_def hasKey_def usesErdma_def)

end
