(* ===== verification/Token_Crypto.thy ===== *)
theory Token_Crypto
  imports Go_Strings
begin

text \<open>
  The decryption of tokens in internal/controller/credential.go, \<open>decrypt\<close> and \<open>pks5UnPadding\<close>, with what they use of Go's
  packages encoding/base64 (\<open>StdEncoding.DecodeString\<close>) and crypto/cipher (CBC mode). The block cipher of crypto/aes
  is a parameter. A byte is a word of 8 bits.
\<close>

unbundle bit_operations_syntax

type_synonym bytes = "8 word list"

section \<open>Base64\<close>

definition b64alphabet :: string where
  "b64alphabet = ''ABCDEFGHIJKLMNOPQRSTUVWXYZabcdefghijklmnopqrstuvwxyz0123456789+/''"

definition b64val :: "char \<Rightarrow> nat option" where
  "b64val c = (let i = IndexOf b64alphabet c in if i < 0 then None else Some (nat i))"

text \<open>The three bytes of four 6-bit values.\<close>

definition byte1 :: "nat \<Rightarrow> nat \<Rightarrow> 8 word" where "byte1 a b = word_of_nat (a * 4 + b div 16)"
definition byte2 :: "nat \<Rightarrow> nat \<Rightarrow> 8 word" where "byte2 b c = word_of_nat (b mod 16 * 16 + c div 4)"
definition byte3 :: "nat \<Rightarrow> nat \<Rightarrow> 8 word" where "byte3 c d = word_of_nat (c mod 4 * 64 + d)"

definition b64err :: goerror where "b64err = ApiErr ''illegal base64 data''"

text \<open>
  Groups of four characters; the last one may end with padding, whose spare bits are not checked. The
  position in the error is left out.
\<close>

fun decodeQuads :: "string \<Rightarrow> bytes res" where
  "decodeQuads [] = Ok []"
| "decodeQuads (a # b # c # d # rest) =
     (case (b64val a, b64val b) of
        (Some va, Some vb) \<Rightarrow>
          if d = CHR ''='' then
            (if rest \<noteq> [] then Err b64err
             else if c = CHR ''='' then Ok [byte1 va vb]
             else (case b64val c of Some vc \<Rightarrow> Ok [byte1 va vb, byte2 vb vc] | None \<Rightarrow> Err b64err))
          else
            (case (b64val c, b64val d) of
               (Some vc, Some vd) \<Rightarrow> bindR (decodeQuads rest) (\<lambda>bs. Ok ([byte1 va vb, byte2 vb vc, byte3 vc vd] @ bs))
             | _ \<Rightarrow> Err b64err)
      | _ \<Rightarrow> Err b64err)"
| "decodeQuads _ = Err b64err"

text \<open>Line ends are skipped wherever they stand.\<close>

definition DecodeString :: "string \<Rightarrow> bytes res" where
  "DecodeString s = decodeQuads (filter (\<lambda>c. c \<noteq> CHR 0x0A \<and> c \<noteq> CHR 0x0D) s)"

section \<open>Cipher block chaining\<close>

definition blockSize :: nat where "blockSize = 16"

text \<open>\<open>NewCBCDecrypter(block, iv).CryptBlocks\<close> on whole blocks: each block is decrypted and combined with the one before.\<close>

function cbcBlocks :: "(bytes \<Rightarrow> bytes) \<Rightarrow> bytes \<Rightarrow> bytes \<Rightarrow> bytes" where
  "cbcBlocks dec iv src =
     (if src = [] then []
      else map2 (XOR) (dec (take blockSize src)) iv @ cbcBlocks dec (take blockSize src) (drop blockSize src))"
  by pat_completeness auto
termination
  by (relation "measure (\<lambda>(dec, iv, src). length src)") (auto simp: blockSize_def)

declare cbcBlocks.simps [simp del]

definition CryptBlocks :: "(bytes \<Rightarrow> bytes) \<Rightarrow> bytes \<Rightarrow> bytes \<Rightarrow> bytes res" where
  "CryptBlocks dec iv src =
     (if length src mod blockSize \<noteq> 0 then Panic ''crypto/cipher: input not full blocks''
      else Ok (cbcBlocks dec iv src))"

section \<open>Decryption\<close>

text \<open>
  The last byte is the number of padding bytes; it is not checked, and an empty
  text has no last byte.
\<close>

definition pks5UnPadding :: "bytes \<Rightarrow> bytes res" where
  "pks5UnPadding origData =
     (if origData = [] then Panic ''index out of range''
      else let unpadding = unat (last origData) in
        if length origData < unpadding then Panic ''slice bounds out of range''
        else Ok (take (length origData - unpadding) origData))"

text \<open>
  \<open>newCipher\<close> is \<open>aes.NewCipher\<close>: the decryption of one block under a key, or an error for a bad key size. Data
  that is shorter than a block panics, at the latest when the buffer is made.
\<close>

definition decrypt :: "(string \<Rightarrow> (bytes \<Rightarrow> bytes) res) \<Rightarrow> string \<Rightarrow> string \<Rightarrow> bytes res" where
  "decrypt newCipher s keyring =
     (case DecodeString s of
        Panic p \<Rightarrow> Panic p
      | Err err \<Rightarrow> Err (Wrapf ''failed to decode base64 string, err: %w'' [] err)
      | Ok cdata \<Rightarrow>
          (case newCipher keyring of
             Panic p \<Rightarrow> Panic p
           | Err err \<Rightarrow> Err (Wrapf ''failed to new cipher, err:%w'' [] err)
           | Ok dec \<Rightarrow>
               if length cdata < blockSize then Panic ''slice bounds out of range''
               else bindR (CryptBlocks dec (take blockSize cdata) (drop blockSize cdata)) pks5UnPadding))"

section \<open>Encoding\<close>

text \<open>The encodings that \<open>decrypt\<close> is meant to undo: PKCS 5 padding, CBC and base64 as their standards define them.\<close>

definition pad :: "bytes \<Rightarrow> bytes" where
  "pad bs = (let n = blockSize - length bs mod blockSize in bs @ replicate n (word_of_nat n))"

function cbcEncrypt :: "(bytes \<Rightarrow> bytes) \<Rightarrow> bytes \<Rightarrow> bytes \<Rightarrow> bytes" where
  "cbcEncrypt enc iv src =
     (if src = [] then []
      else let c = enc (map2 (XOR) (take blockSize src) iv) in c @ cbcEncrypt enc c (drop blockSize src))"
  by pat_completeness auto
termination
  by (relation "measure (\<lambda>(enc, iv, src). length src)") (auto simp: blockSize_def)

declare cbcEncrypt.simps [simp del]

definition b64char :: "nat \<Rightarrow> char" where "b64char v = b64alphabet ! v"

fun b64encode :: "bytes \<Rightarrow> string" where
  "b64encode [] = []"
| "b64encode [x] = [b64char (unat x div 4), b64char (unat x mod 4 * 16), CHR ''='', CHR ''='']"
| "b64encode [x, y] = [b64char (unat x div 4), b64char (unat x mod 4 * 16 + unat y div 16), b64char (unat y mod 16 * 4), CHR ''='']"
| "b64encode (x # y # z # rest) = [b64char (unat x div 4), b64char (unat x mod 4 * 16 + unat y div 16),
     b64char (unat y mod 16 * 4 + unat z div 64), b64char (unat z mod 64)] @ b64encode rest"

definition encrypt :: "(bytes \<Rightarrow> bytes) \<Rightarrow> bytes \<Rightarrow> bytes \<Rightarrow> string" where
  "encrypt enc iv plain = b64encode (iv @ cbcEncrypt enc iv (pad plain))"

section \<open>Round trips\<close>

lemma b64_all: "list_all (\<lambda>v. b64val (b64char v) = Some v \<and> b64char v \<notin> {CHR ''='', CHR 0x0A, CHR 0x0D}) [0..<64]"
  by code_simp

lemma b64val_char:
  assumes "v < 64"
  shows "b64val (b64char v) = Some v" and "b64char v \<noteq> CHR ''=''" and "b64char v \<noteq> CHR 0x0A" and "b64char v \<noteq> CHR 0x0D"
  using b64_all assms by (auto simp: list_all_iff)

lemma digits:
  fixes a b m :: nat
  assumes "b < m"
  shows "(a * m + b) div m = a" and "(a * m + b) mod m = b"
  using assms by auto

lemma byte_parts:
  fixes x :: "8 word"
  shows "unat x div 16 < 16" and "unat x div 64 < 4" and "unat x div 4 < 64"
  using unsigned_less [of x, where 'a = nat] by (simp_all add: less_mult_imp_div_less)

lemma bytes_of_values:
  "byte1 (unat x div 4) (unat x mod 4 * 16 + unat y div 16) = x"
  "byte1 (unat x div 4) (unat x mod 4 * 16) = x"
  "byte2 (unat x mod 4 * 16 + unat y div 16) (unat y mod 16 * 4 + unat z div 64) = y"
  "byte2 (unat x mod 4 * 16 + unat y div 16) (unat y mod 16 * 4) = y"
  "byte3 (unat y mod 16 * 4 + unat z div 64) (unat z mod 64) = z"
  unfolding byte1_def byte2_def byte3_def
  by (simp_all only: digits byte_parts nonzero_mult_div_cancel_right div_mult_mod_eq of_nat_unat ucast_id
      zero_neq_numeral not_False_eq_True)

lemma value_digits:
  fixes x y z :: "8 word"
  shows "unat x div 4 < 64" and "unat x mod 4 * 16 < 64" and "unat x mod 4 * 16 + unat y div 16 < 64"
    and "unat y mod 16 * 4 < 64" and "unat y mod 16 * 4 + unat z div 64 < 64" and "unat z mod 64 < 64"
proof -
  have "unat x mod 4 \<le> 3" and "unat y mod 16 \<le> 15" using mod_less_divisor [of 4 "unat x"] mod_less_divisor [of 16 "unat y"] by simp_all
  with byte_parts(1) [of y] byte_parts(2) [of z] show "unat x mod 4 * 16 < 64" "unat x mod 4 * 16 + unat y div 16 < 64"
    "unat y mod 16 * 4 < 64" "unat y mod 16 * 4 + unat z div 64 < 64" by linarith+
qed (simp_all add: byte_parts)

lemma decodeQuads_encode: "decodeQuads (b64encode bs) = Ok bs"
  by (induction bs rule: b64encode.induct) (simp_all add: b64val_char value_digits bytes_of_values)

lemma b64encode_no_newline: "c \<in> set (b64encode bs) \<Longrightarrow> c \<noteq> CHR 0x0A \<and> c \<noteq> CHR 0x0D"
  by (induction bs rule: b64encode.induct) (auto simp: b64val_char value_digits)

lemma base64_roundtrip: "DecodeString (b64encode bs) = Ok bs"
proof -
  have "filter (\<lambda>c. c \<noteq> CHR 0x0A \<and> c \<noteq> CHR 0x0D) (b64encode bs) = b64encode bs"
    using b64encode_no_newline by (simp add: filter_id_conv)
  then show ?thesis by (simp add: DecodeString_def decodeQuads_encode)
qed

lemma xor_xor_blocks: "length xs = length ys \<Longrightarrow> map2 (XOR) (map2 (XOR) xs ys) ys = (xs :: bytes)"
  by (induction xs ys rule: list_induct2) (simp_all add: xor.assoc)

text \<open>A block cipher: encryption and decryption of blocks undo each other and keep the length.\<close>

definition blockCipher :: "(bytes \<Rightarrow> bytes) \<Rightarrow> (bytes \<Rightarrow> bytes) \<Rightarrow> bool" where
  "blockCipher enc dec \<longleftrightarrow> (\<forall>b. length b = blockSize \<longrightarrow> length (enc b) = blockSize \<and> dec (enc b) = b)"

lemma blocks_split:
  assumes "blockSize dvd length src" and "src \<noteq> []"
  shows "length (take blockSize src) = blockSize" and "blockSize dvd length (drop blockSize src)"
proof -
  from assms(1) obtain k where k: "length src = blockSize * k" by (rule dvdE)
  with assms(2) have "k \<noteq> 0" by (cases k) auto
  then obtain j where "k = Suc j" by (cases k) auto
  with k show "length (take blockSize src) = blockSize" and "blockSize dvd length (drop blockSize src)" by simp_all
qed

lemma cbc_step:
  assumes "blockCipher enc dec" and "blockSize dvd length src" and "src \<noteq> []" and "length iv = blockSize"
  defines "c \<equiv> enc (map2 (XOR) (take blockSize src) iv)"
  shows "cbcEncrypt enc iv src = c @ cbcEncrypt enc c (drop blockSize src)" and "length c = blockSize"
    and "map2 (XOR) (dec c) iv = take blockSize src" and "blockSize dvd length (drop blockSize src)"
proof -
  note split = blocks_split [OF assms(2,3)]
  have "length (map2 (XOR) (take blockSize src) iv) = blockSize" using split(1) assms(4) by simp
  with assms(1) have "length c = blockSize" "dec c = map2 (XOR) (take blockSize src) iv" by (simp_all add: blockCipher_def c_def)
  with split(1) assms(4) show "length c = blockSize" "map2 (XOR) (dec c) iv = take blockSize src"
    by (simp_all add: xor_xor_blocks)
  show "cbcEncrypt enc iv src = c @ cbcEncrypt enc c (drop blockSize src)"
    using assms(3) by (simp add: cbcEncrypt.simps [of enc iv src] c_def Let_def)
  show "blockSize dvd length (drop blockSize src)" by (rule split(2))
qed

lemma cbc_roundtrip:
  assumes "blockCipher enc dec"
  shows "blockSize dvd length src \<Longrightarrow> length iv = blockSize \<Longrightarrow>
    cbcBlocks dec iv (cbcEncrypt enc iv src) = src \<and> length (cbcEncrypt enc iv src) = length src"
proof (induction "length src" arbitrary: src iv rule: less_induct)
  case less
  show ?case
  proof (cases "src = []")
    case True
    then show ?thesis by (simp add: cbcEncrypt.simps cbcBlocks.simps)
  next
    case False
    let ?c = "enc (map2 (XOR) (take blockSize src) iv)" and ?rest = "drop blockSize src"
    note step = cbc_step [OF assms less.prems(1) False less.prems(2)]
    have "length ?rest < length src" using False by (simp add: blockSize_def)
    from less.hyps [OF this step(4,2)]
    have IH: "cbcBlocks dec ?c (cbcEncrypt enc ?c ?rest) = ?rest" "length (cbcEncrypt enc ?c ?rest) = length ?rest" by simp_all
    have "cbcBlocks dec iv (?c @ cbcEncrypt enc ?c ?rest) = take blockSize src @ ?rest"
      using step(2,3) IH(1) by (subst cbcBlocks.simps) (auto simp: blockSize_def)
    moreover have "length ?c + length ?rest = length src"
      using step(2) blocks_split(1) [OF less.prems(1) False] by (metis append_take_drop_id length_append)
    ultimately show ?thesis unfolding step(1) using IH(2) by simp
  qed
qed

lemma pad_length: "blockSize dvd length (pad bs)"
proof -
  define r where "r = length bs mod blockSize"
  have "r < blockSize" by (simp add: blockSize_def r_def)
  moreover have "length bs div blockSize * blockSize + r = length bs" unfolding r_def by (rule div_mult_mod_eq)
  ultimately have "length bs + (blockSize - r) = length bs div blockSize * blockSize + blockSize" by linarith
  then have "length (pad bs) = length bs div blockSize * blockSize + blockSize" by (simp add: pad_def Let_def r_def)
  then show ?thesis by simp
qed

lemma unpad_pad: "pks5UnPadding (pad bs) = Ok bs"
proof -
  define n where "n = blockSize - length bs mod blockSize"
  have n: "0 < n" "n \<le> 16" by (simp_all add: blockSize_def n_def)
  have pad: "pad bs = bs @ replicate n (word_of_nat n)" by (simp add: pad_def Let_def n_def)
  from n have "unat (word_of_nat n :: 8 word) = n" by (simp add: unat_of_nat)
  moreover from n(1) have "last (pad bs) = word_of_nat n" by (simp add: pad)
  ultimately show ?thesis using n(1) by (simp add: pks5UnPadding_def pad Let_def)
qed

lemma decrypt_encrypt:
  assumes "newCipher key = Ok dec" and "blockCipher enc dec" and "length iv = blockSize"
  shows "decrypt newCipher (encrypt enc iv plain) key = Ok plain"
proof -
  from cbc_roundtrip [OF assms(2) pad_length assms(3)]
  have "CryptBlocks dec iv (cbcEncrypt enc iv (pad plain)) = Ok (pad plain)"
    using pad_length [of plain] by (simp add: CryptBlocks_def mod_eq_0_iff_dvd)
  with assms(1,3) show ?thesis by (simp add: decrypt_def encrypt_def base64_roundtrip unpad_pad)
qed

text \<open>
  C19: Decryption undoes encryption: for any text, any initial block and any key whose cipher decrypts what it encrypts, decrypt
  returns the text from its padded, chained and base64 encoded encryption, with no error
  and no panic.
\<close>

theorem decrypt_roundtrip:
  assumes "newCipher key = Ok dec" and "blockCipher enc dec" and "length iv = blockSize"
  shows "decrypt newCipher (encrypt enc iv plain) key = Ok plain"
  using assms by (rule decrypt_encrypt)

text \<open>
  C37: A stored token that is too short crashes the controller: data of less than a block, or of exactly
  the initial block, makes decrypt panic instead of returning an error.
\<close>

theorem decrypt_short_panics:
  assumes "DecodeString s = Ok cdata" and "newCipher key = Ok dec" and "length cdata \<le> blockSize"
  shows "\<exists>p. decrypt newCipher s key = Panic p"
  using assms by (auto simp: decrypt_def CryptBlocks_def pks5UnPadding_def cbcBlocks.simps)

text \<open>A cipher for the witnesses: it adds one to every byte.\<close>

definition exEnc :: "bytes \<Rightarrow> bytes" where "exEnc = map (\<lambda>b. b + 1)"
definition exDec :: "bytes \<Rightarrow> bytes" where "exDec = map (\<lambda>b. b - 1)"

lemma exCipher: "blockCipher exEnc exDec"
  by (simp add: blockCipher_def exEnc_def exDec_def comp_def)

theorem decrypt_roundtrip_witness:
  "decrypt (\<lambda>k. Ok exDec) (encrypt exEnc (replicate 16 7) [115, 101, 99]) ''0123456789abcdef'' = Ok [115, 101, 99]"
  by (rule decrypt_roundtrip [OF refl exCipher]) (simp add: blockSize_def)

theorem decrypt_short_panics_witness: "\<exists>p. decrypt (\<lambda>k. Ok exDec) ''AAAA'' ''0123456789abcdef'' = Panic p"
proof -
  have "DecodeString ''AAAA'' = Ok [0, 0, 0]" by code_simp
  then show ?thesis by (rule decrypt_short_panics) (simp_all add: blockSize_def)
qed

end
