(* ===== verification/Cert.thy ===== *)
theory Cert
  imports Token_Crypto Erdma_Config K8s_Api
begin

text \<open>
  internal/cert/webhook.go: the certificates of the webhook. \<open>GenerateCerts\<close> makes a certificate authority and a server
  certificate, \<open>SyncCert\<close> keeps them in a secret that all replicas of the controller share, writes them to files and
  enters the authority into the configuration of the webhook. The API server, the file system, and
  the keys and signatures of crypto/rsa and crypto/x509 are parameters; pem, filepath and the calendar of
  package time are modelled. Times are nanoseconds since Go's zero time (1 January of year 1), in UTC.
\<close>

section \<open>Paths\<close>

text \<open>\<open>filepath.Clean\<close> and \<open>filepath.Join\<close> on Linux. The components seen so far are a stack, the last one first.\<close>

definition cleanStep :: "bool \<Rightarrow> string \<Rightarrow> string list \<Rightarrow> string list" where
  "cleanStep rooted c stack =
     (if c = [] \<or> c = ''.'' then stack
      else if c = ''..'' then
        (case stack of [] \<Rightarrow> (if rooted then [] else [''..''])
         | x # xs \<Rightarrow> if x = ''..'' then ''..'' # stack else xs)
      else c # stack)"

definition Clean :: "string \<Rightarrow> string" where
  "Clean p =
     (let rooted = HasPrefix p ''/'';
          out = (if rooted then ''/'' else []) @ Join ''/'' (rev (fold (cleanStep rooted) (Split (CHR ''/'') p) []))
      in if out = [] then ''.'' else out)"

definition pathJoin :: "string list \<Rightarrow> string" where
  "pathJoin elems = (let es = filter (\<lambda>e. e \<noteq> []) elems in if es = [] then [] else Clean (Join ''/'' es))"

section \<open>Dates\<close>

definition Hour :: int where "Hour = 3600 * Second"
definition Day :: int where "Day = 24 * Hour"

definition isLeap :: "int \<Rightarrow> bool" where
  "isLeap y \<longleftrightarrow> y mod 4 = 0 \<and> (y mod 100 \<noteq> 0 \<or> y mod 400 = 0)"

text \<open>The days before the first of January of a year, and the year of a day.\<close>

definition daysBefore :: "int \<Rightarrow> int" where
  "daysBefore y = 365 * (y - 1) + (y - 1) div 4 - (y - 1) div 100 + (y - 1) div 400"

definition yearOf :: "int \<Rightarrow> int" where
  "yearOf d =
     (let n400 = d div 146097; d1 = d mod 146097;
          n100 = d1 div 36524; n100' = n100 - n100 div 4; d2 = d1 - 36524 * n100';
          n4 = d2 div 1461; d3 = d2 - 1461 * n4;
          n1 = d3 div 365; n1' = n1 - n1 div 4
      in 400 * n400 + 100 * n100' + 4 * n4 + n1' + 1)"

text \<open>\<open>t.AddDate(n, 0, 0)\<close>: the same day and time of a later year; the 29th of February may become the first of March.\<close>

definition AddYears :: "int \<Rightarrow> int \<Rightarrow> int" where
  "AddYears n t =
     (let d = t div Day; y = yearOf d; yd = d - daysBefore y;
          yd' = (if yd < 59 \<or> yd = 59 \<and> isLeap y then yd else yd - of_bool (isLeap y) + of_bool (isLeap (y + n)))
      in (daysBefore (y + n) + yd') * Day + t mod Day)"

section \<open>PEM\<close>

fun lines64 :: "nat \<Rightarrow> string \<Rightarrow> string" where
  "lines64 n [] = (if n = 0 then [] else [CHR 0x0A])"
| "lines64 n (c # cs) = (if n = 63 then c # CHR 0x0A # lines64 0 cs else c # lines64 (n + 1) cs)"

text \<open>\<open>pem.Encode\<close> of a block without headers into a buffer, which does not fail.\<close>

definition pemEncode :: "string \<Rightarrow> bytes \<Rightarrow> string" where
  "pemEncode ty bs = ''-----BEGIN '' @ ty @ ''-----'' @ [CHR 0x0A] @ lines64 0 (b64encode bs) @ ''-----END '' @ ty @ ''-----'' @ [CHR 0x0A]"

section \<open>Certificates\<close>

datatype ExtKeyUsage = ExtKeyUsageClientAuth | ExtKeyUsageServerAuth
datatype KeyUsage = KeyUsageDigitalSignature | KeyUsageCertSign

record Certificate =
  x_SerialNumber :: int
  x_DNSNames :: "string list"
  x_CommonName :: string
  x_Organization :: "string list"
  x_NotBefore :: int
  x_NotAfter :: int
  x_IsCA :: bool
  x_ExtKeyUsage :: "ExtKeyUsage list"
  x_KeyUsage :: "KeyUsage list"
  x_BasicConstraintsValid :: bool

text \<open>A private key of type \<open>'k\<close> stands for its public key too, as the second key of \<open>CreateCertificate\<close>.\<close>

record ('w, 'k) crypto =
  cy_Now :: "('w, int) act"
  cy_GenerateKey :: "nat \<Rightarrow> ('w, 'k) act"
  cy_CreateCertificate :: "Certificate \<Rightarrow> Certificate \<Rightarrow> 'k \<Rightarrow> 'k \<Rightarrow> ('w, bytes) act"
  cy_MarshalPKCS1PrivateKey :: "'k \<Rightarrow> bytes"

record Secret =
  sec_Namespace :: string
  sec_Name :: string
  sec_Type :: string
  sec_Data :: "(string \<times> string) list"

record MutatingWebhook =
  mwh_Name :: string
  mwh_CABundle :: string

record ('w, 'k) certEnv =
  ct_GetSecret :: "string \<times> string \<Rightarrow> ('w, Secret) act"
  ct_CreateSecret :: "Secret \<Rightarrow> ('w, unit) act"
  ct_MkdirAll :: "string \<Rightarrow> ('w, unit) act"
  ct_WriteFile :: "string \<Rightarrow> string \<Rightarrow> ('w, unit) act"
  ct_GetWebhooks :: "string \<times> string \<Rightarrow> ('w, MutatingWebhook list) act"
  ct_PatchWebhooks :: "MutatingWebhook list \<Rightarrow> MutatingWebhook list \<Rightarrow> ('w, unit) act"
  ct_crypto :: "('w, 'k) crypto"

definition serverCertKey :: string where "serverCertKey = ''tls.crt''"
definition serverKeyKey :: string where "serverKeyKey = ''tls.key''"
definition caCertKey :: string where "caCertKey = ''ca.crt''"

text \<open>Reading a map of bytes; a missing entry is empty.\<close>

definition dataAt :: "Secret \<Rightarrow> string \<Rightarrow> string" where
  "dataAt s k = (case map_of (sec_Data s) k of None \<Rightarrow> [] | Some v \<Rightarrow> v)"

definition caTemplate :: "string \<Rightarrow> int \<Rightarrow> int \<Rightarrow> Certificate" where
  "caTemplate clusterDomain notBefore notAfter =
     \<lparr> x_SerialNumber = 2021, x_DNSNames = [], x_CommonName = [], x_Organization = [clusterDomain],
       x_NotBefore = notBefore, x_NotAfter = notAfter, x_IsCA = True,
       x_ExtKeyUsage = [ExtKeyUsageClientAuth, ExtKeyUsageServerAuth],
       x_KeyUsage = [KeyUsageDigitalSignature, KeyUsageCertSign], x_BasicConstraintsValid = True \<rparr>"

definition commonNameOf :: "string \<Rightarrow> string \<Rightarrow> string" where
  "commonNameOf serviceName serviceNamespace = Sprintf ''%s.%s.svc'' [serviceName, serviceNamespace]"

definition serverTemplate :: "string \<Rightarrow> string \<Rightarrow> string \<Rightarrow> int \<Rightarrow> int \<Rightarrow> Certificate" where
  "serverTemplate serviceNamespace serviceName clusterDomain notBefore notAfter =
     (let commonName = commonNameOf serviceName serviceNamespace;
          dnsNames = [serviceName, Sprintf ''%s.%s'' [serviceName, serviceNamespace], commonName]
      in \<lparr> x_SerialNumber = 2021, x_DNSNames = dnsNames, x_CommonName = commonName, x_Organization = [clusterDomain],
           x_NotBefore = notBefore, x_NotAfter = notAfter, x_IsCA = False,
           x_ExtKeyUsage = [ExtKeyUsageClientAuth, ExtKeyUsageServerAuth],
           x_KeyUsage = [KeyUsageDigitalSignature], x_BasicConstraintsValid = False \<rparr>)"

definition GenerateCerts :: "('w, 'k) crypto \<Rightarrow> string \<Rightarrow> string \<Rightarrow> string \<Rightarrow> ('w, Secret) act" where
  "GenerateCerts cy serviceNamespace serviceName clusterDomain =
     bindA (cy_Now cy) (\<lambda>now1. bindA (cy_Now cy) (\<lambda>now2.
     let ca = caTemplate clusterDomain (now1 + (-Hour)) (AddYears 100 now2) in
     bindA (cy_GenerateKey cy 4096) (\<lambda>caPK.
     bindA (cy_CreateCertificate cy ca ca caPK caPK) (\<lambda>caBytes.
     let caPEM = pemEncode ''CERTIFICATE'' caBytes in
     bindA (cy_Now cy) (\<lambda>now3. bindA (cy_Now cy) (\<lambda>now4.
     let cert = serverTemplate serviceNamespace serviceName clusterDomain (now3 + (-Hour)) (AddYears 100 now4) in
     bindA (cy_GenerateKey cy 4096) (\<lambda>serverPrivateKey.
     bindA (cy_CreateCertificate cy cert ca serverPrivateKey caPK) (\<lambda>serverCertBytes.
     let serverCertPEM = pemEncode ''CERTIFICATE'' serverCertBytes;
         serverPrivateKeyPEM = pemEncode ''RSA PRIVATE KEY'' (cy_MarshalPKCS1PrivateKey cy serverPrivateKey) in
     retA \<lparr> sec_Namespace = [], sec_Name = [], sec_Type = ''kubernetes.io/tls'',
       sec_Data = [(caCertKey, caPEM), (serverCertKey, serverCertPEM), (serverKeyKey, serverPrivateKeyPEM)] \<rparr>))))))))"

section \<open>The shared secret\<close>

definition webhookSecretName :: "string \<Rightarrow> string" where
  "webhookSecretName name = Sprintf ''%s-webhook-cert'' [name]"

text \<open>The first part of \<open>SyncCert\<close>: the secret whose certificates are used; the replica that creates it is the leader.\<close>

definition certSecret :: "('w, 'k) certEnv \<Rightarrow> string \<Rightarrow> string \<Rightarrow> string \<Rightarrow> ('w, Secret) act" where
  "certSecret env ns name domain =
     (let secretName = webhookSecretName name in
      tryA (ct_GetSecret env (ns, secretName)) retA
        (\<lambda>err. if \<not> IsNotFound err then failA (Wrapf ''error get cert from secret, %w'' [] err)
         else bindA (tryA (GenerateCerts (ct_crypto env) ns name domain) retA
                       (\<lambda>err. failA (Wrapf ''error generate cert, %w'' [] err))) (\<lambda>s.
           let s' = s\<lparr> sec_Name := secretName, sec_Namespace := ns \<rparr> in
           tryA (ct_CreateSecret env s') (\<lambda>_. retA s')
             (\<lambda>err. if \<not> IsAlreadyExists err then failA (Wrapf ''error create cert to secret, %w'' [] err)
              else tryA (ct_GetSecret env (ns, secretName)) retA
                     (\<lambda>err. failA (Wrapf ''error get cert from secret, %w'' [] err))))))"

definition writeCert :: "('w, 'k) certEnv \<Rightarrow> string \<Rightarrow> string \<Rightarrow> string \<Rightarrow> ('w, unit) act" where
  "writeCert env certDir key content =
     tryA (ct_WriteFile env (pathJoin [certDir, key]) content) retA (\<lambda>err. failA (Wrapf ''error create secret file, %w'' [] err))"

text \<open>The loop over the hooks, and the patch with the steps of the back-off that are left.\<close>

definition setCABundle :: "string \<Rightarrow> MutatingWebhook \<Rightarrow> MutatingWebhook" where
  "setCABundle ca hook = (if mwh_CABundle hook \<noteq> [] then hook else hook\<lparr> mwh_CABundle := ca \<rparr>)"

fun patchBackoff :: "('w, 'k) certEnv \<Rightarrow> nat \<Rightarrow> MutatingWebhook list \<Rightarrow> MutatingWebhook list \<Rightarrow> ('w, unit) act" where
  "patchBackoff env 0 new old = failA (ApiErr ''timed out waiting for the condition'')"
| "patchBackoff env (Suc steps) new old =
     tryA (ct_PatchWebhooks env new old) retA (\<lambda>innerErr. patchBackoff env steps new old)"

text \<open>The last part of \<open>SyncCert\<close>.\<close>

definition updateWebhook :: "('w, 'k) certEnv \<Rightarrow> string \<Rightarrow> string \<Rightarrow> string \<Rightarrow> ('w, unit) act" where
  "updateWebhook env ns name caCertBytes =
     bindA (ct_GetWebhooks env (ns, name)) (\<lambda>hooks.
     if hooks = [] then failA (Errorf ''no webhook config found'' [])
     else let new = map (setCABundle caCertBytes) hooks; changed = list_ex (\<lambda>h. mwh_CABundle h = []) hooks in
       if changed then patchBackoff env 3 new hooks else retA ())"

definition SyncCert :: "('w, 'k) certEnv \<Rightarrow> string \<Rightarrow> string \<Rightarrow> string \<Rightarrow> string \<Rightarrow> ('w, unit) act" where
  "SyncCert env ns name domain certDir =
     bindA (certSecret env ns name domain) (\<lambda>s.
     let serverCertBytes = dataAt s serverCertKey; serverKeyBytes = dataAt s serverKeyKey; caCertBytes = dataAt s caCertKey in
     if serverCertBytes = [] \<or> serverKeyBytes = [] \<or> caCertBytes = [] then failA (Errorf ''invalid cert'' [])
     else bindA (ct_MkdirAll env certDir) (\<lambda>_.
          bindA (writeCert env certDir serverCertKey serverCertBytes) (\<lambda>_.
          bindA (writeCert env certDir serverKeyKey serverKeyBytes) (\<lambda>_.
          bindA (writeCert env certDir caCertKey caCertBytes) (\<lambda>_.
          updateWebhook env ns name caCertBytes)))))"

section \<open>Paths of the certificates\<close>

lemma Split_snoc: "c \<notin> set b \<Longrightarrow> Split c (a @ c # b) = Split c a @ [b]"
proof (induction a)
  case Nil
  then show ?case by (simp add: Split_no_sep)
next
  case (Cons x a)
  then show ?case by (cases "Split c a") auto
qed

lemma Join_snoc: "\<exists>pre. Join sep (xs @ [x]) = pre @ x"
proof (induction xs)
  case (Cons y ys)
  then obtain pre where "Join sep (ys @ [x]) = pre @ x" by blast
  then show ?case by (cases ys) (auto intro: exI [of _ "y @ sep"] exI [of _ "y @ sep @ pre"])
qed simp

text \<open>A file of a directory ends with its name.\<close>

lemma pathJoin_file:
  assumes "CHR ''/'' \<notin> set k" and "k \<notin> {[], ''.'', ''..''}"
  obtains pre where "pathJoin [dir, k] = pre @ k"
proof -
  have "\<exists>pre. Clean p = pre @ k" if "Split (CHR ''/'') p = comps @ [k]" for p comps
  proof -
    let ?r = "HasPrefix p ''/''"
    obtain pre where "Join ''/'' (rev (fold (cleanStep ?r) comps []) @ [k]) = pre @ k" using Join_snoc by blast
    with that assms(2) show ?thesis by (simp add: Clean_def cleanStep_def Let_def)
  qed
  moreover have "Split (CHR ''/'') (dir @ CHR ''/'' # k) = Split (CHR ''/'') dir @ [k]" using assms(1) by (rule Split_snoc)
  moreover have "Split (CHR ''/'') k = [] @ [k]" using assms(1) by (simp add: Split_no_sep)
  ultimately have "\<exists>pre. pathJoin [dir, k] = pre @ k" using assms(2) by (cases "dir = []") (auto simp: pathJoin_def)
  with that show thesis by blast
qed

lemma cert_paths:
  "pathJoin [dir, serverCertKey] \<noteq> pathJoin [dir, serverKeyKey]"
  "pathJoin [dir, serverCertKey] \<noteq> pathJoin [dir, caCertKey]"
  "pathJoin [dir, serverKeyKey] \<noteq> pathJoin [dir, caCertKey]"
proof -
  obtain a where a: "pathJoin [dir, serverCertKey] = a @ serverCertKey"
    by (rule pathJoin_file [of serverCertKey dir]) (simp_all add: serverCertKey_def)
  obtain b where b: "pathJoin [dir, serverKeyKey] = b @ serverKeyKey"
    by (rule pathJoin_file [of serverKeyKey dir]) (simp_all add: serverKeyKey_def)
  obtain c where c: "pathJoin [dir, caCertKey] = c @ caCertKey"
    by (rule pathJoin_file [of caCertKey dir]) (simp_all add: caCertKey_def)
  have "rev (a @ serverCertKey) \<noteq> rev (b @ serverKeyKey)" "rev (a @ serverCertKey) \<noteq> rev (c @ caCertKey)"
    "rev (b @ serverKeyKey) \<noteq> rev (c @ caCertKey)"
    by (simp_all add: serverCertKey_def serverKeyKey_def caCertKey_def)
  with a b c show "pathJoin [dir, serverCertKey] \<noteq> pathJoin [dir, serverKeyKey]"
    "pathJoin [dir, serverCertKey] \<noteq> pathJoin [dir, caCertKey]" "pathJoin [dir, serverKeyKey] \<noteq> pathJoin [dir, caCertKey]"
    by metis+
qed

section \<open>What a certificate says\<close>

text \<open>A hundred years later, to within two days.\<close>

lemma AddYears_bounds: "36523 * Day \<le> AddYears 100 t - t \<and> AddYears 100 t - t \<le> 36526 * Day"
proof -
  let ?d = "t div Day"
  define y where "y = yearOf ?d"
  have days: "36524 \<le> daysBefore (y + 100) - daysBefore y \<and> daysBefore (y + 100) - daysBefore y \<le> 36525"
  proof -
    define z where "z = y - 1"
    define p q where "p = z div 400" and "q = (z + 100) div 400"
    have "(z + 100) div 4 = z div 4 + 25" "(z + 100) div 100 = z div 100 + 1"
      using div_mult_self1 [of 4 z 25] div_mult_self1 [of 100 z 1] by simp_all
    then have "daysBefore (y + 100) - daysBefore y = 36524 + (q - p)"
      by (simp add: daysBefore_def z_def p_def q_def algebra_simps)
    moreover have "p \<le> q" unfolding p_def q_def by (rule zdiv_mono1) simp_all
    moreover have "q \<le> (z + 400) div 400" unfolding q_def by (rule zdiv_mono1) simp_all
    then have "q \<le> p + 1" unfolding p_def using div_mult_self1 [of 400 z 1] by simp
    ultimately show ?thesis by simp
  qed
  obtain k where k: "AddYears 100 t = (daysBefore (y + 100) + (?d - daysBefore y) + k) * Day + t mod Day" "-1 \<le> k" "k \<le> 1"
    by (rule that [of "if ?d - daysBefore y < 59 \<or> ?d - daysBefore y = 59 \<and> isLeap y then 0
          else of_bool (isLeap (y + 100)) - of_bool (isLeap y)"]) (auto simp: AddYears_def Let_def y_def algebra_simps)
  have "t = ?d * Day + t mod Day" by simp
  with k(1) have "AddYears 100 t - t = (daysBefore (y + 100) - daysBefore y + k) * Day" by (simp add: algebra_simps)
  moreover have "0 < Day" by (simp add: Day_def Hour_def Second_def)
  ultimately show ?thesis using days k(2,3) by (simp add: mult_right_mono)
qed

text \<open>The certificate of the server names the service, under each form of its DNS name.\<close>

lemma serverTemplate_names:
  "x_DNSNames (serverTemplate ns name domain a b) = [name, name @ ''.'' @ ns, name @ ''.'' @ ns @ ''.svc'']"
  by (simp add: serverTemplate_def commonNameOf_def Let_def)

section \<open>The contract of the services\<close>

text \<open>
  \<open>secrets\<close>, \<open>files\<close> and \<open>hooks\<close> read the world: the stored secrets, the files of this replica and the hooks of the
  configuration. A stored secret stays: others may create secrets at any time, but nobody changes or removes one. Nobody else
  writes the files or edits the hooks, and a refused patch changes nothing.
\<close>

definition secretsStay :: "('w \<Rightarrow> string \<times> string \<Rightarrow> Secret option) \<Rightarrow> 'w \<Rightarrow> 'w \<Rightarrow> bool" where
  "secretsStay secrets w w' \<longleftrightarrow> secrets w \<subseteq>\<^sub>m secrets w'"

definition quiet :: "('w \<Rightarrow> string \<times> string \<Rightarrow> Secret option) \<Rightarrow> ('w \<Rightarrow> MutatingWebhook list) \<Rightarrow> 'w \<Rightarrow> 'w \<Rightarrow> bool" where
  "quiet secrets hooks w w' \<longleftrightarrow> secretsStay secrets w w' \<and> hooks w' = hooks w"

definition quietCalls :: "('w, 'k) certEnv \<Rightarrow> ('w \<Rightarrow> 'w \<Rightarrow> bool) \<Rightarrow> bool" where
  "quietCalls env R \<longleftrightarrow>
     (\<forall>k. along R (ct_GetSecret env k)) \<and> (\<forall>s. along R (ct_CreateSecret env s)) \<and>
     (\<forall>d. along R (ct_MkdirAll env d)) \<and> (\<forall>f c. along R (ct_WriteFile env f c)) \<and>
     (\<forall>k. along R (ct_GetWebhooks env k)) \<and> along R (cy_Now (ct_crypto env)) \<and>
     (\<forall>n. along R (cy_GenerateKey (ct_crypto env) n)) \<and>
     (\<forall>a b c d. along R (cy_CreateCertificate (ct_crypto env) a b c d))"

definition patchLaw :: "('w, 'k) certEnv \<Rightarrow> ('w \<Rightarrow> string \<times> string \<Rightarrow> Secret option) \<Rightarrow> ('w \<Rightarrow> string \<Rightarrow> string option)
    \<Rightarrow> ('w \<Rightarrow> MutatingWebhook list) \<Rightarrow> bool" where
  "patchLaw env secrets files hooks \<longleftrightarrow>
     (\<forall>new old r w w'. ct_PatchWebhooks env new old w = (r, w') \<longrightarrow> secretsStay secrets w w' \<and> files w' = files w \<and>
        (r = Ok () \<longrightarrow> hooks w = old \<longrightarrow> hooks w' = new) \<and> (\<forall>e. r = Err e \<longrightarrow> hooks w' = hooks w))"

definition certApi :: "('w, 'k) certEnv \<Rightarrow> ('w \<Rightarrow> string \<times> string \<Rightarrow> Secret option) \<Rightarrow> ('w \<Rightarrow> string \<Rightarrow> string option)
    \<Rightarrow> ('w \<Rightarrow> MutatingWebhook list) \<Rightarrow> bool" where
  "certApi env secrets files hooks \<longleftrightarrow> quietCalls env (quiet secrets hooks) \<and> patchLaw env secrets files hooks \<and>
     (\<forall>k s w w'. ct_GetSecret env k w = (Ok s, w') \<longrightarrow> secrets w' k = Some s) \<and>
     (\<forall>s w w'. ct_CreateSecret env s w = (Ok (), w') \<longrightarrow> secrets w' (sec_Namespace s, sec_Name s) = Some s) \<and>
     (\<forall>f c w w'. ct_WriteFile env f c w = (Ok (), w') \<longrightarrow> files w' = (files w)(f \<mapsto> c)) \<and>
     (\<forall>k hs w w'. ct_GetWebhooks env k w = (Ok hs, w') \<longrightarrow> hooks w' = hs \<and> files w' = files w)"

lemma quiet_order: "reflp (quiet secrets hooks)" "transp (quiet secrets hooks)"
  by (auto simp: quiet_def secretsStay_def reflp_def transp_def intro: map_le_trans)

lemma certApi_quiet:
  assumes "certApi env secrets files hooks"
  shows "along (quiet secrets hooks) (ct_GetSecret env k)" "along (quiet secrets hooks) (ct_CreateSecret env s)"
    "along (quiet secrets hooks) (ct_MkdirAll env d)" "along (quiet secrets hooks) (ct_WriteFile env f c)"
    "along (quiet secrets hooks) (ct_GetWebhooks env k)" "along (quiet secrets hooks) (cy_Now (ct_crypto env))"
    "along (quiet secrets hooks) (cy_GenerateKey (ct_crypto env) n)"
    "along (quiet secrets hooks) (cy_CreateCertificate (ct_crypto env) a b x y)"
  using assms by (simp_all only: certApi_def quietCalls_def simp_thms)

lemma certApi_laws:
  assumes "certApi env secrets files hooks"
  shows "ct_GetSecret env k w = (Ok s, w') \<Longrightarrow> secrets w' k = Some s"
    "ct_CreateSecret env s w = (Ok (), w') \<Longrightarrow> secrets w' (sec_Namespace s, sec_Name s) = Some s"
    "ct_WriteFile env f c w = (Ok (), w') \<Longrightarrow> files w' = (files w)(f \<mapsto> c)"
    "ct_GetWebhooks env k w = (Ok hs, w') \<Longrightarrow> hooks w' = hs \<and> files w' = files w"
    "ct_PatchWebhooks env new old w = (Ok (), w') \<Longrightarrow> secretsStay secrets w w' \<and> files w' = files w \<and> (hooks w = old \<longrightarrow> hooks w' = new)"
    "ct_PatchWebhooks env new old w = (Err e, w') \<Longrightarrow> secretsStay secrets w w' \<and> files w' = files w \<and> hooks w' = hooks w"
  using assms unfolding certApi_def patchLaw_def by metis+

lemma GenerateCerts_quiet:
  assumes "certApi env secrets files hooks"
  shows "along (quiet secrets hooks) (GenerateCerts (ct_crypto env) ns name domain)"
  unfolding GenerateCerts_def Let_def retA_Pair by (intro along_intros quiet_order certApi_quiet [OF assms])

lemma certSecret_quiet:
  assumes "certApi env secrets files hooks"
  shows "along (quiet secrets hooks) (certSecret env ns name domain)"
  unfolding certSecret_def Let_def retA_Pair failA_Pair
  by (intro along_intros quiet_order certApi_quiet [OF assms] GenerateCerts_quiet [OF assms])

lemma certSecret_stored:
  assumes api: "certApi env secrets files hooks" and run: "certSecret env ns name domain w = (Ok s, w')"
  shows "secrets w' (ns, webhookSecretName name) = Some s"
  using run unfolding certSecret_def Let_def
  by (auto elim!: tryA_OkE bindA_OkE split: if_splits dest!: certApi_laws(1,2) [OF api])

lemma writeCert_run:
  assumes api: "certApi env secrets files hooks" and run: "writeCert env dir k c w = (Ok u, w')"
  shows "quiet secrets hooks w w' \<and> files w' = (files w)(pathJoin [dir, k] \<mapsto> c)"
  using run unfolding writeCert_def
  by (auto elim!: tryA_OkE dest: certApi_laws(3) [OF api] alongD [OF certApi_quiet(4) [OF api]])

lemma patchBackoff_run:
  assumes api: "certApi env secrets files hooks" and run: "patchBackoff env steps new old w = (Ok u, w')" and "hooks w = old"
  shows "secretsStay secrets w w' \<and> files w' = files w \<and> hooks w' = new"
  using run \<open>hooks w = old\<close>
proof (induction steps arbitrary: w)
  case (Suc steps)
  from Suc.prems(1) show ?case unfolding patchBackoff.simps
  proof (cases rule: tryA_OkE)
    case (ok x w1)
    with Suc.prems(2) show ?thesis by (auto dest: certApi_laws(5) [OF api])
  next
    case (err e w1)
    from certApi_laws(6) [OF api err(1)] Suc.IH [OF err(2)] Suc.prems(2) show ?thesis
      by (auto simp: secretsStay_def intro: map_le_trans)
  qed
qed simp

lemma updateWebhook_run:
  assumes api: "certApi env secrets files hooks" and run: "updateWebhook env ns name ca w = (Ok u, w')"
  shows "secretsStay secrets w w' \<and> files w' = files w \<and> hooks w \<noteq> [] \<and> hooks w' = map (setCABundle ca) (hooks w)"
proof -
  from run obtain hs w1 where get: "ct_GetWebhooks env (ns, name) w = (Ok hs, w1)" and ne: "hs \<noteq> []"
    and rest: "(if list_ex (\<lambda>h. mwh_CABundle h = []) hs then patchBackoff env 3 (map (setCABundle ca) hs) hs else retA ()) w1 = (Ok u, w')"
    unfolding updateWebhook_def Let_def by (auto elim!: bindA_OkE split: if_splits)
  from certApi_laws(4) [OF api get] alongD [OF certApi_quiet(5) [OF api] get]
  have hs: "hooks w1 = hs" "files w1 = files w" "hooks w = hs" "secretsStay secrets w w1" by (auto simp: quiet_def)
  show ?thesis
  proof (cases "list_ex (\<lambda>h. mwh_CABundle h = []) hs")
    case True
    with rest have "patchBackoff env 3 (map (setCABundle ca) hs) hs w1 = (Ok u, w')" by simp
    from patchBackoff_run [OF api this hs(1)] hs(2-4) ne show ?thesis by (auto simp: secretsStay_def intro: map_le_trans)
  next
    case False
    then have "map (setCABundle ca) hs = hs" by (auto simp: list_ex_iff setCABundle_def intro: map_idI)
    with False rest hs ne show ?thesis by simp
  qed
qed

text \<open>
  A successful synchronisation leaves this replica with the certificates of the stored secret: the three files hold its entries,
  none of them empty; and every hook of the configuration, of which there is at least one, has an authority.
\<close>

lemma SyncCert_run:
  assumes api: "certApi env secrets files hooks" and run: "SyncCert env ns name domain dir w = (Ok u, w')"
  shows "\<exists>s. secrets w' (ns, webhookSecretName name) = Some s \<and>
    (\<forall>k\<in>{serverCertKey, serverKeyKey, caCertKey}. files w' (pathJoin [dir, k]) = Some (dataAt s k) \<and> dataAt s k \<noteq> []) \<and>
    secretsStay secrets w w' \<and> hooks w \<noteq> [] \<and> hooks w' = map (setCABundle (dataAt s caCertKey)) (hooks w)"
proof -
  from run obtain s w1 w2 w3 w4 w5 where s: "certSecret env ns name domain w = (Ok s, w1)"
    and ne: "dataAt s serverCertKey \<noteq> []" "dataAt s serverKeyKey \<noteq> []" "dataAt s caCertKey \<noteq> []"
    and mk: "ct_MkdirAll env dir w1 = (Ok (), w2)"
    and f1: "writeCert env dir serverCertKey (dataAt s serverCertKey) w2 = (Ok (), w3)"
    and f2: "writeCert env dir serverKeyKey (dataAt s serverKeyKey) w3 = (Ok (), w4)"
    and f3: "writeCert env dir caCertKey (dataAt s caCertKey) w4 = (Ok (), w5)"
    and up: "updateWebhook env ns name (dataAt s caCertKey) w5 = (Ok u, w')"
    unfolding SyncCert_def Let_def by (auto elim!: bindA_OkE split: if_splits)
  note q = alongD [OF certSecret_quiet [OF api] s] alongD [OF certApi_quiet(3) [OF api] mk]
  note wr = writeCert_run [OF api f1] writeCert_run [OF api f2] writeCert_run [OF api f3]
  note w' = updateWebhook_run [OF api up]
  have stay: "secretsStay secrets w1 w'" using q(2) wr w' unfolding quiet_def secretsStay_def by (meson map_le_trans)
  with q(1) have "secretsStay secrets w w'" unfolding quiet_def secretsStay_def by (meson map_le_trans)
  moreover from stay certSecret_stored [OF api s] have "secrets w' (ns, webhookSecretName name) = Some s"
    by (auto simp: secretsStay_def map_le_def dom_def)
  moreover have "files w' = (files w2)(pathJoin [dir, serverCertKey] \<mapsto> dataAt s serverCertKey,
      pathJoin [dir, serverKeyKey] \<mapsto> dataAt s serverKeyKey, pathJoin [dir, caCertKey] \<mapsto> dataAt s caCertKey)"
    using wr w' by simp
  moreover have "hooks w5 = hooks w" using q wr by (simp add: quiet_def)
  ultimately show ?thesis using ne w' cert_paths [of dir] by auto
qed

text \<open>
  C16: Replicas of the controller agree on the certificates of the webhook, whichever of them created the secret. When one
  replica has synchronised and another does so later, both have the three files of the one stored secret, none of them
  empty; and after the second run every hook has an authority, the shared one or one it had before the first run.
\<close>

theorem cert_replicas_agree:
  assumes "certApi env\<^sub>1 secrets files\<^sub>1 hooks" and "certApi env\<^sub>2 secrets files\<^sub>2 hooks"
    and "SyncCert env\<^sub>1 ns name domain dir\<^sub>1 w = (Ok u, w')" and "secretsStay secrets w' v" and "hooks v = hooks w'"
    and "SyncCert env\<^sub>2 ns name domain dir\<^sub>2 v = (Ok u', v')"
  shows "\<exists>s. secrets v' (ns, webhookSecretName name) = Some s \<and>
    (\<forall>k\<in>{serverCertKey, serverKeyKey, caCertKey}. files\<^sub>1 w' (pathJoin [dir\<^sub>1, k]) = Some (dataAt s k) \<and>
       files\<^sub>2 v' (pathJoin [dir\<^sub>2, k]) = Some (dataAt s k) \<and> dataAt s k \<noteq> []) \<and>
    hooks v' \<noteq> [] \<and> (\<forall>h\<in>set (hooks v'). mwh_CABundle h \<noteq> [] \<and> (mwh_CABundle h = dataAt s caCertKey \<or> h \<in> set (hooks w)))"
proof -
  from SyncCert_run [OF assms(1,3)] obtain s where s: "secrets w' (ns, webhookSecretName name) = Some s"
    "\<forall>k\<in>{serverCertKey, serverKeyKey, caCertKey}. files\<^sub>1 w' (pathJoin [dir\<^sub>1, k]) = Some (dataAt s k) \<and> dataAt s k \<noteq> []"
    and hs: "hooks w \<noteq> []" "hooks w' = map (setCABundle (dataAt s caCertKey)) (hooks w)" by blast
  from SyncCert_run [OF assms(2,6)] obtain t where t: "secrets v' (ns, webhookSecretName name) = Some t" "secretsStay secrets v v'"
    "\<forall>k\<in>{serverCertKey, serverKeyKey, caCertKey}. files\<^sub>2 v' (pathJoin [dir\<^sub>2, k]) = Some (dataAt t k)"
    and ht: "hooks v' = map (setCABundle (dataAt t caCertKey)) (hooks v)" by blast
  have "secrets v' (ns, webhookSecretName name) = Some s"
    using s(1) assms(4) t(2) by (auto simp: secretsStay_def map_le_def dom_def)
  with t(1) have "t = s" by simp
  with s t hs ht assms(5) show ?thesis by (intro exI [of _ s]) (auto simp: setCABundle_def)
qed

text \<open>
  C38: A hook that has an authority keeps it, even when the authority of the certificates is another one: after the secret was
  deleted and made anew, the synchronisation succeeds, the server presents a certificate of the new authority, and
  the API server still checks it against the old one.
\<close>

theorem stale_authority_kept:
  assumes "certApi env secrets files hooks" and "SyncCert env ns name domain dir w = (Ok u, w')"
    and "h \<in> set (hooks w)" and "mwh_CABundle h \<noteq> []"
  shows "h \<in> set (hooks w') \<and> (\<exists>s. secrets w' (ns, webhookSecretName name) = Some s \<and>
    files w' (pathJoin [dir, serverCertKey]) = Some (dataAt s serverCertKey))"
  using SyncCert_run [OF assms(1,2)] assms(3,4) by (force simp: setCABundle_def)

section \<open>A small cluster\<close>

text \<open>
  For the witnesses: secrets, files, hooks and a counter that makes keys; a signature is the pair of the two keys.
\<close>

record exCertWorld =
  ew_secrets :: "((string \<times> string) \<times> Secret) list"
  ew_files :: "(string \<times> string) list"
  ew_hooks :: "MutatingWebhook list"
  ew_time :: nat

definition exCertEnv :: "(exCertWorld, nat) certEnv" where
  "exCertEnv = \<lparr>
     ct_GetSecret = (\<lambda>k w. (case map_of (ew_secrets w) k of None \<Rightarrow> Err (NotFound ''secret'') | Some s \<Rightarrow> Ok s, w)),
     ct_CreateSecret = (\<lambda>s w. let k = (sec_Namespace s, sec_Name s) in
       case map_of (ew_secrets w) k of None \<Rightarrow> (Ok (), w\<lparr> ew_secrets := (k, s) # ew_secrets w \<rparr>) | Some _ \<Rightarrow> (Err (AlreadyExists ''secret''), w)),
     ct_MkdirAll = (\<lambda>d. Pair (Ok ())), ct_WriteFile = (\<lambda>f c w. (Ok (), w\<lparr> ew_files := (f, c) # ew_files w \<rparr>)),
     ct_GetWebhooks = (\<lambda>k w. (Ok (ew_hooks w), w)), ct_PatchWebhooks = (\<lambda>new old w. (Ok (), w\<lparr> ew_hooks := new \<rparr>)),
     ct_crypto = \<lparr> cy_Now = (\<lambda>w. (Ok 63000000000000000000, w)), cy_GenerateKey = (\<lambda>n w. (Ok (ew_time w), w\<lparr> ew_time := ew_time w + 1 \<rparr>)),
       cy_CreateCertificate = (\<lambda>c p k sk. Pair (Ok [word_of_nat k, word_of_nat sk])), cy_MarshalPKCS1PrivateKey = (\<lambda>k. [word_of_nat k]) \<rparr> \<rparr>"

lemma exCertEnv_api: "certApi exCertEnv (\<lambda>w. map_of (ew_secrets w)) (\<lambda>w. map_of (ew_files w)) ew_hooks"
  by (auto simp: certApi_def quietCalls_def patchLaw_def quiet_def secretsStay_def along_def exCertEnv_def Let_def map_le_def
      split: option.splits)

definition exCertCluster :: exCertWorld where
  "exCertCluster = \<lparr> ew_secrets = [], ew_files = [],
     ew_hooks = [\<lparr> mwh_Name = ''a'', mwh_CABundle = [] \<rparr>, \<lparr> mwh_Name = ''b'', mwh_CABundle = ''old'' \<rparr>], ew_time = 1 \<rparr>"

lemma exSync: "\<exists>w'. SyncCert exCertEnv ''ns'' ''ctl'' ''d'' ''/certs'' exCertCluster = (Ok (), w') \<and>
    map_of (ew_files w') ''/certs/ca.crt'' = Some (pemEncode ''CERTIFICATE'' [1, 1])"
proof -
  have "(case SyncCert exCertEnv ''ns'' ''ctl'' ''d'' ''/certs'' exCertCluster of (r, w') \<Rightarrow> r = Ok () \<and>
    map_of (ew_files w') ''/certs/ca.crt'' = Some (pemEncode ''CERTIFICATE'' [1, 1]))" by code_simp
  then show ?thesis by (auto split: prod.splits)
qed

theorem stale_authority_kept_witness:
  "\<exists>w'. SyncCert exCertEnv ''ns'' ''ctl'' ''d'' ''/certs'' exCertCluster = (Ok (), w') \<and>
     \<lparr> mwh_Name = ''b'', mwh_CABundle = ''old'' \<rparr> \<in> set (ew_hooks w') \<and>
     map_of (ew_files w') ''/certs/ca.crt'' = Some (pemEncode ''CERTIFICATE'' [1, 1])"
proof -
  obtain w' where run: "SyncCert exCertEnv ''ns'' ''ctl'' ''d'' ''/certs'' exCertCluster = (Ok (), w')"
    and ca: "map_of (ew_files w') ''/certs/ca.crt'' = Some (pemEncode ''CERTIFICATE'' [1, 1])" using exSync by blast
  with stale_authority_kept [OF exCertEnv_api run, of "\<lparr> mwh_Name = ''b'', mwh_CABundle = ''old'' \<rparr>"] show ?thesis
    by (auto simp: exCertCluster_def)
qed

theorem cert_replicas_agree_witness:
  "\<exists>w' v'. SyncCert exCertEnv ''ns'' ''ctl'' ''d'' ''/certs'' exCertCluster = (Ok (), w') \<and>
     SyncCert exCertEnv ''ns'' ''ctl'' ''d'' ''/tmp/../run/'' w' = (Ok (), v') \<and>
     map_of (ew_files v') ''/run/tls.crt'' = map_of (ew_files w') ''/certs/tls.crt''"
proof -
  have "(case SyncCert exCertEnv ''ns'' ''ctl'' ''d'' ''/certs'' exCertCluster of (r, w') \<Rightarrow> r = Ok () \<and>
    fst (SyncCert exCertEnv ''ns'' ''ctl'' ''d'' ''/tmp/../run/'' w') = Ok ())" by code_simp
  then obtain w' v' where run: "SyncCert exCertEnv ''ns'' ''ctl'' ''d'' ''/certs'' exCertCluster = (Ok (), w')"
    "SyncCert exCertEnv ''ns'' ''ctl'' ''d'' ''/tmp/../run/'' w' = (Ok (), v')"
    by (auto split: prod.splits) (metis prod.collapse)
  have paths: "pathJoin [''/certs'', serverCertKey] = ''/certs/tls.crt''" "pathJoin [''/tmp/../run/'', serverCertKey] = ''/run/tls.crt''"
    by code_simp+
  from cert_replicas_agree [OF exCertEnv_api exCertEnv_api run(1) _ _ run(2)] run show ?thesis
    by (auto simp: secretsStay_def paths)
qed

end
