(* ===== verification/Credential.thy ===== *)
theory Credential
  imports Token_Crypto Erdma_Config Ecs_Api K8s_Api
begin

text \<open>
  internal/controller/credential.go: the choice of the credential of the cloud SDK, and the credential \<open>ram_role_sts\<close>, which
  reads encrypted tokens from a secret and caches them; and \<open>NewEriClient\<close> of eri.go, which uses
  it. The API server, the JSON decoder, \<open>time.Parse\<close>, the clock, AES and the cloud SDK are parameters. Times are
  nanoseconds since Go's zero time.
\<close>

section \<open>State\<close>

record CredentialModel =
  cm_AccessKeyId :: string
  cm_AccessKeySecret :: string
  cm_SecurityToken :: string
  cm_Type :: string

record stsTokenCredential =
  sts_secretNs :: string
  sts_SecretName :: string
  sts_sessionCredential :: "CredentialModel option"
  sts_credentialExpiration :: int
  sts_lastUpdate :: int

record EncryptedCredentialInfo =
  ak_AccessKeyID :: string
  ak_AccessKeySecret :: string
  ak_SecurityToken :: string
  ak_Expiration :: string
  ak_Keyring :: string

text \<open>Reading the clock may take time, so that it is an action.\<close>

record 'w credEnv =
  ce_GetSecret :: "string \<times> string \<Rightarrow> ('w, (string \<times> string) list) act"
  ce_UnmarshalToken :: "string \<Rightarrow> EncryptedCredentialInfo res"
  ce_NewCipher :: "string \<Rightarrow> (bytes \<Rightarrow> bytes) res"
  ce_ParseTime :: "string \<Rightarrow> string \<Rightarrow> int res"
  ce_Now :: "('w, int) act"

definition bytesString :: "bytes \<Rightarrow> string" where
  "bytesString bs = map (\<lambda>b. char_of (unat b)) bs"

definition Minute :: int where "Minute = 60 * Second"

section \<open>Operations\<close>

definition needUpdateCredential :: "'w credEnv \<Rightarrow> stsTokenCredential \<Rightarrow> ('w, bool) act" where
  "needUpdateCredential env s =
     (if sts_sessionCredential s = None then retA True
      else bindA (ce_Now env) (\<lambda>now.
        if sts_credentialExpiration s < now then retA True
        else bindA (ce_Now env) (\<lambda>now'. retA (sts_lastUpdate s < now' + (-5 * Minute)))))"

text \<open>\<open>decrypt\<close> with the error of the caller.\<close>

definition decryptOr :: "'w credEnv \<Rightarrow> string \<Rightarrow> string \<Rightarrow> string \<Rightarrow> ('w, string) act" where
  "decryptOr env fmt s keyring =
     tryA (liftR (decrypt (ce_NewCipher env) s keyring)) (\<lambda>bs. retA (bytesString bs)) (\<lambda>err. failA (Wrapf fmt [] err))"

text \<open>The credential with the new token; an error leaves it as it was.\<close>

definition updateCredential :: "'w credEnv \<Rightarrow> stsTokenCredential \<Rightarrow> ('w, stsTokenCredential) act" where
  "updateCredential env s =
     bindA (tryA (ce_GetSecret env (sts_secretNs s, sts_SecretName s)) retA
              (\<lambda>err. failA (Wrapf ''failed to get sts secret: %s'' [] err))) (\<lambda>data.
     case map_of data ''addon.token.config'' of
       None \<Rightarrow> failA (Errorf ''sts secret does not contain addon.token.config'' [])
     | Some encodeTokenCfg \<Rightarrow>
         bindA (tryA (liftR (ce_UnmarshalToken env encodeTokenCfg)) retA
                  (\<lambda>err. failA (Wrapf ''error unmarshal token config: %w'' [] err))) (\<lambda>akInfo.
         bindA (decryptOr env ''failed to decode ak, err: %w'' (ak_AccessKeyID akInfo) (ak_Keyring akInfo)) (\<lambda>ak.
         bindA (decryptOr env ''failed to decode sk, err: %w'' (ak_AccessKeySecret akInfo) (ak_Keyring akInfo)) (\<lambda>sk.
         bindA (decryptOr env ''failed to decode token, err: %w'' (ak_SecurityToken akInfo) (ak_Keyring akInfo)) (\<lambda>token.
         bindA (tryA (liftR (ce_ParseTime env ''2006-01-02T15:04:05Z'' (ak_Expiration akInfo))) retA
                  (\<lambda>err. failA (Wrapf ''failed to parse expiration time, err: %w'' [] err))) (\<lambda>t.
         bindA (ce_Now env) (\<lambda>now.
           retA (s\<lparr> sts_credentialExpiration := t,
                    sts_sessionCredential := Some \<lparr> cm_AccessKeyId = ak, cm_AccessKeySecret = sk, cm_SecurityToken = token,
                      cm_Type = ''ram_role_sts'' \<rparr>,
                    sts_lastUpdate := now \<rparr>))))))))"

text \<open>The credential returned and the cache afterwards. A failed update is ignored while the cached credential is valid.\<close>

definition sessionOf :: "stsTokenCredential \<Rightarrow> ('w, CredentialModel \<times> stsTokenCredential) act" where
  "sessionOf s = bindA (liftR (deref (sts_sessionCredential s))) (\<lambda>c. retA (c\<lparr> cm_Type := ''ram_role_sts'' \<rparr>, s))"

definition stsGetCredential :: "'w credEnv \<Rightarrow> stsTokenCredential \<Rightarrow> ('w, CredentialModel \<times> stsTokenCredential) act" where
  "stsGetCredential env s =
     bindA (if sts_sessionCredential s = None then retA True else needUpdateCredential env s) (\<lambda>update.
     if \<not> update then sessionOf s
     else tryA (updateCredential env s) sessionOf
       (\<lambda>err. bindA (ce_Now env) (\<lambda>now. if now < sts_credentialExpiration s then sessionOf s else failA err)))"

definition GetAccessKeyId :: "'w credEnv \<Rightarrow> stsTokenCredential \<Rightarrow> ('w, string \<times> stsTokenCredential) act" where
  "GetAccessKeyId env s = bindA (stsGetCredential env s) (\<lambda>(cred, s'). retA (cm_AccessKeyId cred, s'))"

definition GetAccessKeySecret :: "'w credEnv \<Rightarrow> stsTokenCredential \<Rightarrow> ('w, string \<times> stsTokenCredential) act" where
  "GetAccessKeySecret env s = bindA (stsGetCredential env s) (\<lambda>(cred, s'). retA (cm_AccessKeySecret cred, s'))"

definition GetSecurityToken :: "'w credEnv \<Rightarrow> stsTokenCredential \<Rightarrow> ('w, string \<times> stsTokenCredential) act" where
  "GetSecurityToken env s = bindA (stsGetCredential env s) (\<lambda>(cred, s'). retA (cm_SecurityToken cred, s'))"

text \<open>The two methods of the interface that read nothing.\<close>

definition GetBearerToken :: "stsTokenCredential \<Rightarrow> string option" where
  "GetBearerToken s = None"

definition GetType :: "stsTokenCredential \<Rightarrow> string option" where
  "GetType s = Some ''ram_role_sts''"

definition getStsCredential :: "Credentials \<Rightarrow> stsTokenCredential" where
  "getStsCredential cr = \<lparr> sts_secretNs = cred_StsSecretNS cr, sts_SecretName = cred_StsSecretName cr,
     sts_sessionCredential = None, sts_credentialExpiration = 0, sts_lastUpdate = 0 \<rparr>"

section \<open>The choice of a credential\<close>

text \<open>The configurations given to \<open>credentials.NewCredential\<close>, and what the client is made with.\<close>

datatype credentialConfig =
    AccessKey string string "string option"
  | OidcRoleArn string
  | EcsRamRoleIMDSv2

datatype 'c credential = SdkCredential 'c | StsCredential stsTokenCredential

record ('w, 'c) cloudSdk =
  sdk_EndpointRules :: "string \<Rightarrow> string \<Rightarrow> string \<Rightarrow> string option res"
  sdk_NewCredential :: "credentialConfig \<Rightarrow> ('w, 'c) act"
  sdk_NewClient :: "string \<Rightarrow> string \<Rightarrow> string option \<Rightarrow> 'c credential \<Rightarrow> ('w, unit) act"

definition getCredential :: "('w, 'c) cloudSdk \<Rightarrow> Config \<Rightarrow> Credentials \<Rightarrow> ('w, 'c credential) act" where
  "getCredential sdk cfg cr =
     bindA (liftR (sdk_EndpointRules sdk ''sts'' (cfg_Region cfg) ''vpc'')) (\<lambda>stsEndpoint.
     if cred_Type cr = [] \<or> cred_Type cr = ''access_key'' then
       bindA (sdk_NewCredential sdk (AccessKey (cred_AccessKeyID cr) (cred_AccessKeySecret cr) stsEndpoint)) (\<lambda>c. retA (SdkCredential c))
     else if cred_Type cr = ''oidc_role_arn'' then
       bindA (liftR (deref stsEndpoint)) (\<lambda>ep.
       bindA (sdk_NewCredential sdk (OidcRoleArn ep)) (\<lambda>c. retA (SdkCredential c)))
     else if cred_Type cr = ''ecs_ram_role'' then
       bindA (sdk_NewCredential sdk EcsRamRoleIMDSv2) (\<lambda>c. retA (SdkCredential c))
     else if cred_Type cr = ''ram_role_sts'' then retA (StsCredential (getStsCredential cr))
     else failA (Errorf ''unsupported credential type: %s'' [cred_Type cr]))"

text \<open>\<open>PUBLIC_NETWORK\<close> is the environment variable.\<close>

definition NewEriClient :: "('w, 'c) cloudSdk \<Rightarrow> string \<Rightarrow> Config \<Rightarrow> Credentials \<Rightarrow> ('w, EriClient \<times> 'c credential) act" where
  "NewEriClient sdk PUBLIC_NETWORK cfg cr =
     bindA (getCredential sdk cfg cr) (\<lambda>cred.
     let network = (if PUBLIC_NETWORK = ''true'' then ''public'' else ''vpc'') in
     bindA (liftR (sdk_EndpointRules sdk ''ecs'' (cfg_Region cfg) network)) (\<lambda>ecsEndpoint.
     bindA (sdk_NewClient sdk (cfg_Region cfg) network ecsEndpoint cred) (\<lambda>_.
       retA (\<lparr> regionID = cfg_Region cfg, ManagedNonOwned = cfg_ManageNonOwnedERIs cfg \<rparr>, cred))))"

section \<open>The cache\<close>

text \<open>The states of the cached credential: a new one, and what the calls leave; a call that fails leaves the state as it was.\<close>

inductive stsReach :: "'w credEnv \<Rightarrow> Credentials \<Rightarrow> stsTokenCredential \<Rightarrow> bool" for env cr where
  new: "stsReach env cr (getStsCredential cr)"
| call: "stsReach env cr s \<Longrightarrow> stsGetCredential env s w = (Ok (c, s'), w') \<Longrightarrow> stsReach env cr s'"

definition stsOk :: "stsTokenCredential \<Rightarrow> bool" where
  "stsOk s \<longleftrightarrow> (case sts_sessionCredential s of
     None \<Rightarrow> sts_credentialExpiration s = 0 | Some c \<Rightarrow> cm_Type c = ''ram_role_sts'')"

text \<open>A clock that does not run backwards and is past Go's zero time.\<close>

definition clockOk :: "'w credEnv \<Rightarrow> ('w \<Rightarrow> int) \<Rightarrow> bool" where
  "clockOk env clock \<longleftrightarrow> (\<forall>w r w'. ce_Now env w = (r, w') \<longrightarrow> (\<exists>t. r = Ok t \<and> 0 \<le> t \<and> clock w \<le> t \<and> t \<le> clock w')) \<and>
     (\<forall>n w r w'. ce_GetSecret env n w = (r, w') \<longrightarrow> clock w \<le> clock w')"

lemma clockOkE:
  assumes "clockOk env clock"
  obtains t w' where "ce_Now env w = (Ok t, w')" and "0 \<le> t" and "clock w \<le> t" and "t \<le> clock w'"
  using assms unfolding clockOk_def by (metis surj_pair)

lemma updateCredential_ok:
  assumes "updateCredential env s w = (Ok s', w')"
  obtains c where "sts_sessionCredential s' = Some c" and "cm_Type c = ''ram_role_sts''"
  using assms unfolding updateCredential_def by (auto elim!: bindA_OkE tryA_OkE split: option.splits)

lemma sessionOf_Some: "sts_sessionCredential s = Some c \<Longrightarrow> cm_Type c = ''ram_role_sts'' \<Longrightarrow> sessionOf s = Pair (Ok (c, s))"
  by (cases c) (simp add: sessionOf_def fun_eq_iff)

text \<open>One call on a state that satisfies the invariant.\<close>

lemma needUpdate_cases:
  assumes "clockOk env clock"
  obtains w1 where "needUpdateCredential env s w = (Ok True, w1)" and "clock w \<le> clock w1"
        | w1 c where "needUpdateCredential env s w = (Ok False, w1)" and "sts_sessionCredential s = Some c"
            and "clock w \<le> sts_credentialExpiration s"
proof (cases "sts_sessionCredential s")
  case None
  then show thesis by (intro that(1) [of w]) (simp_all add: needUpdateCredential_def)
next
  case (Some c)
  obtain t w1 where t: "ce_Now env w = (Ok t, w1)" "clock w \<le> t" "t \<le> clock w1" using clockOkE [OF assms, of w] by metis
  obtain u w2 where u: "ce_Now env w1 = (Ok u, w2)" "clock w1 \<le> u" "u \<le> clock w2" using clockOkE [OF assms, of w1] by metis
  show thesis
  proof (cases "sts_credentialExpiration s < t \<or> sts_lastUpdate s < u + (-5 * Minute)")
    case True
    with Some t u show thesis
      by (intro that(1) [of "if sts_credentialExpiration s < t then w1 else w2"]) (auto simp: needUpdateCredential_def bindA_run)
  next
    case False
    with Some t u show thesis by (intro that(2) [of w2 c]) (auto simp: needUpdateCredential_def bindA_run)
  qed
qed

text \<open>Actions during which the clock does not run backwards.\<close>

abbreviation advances :: "('w \<Rightarrow> int) \<Rightarrow> ('w, 'a) act \<Rightarrow> bool" where
  "advances clock \<equiv> along (\<lambda>w w'. clock w \<le> clock w')"

lemma advances_order: "reflp (\<lambda>w w'. (clock w :: int) \<le> clock w')" "transp (\<lambda>w w'. clock w \<le> clock w')"
  by (auto simp: reflp_def transp_def)

lemma clockOk_advances:
  assumes "clockOk env clock"
  shows "advances clock (ce_Now env)" and "advances clock (ce_GetSecret env n)"
  using assms unfolding clockOk_def along_def by (meson order_trans)+

lemma updateCredential_advances:
  assumes "clockOk env clock"
  shows "advances clock (updateCredential env s)"
  unfolding updateCredential_def decryptOr_def retA_Pair failA_Pair liftR_Pair
  by (intro along_intros advances_order clockOk_advances [OF assms])

text \<open>
  One call: the cached credential, which has not expired; or a new one; or an error, or a panic of the update itself. On the way
  an update was tried from some later world.
\<close>

lemma stsGetCredential_need:
  assumes "needUpdateCredential env s w = (Ok update, w1)"
  shows "stsGetCredential env s w = (if \<not> update then sessionOf s else tryA (updateCredential env s) sessionOf
       (\<lambda>err. bindA (ce_Now env) (\<lambda>now. if now < sts_credentialExpiration s then sessionOf s else failA err))) w1"
proof (cases "sts_sessionCredential s = None")
  case True
  with assms show ?thesis by (simp add: stsGetCredential_def needUpdateCredential_def)
next
  case False
  then show ?thesis by (simp only: stsGetCredential_def if_False bindA_run(1) [where m = "needUpdateCredential env s", OF assms])
qed

lemma stsGetCredential_cases:
  assumes clock: "clockOk env clock" and inv: "stsOk s"
  obtains (cached) c w' where "stsGetCredential env s w = (Ok (c, s), w')" and "sts_sessionCredential s = Some c"
      and "clock w \<le> sts_credentialExpiration s"
    | (new) s' c w1 w' where "stsGetCredential env s w = (Ok (c, s'), w')" and "sts_sessionCredential s' = Some c"
      and "cm_Type c = ''ram_role_sts''" and "updateCredential env s w1 = (Ok s', w')" and "clock w \<le> clock w1"
    | (err) e w' where "stsGetCredential env s w = (Err e, w')"
    | (panic) p w1 w' where "stsGetCredential env s w = (Panic p, w')" and "updateCredential env s w1 = (Panic p, w')"
proof (cases rule: needUpdate_cases [OF clock, of s w])
  case (1 w1)
  have same: "stsGetCredential env s w = tryA (updateCredential env s) sessionOf
       (\<lambda>err. bindA (ce_Now env) (\<lambda>now. if now < sts_credentialExpiration s then sessionOf s else failA err)) w1"
    using stsGetCredential_need [OF 1(1)] by simp
  obtain r w2 where upd: "updateCredential env s w1 = (r, w2)" by fastforce
  with updateCredential_advances [OF clock, of s] have w2: "clock w1 \<le> clock w2" by (rule alongD)
  show thesis
  proof (cases r)
    case (Ok s')
    from upd [unfolded Ok] obtain c where c: "sts_sessionCredential s' = Some c" "cm_Type c = ''ram_role_sts''"
      by (rule updateCredential_ok)
    have "stsGetCredential env s w = (Ok (c, s'), w2)" using same upd Ok by (simp add: tryA_run sessionOf_Some [OF c])
    from new [OF this c] upd Ok 1(2) show thesis by simp
  next
    case (Err e)
    obtain t w3 where t: "ce_Now env w2 = (Ok t, w3)" "0 \<le> t" "clock w2 \<le> t" using clockOkE [OF clock, of w2] by metis
    have run: "stsGetCredential env s w = (if t < sts_credentialExpiration s then sessionOf s else failA e) w3"
      using same upd Err t(1) by (simp add: tryA_run bindA_run)
    show thesis
    proof (cases "t < sts_credentialExpiration s")
      case True
      with inv t(2) obtain c where c: "sts_sessionCredential s = Some c" "cm_Type c = ''ram_role_sts''"
        by (auto simp: stsOk_def split: option.splits)
      with run True have "stsGetCredential env s w = (Ok (c, s), w3)" by (simp add: sessionOf_Some)
      from cached [OF this c(1)] True t(3) w2 1(2) show thesis by simp
    next
      case False
      with run show thesis by (intro err [of e w3]) simp
    qed
  next
    case (Panic p)
    with same upd have "stsGetCredential env s w = (Panic p, w2)" by (simp add: tryA_run)
    from panic [OF this] upd Panic show thesis by simp
  qed
next
  case (2 w1 c)
  with inv have "stsGetCredential env s w = (Ok (c, s), w1)"
    by (simp add: stsGetCredential_need [OF 2(1)] stsOk_def sessionOf_Some)
  from cached [OF this 2(2,3)] show thesis .
qed

lemma stsReach_ok:
  assumes "clockOk env clock" and "stsReach env cr s"
  shows "stsOk s"
  using assms(2)
proof (induction rule: stsReach.induct)
  case new
  then show ?case by (simp add: stsOk_def getStsCredential_def)
next
  case (call s w c s' w')
  from assms(1) call.IH show ?case
    by (cases rule: stsGetCredential_cases [where w = w]) (use call in \<open>auto simp: stsOk_def\<close>)
qed

text \<open>
  C15: The cached token of the credential ram_role_sts, in every state that calls leave it in: a call returns the token of
  the cache, which had not expired when the call began, or a token read from the secret during the call; it
  never hands out an expired token because an update failed, and it panics only if the update
  itself does (never on an empty cache).
\<close>

theorem sts_token_valid:
  assumes "clockOk env clock" and "stsReach env cr s" and "stsGetCredential env s w = (r, w')"
  shows "(\<forall>c s'. r = Ok (c, s') \<longrightarrow> sts_sessionCredential s' = Some c \<and>
      (s' = s \<and> clock w \<le> sts_credentialExpiration s \<or>
       (\<exists>w1. updateCredential env s w1 = (Ok s', w') \<and> clock w \<le> clock w1))) \<and>
    (\<forall>p. r = Panic p \<longrightarrow> (\<exists>w1. updateCredential env s w1 = (Panic p, w')))"
  using assms(1) stsReach_ok [OF assms(1,2)]
  by (cases rule: stsGetCredential_cases [where w = w]) (use assms(3) in auto)

text \<open>A token that is fresh is served without reading the secret.\<close>

lemma fresh_token_cached:
  assumes "sts_sessionCredential s = Some c" and "ce_Now env w = (Ok t, w1)" and "ce_Now env w1 = (Ok u, w2)"
    and "t \<le> sts_credentialExpiration s" and "u \<le> sts_lastUpdate s + 5 * Minute"
  shows "stsGetCredential env s w = (Ok (c\<lparr> cm_Type := ''ram_role_sts'' \<rparr>, s), w2)"
proof -
  have "needUpdateCredential env s w = (Ok False, w2)"
    using assms by (simp add: needUpdateCredential_def bindA_run)
  from stsGetCredential_need [OF this] assms(1) show ?thesis by (simp add: sessionOf_def)
qed

text \<open>What is stored encrypted is what the SDK is given.\<close>

lemma updateCredential_plain:
  assumes "ce_GetSecret env (sts_secretNs s, sts_SecretName s) w = (Ok data, w1)" and "map_of data ''addon.token.config'' = Some cfg"
    and "ce_UnmarshalToken env cfg = Ok \<lparr> ak_AccessKeyID = encrypt enc iv ak, ak_AccessKeySecret = encrypt enc iv sk,
      ak_SecurityToken = encrypt enc iv token, ak_Expiration = expiry, ak_Keyring = key \<rparr>"
    and "ce_NewCipher env key = Ok dec" and "blockCipher enc dec" and "length iv = blockSize"
    and "ce_ParseTime env ''2006-01-02T15:04:05Z'' expiry = Ok t" and "ce_Now env w1 = (Ok now, w2)"
  shows "updateCredential env s w = (Ok (s\<lparr> sts_credentialExpiration := t,
    sts_sessionCredential := Some \<lparr> cm_AccessKeyId = bytesString ak, cm_AccessKeySecret = bytesString sk,
      cm_SecurityToken = bytesString token, cm_Type = ''ram_role_sts'' \<rparr>, sts_lastUpdate := now \<rparr>), w2)"
proof -
  have dec: "decryptOr env fmt (encrypt enc iv x) key = Pair (Ok (bytesString x))" for fmt x
    by (simp add: decryptOr_def decrypt_encrypt [where newCipher = "ce_NewCipher env", OF assms(4,5,6)])
  show ?thesis using assms(1,2,3,7,8) by (simp add: updateCredential_def dec bindA_run tryA_run)
qed

section \<open>A small cluster\<close>

text \<open>
  For the witness: the world is a clock and whether the secret can be read; the token is encrypted with the cipher of
  \<open>Token_Crypto\<close> and expires at time 1000.
\<close>

definition exIv :: bytes where "exIv = replicate 16 3"

definition exCredEnv :: "(nat \<times> bool) credEnv" where
  "exCredEnv = \<lparr> ce_GetSecret = (\<lambda>n w. (if snd w then Ok [(''addon.token.config'', ''json'')] else Err (ApiErr ''timeout''), w)),
     ce_UnmarshalToken = (\<lambda>s. Ok \<lparr> ak_AccessKeyID = encrypt exEnc exIv [97, 107], ak_AccessKeySecret = encrypt exEnc exIv [115, 107],
       ak_SecurityToken = encrypt exEnc exIv [116], ak_Expiration = ''2024-01-01T00:00:00Z'', ak_Keyring = ''key'' \<rparr>),
     ce_NewCipher = (\<lambda>k. Ok exDec), ce_ParseTime = (\<lambda>l s. Ok 1000), ce_Now = (\<lambda>w. (Ok (int (fst w)), w)) \<rparr>"

lemma exCredEnv_clock: "clockOk exCredEnv (\<lambda>w. int (fst w))"
  by (auto simp: clockOk_def exCredEnv_def)

theorem sts_token_valid_witness:
  "\<exists>s c s' w'. stsReach exCredEnv emptyCredentials s \<and> stsGetCredential exCredEnv s (900, False) = (Ok (c, s'), w') \<and>
     sts_sessionCredential s' = Some c \<and> 900 \<le> sts_credentialExpiration s'"
proof -
  let ?first = "stsGetCredential exCredEnv (getStsCredential emptyCredentials) (5, True)"
  have "okMap (\<lambda>(c, s). cm_AccessKeyId c) ?first = Some ''ak''" by code_simp
  then obtain c0 s w0 where first: "?first = (Ok (c0, s), w0)" by (auto elim!: okMap_SomeE)
  from stsReach.call [OF stsReach.new first] have reach: "stsReach exCredEnv emptyCredentials s" .
  have "okMap (\<lambda>(c, s). sts_credentialExpiration s) ?first = Some 1000" by code_simp
  with first have exp: "sts_credentialExpiration s = 1000" by (simp add: okMap_def)
  obtain c where sess: "sts_sessionCredential s = Some c"
    using sts_token_valid [OF exCredEnv_clock stsReach.new first] by auto
  have "okMap (\<lambda>(c, s). sts_lastUpdate s) ?first = Some 5" by code_simp
  with first have "sts_lastUpdate s = 5" by (simp add: okMap_def)
  with fresh_token_cached [OF sess, of exCredEnv "(900, False)" 900 "(900, False)" 900 "(900, False)"] exp
  have second: "stsGetCredential exCredEnv s (900, False) = (Ok (c\<lparr> cm_Type := ''ram_role_sts'' \<rparr>, s), (900, False))"
    by (simp add: exCredEnv_def Minute_def Second_def)
  with sts_token_valid [OF exCredEnv_clock reach second] reach exp
  show ?thesis by (intro exI [of _ s] exI [of _ "c\<lparr> cm_Type := ''ram_role_sts'' \<rparr>"] exI [of _ "(900, False)"] conjI) simp_all
qed

end
