(* ===== verification/Controller_Main.thy ===== *)
theory Controller_Main
  imports Cert Credential Node_Controller Device_Controller Webhook
begin

text \<open>
  cmd/controller/main.go: how the controller process is put together from its parts. The manager of
  controller-runtime is a parameter, as the calls that build it; what is registered with it is data. The values of the
  flags are a record; \<open>log\<close> options are left out. \<open>os.Exit(1)\<close> after an error is an outcome of its own, and \<open>panic(err)\<close>
  a panic.
\<close>

section \<open>The process\<close>

record flags =
  fl_metricsAddr :: string
  fl_probeAddr :: string
  fl_enableLeaderElection :: bool
  fl_secureMetrics :: bool
  fl_enableHTTP2 :: bool
  fl_configPath :: string
  fl_credentialPath :: string

definition defaultFlags :: flags where
  "defaultFlags = \<lparr> fl_metricsAddr = ''0'', fl_probeAddr = '':8081'', fl_enableLeaderElection = True, fl_secureMetrics = True,
     fl_enableHTTP2 = False, fl_configPath = [], fl_credentialPath = [] \<rparr>"

text \<open>The options of the manager; \<open>mo_WebhookServer\<close> is the directory of the certificates of its webhook server.\<close>

record managerOptions =
  mo_BindAddress :: string
  mo_SecureServing :: bool
  mo_FilterProvider :: bool
  mo_WebhookServer :: "string option"
  mo_HealthProbeBindAddress :: string
  mo_LeaderElection :: bool
  mo_LeaderElectionID :: string

text \<open>What the manager runs: the reconcilers with their fields, the checks and the webhooks by their paths.\<close>

datatype reconciler = DeviceCtl EriClient | NodeCtl NodeReconciler

record manager =
  mgr_Options :: managerOptions
  mgr_Controllers :: "reconciler list"
  mgr_Healthz :: "string list"
  mgr_Readyz :: "string list"
  mgr_Webhooks :: "string list"

record 'w runtimeApi =
  ra_GetConfig :: "('w, unit) act"
  ra_NewClient :: "('w, unit) act"
  ra_NewManager :: "managerOptions \<Rightarrow> ('w, unit) act"
  ra_Complete :: "EriClient \<Rightarrow> ('w, unit) act"
  ra_NewController :: "string \<Rightarrow> NodeReconciler \<Rightarrow> ('w, unit) act"
  ra_Watch :: "(NodeEvent \<Rightarrow> bool res) \<Rightarrow> ('w, unit) act"
  ra_AddHealthzCheck :: "string \<Rightarrow> ('w, unit) act"
  ra_AddReadyzCheck :: "string \<Rightarrow> ('w, unit) act"
  ra_Start :: "manager \<Rightarrow> ('w, unit) act"

text \<open>
  \<open>SetupWithManager\<close> of the two reconcilers: the builder makes the controller of the resources; that of the nodes is made by hand and watches
  the nodes whose events its predicate lets through.
\<close>

definition deviceSetupWithManager :: "'w runtimeApi \<Rightarrow> EriClient \<Rightarrow> ('w, unit) act" where
  "deviceSetupWithManager ra eriClient = ra_Complete ra eriClient"

definition nodeSetupWithManager :: "'w runtimeApi \<Rightarrow> NodeReconciler \<Rightarrow> ('w, unit) act" where
  "nodeSetupWithManager ra r = bindA (ra_NewController ra ''node-controller'' r) (\<lambda>_. ra_Watch ra (nodePredicate r))"

definition SetupWithManager :: "'w runtimeApi \<Rightarrow> reconciler \<Rightarrow> ('w, unit) act" where
  "SetupWithManager ra c = (case c of DeviceCtl eriClient \<Rightarrow> deviceSetupWithManager ra eriClient | NodeCtl r \<Rightarrow> nodeSetupWithManager ra r)"

datatype 'a outcome = Exit int | Go_on 'a

text \<open>A step of \<open>main\<close>: an error ends the process with status 1, otherwise it goes on.\<close>

definition step :: "('w, 'a) act \<Rightarrow> ('a \<Rightarrow> ('w, 'b outcome) act) \<Rightarrow> ('w, 'b outcome) act" where
  "step m f = tryA m f (\<lambda>err. retA (Exit 1))"

definition webhookEnabled :: "Config \<Rightarrow> bool" where
  "webhookEnabled cfg \<longleftrightarrow> cfg_EnableWebhook cfg = Some True"

definition webhookServer :: "('w, 'k) certEnv \<Rightarrow> Config \<Rightarrow> ('w, string option) act" where
  "webhookServer ce cfg =
     (if webhookEnabled cfg then
        tryA (SyncCert ce (cfg_ControllerNamespace cfg) (cfg_ControllerName cfg) (cfg_ClusterDomain cfg) (cfg_CertDir cfg))
          (\<lambda>_. retA (Some (cfg_CertDir cfg))) (\<lambda>err. liftR (Panic (err_Error err)))
      else retA None)"

definition optionsOf :: "flags \<Rightarrow> string option \<Rightarrow> managerOptions" where
  "optionsOf fl server =
     \<lparr> mo_BindAddress = fl_metricsAddr fl, mo_SecureServing = fl_secureMetrics fl, mo_FilterProvider = fl_secureMetrics fl,
       mo_WebhookServer = server, mo_HealthProbeBindAddress = fl_probeAddr fl,
       mo_LeaderElection = fl_enableLeaderElection fl, mo_LeaderElectionID = ''26dc1c71.alibabacloud.com'' \<rparr>"

definition newNodeReconciler :: "EriClient \<Rightarrow> Config \<Rightarrow> NodeReconciler" where
  "newNodeReconciler eriClient cfg = \<lparr> nr_EriClient = eriClient, nr_CtrlConfig = cfg, nr_taggedENIs = {} \<rparr>"

text \<open>\<open>main\<close> up to the start of the manager.\<close>

definition setupManager :: "'w env \<Rightarrow> 'w runtimeApi \<Rightarrow> ('w, 'k) certEnv \<Rightarrow> ('w, 'c) cloudSdk \<Rightarrow> string \<Rightarrow> flags
    \<Rightarrow> ('w, manager outcome) act" where
  "setupManager env ra ce sdk PUBLIC_NETWORK fl =
     step (InitConfig env (fl_configPath fl) (fl_credentialPath fl)) (\<lambda>(cfg, cred).
     step (ra_GetConfig ra) (\<lambda>_.
     step (ra_NewClient ra) (\<lambda>_.
     bindA (webhookServer ce cfg) (\<lambda>server.
     step (ra_GetConfig ra) (\<lambda>_.
     step (ra_NewManager ra (optionsOf fl server)) (\<lambda>_.
     step (NewEriClient sdk PUBLIC_NETWORK cfg cred) (\<lambda>(eriClient, _).
     step (SetupWithManager ra (DeviceCtl eriClient)) (\<lambda>_.
     step (SetupWithManager ra (NodeCtl (newNodeReconciler eriClient cfg))) (\<lambda>_.
     step (ra_AddHealthzCheck ra ''healthz'') (\<lambda>_.
     step (ra_AddReadyzCheck ra ''readyz'') (\<lambda>_.
     retA (Go_on \<lparr> mgr_Options = optionsOf fl server,
       mgr_Controllers = [DeviceCtl eriClient, NodeCtl (newNodeReconciler eriClient cfg)],
       mgr_Healthz = [''healthz''], mgr_Readyz = [''readyz''],
       mgr_Webhooks = (if server \<noteq> None then [''/mutating''] else []) \<rparr>))))))))))))"

definition controllerMain :: "'w env \<Rightarrow> 'w runtimeApi \<Rightarrow> ('w, 'k) certEnv \<Rightarrow> ('w, 'c) cloudSdk \<Rightarrow> string \<Rightarrow> flags
    \<Rightarrow> ('w, unit outcome) act" where
  "controllerMain env ra ce sdk PUBLIC_NETWORK fl =
     bindA (setupManager env ra ce sdk PUBLIC_NETWORK fl) (\<lambda>out.
     case out of Exit code \<Rightarrow> retA (Exit code)
     | Go_on mgr \<Rightarrow> step (ra_Start ra mgr) (\<lambda>_. retA (Go_on ())))"

section \<open>What has been set up when the manager starts\<close>

lemma step_OkE:
  assumes "step m f w = (Ok (Go_on y), w')"
  obtains x w1 where "m w = (Ok x, w1)" and "f x w1 = (Ok (Go_on y), w')"
  using assms unfolding step_def by (auto elim!: tryA_OkE)

text \<open>The calls that build the manager and the cloud client leave the certificates alone.\<close>

definition sameCerts :: "('w \<Rightarrow> string \<times> string \<Rightarrow> Secret option) \<Rightarrow> ('w \<Rightarrow> string \<Rightarrow> string option) \<Rightarrow> ('w \<Rightarrow> MutatingWebhook list)
    \<Rightarrow> 'w \<Rightarrow> 'w \<Rightarrow> bool" where
  "sameCerts secrets files hooks w w' \<longleftrightarrow> secretsStay secrets w w' \<and> files w' = files w \<and> hooks w' = hooks w"

definition leavesCerts :: "'w runtimeApi \<Rightarrow> ('w, 'c) cloudSdk \<Rightarrow> ('w \<Rightarrow> 'w \<Rightarrow> bool) \<Rightarrow> bool" where
  "leavesCerts ra sdk R \<longleftrightarrow> along R (ra_GetConfig ra) \<and> (\<forall>opts. along R (ra_NewManager ra opts)) \<and> (\<forall>e. along R (ra_Complete ra e)) \<and>
     (\<forall>n r. along R (ra_NewController ra n r)) \<and> (\<forall>pred. along R (ra_Watch ra pred)) \<and>
     (\<forall>n. along R (ra_AddHealthzCheck ra n)) \<and> (\<forall>n. along R (ra_AddReadyzCheck ra n)) \<and>
     (\<forall>c. along R (sdk_NewCredential sdk c)) \<and> (\<forall>a b c d. along R (sdk_NewClient sdk a b c d))"

lemma sameCerts_order: "reflp (sameCerts secrets files hooks)" "transp (sameCerts secrets files hooks)"
  by (auto simp: sameCerts_def secretsStay_def reflp_def transp_def intro: map_le_trans)

lemma leavesCertsD:
  assumes "leavesCerts ra sdk R"
  shows "along R (ra_GetConfig ra)" "along R (ra_NewManager ra opts)" "along R (ra_AddHealthzCheck ra n)" "along R (ra_AddReadyzCheck ra n)"
  using assms by (simp_all add: leavesCerts_def)

lemma SetupWithManager_along: "leavesCerts ra sdk R \<Longrightarrow> transp R \<Longrightarrow> along R (SetupWithManager ra c)"
  by (cases c) (auto simp: SetupWithManager_def deviceSetupWithManager_def nodeSetupWithManager_def leavesCerts_def intro: along_bindA)

lemma NewEriClient_along:
  assumes "leavesCerts ra sdk R" and R: "reflp R" "transp R"
  shows "along R (NewEriClient sdk pn cfg cr)"
proof -
  have "along R (sdk_NewCredential sdk c)" "along R (sdk_NewClient sdk a b c' d)" for c a b c' d
    using assms(1) by (auto simp: leavesCerts_def)
  then show ?thesis unfolding NewEriClient_def getCredential_def Let_def retA_Pair failA_Pair liftR_Pair
    by (intro along_intros R)
qed

lemma NewEriClient_fields:
  "NewEriClient sdk pn cfg cr w = (Ok (e, c), w') \<Longrightarrow> regionID e = cfg_Region cfg \<and> ManagedNonOwned e = cfg_ManageNonOwnedERIs cfg"
  by (auto simp: NewEriClient_def Let_def elim!: bindA_OkE)

lemma InitConfig_webhook: "InitConfig env p q w = (Ok (cfg, cred), w') \<Longrightarrow> cfg_EnableWebhook cfg \<noteq> None"
  unfolding InitConfig_def by (auto elim!: bindA_OkE parseConfig_Ok simp: configDefaults_def split: option.splits)

lemma webhookServer_run:
  assumes "webhookServer ce cfg w = (Ok server, w')"
  shows "if webhookEnabled cfg then server = Some (cfg_CertDir cfg) \<and>
      SyncCert ce (cfg_ControllerNamespace cfg) (cfg_ControllerName cfg) (cfg_ClusterDomain cfg) (cfg_CertDir cfg) w = (Ok (), w')
    else server = None"
  using assms by (auto simp: webhookServer_def elim!: tryA_OkE split: if_splits)

text \<open>The calls of a set-up that succeeds, in their order.\<close>

lemma setupManager_run:
  assumes "setupManager env ra ce sdk pn fl w = (Ok (Go_on mgr), w')"
  obtains cfg cred server eri c w1 w2 w3 w4 w5 where
    "InitConfig env (fl_configPath fl) (fl_credentialPath fl) w = (Ok (cfg, cred), w1)"
    and "webhookServer ce cfg w2 = (Ok server, w3)"
    and "NewEriClient sdk pn cfg cred w4 = (Ok (eri, c), w5)"
    and "mgr = \<lparr> mgr_Options = optionsOf fl server, mgr_Controllers = [DeviceCtl eri, NodeCtl (newNodeReconciler eri cfg)],
       mgr_Healthz = [''healthz''], mgr_Readyz = [''readyz''], mgr_Webhooks = (if server \<noteq> None then [''/mutating''] else []) \<rparr>"
    and "\<And>R. leavesCerts ra sdk R \<Longrightarrow> reflp R \<Longrightarrow> transp R \<Longrightarrow> R w3 w'"
proof -
  from assms obtain cfg cred w1 w2 w2' server w3 w3a w4 eri c w5 w6 w7 w8 where
    run: "InitConfig env (fl_configPath fl) (fl_credentialPath fl) w = (Ok (cfg, cred), w1)"
    "ra_GetConfig ra w1 = (Ok (), w2')" "ra_NewClient ra w2' = (Ok (), w2)" "webhookServer ce cfg w2 = (Ok server, w3)"
    "ra_GetConfig ra w3 = (Ok (), w3a)" "ra_NewManager ra (optionsOf fl server) w3a = (Ok (), w4)"
    "NewEriClient sdk pn cfg cred w4 = (Ok (eri, c), w5)" "SetupWithManager ra (DeviceCtl eri) w5 = (Ok (), w6)"
    "SetupWithManager ra (NodeCtl (newNodeReconciler eri cfg)) w6 = (Ok (), w7)"
    "ra_AddHealthzCheck ra ''healthz'' w7 = (Ok (), w8)" "ra_AddReadyzCheck ra ''readyz'' w8 = (Ok (), w')"
    and mgr: "mgr = \<lparr> mgr_Options = optionsOf fl server, mgr_Controllers = [DeviceCtl eri, NodeCtl (newNodeReconciler eri cfg)],
       mgr_Healthz = [''healthz''], mgr_Readyz = [''readyz''], mgr_Webhooks = (if server \<noteq> None then [''/mutating''] else []) \<rparr>"
    unfolding setupManager_def by (auto elim!: step_OkE bindA_OkE)
  have later: "R w3 w'" if R: "leavesCerts ra sdk R" "reflp R" "transp R" for R
  proof -
    have "R w3 w3a" "R w3a w4" "R w7 w8" "R w8 w'"
      using leavesCertsD [OF R(1), THEN alongD] run(5,6,10,11) by simp_all
    moreover have "R w4 w5" using alongD [OF NewEriClient_along [OF R] run(7)] .
    moreover have "R w5 w6" "R w6 w7" using alongD [OF SetupWithManager_along [OF R(1,3)]] run(8,9) by blast+
    ultimately show ?thesis using R(3) by (meson transpD)
  qed
  show thesis by (rule that [OF run(1,4,7) mgr]) (rule later)
qed


section \<open>A small cluster\<close>

text \<open>For the witness: the cluster of \<open>Cert\<close>, and services that always succeed.\<close>

definition exMainConfig :: Config where
  "exMainConfig = \<lparr> cfg_Region = ''cn-hangzhou'', cfg_ManageNonOwnedERIs = True, cfg_ControllerNamespace = ''ns'', cfg_ControllerName = ''ctl'',
     cfg_ClusterDomain = ''d'', cfg_CertDir = ''/certs'', cfg_EnableDevicePlugin = None, cfg_EnableWebhook = None, cfg_SMCInitImage = [],
     cfg_EnableInitContainerInject = None, cfg_NodeSelector = [], cfg_WaitNodeReadyTimeoutSeconds = 0 \<rparr>"

definition exMainEnv :: "exCertWorld env" where
  "exMainEnv = \<lparr> ReadFile = (\<lambda>p. if p = defaultConfigPath then Pair (Ok ''{}'') else Pair (Err (NotFound p))),
     UnmarshalConfig = (\<lambda>s. Ok exMainConfig), UnmarshalCredentials = (\<lambda>s. Ok emptyCredentials), 
     Http = \<lparr> Do = (\<lambda>m u h. Pair (Ok (404, Ok []))), NewRequest = (\<lambda>m u. None), TokenCache = (\<lambda>w. None),
       SetTokenCache = (\<lambda>t w. w), Clock = (\<lambda>w. 0) \<rparr> \<rparr>"

definition exRuntimeApi :: "exCertWorld runtimeApi" where
  "exRuntimeApi = \<lparr> ra_GetConfig = Pair (Ok ()), ra_NewClient = Pair (Ok ()), ra_NewManager = (\<lambda>x. Pair (Ok ())), ra_Complete = (\<lambda>c. Pair (Ok ())),
     ra_NewController = (\<lambda>n r. Pair (Ok ())), ra_Watch = (\<lambda>p. Pair (Ok ())),
     ra_AddHealthzCheck = (\<lambda>n. Pair (Ok ())), ra_AddReadyzCheck = (\<lambda>n. Pair (Ok ())), ra_Start = (\<lambda>m. Pair (Ok ())) \<rparr>"

definition exSdk :: "(exCertWorld, string) cloudSdk" where
  "exSdk = \<lparr> sdk_EndpointRules = (\<lambda>p r n. Ok (Some p)), sdk_NewCredential = (\<lambda>c. Pair (Ok ''credential'')),
     sdk_NewClient = (\<lambda>a b c d. Pair (Ok ())) \<rparr>"

lemma exLeavesCerts: "reflp R \<Longrightarrow> leavesCerts exRuntimeApi exSdk R"
  by (simp add: leavesCerts_def exRuntimeApi_def exSdk_def along_Pair)


end
