(* ===== verification/Spec2Isabelle.thy ===== *)
theory Spec2Isabelle
  imports Provision Smcr Watch_Stream Deep_Copy Other_Builds Webhook Controller_Main
begin

text \<open>
  A verification development for the Alibaba Cloud eRDMA controller: a Kubernetes controller that
  gives the nodes of a cluster elastic RDMA interfaces (ERIs), and an agent on each node that
  installs the driver and offers the RDMA devices to pods through a device plugin.

  \<^bold>\<open>The program and its parts.\<close> The node controller (internal/controller/node\_controller.go)
  watches nodes. For a node it finds the ECS instance, selects ERIs among the elastic network interfaces of the
  instance and creates those that are missing (internal/controller/eri.go), and writes them as a custom resource
  ERdmaDevice (api/v1). The device controller (erdmadevice\_controller.go) attaches
  and converts the interfaces of a resource until all of them are ready and records that in its
  status. The agent (internal/agent, internal/k8s, cmd/agent) waits for the resource of its node or discovers the
  devices locally, runs a driver (internal/drivers) that loads the kernel module, configures the network
  device and probes the RDMA device, and serves the devices with the device plugin
  (internal/deviceplugin). The webhook (internal/webhook) adds an init container
  (cmd/smcr\_init) to pods that want SMC-R; where the plugin does that itself, it asks the kubelet for the pod of a device and the
  container runtime for the network namespace of the pod (deviceplugin/pod\_resource.go, pod\_config.go). The controller process
  (cmd/controller) sets all of this up; its replicas share the certificates of the webhook through a secret
  (internal/cert), and its cloud client reads encrypted tokens from another (controller/credential.go). Configuration comes from files and from the ECS
  metadata server (internal/config, internal/utils).

  \<^bold>\<open>How Go is modelled\<close> (\<open>Go_Prelude\<close>, \<open>Go_Strings\<close>). A Go call ends with a value, an
  error or a panic: the type \<open>res\<close>. A call that touches the outside world is an \<open>act\<close>: a
  function from the state \<open>'w\<close> of the world to a result and a new state, composed with \<open>bindA\<close> (the early
  return on an error) and \<open>tryA\<close> (handling one). Pointers are options; dereferencing
  nil and indexing out of range are panics. An \<open>int32\<close> from the cloud API is a 32-bit word, read with
  \<open>sint\<close>; Go's \<open>int\<close> is an integer, and the bounds proved show where it stays small. Strings are
  lists of characters; the functions of packages strings, strconv and fmt that the code uses are defined
  as far as it uses them. Iteration over a Go map has no fixed order: it is an argument
  where the order is visible. Logging is left out.

  \<^bold>\<open>What is a parameter.\<close> The cloud API (\<open>Ecs_Api\<close>, a record of calls), the API server
  (\<open>K8s_Api\<close>), the metadata server's HTTP client (\<open>Metadata\<close>), the kernel interfaces and the commands of
  a node (\<open>Erdma_Link\<close>, \<open>Netdev\<close>), the container runtime and the kubelet (\<open>Runtime_Service\<close>, \<open>Pod_Config\<close>,
  \<open>Plugin_Server\<close>), the block cipher, the keys and signatures of certificates, the manager of controller-runtime and
  the JSON codecs are arguments of the definitions. What
  a theorem needs of them is a named hypothesis such as \<open>deviceStore\<close>, \<open>eniCloud\<close>, \<open>routeTable\<close>,
  \<open>certApi\<close> or \<open>blockCipher\<close>, and each such theorem has a witness on a concrete instance (\<open>Ecs_Example\<close> and the
  examples at the end of the theories).

  \<^bold>\<open>Theories, in the order of the imports.\<close>
  \<^item> \<open>Go_Prelude\<close>, \<open>Go_Strings\<close>: results, actions, loops, strings, and the lemmas about them the
    components share.
  \<^item> \<open>Erdma_Types\<close>: internal/types/eri.go, internal/consts, api/v1, drivers/mtu.go.
  \<^item> \<open>Ecs_Api\<close>, \<open>Ecs_Example\<close>, \<open>K8s_Api\<close>: the interfaces of the two remote services.
  \<^item> \<open>Eri_Select\<close>: \<open>SelectEriFromExist\<close>, the choice of interfaces for the network cards.
    One interface per card, no card forgotten while queue pairs remain, the queue pair budget of the instance kept,
    only owned interfaces used, and when it fails.
  \<^item> \<open>Eri_Client\<close>: the other methods of \<open>EriClient\<close>. One ERI per card also with created ones,
    the creator tag is never added to an interface, the statuses reported, the limits of the
    instance type without wrap-around.
  \<^item> \<open>Eri_Converge\<close>: two rounds of \<open>EnsureEriForInstance\<close> make every interface ready.
  \<^item> \<open>Metadata\<close>, \<open>Erdma_Config\<close>: the metadata client with its token cache and back-off (a read
    ends after at most 16 requests), and loading of the configuration.
  \<^item> \<open>Node_Controller\<close>: predicates, \<open>Reconcile\<close>, tag backfill, removal.
  \<^item> \<open>Device_Controller\<close>: the second \<open>Reconcile\<close>. Its locale \<open>device_ensurer\<close> is what it relies on of
    the ERI client and is interpreted on \<open>EnsureEriForInstance\<close>.
  \<^item> \<open>Cluster\<close>: both reconcilers on one cluster, interleaved with each other, with users, the garbage collector and restarts of the
    process. \<open>edit\<close> is what any of them does to the stored resources (the rely of the one and the guarantee of the
    other), \<open>reach\<close> the reachable states, with the invariant that every node has at most one, well-formed resource and
    that the marks of the node reconciler are true of the cloud.
  \<^item> \<open>Erdma_Link\<close>: internal/drivers/utils\_linux.go: RDMA links, guids, SMC-R ids, local
    discovery and the exposure rules.
  \<^item> \<open>Netdev\<close>: internal/drivers/netdev.go: MTU, address and routes of a secondary interface.
  \<^item> \<open>Drivers\<close>: the three drivers and their registry. The locale \<open>erdma_driver\<close> is the
    contract of the Go interface \<open>ERdmaDriver\<close>, interpreted on each driver.
  \<^item> \<open>Device_Plugin\<close>: internal/deviceplugin/deviceplugin.go: advertising, allocation (the locale
    \<open>container_allocator\<close>, interpreted on both allocation modes) and the life of the server as a step
    relation \<open>serving\<close>.
  \<^item> \<open>Plugin_Server\<close>: the same server with the calls it makes: stale sockets, registration, the watch. Every run
    \<open>servingA\<close> refines the life cycle \<open>serving\<close>, whose theorems therefore hold of it.
  \<^item> \<open>Watch_Stream\<close>: the goroutines of \<open>ListAndWatch\<close> beside the one that stops and starts the server, as a step relation over the
    channels they share: no stream is left on a channel that nobody closes, and one that misses a restart.
  \<^item> \<open>Runtime_Service\<close>: the client of the container runtime in deviceplugin/pod\_config.go, over both versions
    of its interface, and how its socket is chosen.
  \<^item> \<open>Pod_Config\<close>: the rest of that file, pod\_resource.go and \<open>PreStartContainer\<close>: the pod of a
    device, its namespace, and the configuration of SMC-R for the device the container was given.
  \<^item> \<open>Agent\<close>: internal/agent, internal/k8s, cmd/agent, cmd/smcr\_init: the run of the agent, over the
    contract of its driver; the dump of its stacks ends.
  \<^item> \<open>Provision\<close>: the way of a resource from the reconcile of a node to the agent, on one API server. The property, which
    spans the controllers, the cloud client and the agent, is at the end of this theory.
  \<^item> \<open>Smcr\<close>: the tool smc\_pnet, for the property of the agent, the plugin and the init container that they agree on the
    network id, also at the end of this theory.
  \<^item> \<open>Other_Builds\<close>: the drivers of the test build and of other systems, which keep the contract \<open>erdma_driver\<close> too, and the
    methods of the runtime client that do nothing.
  \<^item> \<open>Deep_Copy\<close>: api/v1/zz\_generated.deepcopy.go, over a memory with addresses: what a copy reads and what it shares.
  \<^item> \<open>Webhook\<close>: internal/webhook/mutating.go.
  \<^item> \<open>Token_Crypto\<close>, \<open>Credential\<close>: controller/credential.go and \<open>NewEriClient\<close>: base64, CBC and padding undo
    the encryption, and the cached token is never served after it expired.
  \<^item> \<open>Cert\<close>: internal/cert/webhook.go: replicas agree on the certificates.
  \<^item> \<open>Controller_Main\<close>: cmd/controller/main.go: what has been set up when the manager starts.

  \<^bold>\<open>Bounds.\<close> The loops over lists are structural recursions. Waiting for the resource of a node
  (\<open>WaitEriInfo\<close>) and for a created resource (\<open>waitCreated\<close>) poll: the number of polls is an argument. The agent's wait
  has no limit in the code, so the theorems hold for every number of polls and the result \<open>None\<close> is that it
  still waits; one poll is enough once the resource is listed. The wait for a created resource is 2 seconds in steps of
  half a second, and its outcome is ignored. The retries of the metadata client are bounded by the back-off steps of the
  code. The patch of
  the webhook is tried three times, as in the code. The restart loop of the plugin runs for ever; it is the inductive
  relation \<open>serving\<close>, and \<open>servingA\<close> with its calls; a stream of \<open>ListAndWatch\<close> is the relation \<open>streamStep\<close>. The dump of
  the stacks is a partial function that is shown to return.

  \<^bold>\<open>Where the code surprises.\<close> Theorems of kind error record behaviour that looks
  unintended: an attached interface reused for a second card (\<open>reuse_attached_duplicates\<close>), an interface
  in a transitional state that is neither reported nor retried (\<open>transitional_device_not_requeued\<close>), a crash of
  \<open>Allocate\<close> (\<open>rdma_cm_without_device_panics\<close>), a documented wildcard that is
  refused (\<open>wildcard_devices_rejected\<close>), a crash of the webhook on a configuration that
  leaves a switch out (\<open>webhook_unset_inject_panics\<close>), a crash on a short token (\<open>decrypt_short_panics\<close>), an authority that
  outlives its certificates (\<open>stale_authority_kept\<close>), copies of resources that are not deep (\<open>copy_shares_devices\<close>), and a stream that
  survives a restart of its server (\<open>stream_survives_restart\<close>).

  \<^bold>\<open>Not modelled.\<close> The registration of types with the scheme (api/v1/groupversion\_info.go), which has no behaviour of its own, logging,
  signals and timeouts. The components hold values, so that a copy of an object is the value there; sharing is the subject of
  \<open>Deep_Copy\<close> alone. The lock of the plugin serialises \<open>Allocate\<close>, which is a single step here. \<open>dial\<close> of the plugin is a parameter of
  its callers. The flag for HTTP/2 is in the record of the flags, but nothing reads it, as in the code.
\<close>

section \<open>From a node to its agent\<close>



section \<open>Network ids of SMC-R\<close>

text \<open>
  C13: The agent, the plugin and the init container agree on the network id of SMC-R. A container that asks for devices is told the id
  of one of the devices whose files it was given; where the agent configured the id of that RDMA device, the device (or an
  entry that was there before) carries the same id, and the init container started with this environment, in a pod
  whose network device has no id yet, gives exactly this id to the network device of the pod.
\<close>

theorem smcr_ids_agree:
  assumes "pluginOk m" and "\<not> dp_allocAllDevices m" and "\<forall>n xs. mset (ordV n xs) = mset xs"
    and "\<forall>i\<in>set ids. 1 < length (Split (CHR ''/'') i)" and "Allocate ordD ordV m [ids] = Ok [r]"
    and "pnetTool hA [] tblA (pnetIds m)" and "pnetTool hC [] tblC {''eth0''}"
    and "keeps tblC (Stat hC ''/proc/sys/net/smc/tcp2smc'')" and "\<And>f s. keeps tblC (write f s)"
  shows "\<exists>d pnet. d \<in> snd ` set (dp_devices m) \<and> set (info_DevPaths d) \<subseteq> HostPath ` set (resp_Devices r) \<and>
    resp_Envs r = [(SMCRPNETEnv, pnet)] \<and>
    (\<forall>w w'. ConfigSMCPnetForDevice hA d w = (Ok (), w') \<longrightarrow> (pnet, ''-D'', info_Name d) \<in> tblA w' \<or> (\<exists>e\<in>tblA w. mentions pnet e)) \<and>
    (\<forall>w w'. smcr_init hC write pnet w = (Ok (), w') \<longrightarrow> (\<exists>e\<in>tblC w. mentions ''eth0'' e) \<or> (pnet, ''-I'', ''eth0'') \<in> tblC w')"
proof -
  from Allocate_env [OF assms(2,5)] obtain i d pnet where i: "i \<in> set ids" and d: "map_of (dp_devices m) (hd (Split (CHR ''/'') i)) = Some d"
    and pnet: "PNetIDFromDevice (Some d) = Ok pnet" and env: "resp_Envs r = [(SMCRPNETEnv, pnet)]" .
  from map_of_value [OF d] have mem: "d \<in> snd ` set (dp_devices m)" .
  with pnet have "pnet \<in> pnetIds m" by (auto simp: pnetIds_def)
  note entry = configPnet_entry [OF assms(6) this]
  have "(pnet, ''-D'', info_Name d) \<in> tblA w' \<or> (\<exists>e\<in>tblA w. mentions pnet e)" if "ConfigSMCPnetForDevice hA d w = (Ok (), w')" for w w'
    using entry [of _ pnet "''-D''" "info_Name d" w w'] that by (auto simp: ConfigSMCPnetForDevice_def pnet)
  moreover have "(\<exists>e\<in>tblC w. mentions ''eth0'' e) \<or> (pnet, ''-I'', ''eth0'') \<in> tblC w'" if "smcr_init hC write pnet w = (Ok (), w')" for w w'
    using smcr_init_entry [OF assms(7-9) _ that] by blast
  moreover have "set (info_DevPaths d) \<subseteq> HostPath ` set (resp_Devices r)"
    using Allocate_single(2) [OF assms(1-5)] i d by blast
  ultimately show ?thesis using mem env by blast
qed

theorem smcr_ids_agree_witness:
  "ConfigSMCPnetForDevice exPnetHost (exInfo ''erdma_1'' ''/dev/infiniband/uverbs1'') [] =
     (Ok (), [(''00163E00000A'', ''-D'', ''erdma_1'')]) \<and>
   smcr_init exPnetHost (\<lambda>f s. Pair (Ok ())) ''00163E00000A'' [] = (Ok (), [(''00163E00000A'', ''-I'', ''eth0'')]) \<and>
   (\<exists>r d. Allocate (\<lambda>n ks. ks) (\<lambda>n ks. ks) (exPlugin False False) [[''erdma_1/7'']] = Ok [r] \<and> d \<in> snd ` set (dp_devices (exPlugin False False)) \<and>
     resp_Envs r = [(SMCRPNETEnv, ''00163E00000A'')] \<and> set (info_DevPaths d) \<subseteq> HostPath ` set (resp_Devices r))"
proof (intro conjI)
  show "ConfigSMCPnetForDevice exPnetHost (exInfo ''erdma_1'' ''/dev/infiniband/uverbs1'') [] =
     (Ok (), [(''00163E00000A'', ''-D'', ''erdma_1'')])" by code_simp
  show "smcr_init exPnetHost (\<lambda>f s. Pair (Ok ())) ''00163E00000A'' [] = (Ok (), [(''00163E00000A'', ''-I'', ''eth0'')])" by code_simp
  let ?alloc = "Allocate (\<lambda>n ks. ks) (\<lambda>n ks. ks) (exPlugin False False) [[''erdma_1/7'']]"
  have "okMap length (?alloc, ()) = Some 1" by code_simp
  then obtain r where a: "?alloc = Ok [r]" by (rule okMap_SomeE) (auto simp: length_Suc_conv)
  have tools: "pnetTool exPnetHost [] set (pnetIds (exPlugin False False))" "pnetTool exPnetHost [] set {''eth0''}"
    using exPlugin_pnets by (auto intro!: exPnetHost_tool)
  have ok: "pluginOk (exPlugin False False)" by (rule NewERDMADevicePlugin_ok [OF exPlugin_new])
  have fmt: "\<forall>i\<in>set [''erdma_1/7'']. 1 < length (Split (CHR ''/'') i)" by simp
  have na: "\<not> dp_allocAllDevices (exPlugin False False)" and st: "keeps set (Stat exPnetHost ''/proc/sys/net/smc/tcp2smc'')"
    by (simp_all add: exPlugin_def exPnetHost_def exNodeHost_def)
  have ord: "\<forall>n xs. mset ((\<lambda>n ks. ks) (n::nat) xs) = mset (xs :: string list)" by simp
  from smcr_ids_agree [OF ok na ord fmt a tools st keeps_Pair, of "\<lambda>f s. Ok ()"]
  obtain d where "d \<in> snd ` set (dp_devices (exPlugin False False))" and "set (info_DevPaths d) \<subseteq> HostPath ` set (resp_Devices r)"
    by (elim exE conjE) (rule that)
  moreover have "okMap (map resp_Envs) (?alloc, ()) = Some [[(SMCRPNETEnv, ''00163E00000A'')]]" by code_simp
  ultimately show "\<exists>r d. ?alloc = Ok [r] \<and> d \<in> snd ` set (dp_devices (exPlugin False False)) \<and> resp_Envs r = [(SMCRPNETEnv, ''00163E00000A'')] \<and> set (info_DevPaths d) \<subseteq> HostPath ` set (resp_Devices r)"
    using a by (auto simp: okMap_def)
qed

end
